(* ===== verification/Prelude.thy ===== *)
theory Prelude
  imports Main "HOL-Library.Word"
begin

text \<open>
  Shared vocabulary of the development: the exceptions a Python call can raise as a
  sum type, sequencing and handlers over it, byte strings, and the little-endian integer
  codec of Python's \<^verbatim>\<open>int.to_bytes\<close> / \<^verbatim>\<open>int.from_bytes\<close>.  The
  collections \<open>py_simps\<close> (sequencing) and \<open>tables\<close> (accessors of the generated
  tables) carry the automation of the component theories.
\<close>

named_theorems py_simps \<open>rewriting of exception sequencing\<close>
named_theorems tables \<open>definitions of the generated table modules\<close>
named_theorems enums \<open>constants of the generated enum modules\<close>

section \<open>Exceptions as values\<close>

text \<open>
  Every constructor is a subclass of Python's \<^verbatim>\<open>Exception\<close>, so an
  \<^verbatim>\<open>except Exception\<close> clause catches all of them.
\<close>

datatype py_exn =
    TypeError
  | AttributeError
  | ValueError
  | StructError
  | UnicodeError
  | OverflowError
  | BuilderError
  | OSError
  | KeyError

type_synonym 'a py = "py_exn + 'a"
type_synonym byte = "8 word"
type_synonym bytes = "byte list"

definition bindE :: "'e + 'a \<Rightarrow> ('a \<Rightarrow> 'e + 'b) \<Rightarrow> 'e + 'b" where
  "bindE m f = (case m of Inl e \<Rightarrow> Inl e | Inr x \<Rightarrow> f x)"

text \<open>\<^verbatim>\<open>try: return m  except Exception: return d\<close>\<close>

definition try_except :: "'a py \<Rightarrow> 'a \<Rightarrow> 'a" where
  "try_except m d = (case m of Inl _ \<Rightarrow> d | Inr x \<Rightarrow> x)"

text \<open>A list comprehension whose element expression can raise, and a loop over a
  list that threads a state.\<close>

fun mapE :: "('a \<Rightarrow> 'e + 'b) \<Rightarrow> 'a list \<Rightarrow> 'e + 'b list" where
  "mapE f [] = Inr []"
| "mapE f (x # xs) = bindE (f x) (\<lambda>y. bindE (mapE f xs) (\<lambda>ys. Inr (y # ys)))"

fun foldE :: "('s \<Rightarrow> 'a \<Rightarrow> 's py) \<Rightarrow> 's \<Rightarrow> 'a list \<Rightarrow> 's py" where
  "foldE f s [] = Inr s"
| "foldE f s (x # xs) = bindE (f s x) (\<lambda>s'. foldE f s' xs)"

fun mapaccE :: "('s \<Rightarrow> 'a \<Rightarrow> ('s \<times> 'b) py) \<Rightarrow> 's \<Rightarrow> 'a list \<Rightarrow> ('s \<times> 'b list) py" where
  "mapaccE f s [] = Inr (s, [])"
| "mapaccE f s (x # xs) = bindE (f s x) (\<lambda>(s', y). bindE (mapaccE f s' xs) (\<lambda>(s'', ys). Inr (s'', y # ys)))"

lemma bindE_Inl [simp, py_simps]: "bindE (Inl e) f = Inl e"
  by (simp add: bindE_def)

lemma bindE_Inr [simp, py_simps]: "bindE (Inr x) f = f x"
  by (simp add: bindE_def)

lemma bindE_Inr_right [simp]: "bindE m Inr = m"
  by (cases m) auto

lemma bindE_eq_Inr: "bindE m f = Inr y \<longleftrightarrow> (\<exists>x. m = Inr x \<and> f x = Inr y)"
  by (cases m) auto

lemma bindE_assoc: "bindE (bindE m f) g = bindE m (\<lambda>x. bindE (f x) g)"
  by (cases m) auto

lemma bindE_InrE:
  assumes "bindE m f = Inr y"
  obtains x where "m = Inr x" and "f x = Inr y"
  using assms by (auto simp: bindE_eq_Inr)

lemma bindE_fails: "(\<And>x. m = Inr x \<Longrightarrow> \<exists>e. f x = Inl e) \<Longrightarrow> \<exists>e. bindE m f = Inl e"
  by (cases m) auto

lemma try_except_Inr [simp, py_simps]: "try_except (Inr x) d = x"
  by (simp add: try_except_def)

lemma try_except_Inl [simp, py_simps]: "try_except (Inl e) d = d"
  by (simp add: try_except_def)

text \<open>What a handler can return: the fallback or the result of a run that did not raise.\<close>

lemma try_except_cases:
  obtains (raised) "try_except m d = d" | (returned) x where "m = Inr x" and "try_except m d = x"
  by (cases m) auto

lemma try_exceptI: "(\<And>x. m = Inr x \<Longrightarrow> P x) \<Longrightarrow> P d \<Longrightarrow> P (try_except m d)"
  by (cases m) auto

lemma mapE_Inr: "mapE (\<lambda>x. Inr (f x)) xs = Inr (map f xs)"
  by (induction xs) auto

lemma mapE_eqI: "list_all2 (\<lambda>x y. f x = Inr y) xs ys \<Longrightarrow> mapE f xs = Inr ys"
  by (induction rule: list_all2_induct) auto

lemma list_all2_left: "list_all2 P xs ys \<Longrightarrow> (\<And>x y. P x y \<Longrightarrow> Q x) \<Longrightarrow> \<forall>x \<in> set xs. Q x"
  by (induction rule: list_all2_induct) auto

text \<open>A run that returns, with a result that satisfies \<open>Q\<close>.\<close>

definition okE :: "'e + 'a \<Rightarrow> ('a \<Rightarrow> bool) \<Rightarrow> bool" where
  "okE m Q \<longleftrightarrow> (\<exists>x. m = Inr x \<and> Q x)"

lemma okE_Inr [simp]: "okE (Inr x) Q \<longleftrightarrow> Q x"
  by (simp add: okE_def)

lemma okE_bind: "okE m P \<Longrightarrow> (\<And>x. P x \<Longrightarrow> okE (f x) Q) \<Longrightarrow> okE (bindE m f) Q"
  by (auto simp: okE_def)

lemma okE_bind2: "okE m (\<lambda>(x, y). P x y) \<Longrightarrow> (\<And>x y. P x y \<Longrightarrow> okE (f x y) Q) \<Longrightarrow> okE (bindE m (\<lambda>(x, y). f x y)) Q"
  by (auto simp: okE_def)

lemma okE_weaken: "okE m P \<Longrightarrow> (\<And>x. P x \<Longrightarrow> Q x) \<Longrightarrow> okE m Q"
  by (auto simp: okE_def)

text \<open>A run that raises: the step that does may be any one of a sequence.\<close>

definition raises :: "'e + 'a \<Rightarrow> bool" where
  "raises m \<longleftrightarrow> (\<exists>e. m = Inl e)"

lemma raises_Inl [simp]: "raises (Inl e)"
  by (simp add: raises_def)

lemma raises_here: "raises m \<Longrightarrow> raises (bindE m f)"
  by (auto simp: raises_def)

lemma raises_later: "(\<And>x. raises (f x)) \<Longrightarrow> raises (bindE m f)"
  by (cases m) auto

lemma raises_later2: "(\<And>x y. raises (f x y)) \<Longrightarrow> raises (bindE m (\<lambda>(x, y). f x y))"
  by (rule raises_later) auto

section \<open>Little-endian integers\<close>

definition byte_of :: "nat \<Rightarrow> byte" where
  "byte_of n = of_nat n"

lemma unat_byte_of [simp]: "unat (byte_of n) = n mod 256"
  by (simp add: byte_of_def unat_of_nat)

lemma byte_of_unat [simp]: "byte_of (unat b) = b"
  by (simp add: byte_of_def)

fun le_bytes :: "nat \<Rightarrow> nat \<Rightarrow> bytes" where
  "le_bytes 0 n = []"
| "le_bytes (Suc k) n = byte_of (n mod 256) # le_bytes k (n div 256)"

fun le_nat :: "bytes \<Rightarrow> nat" where
  "le_nat [] = 0"
| "le_nat (b # bs) = unat b + 256 * le_nat bs"

lemma length_le_bytes [simp]: "length (le_bytes k n) = k"
  by (induction k arbitrary: n) auto

lemma unat_byte_less: "unat (b :: byte) < 256"
  using unsigned_less [of b] by simp

lemma le_nat_le_bytes: "le_nat (le_bytes k n) = n mod 256 ^ k"
proof (induction k arbitrary: n)
  case 0
  then show ?case by simp
next
  case (Suc k)
  then show ?case
    using mod_mult2_eq [of n 256 "256 ^ k"] by (simp add: algebra_simps)
qed

lemma le_nat_bound: "le_nat bs < 256 ^ length bs"
proof (induction bs)
  case Nil
  then show ?case by simp
next
  case (Cons b bs)
  have "unat b < 256" by (rule unat_byte_less)
  with Cons show ?case by simp
qed

lemma le_nat_roundtrip: "n < 256 ^ k \<Longrightarrow> le_nat (le_bytes k n) = n"
  by (simp add: le_nat_le_bytes)

lemma le_bytes_le_nat: "le_bytes (length bs) (le_nat bs) = bs"
proof (induction bs)
  case Nil
  then show ?case by simp
next
  case (Cons b bs)
  have "unat b < 256" by (rule unat_byte_less)
  with Cons show ?case by simp
qed

text \<open>Python's \<^verbatim>\<open>x.to_bytes(k, byteorder='little')\<close> raises
  \<^verbatim>\<open>OverflowError\<close> on a negative or too large \<open>x\<close>.\<close>

definition int_to_bytes :: "int \<Rightarrow> nat \<Rightarrow> bytes py" where
  "int_to_bytes x k = (if 0 \<le> x \<and> x < 256 ^ k then Inr (le_bytes k (nat x)) else Inl OverflowError)"

definition int_from_bytes :: "bytes \<Rightarrow> int" where
  "int_from_bytes bs = int (le_nat bs)"

lemma int_from_bytes_roundtrip:
  assumes "int_to_bytes x k = Inr bs"
  shows "int_from_bytes bs = x" and "length bs = k"
proof -
  from assms have x: "0 \<le> x" "x < 256 ^ k" and bs: "bs = le_bytes k (nat x)"
    by (auto simp: int_to_bytes_def split: if_splits)
  then have "nat x < 256 ^ k" by (simp add: nat_less_iff)
  with x bs show "int_from_bytes bs = x" by (simp add: int_from_bytes_def le_nat_roundtrip)
  from bs show "length bs = k" by simp
qed

end
