(* ===== verification/Py_Text.thy ===== *)
theory Py_Text
  imports Prelude
begin

text \<open>
  Python text: a \<^verbatim>\<open>str\<close> is a list of code points (surrogates included), and
  \<^verbatim>\<open>str.encode('utf-8')\<close> / \<^verbatim>\<open>bytes.decode('utf-8')\<close> are the strict codec of
  the standard library: encoding refuses surrogates, decoding refuses every ill-formed
  sequence (truncated, overlong, surrogate, above \<open>0x10FFFF\<close>).
\<close>

type_synonym pystr = "nat list"

definition pystr_of :: "string \<Rightarrow> pystr" where
  "pystr_of s = map of_char s"

definition utf8_char :: "nat \<Rightarrow> bytes py" where
  "utf8_char c =
     (if c < 128 then Inr [byte_of c]
      else if c < 2048 then Inr [byte_of (192 + c div 64), byte_of (128 + c mod 64)]
      else if 55296 \<le> c \<and> c < 57344 then Inl UnicodeError
      else if c < 65536 then
        Inr [byte_of (224 + c div 4096), byte_of (128 + c div 64 mod 64), byte_of (128 + c mod 64)]
      else if c < 1114112 then
        Inr [byte_of (240 + c div 262144), byte_of (128 + c div 4096 mod 64),
             byte_of (128 + c div 64 mod 64), byte_of (128 + c mod 64)]
      else Inl UnicodeError)"

fun utf8_encode :: "pystr \<Rightarrow> bytes py" where
  "utf8_encode [] = Inr []"
| "utf8_encode (c # cs) = bindE (utf8_char c) (\<lambda>b. bindE (utf8_encode cs) (\<lambda>bs. Inr (b @ bs)))"

definition cont :: "nat \<Rightarrow> bool" where
  "cont b \<longleftrightarrow> 128 \<le> b \<and> b < 192"

text \<open>The first character of a sequence of byte values, with the number of bytes it
  takes (the well-formed sequences of the Unicode standard).\<close>

definition utf8_head :: "nat list \<Rightarrow> (nat \<times> nat) py" where
  "utf8_head bs =
     (case bs of
        [] \<Rightarrow> Inl UnicodeError
      | a # r \<Rightarrow>
         (if a < 128 then Inr (a, 1)
          else if 194 \<le> a \<and> a < 224 then
            (case r of
               b # _ \<Rightarrow> if cont b then Inr ((a - 192) * 64 + (b - 128), 2) else Inl UnicodeError
             | _ \<Rightarrow> Inl UnicodeError)
          else if 224 \<le> a \<and> a < 240 then
            (case r of
               b # c # _ \<Rightarrow>
                 (if cont b \<and> cont c \<and> (a = 224 \<longrightarrow> 160 \<le> b) \<and> (a = 237 \<longrightarrow> b < 160)
                  then Inr ((a - 224) * 4096 + (b - 128) * 64 + (c - 128), 3)
                  else Inl UnicodeError)
             | _ \<Rightarrow> Inl UnicodeError)
          else if 240 \<le> a \<and> a < 245 then
            (case r of
               b # c # d # _ \<Rightarrow>
                 (if cont b \<and> cont c \<and> cont d \<and> (a = 240 \<longrightarrow> 144 \<le> b) \<and> (a = 244 \<longrightarrow> b < 144)
                  then Inr ((a - 240) * 262144 + (b - 128) * 4096 + (c - 128) * 64 + (d - 128), 4)
                  else Inl UnicodeError)
             | _ \<Rightarrow> Inl UnicodeError)
          else Inl UnicodeError))"

lemma utf8_head_consumes: "utf8_head bs = Inr (c, k) \<Longrightarrow> 0 < k"
  by (auto simp: utf8_head_def split: list.splits if_splits)

function utf8_decode :: "bytes \<Rightarrow> pystr py" where
  "utf8_decode bs =
     (if bs = [] then Inr []
      else (case utf8_head (map unat bs) of
              Inl e \<Rightarrow> Inl e
            | Inr (c, k) \<Rightarrow> bindE (utf8_decode (drop k bs)) (\<lambda>cs. Inr (c # cs))))"
  by pat_completeness auto
termination
  by (relation "measure length") (auto dest: utf8_head_consumes)

declare utf8_decode.simps [simp del]

lemma utf8_decode_Nil [simp]: "utf8_decode [] = Inr []"
  by (simp add: utf8_decode.simps)

lemma digits3: "c div 4096 * 4096 + c div 64 mod 64 * 64 + c mod 64 = (c :: nat)"
proof -
  have "c div 4096 = c div 64 div 64" by (simp add: div_mult2_eq [of c 64 64, symmetric])
  then have "c div 4096 * 64 + c div 64 mod 64 = c div 64" by (simp add: div_mult_mod_eq)
  then show ?thesis using div_mult_mod_eq [of c 64] by linarith
qed

lemma digits4: "c div 262144 * 262144 + c div 4096 mod 64 * 4096 + c div 64 mod 64 * 64 + c mod 64 = (c :: nat)"
proof -
  have "c div 262144 = c div 4096 div 64" by (simp add: div_mult2_eq [of c 4096 64, symmetric])
  then have "c div 262144 * 64 + c div 4096 mod 64 = c div 4096" by (simp add: div_mult_mod_eq)
  then have "c div 262144 * 262144 + c div 4096 mod 64 * 4096 = c div 4096 * 4096" by simp
  with digits3 [of c] show ?thesis by simp
qed

text \<open>Taking a character off the front undoes encoding it.\<close>

lemma utf8_head_char:
  assumes "utf8_char c = Inr b"
  shows "utf8_head (map unat b @ rest) = Inr (c, length b)"
proof -
  consider "c < 128" | "128 \<le> c" "c < 2048" | "2048 \<le> c" "c < 65536" "c < 55296 \<or> 57344 \<le> c"
    | "65536 \<le> c" "c < 1114112"
    using assms by (fastforce simp: utf8_char_def split: if_splits)
  then show ?thesis
  proof cases
    case 1
    with assms show ?thesis by (auto simp: utf8_char_def utf8_head_def)
  next
    case 2
    have "c div 64 < 32" "2 \<le> c div 64" using 2 by auto
    with 2 assms show ?thesis
      by (auto simp: utf8_char_def utf8_head_def cont_def)
  next
    case 3
    define x y z where "x = c div 4096" and "y = c div 64 mod 64" and "z = c mod 64"
    have xyz: "c = x * 4096 + y * 64 + z" by (simp add: digits3 x_def y_def z_def)
    have b: "x < 16" "y < 64" "z < 64" using 3 by (auto simp: x_def y_def z_def)
    have lo: "x = 0 \<Longrightarrow> 32 \<le> y" and hi: "x = 13 \<Longrightarrow> y < 32" using 3 b xyz by auto
    have bytes: "b = [byte_of (224 + x), byte_of (128 + y), byte_of (128 + z)]"
      using assms 3 by (auto simp: utf8_char_def x_def y_def z_def)
    show ?thesis
      using b lo hi by (auto simp: bytes utf8_head_def cont_def xyz)
  next
    case 4
    define w x y z where "w = c div 262144" and "x = c div 4096 mod 64"
      and "y = c div 64 mod 64" and "z = c mod 64"
    have wxyz: "c = w * 262144 + x * 4096 + y * 64 + z" by (simp add: digits4 w_def x_def y_def z_def)
    have b: "w < 5" "x < 64" "y < 64" "z < 64" using 4 by (auto simp: w_def x_def y_def z_def)
    have lo: "w = 0 \<Longrightarrow> 16 \<le> x" and hi: "w = 4 \<Longrightarrow> x < 16" using 4 b wxyz by auto
    have bytes: "b = [byte_of (240 + w), byte_of (128 + x), byte_of (128 + y), byte_of (128 + z)]"
      using assms 4 by (auto simp: utf8_char_def w_def x_def y_def z_def)
    show ?thesis
      using b lo hi by (auto simp: bytes utf8_head_def cont_def wxyz)
  qed
qed

lemma utf8_char_nonempty: "utf8_char c = Inr b \<Longrightarrow> b \<noteq> []"
  by (auto simp: utf8_char_def split: if_splits)

lemma utf8_roundtrip: "utf8_encode s = Inr bs \<Longrightarrow> utf8_decode bs = Inr s"
proof (induction s arbitrary: bs)
  case Nil
  then show ?case by simp
next
  case (Cons c s)
  then obtain b bs' where b: "utf8_char c = Inr b" and bs': "utf8_encode s = Inr bs'" and bs: "bs = b @ bs'"
    by (auto elim!: bindE_InrE)
  have "utf8_decode bs = bindE (utf8_decode bs') (\<lambda>cs. Inr (c # cs))"
    using utf8_char_nonempty [OF b] utf8_head_char [OF b, of "map unat bs'"]
    by (subst utf8_decode.simps) (simp add: bs)
  with Cons.IH [OF bs'] show ?case by simp
qed

text \<open>ASCII text always encodes, to its own character codes.\<close>

lemma utf8_encode_ascii: "\<forall>c \<in> set s. c < 128 \<Longrightarrow> utf8_encode s = Inr (map byte_of s)"
  by (induction s) (auto simp: utf8_char_def)

end
