(* ===== verification/Fb_Interface.thy ===== *)
theory Fb_Interface
  imports Py_Text
begin

text \<open>
  The third-party package \<^verbatim>\<open>flatbuffers\<close> is not part of the repository.  What the
  sources call of it is the record \<open>'b flatbuffers\<close>, a parameter of every definition
  that uses it (\<open>'b\<close> is the state of its \<^verbatim>\<open>Builder\<close>), and what the sources rely
  on are the laws of the locales below, which state the documented behaviour of builders,
  of the binary format and of tables in terms of an abstract store of nodes.
\<close>

section \<open>The operations the sources call\<close>

text \<open>The number types of \<^verbatim>\<open>flatbuffers.number_types\<close> that occur, with their ranges.\<close>

datatype nflags = BoolFlags | Uint8Flags | Uint16Flags | Uint32Flags | Int8Flags | Int32Flags

fun nf_width :: "nflags \<Rightarrow> nat" where
  "nf_width BoolFlags = 1"
| "nf_width Uint8Flags = 1"
| "nf_width Int8Flags = 1"
| "nf_width Uint16Flags = 2"
| "nf_width Uint32Flags = 4"
| "nf_width Int32Flags = 4"

fun nf_range :: "nflags \<Rightarrow> int \<Rightarrow> bool" where
  "nf_range BoolFlags x = (0 \<le> x \<and> x \<le> 1)"
| "nf_range Uint8Flags x = (0 \<le> x \<and> x \<le> 255)"
| "nf_range Uint16Flags x = (0 \<le> x \<and> x \<le> 65535)"
| "nf_range Uint32Flags x = (0 \<le> x \<and> x \<le> 4294967295)"
| "nf_range Int8Flags x = (-128 \<le> x \<and> x \<le> 127)"
| "nf_range Int32Flags x = (-2147483648 \<le> x \<and> x \<le> 2147483647)"

text \<open>\<^verbatim>\<open>flatbuffers.table.Table\<close>: a buffer and a position in it.\<close>

record table =
  Bytes :: bytes
  Pos :: int

record 'b flatbuffers =
  fb_Builder :: "int \<Rightarrow> 'b py"
  fb_CreateString :: "'b \<Rightarrow> pystr \<Rightarrow> ('b \<times> int) py"
  fb_StartObject :: "'b \<Rightarrow> int \<Rightarrow> 'b py"
  fb_PrependSlot :: "nflags \<Rightarrow> 'b \<Rightarrow> int \<Rightarrow> int \<Rightarrow> int \<Rightarrow> 'b py"
  fb_PrependUOffsetTRelativeSlot :: "'b \<Rightarrow> int \<Rightarrow> int \<Rightarrow> int \<Rightarrow> 'b py"
  fb_EndObject :: "'b \<Rightarrow> ('b \<times> int) py"
  fb_StartVector :: "'b \<Rightarrow> int \<Rightarrow> int \<Rightarrow> int \<Rightarrow> ('b \<times> int) py"
  fb_PrependUOffsetTRelative :: "'b \<Rightarrow> int \<Rightarrow> 'b py"
  fb_EndVector :: "'b \<Rightarrow> ('b \<times> int) py"
  fb_Finish :: "'b \<Rightarrow> int \<Rightarrow> 'b py"
  fb_Output :: "'b \<Rightarrow> bytes py"
  fb_encode_Get_uoffset :: "bytes \<Rightarrow> int \<Rightarrow> int py"
  fb_uoffset_py_type :: "int \<Rightarrow> int"
  tab_Offset :: "table \<Rightarrow> int \<Rightarrow> int py"
  tab_Get :: "nflags \<Rightarrow> table \<Rightarrow> int \<Rightarrow> int py"
  tab_String :: "table \<Rightarrow> int \<Rightarrow> bytes py"
  tab_Vector :: "table \<Rightarrow> int \<Rightarrow> int py"
  tab_VectorLen :: "table \<Rightarrow> int \<Rightarrow> int py"
  tab_Indirect :: "table \<Rightarrow> int \<Rightarrow> int py"
  tab_Union :: "table \<Rightarrow> table \<Rightarrow> int \<Rightarrow> table py"
  tab_call_text :: "table \<Rightarrow> string \<Rightarrow> bytes option py"
  tab_call_int :: "table \<Rightarrow> string \<Rightarrow> int py"

text \<open>The last two stand for \<^verbatim>\<open>t.name()\<close> with a method name that
  \<^verbatim>\<open>receive_command\<close> expects of a \<^verbatim>\<open>Table\<close> (\<^verbatim>\<open>RootPaths\<close>, \<^verbatim>\<open>Mask\<close>,
  \<^verbatim>\<open>Size\<close>, \<^verbatim>\<open>Destport\<close>); nothing is assumed of them.\<close>

section \<open>The abstract store of a buffer\<close>

text \<open>
  What a buffer holds, independently of its bytes: strings, tables whose slots are
  scalars or references, and vectors of references.  A node is named by its offset from
  the end of the buffer, the number a builder hands out, and so lives at position
  \<open>length buf - off\<close> of the finished buffer.
\<close>

datatype fval = Scalar nflags int | Ref int

datatype node = StrNode bytes | TableNode "nat \<rightharpoonup> fval" | VecNode "int list"

type_synonym store = "int \<rightharpoonup> node"

definition pos_of :: "bytes \<Rightarrow> int \<Rightarrow> int" where
  "pos_of buf off = int (length buf) - off"

definition tab_at :: "bytes \<Rightarrow> int \<Rightarrow> table" where
  "tab_at buf off = \<lparr>Bytes = buf, Pos = pos_of buf off\<rparr>"

text \<open>What a builder is in the middle of.\<close>

datatype phase = Idle | InTable nat "nat \<rightharpoonup> fval" | InVector nat "int list" | Finished int

text \<open>The size a buffer never exceeds (\<^verbatim>\<open>Builder.MAX_BUFFER_SIZE\<close>, 2 GiB), and the
  slots a table may have here (the schema's largest has six).\<close>

abbreviation fb_max :: int where
  "fb_max \<equiv> 2147483647"

abbreviation max_slots :: nat where
  "max_slots \<equiv> 64"

section \<open>The laws of reading\<close>

text \<open>
  \<open>encodes buf S\<close>: the bytes \<open>buf\<close> are an encoding of the store \<open>S\<close>.  The laws
  say what the table methods return on such bytes; the last one holds of every buffer.
\<close>

locale fb_reader =
  fixes fb :: "'b flatbuffers"
    and encodes :: "bytes \<Rightarrow> store \<Rightarrow> bool"
  assumes py_type_id: "fb_uoffset_py_type fb x = x"
    and encodes_nonempty: "encodes buf S \<Longrightarrow> S off = Some nd \<Longrightarrow> buf \<noteq> []"
    and offset_absent: "encodes buf S \<Longrightarrow> S off = Some (TableNode fs) \<Longrightarrow> fs i = None \<Longrightarrow>
      i < max_slots \<Longrightarrow> tab_Offset fb (tab_at buf off) (4 + 2 * int i) = Inr 0"
    and offset_scalar: "encodes buf S \<Longrightarrow> S off = Some (TableNode fs) \<Longrightarrow> fs i = Some (Scalar fl x) \<Longrightarrow>
      i < max_slots \<Longrightarrow>
      \<exists>v. tab_Offset fb (tab_at buf off) (4 + 2 * int i) = Inr v \<and> v \<noteq> 0 \<and>
        tab_Get fb fl (tab_at buf off) (v + pos_of buf off) = Inr x"
    and offset_string: "encodes buf S \<Longrightarrow> S off = Some (TableNode fs) \<Longrightarrow> fs i = Some (Ref r) \<Longrightarrow>
      S r = Some (StrNode bs) \<Longrightarrow> i < max_slots \<Longrightarrow>
      \<exists>v. tab_Offset fb (tab_at buf off) (4 + 2 * int i) = Inr v \<and> v \<noteq> 0 \<and>
        tab_String fb (tab_at buf off) (v + pos_of buf off) = Inr bs"
    and offset_table: "encodes buf S \<Longrightarrow> S off = Some (TableNode fs) \<Longrightarrow> fs i = Some (Ref r) \<Longrightarrow>
      S r = Some (TableNode fs') \<Longrightarrow> i < max_slots \<Longrightarrow>
      \<exists>v. tab_Offset fb (tab_at buf off) (4 + 2 * int i) = Inr v \<and> v \<noteq> 0 \<and>
        tab_Union fb (tab_at buf off) t v = Inr (tab_at buf r)"
    and offset_vector: "encodes buf S \<Longrightarrow> S off = Some (TableNode fs) \<Longrightarrow> fs i = Some (Ref r) \<Longrightarrow>
      S r = Some (VecNode rs) \<Longrightarrow> i < max_slots \<Longrightarrow>
      \<exists>v. tab_Offset fb (tab_at buf off) (4 + 2 * int i) = Inr v \<and> v \<noteq> 0 \<and>
        tab_Vector fb (tab_at buf off) v = Inr (pos_of buf r + 4) \<and>
        tab_VectorLen fb (tab_at buf off) v = Inr (int (length rs))"
    and vector_string: "encodes buf S \<Longrightarrow> S off = Some (TableNode fs) \<Longrightarrow> S r = Some (VecNode rs) \<Longrightarrow>
      j < length rs \<Longrightarrow> S (rs ! j) = Some (StrNode bs) \<Longrightarrow>
      tab_String fb (tab_at buf off) (pos_of buf r + 4 + int j * 4) = Inr bs"
    and vector_table: "encodes buf S \<Longrightarrow> S off = Some (TableNode fs) \<Longrightarrow> S r = Some (VecNode rs) \<Longrightarrow>
      j < length rs \<Longrightarrow> S (rs ! j) = Some (TableNode fs') \<Longrightarrow>
      tab_Indirect fb (tab_at buf off) (pos_of buf r + 4 + int j * 4) = Inr (pos_of buf (rs ! j))"
    and get_range: "tab_Get fb fl t p = Inr x \<Longrightarrow> nf_range fl x"

section \<open>The laws of building\<close>

text \<open>
  A builder in a valid state has a store of finished nodes, a phase, and a number of used
  bytes.  Each call that is legal in the phase succeeds as long as the buffer stays below
  its maximal size, and hands out a fresh offset where it finishes a node.
\<close>

locale fb_builder =
  fixes fb :: "'b flatbuffers"
    and valid :: "'b \<Rightarrow> bool"
    and store :: "'b \<Rightarrow> store"
    and phase :: "'b \<Rightarrow> phase"
    and used :: "'b \<Rightarrow> int"
  assumes builder_new: "0 \<le> sz \<Longrightarrow> sz \<le> fb_max \<Longrightarrow>
      \<exists>b. fb_Builder fb sz = Inr b \<and> valid b \<and> store b = Map.empty \<and> phase b = Idle \<and> used b = 0"
    and create_string: "valid b \<Longrightarrow> phase b = Idle \<Longrightarrow> utf8_encode s = Inr bs \<Longrightarrow>
      used b + int (length bs) + 16 \<le> fb_max \<Longrightarrow>
      \<exists>b' off. fb_CreateString fb b s = Inr (b', off) \<and> valid b' \<and> phase b' = Idle \<and>
        store b off = None \<and> store b' = (store b)(off \<mapsto> StrNode bs) \<and>
        used b' \<le> used b + int (length bs) + 16"
    and start_object: "valid b \<Longrightarrow> phase b = Idle \<Longrightarrow> n \<le> max_slots \<Longrightarrow>
      \<exists>b'. fb_StartObject fb b (int n) = Inr b' \<and> valid b' \<and> phase b' = InTable n Map.empty \<and>
        store b' = store b \<and> used b' \<le> used b"
    and prepend_slot: "valid b \<Longrightarrow> phase b = InTable n fs \<Longrightarrow> i < n \<Longrightarrow> fs i = None \<Longrightarrow>
      nf_range fl x \<Longrightarrow> nf_range fl d \<Longrightarrow> used b + 8 \<le> fb_max \<Longrightarrow>
      \<exists>b'. fb_PrependSlot fb fl b (int i) x d = Inr b' \<and> valid b' \<and>
        phase b' = InTable n (if x = d then fs else fs(i \<mapsto> Scalar fl x)) \<and>
        store b' = store b \<and> used b' \<le> used b + 8"
    and prepend_ref_slot: "valid b \<Longrightarrow> phase b = InTable n fs \<Longrightarrow> i < n \<Longrightarrow> fs i = None \<Longrightarrow>
      store b off = Some nd \<Longrightarrow> used b + 8 \<le> fb_max \<Longrightarrow>
      \<exists>b'. fb_PrependUOffsetTRelativeSlot fb b (int i) off 0 = Inr b' \<and> valid b' \<and>
        phase b' = InTable n (fs(i \<mapsto> Ref off)) \<and> store b' = store b \<and> used b' \<le> used b + 8"
    and end_object: "valid b \<Longrightarrow> phase b = InTable n fs \<Longrightarrow> used b + 16 + 2 * int n \<le> fb_max \<Longrightarrow>
      \<exists>b' off. fb_EndObject fb b = Inr (b', off) \<and> valid b' \<and> phase b' = Idle \<and>
        store b off = None \<and> store b' = (store b)(off \<mapsto> TableNode fs) \<and>
        used b' \<le> used b + 16 + 2 * int n"
    and start_vector: "valid b \<Longrightarrow> phase b = Idle \<Longrightarrow> used b + 8 + 4 * int n \<le> fb_max \<Longrightarrow>
      \<exists>b' r. fb_StartVector fb b 4 (int n) 4 = Inr (b', r) \<and> valid b' \<and> phase b' = InVector n [] \<and>
        store b' = store b \<and> used b' \<le> used b + 8"
    and prepend_ref: "valid b \<Longrightarrow> phase b = InVector n rs \<Longrightarrow> length rs < n \<Longrightarrow> store b off = Some nd \<Longrightarrow>
      used b + 4 \<le> fb_max \<Longrightarrow>
      \<exists>b'. fb_PrependUOffsetTRelative fb b off = Inr b' \<and> valid b' \<and>
        phase b' = InVector n (off # rs) \<and> store b' = store b \<and> used b' \<le> used b + 4"
    and end_vector: "valid b \<Longrightarrow> phase b = InVector n rs \<Longrightarrow> length rs = n \<Longrightarrow> used b + 4 \<le> fb_max \<Longrightarrow>
      \<exists>b' off. fb_EndVector fb b = Inr (b', off) \<and> valid b' \<and> phase b' = Idle \<and>
        store b off = None \<and> store b' = (store b)(off \<mapsto> VecNode rs) \<and> used b' \<le> used b + 4"
    and finish: "valid b \<Longrightarrow> phase b = Idle \<Longrightarrow> store b off = Some (TableNode fs) \<Longrightarrow>
      used b + 8 \<le> fb_max \<Longrightarrow>
      \<exists>b'. fb_Finish fb b off = Inr b' \<and> valid b' \<and> phase b' = Finished off \<and>
        store b' = store b \<and> used b' \<le> used b + 8"
    and slot_out_of_range: "\<not> nf_range fl x \<Longrightarrow> \<exists>e. fb_PrependSlot fb fl b k x d = Inl e"
    and string_unencodable: "utf8_encode s = Inl e \<Longrightarrow> \<exists>e'. fb_CreateString fb b s = Inl e'"

section \<open>Finished buffers\<close>

locale flatbuffers_pkg = fb_reader fb encodes + fb_builder fb valid store phase used
  for fb :: "'b flatbuffers" and encodes :: "bytes \<Rightarrow> store \<Rightarrow> bool"
    and valid :: "'b \<Rightarrow> bool" and store :: "'b \<Rightarrow> store" and phase :: "'b \<Rightarrow> phase" and used :: "'b \<Rightarrow> int" +
  assumes output_finished: "valid b \<Longrightarrow> phase b = Finished root \<Longrightarrow>
      \<exists>buf. fb_Output fb b = Inr buf \<and> encodes buf (store b) \<and> int (length buf) = used b \<and>
        fb_encode_Get_uoffset fb buf 0 = Inr (pos_of buf root)"

end
