(* ===== verification/Fb_Wire.thy ===== *)
theory Fb_Wire
  imports Fb_Interface
begin

text \<open>
  An executable encoder and reader of the FlatBuffers binary format, down to the bytes:
  buffers grow from the back, scalars are little-endian and aligned, a table starts with
  the signed distance to its vtable, references are unsigned forward distances, strings are
  length-prefixed and zero-terminated.  It interprets the locales of the package's
  interface, so the laws that the theorems about the repository's code assume hold
  together, and closed instances of the code can be evaluated to concrete messages.  Every
  table gets a vtable of its own (sharing equal vtables is an optimisation of the format).
\<close>

section \<open>Reading bytes at an offset from the end\<close>

definition suffix_at :: "bytes \<Rightarrow> nat \<Rightarrow> bytes" where
  "suffix_at bs k = drop (length bs - k) bs"

definition rd :: "nat \<Rightarrow> bytes \<Rightarrow> nat \<Rightarrow> nat" where
  "rd w bs k = le_nat (take w (suffix_at bs k))"

lemma suffix_at_append [simp]: "k \<le> length bs \<Longrightarrow> suffix_at (p @ bs) k = suffix_at bs k"
  by (simp add: suffix_at_def)

lemma suffix_at_Cons [simp]: "k \<le> length bs \<Longrightarrow> suffix_at (b # bs) k = suffix_at bs k"
  using suffix_at_append [of k bs "[b]"] by simp

lemma suffix_at_full [simp]: "suffix_at bs (length bs) = bs"
  by (simp add: suffix_at_def)

lemma rd_append [simp]: "k \<le> length bs \<Longrightarrow> rd w (p @ bs) k = rd w bs k"
  by (simp add: rd_def)

lemma rd_le_bytes: "k = w + length bs \<Longrightarrow> n < 256 ^ w \<Longrightarrow> rd w (le_bytes w n @ bs) k = n"
  using suffix_at_full [of "le_bytes w n @ bs"] by (simp add: rd_def le_nat_roundtrip)

lemma rd_below: "k \<le> length bs \<Longrightarrow> rd w (p @ q @ bs) k = rd w bs k"
  using rd_append [of k bs w "p @ q"] by simp

lemma rd_bound: "rd w bs k < 256 ^ w"
proof -
  have "le_nat (take w (suffix_at bs k)) < 256 ^ length (take w (suffix_at bs k))"
    by (rule le_nat_bound)
  also have "\<dots> \<le> 256 ^ w" by (rule power_increasing) auto
  finally show ?thesis by (simp add: rd_def)
qed

lemma length_entries: "length (concat (map (le_bytes w) vs)) = w * length vs"
  by (induction vs) auto

text \<open>The \<open>i\<close>-th of a run of two-byte entries, counted from the front.\<close>

lemma rd_entries:
  assumes "i < length vs" and "\<forall>v \<in> set vs. v < 65536"
    and "k = 2 * (length vs - i) + length bs"
  shows "rd 2 (concat (map (le_bytes 2) vs) @ bs) k = vs ! i"
  using assms
proof (induction vs arbitrary: i)
  case Nil
  then show ?case by simp
next
  case (Cons v vs)
  show ?case
  proof (cases i)
    case 0
    with Cons.prems show ?thesis by (simp add: rd_le_bytes length_entries)
  next
    case (Suc j)
    with Cons.prems have "k \<le> length (concat (map (le_bytes 2) vs) @ bs)" by (simp add: length_entries)
    with Cons Suc show ?thesis by simp
  qed
qed

section \<open>Scalars\<close>

definition signed_of :: "nat \<Rightarrow> nat \<Rightarrow> int" where
  "signed_of w n = (if n < 2 ^ (8 * w - 1) then int n else int n - 256 ^ w)"

fun num_of :: "nflags \<Rightarrow> nat \<Rightarrow> int" where
  "num_of BoolFlags n = (if n = 0 then 0 else 1)"
| "num_of Int8Flags n = signed_of 1 n"
| "num_of Int32Flags n = signed_of 4 n"
| "num_of _ n = int n"

definition num_bytes :: "nflags \<Rightarrow> int \<Rightarrow> bytes" where
  "num_bytes fl x = le_bytes (nf_width fl) (nat (x mod 256 ^ nf_width fl))"

lemma length_num_bytes [simp]: "length (num_bytes fl x) = nf_width fl"
  by (simp add: num_bytes_def)

lemma mod_shift: "(x :: int) < 0 \<Longrightarrow> - m \<le> x \<Longrightarrow> x mod m = x + m"
  by (simp add: int_mod_pos_eq [where q = "-1"])

lemma num_of_roundtrip: "nf_range fl x \<Longrightarrow> num_of fl (nat (x mod 256 ^ nf_width fl)) = x"
proof (cases "x < 0")
  case True
  assume "nf_range fl x"
  with True show ?thesis by (cases fl) (auto simp: signed_of_def mod_shift)
next
  case False
  assume "nf_range fl x"
  with False show ?thesis by (cases fl) (auto simp: signed_of_def mod_pos_pos_trivial)
qed

lemma num_of_range: "n < 256 ^ nf_width fl \<Longrightarrow> nf_range fl (num_of fl n)"
  by (cases fl) (auto simp: signed_of_def)

lemma nf_width_pos [simp]: "0 < nf_width fl" "nf_width fl \<le> 4"
  by (cases fl; simp)+

lemma num_bytes_nonempty [simp]: "num_bytes fl x \<noteq> []"
  using length_num_bytes [of fl x] nf_width_pos(1) [of fl] by (metis list.size(3) less_numeral_extra(3))

section \<open>The table methods on bytes\<close>

definition get_u :: "nat \<Rightarrow> bytes \<Rightarrow> int \<Rightarrow> nat py" where
  "get_u w buf p =
     (if 0 \<le> p \<and> p + int w \<le> int (length buf) then Inr (le_nat (take w (drop (nat p) buf)))
      else Inl StructError)"

definition wire_Offset :: "table \<Rightarrow> int \<Rightarrow> int py" where
  "wire_Offset t vo =
     bindE (get_u 4 (Bytes t) (Pos t)) (\<lambda>s.
       let vt = Pos t - signed_of 4 s in
       bindE (get_u 2 (Bytes t) vt) (\<lambda>sz.
         if vo < int sz then bindE (get_u 2 (Bytes t) (vt + vo)) (\<lambda>v. Inr (int v)) else Inr 0))"

definition wire_Get :: "nflags \<Rightarrow> table \<Rightarrow> int \<Rightarrow> int py" where
  "wire_Get fl t p = bindE (get_u (nf_width fl) (Bytes t) p) (\<lambda>n. Inr (num_of fl n))"

definition wire_Indirect :: "table \<Rightarrow> int \<Rightarrow> int py" where
  "wire_Indirect t p = bindE (get_u 4 (Bytes t) p) (\<lambda>u. Inr (p + int u))"

definition wire_String :: "table \<Rightarrow> int \<Rightarrow> bytes py" where
  "wire_String t p =
     bindE (wire_Indirect t p) (\<lambda>q. bindE (get_u 4 (Bytes t) q) (\<lambda>n.
       Inr (take n (drop (nat (q + 4)) (Bytes t)))))"

definition wire_Vector :: "table \<Rightarrow> int \<Rightarrow> int py" where
  "wire_Vector t v = bindE (wire_Indirect t (v + Pos t)) (\<lambda>q. Inr (q + 4))"

definition wire_VectorLen :: "table \<Rightarrow> int \<Rightarrow> int py" where
  "wire_VectorLen t v =
     bindE (wire_Indirect t (v + Pos t)) (\<lambda>q. bindE (get_u 4 (Bytes t) q) (\<lambda>n. Inr (int n)))"

definition wire_Union :: "table \<Rightarrow> table \<Rightarrow> int \<Rightarrow> table py" where
  "wire_Union t t2 v =
     bindE (wire_Indirect t (v + Pos t)) (\<lambda>q. Inr (t2\<lparr>Bytes := Bytes t, Pos := q\<rparr>))"

lemma get_u_pos:
  "w \<le> k \<Longrightarrow> k \<le> length buf \<Longrightarrow> get_u w buf (int (length buf) - int k) = Inr (rd w buf k)"
  by (simp add: get_u_def rd_def suffix_at_def nat_diff_distrib)

section \<open>Bytes that encode a store\<close>

definition ref_at :: "bytes \<Rightarrow> nat \<Rightarrow> int \<Rightarrow> bool" where
  "ref_at bs k r \<longleftrightarrow> 4 \<le> k \<and> k \<le> length bs \<and> 0 \<le> r \<and> int (rd 4 bs k) + r = int k"

text \<open>The field of a slot is written at offset \<open>k\<close>.\<close>

fun field_at :: "bytes \<Rightarrow> nat \<Rightarrow> fval \<Rightarrow> bool" where
  "field_at bs k (Scalar fl x) =
     (nf_width fl \<le> k \<and> k \<le> length bs \<and> num_of fl (rd (nf_width fl) bs k) = x)"
| "field_at bs k (Ref r) = ref_at bs k r"

definition vt_entry :: "bytes \<Rightarrow> nat \<Rightarrow> nat \<Rightarrow> fval option \<Rightarrow> bool" where
  "vt_entry bs k v f = (case f of None \<Rightarrow> v = 0 | Some x \<Rightarrow> 0 < v \<and> v \<le> k \<and> field_at bs (k - v) x)"

definition table_at :: "bytes \<Rightarrow> nat \<Rightarrow> (nat \<rightharpoonup> fval) \<Rightarrow> bool" where
  "table_at bs k fs \<longleftrightarrow>
     4 \<le> k \<and> (\<exists>n. k + 4 + 2 * n \<le> length bs \<and> n \<le> max_slots \<and>
       rd 4 bs k = 4 + 2 * n \<and> rd 2 bs (k + 4 + 2 * n) = 4 + 2 * n \<and>
       (\<forall>i \<ge> n. fs i = None) \<and> (\<forall>i < n. vt_entry bs k (rd 2 bs (k + 2 * (n - i))) (fs i)))"

fun holds :: "bytes \<Rightarrow> nat \<Rightarrow> node \<Rightarrow> bool" where
  "holds bs k (StrNode s) =
     (4 + length s \<le> k \<and> k \<le> length bs \<and> rd 4 bs k = length s \<and> take (length s) (suffix_at bs (k - 4)) = s)"
| "holds bs k (VecNode rs) =
     (4 + 4 * length rs \<le> k \<and> k \<le> length bs \<and> rd 4 bs k = length rs \<and>
      (\<forall>j < length rs. ref_at bs (k - 4 - 4 * j) (rs ! j)))"
| "holds bs k (TableNode fs) = table_at bs k fs"

definition wire_encodes :: "bytes \<Rightarrow> store \<Rightarrow> bool" where
  "wire_encodes bs S \<longleftrightarrow> (\<forall>off nd. S off = Some nd \<longrightarrow> 0 < off \<and> off \<le> int (length bs) \<and> holds bs (nat off) nd)"

lemma wire_encodesD:
  assumes "wire_encodes bs S" and "S off = Some nd"
  shows "0 < off" and "off \<le> int (length bs)" and "holds bs (nat off) nd"
  using assms by (auto simp: wire_encodes_def)

text \<open>Bytes put in front change nothing of what is encoded behind them.\<close>

lemma ref_at_append: "ref_at bs k r \<Longrightarrow> ref_at (p @ bs) k r"
  by (simp add: ref_at_def)

lemma field_at_append: "field_at bs k f \<Longrightarrow> field_at (p @ bs) k f"
  by (cases f) (auto simp: ref_at_append)

lemma vt_entry_append: "vt_entry bs k v f \<Longrightarrow> vt_entry (p @ bs) k v f"
  by (auto simp: vt_entry_def field_at_append split: option.splits)

lemma table_at_append: "table_at bs k fs \<Longrightarrow> table_at (p @ bs) k fs"
  unfolding table_at_def
proof (elim conjE exE, intro conjI)
  fix n
  assume a: "k + 4 + 2 * n \<le> length bs" "n \<le> max_slots" "rd 4 bs k = 4 + 2 * n" "rd 2 bs (k + 4 + 2 * n) = 4 + 2 * n"
    "\<forall>i \<ge> n. fs i = None" "\<forall>i < n. vt_entry bs k (rd 2 bs (k + 2 * (n - i))) (fs i)"
  then have "vt_entry (p @ bs) k (rd 2 (p @ bs) (k + 2 * (n - i))) (fs i)" if "i < n" for i
    using that by (simp add: vt_entry_append)
  with a show "\<exists>n. k + 4 + 2 * n \<le> length (p @ bs) \<and> n \<le> max_slots \<and> rd 4 (p @ bs) k = 4 + 2 * n \<and>
      rd 2 (p @ bs) (k + 4 + 2 * n) = 4 + 2 * n \<and> (\<forall>i \<ge> n. fs i = None) \<and>
      (\<forall>i < n. vt_entry (p @ bs) k (rd 2 (p @ bs) (k + 2 * (n - i))) (fs i))"
    by (intro exI [of _ n]) auto
qed

lemma holds_append: "holds bs k nd \<Longrightarrow> holds (p @ bs) k nd"
  by (cases nd) (auto simp: ref_at_append table_at_append)

lemma wire_encodes_append: "wire_encodes bs S \<Longrightarrow> wire_encodes (p @ bs) S"
  unfolding wire_encodes_def by (fastforce intro: holds_append)

lemma wire_encodes_upd:
  assumes "wire_encodes bs S" and "q = p @ bs" and "0 < k" and "k \<le> length q" and "holds q k nd"
  shows "wire_encodes q (S(int k \<mapsto> nd))"
proof -
  have "wire_encodes q S" using wire_encodes_append [OF assms(1)] assms(2) by simp
  then show ?thesis using assms(3-5) by (auto simp: wire_encodes_def)
qed

lemma wire_encodes_fresh:
  assumes "wire_encodes bs S" and "length bs < k"
  shows "S (int k) = None"
proof (cases "S (int k)")
  case (Some nd)
  with assms(1) have "int k \<le> int (length bs)" by (rule wire_encodesD(2))
  with assms(2) show ?thesis by simp
qed

section \<open>The reading laws\<close>

lemma wire_Indirect_pos:
  "ref_at buf k r \<Longrightarrow> wire_Indirect \<lparr>Bytes = buf, Pos = q\<rparr> (int (length buf) - int k) = Inr (pos_of buf r)"
  by (simp add: wire_Indirect_def ref_at_def get_u_pos pos_of_def)

lemma wire_String_pos:
  assumes "ref_at buf k r" and "0 < r" and "holds buf (nat r) (StrNode s)"
  shows "wire_String \<lparr>Bytes = buf, Pos = q\<rparr> (int (length buf) - int k) = Inr s"
proof -
  have "get_u 4 buf (int (length buf) - int (nat r)) = Inr (length s)"
    using assms by (subst get_u_pos) auto
  moreover have "drop (nat (pos_of buf r + 4)) buf = suffix_at buf (nat r - 4)"
  proof -
    have "nat (pos_of buf r + 4) = length buf - (nat r - 4)"
      using assms by (auto simp: pos_of_def)
    then show ?thesis by (simp add: suffix_at_def)
  qed
  ultimately show ?thesis
    using assms by (simp add: wire_String_def wire_Indirect_pos pos_of_def)
qed

lemma wire_Offset_entry:
  assumes "table_at buf k fs" and "i < max_slots"
  shows "\<exists>v. wire_Offset \<lparr>Bytes = buf, Pos = int (length buf) - int k\<rparr> (4 + 2 * int i) = Inr (int v) \<and>
    vt_entry buf k v (fs i)"
proof -
  from assms(1) obtain n where n: "4 \<le> k" "k + 4 + 2 * n \<le> length buf" "n \<le> max_slots" "rd 4 buf k = 4 + 2 * n"
      "rd 2 buf (k + 4 + 2 * n) = 4 + 2 * n" and out: "\<forall>i \<ge> n. fs i = None"
      and ent: "\<forall>i < n. vt_entry buf k (rd 2 buf (k + 2 * (n - i))) (fs i)"
    by (auto simp: table_at_def)
  have s: "get_u 4 buf (int (length buf) - int k) = Inr (4 + 2 * n)"
    using n by (subst get_u_pos) auto
  have so: "signed_of 4 (4 + 2 * n) = int (4 + 2 * n)" using n by (simp add: signed_of_def)
  have vt: "get_u 2 buf (int (length buf) - int (k + 4 + 2 * n)) = Inr (4 + 2 * n)"
    using n by (subst get_u_pos) auto
  show ?thesis
  proof (cases "i < n")
    case True
    have "get_u 2 buf (int (length buf) - int (k + 2 * (n - i))) = Inr (rd 2 buf (k + 2 * (n - i)))"
      using n True by (subst get_u_pos) auto
    moreover have "int (length buf) - int (k + 2 * (n - i)) = int (length buf) - int (k + 4 + 2 * n) + (4 + 2 * int i)"
      using True by simp
    ultimately show ?thesis
      using True ent s so vt by (auto simp: wire_Offset_def Let_def algebra_simps)
  next
    case False
    with out have "vt_entry buf k 0 (fs i)" by (simp add: vt_entry_def)
    with False s so vt show ?thesis by (auto simp: wire_Offset_def Let_def algebra_simps)
  qed
qed

lemma wire_offset_scalar:
  assumes "table_at buf k fs" and "fs i = Some (Scalar fl x)" and "i < max_slots"
  shows "\<exists>v. wire_Offset \<lparr>Bytes = buf, Pos = int (length buf) - int k\<rparr> (4 + 2 * int i) = Inr v \<and> v \<noteq> 0 \<and>
    wire_Get fl \<lparr>Bytes = buf, Pos = int (length buf) - int k\<rparr> (v + (int (length buf) - int k)) = Inr x"
proof -
  from wire_Offset_entry [OF assms(1,3)] obtain v where
      v: "wire_Offset \<lparr>Bytes = buf, Pos = int (length buf) - int k\<rparr> (4 + 2 * int i) = Inr (int v)"
      and "vt_entry buf k v (fs i)" by auto
  with assms(2) have f: "0 < v" "v \<le> k" "field_at buf (k - v) (Scalar fl x)"
    by (auto simp: vt_entry_def)
  have "int v + (int (length buf) - int k) = int (length buf) - int (k - v)" using f by simp
  with f have "get_u (nf_width fl) buf (int v + (int (length buf) - int k)) = Inr (rd (nf_width fl) buf (k - v))"
    by (simp only: get_u_pos field_at.simps)
  with v f show ?thesis by (intro exI [of _ "int v"]) (auto simp: wire_Get_def)
qed

lemma wire_offset_ref:
  assumes "table_at buf k fs" and "fs i = Some (Ref r)" and "i < max_slots"
  shows "\<exists>v k'. wire_Offset \<lparr>Bytes = buf, Pos = int (length buf) - int k\<rparr> (4 + 2 * int i) = Inr v \<and> v \<noteq> 0 \<and>
    v + (int (length buf) - int k) = int (length buf) - int k' \<and> ref_at buf k' r"
proof -
  from wire_Offset_entry [OF assms(1,3)] obtain v where
      v: "wire_Offset \<lparr>Bytes = buf, Pos = int (length buf) - int k\<rparr> (4 + 2 * int i) = Inr (int v)"
      and "vt_entry buf k v (fs i)" by auto
  with assms(2) have "0 < v" "v \<le> k" "ref_at buf (k - v) r"
    by (auto simp: vt_entry_def)
  with v show ?thesis by (intro exI [of _ "int v"] exI [of _ "k - v"]) auto
qed

section \<open>The builder\<close>

text \<open>
  \<open>w_bytes\<close> is what has been written so far, front first; \<open>w_nest\<close> the object or
  vector under construction (a table's start and the offsets of its filled slots).  The
  last two fields are a record of what has been built, which no operation reads except to
  extend it: they give the abstract view of the interface.
\<close>

datatype wnest = WIdle | WTable nat "nat list" | WVector nat | WDone

record wire =
  w_bytes :: bytes
  w_nest :: wnest
  w_store :: store
  w_phase :: phase

definition w_pad :: "nat \<Rightarrow> nat \<Rightarrow> bytes \<Rightarrow> bytes" where
  "w_pad a extra bs = replicate ((a - (length bs + extra) mod a) mod a) 0 @ bs"

definition w_grown :: "bytes \<Rightarrow> 'a \<Rightarrow> 'a py" where
  "w_grown bs x = (if int (length bs) \<le> fb_max then Inr x else Inl BuilderError)"

definition w_ref :: "bytes \<Rightarrow> int \<Rightarrow> bytes py" where
  "w_ref bs off =
     (if 0 \<le> off \<and> off \<le> int (length bs) then Inr (le_bytes 4 (length bs + 4 - nat off) @ bs)
      else Inl BuilderError)"

definition wire_Builder :: "int \<Rightarrow> wire py" where
  "wire_Builder n =
     (if 0 \<le> n \<and> n \<le> fb_max
      then Inr \<lparr>w_bytes = [], w_nest = WIdle, w_store = Map.empty, w_phase = Idle\<rparr>
      else Inl BuilderError)"

definition wire_CreateBytes :: "wire \<Rightarrow> bytes \<Rightarrow> (wire \<times> int) py" where
  "wire_CreateBytes b bs =
     (let q = le_bytes 4 (length bs) @ bs @ [0] @ w_pad 4 (length bs + 1) (w_bytes b) in
      w_grown q (b\<lparr>w_bytes := q, w_store := (w_store b)(int (length q) \<mapsto> StrNode bs)\<rparr>, int (length q)))"

definition wire_CreateString :: "wire \<Rightarrow> pystr \<Rightarrow> (wire \<times> int) py" where
  "wire_CreateString b s =
     (if w_nest b \<noteq> WIdle then Inl BuilderError else bindE (utf8_encode s) (wire_CreateBytes b))"

definition wire_StartObject :: "wire \<Rightarrow> int \<Rightarrow> wire py" where
  "wire_StartObject b n =
     (if w_nest b \<noteq> WIdle then Inl BuilderError
      else Inr (b\<lparr>w_nest := WTable (length (w_bytes b)) (replicate (nat n) 0),
                  w_phase := InTable (nat n) Map.empty\<rparr>))"

definition w_slot_filled :: "wire \<Rightarrow> nat \<Rightarrow> fval \<Rightarrow> phase" where
  "w_slot_filled b i f = (case w_phase b of InTable n fs \<Rightarrow> InTable n (fs(i \<mapsto> f)) | ph \<Rightarrow> ph)"

definition w_fill :: "wire \<Rightarrow> int \<Rightarrow> bytes \<Rightarrow> fval \<Rightarrow> wire py" where
  "w_fill b i q f =
     (case w_nest b of
        WTable st slots \<Rightarrow>
          (if 0 \<le> i \<and> nat i < length slots
           then w_grown q (b\<lparr>w_bytes := q, w_nest := WTable st (slots[nat i := length q]),
                            w_phase := w_slot_filled b (nat i) f\<rparr>)
           else Inl BuilderError)
      | _ \<Rightarrow> Inl BuilderError)"

definition wire_PrependSlot :: "nflags \<Rightarrow> wire \<Rightarrow> int \<Rightarrow> int \<Rightarrow> int \<Rightarrow> wire py" where
  "wire_PrependSlot fl b i x d =
     (if \<not> nf_range fl x \<or> \<not> nf_range fl d then Inl TypeError
      else if x = d then Inr b
      else w_fill b i (num_bytes fl x @ w_pad (nf_width fl) 0 (w_bytes b)) (Scalar fl x))"

definition wire_PrependUOffsetTRelativeSlot :: "wire \<Rightarrow> int \<Rightarrow> int \<Rightarrow> int \<Rightarrow> wire py" where
  "wire_PrependUOffsetTRelativeSlot b i off d =
     (if off = d then Inr b
      else bindE (w_ref (w_pad 4 0 (w_bytes b)) off) (\<lambda>q. w_fill b i q (Ref off)))"

definition w_vtable :: "nat \<Rightarrow> nat \<Rightarrow> nat list \<Rightarrow> bytes" where
  "w_vtable k st slots =
     le_bytes 2 (4 + 2 * length slots) @ le_bytes 2 (k - st) @
     concat (map (le_bytes 2) (map (\<lambda>s. if s = 0 then 0 else k - s) slots))"

definition wire_EndObject :: "wire \<Rightarrow> (wire \<times> int) py" where
  "wire_EndObject b =
     (case w_nest b of
        WTable st slots \<Rightarrow>
          (let p = w_pad 4 0 (w_bytes b); k = length p + 4;
               q = w_vtable k st slots @ le_bytes 4 (4 + 2 * length slots) @ p;
               fs = (case w_phase b of InTable n fs \<Rightarrow> fs | _ \<Rightarrow> Map.empty)
           in w_grown q (b\<lparr>w_bytes := q, w_nest := WIdle, w_phase := Idle,
                           w_store := (w_store b)(int k \<mapsto> TableNode fs)\<rparr>, int k))
      | _ \<Rightarrow> Inl BuilderError)"

definition wire_StartVector :: "wire \<Rightarrow> int \<Rightarrow> int \<Rightarrow> int \<Rightarrow> (wire \<times> int) py" where
  "wire_StartVector b es n al =
     (if w_nest b \<noteq> WIdle then Inl BuilderError
      else let q = w_pad (nat al) (nat (es * n)) (w_pad 4 (nat (es * n)) (w_bytes b)) in
        w_grown q (b\<lparr>w_bytes := q, w_nest := WVector (nat n), w_phase := InVector (nat n) []\<rparr>, int (length q)))"

definition wire_PrependUOffsetTRelative :: "wire \<Rightarrow> int \<Rightarrow> wire py" where
  "wire_PrependUOffsetTRelative b off =
     bindE (w_ref (w_pad 4 0 (w_bytes b)) off) (\<lambda>q.
       w_grown q (b\<lparr>w_bytes := q,
                    w_phase := (case w_phase b of InVector n rs \<Rightarrow> InVector n (off # rs) | ph \<Rightarrow> ph)\<rparr>))"

definition wire_EndVector :: "wire \<Rightarrow> (wire \<times> int) py" where
  "wire_EndVector b =
     (case w_nest b of
        WVector n \<Rightarrow>
          (let q = le_bytes 4 n @ w_bytes b;
               rs = (case w_phase b of InVector n rs \<Rightarrow> rs | _ \<Rightarrow> [])
           in w_grown q (b\<lparr>w_bytes := q, w_nest := WIdle, w_phase := Idle,
                           w_store := (w_store b)(int (length q) \<mapsto> VecNode rs)\<rparr>, int (length q)))
      | _ \<Rightarrow> Inl BuilderError)"

definition wire_Finish :: "wire \<Rightarrow> int \<Rightarrow> wire py" where
  "wire_Finish b off =
     (if w_nest b \<noteq> WIdle then Inl BuilderError
      else bindE (w_ref (w_pad 4 4 (w_bytes b)) off) (\<lambda>q.
        w_grown q (b\<lparr>w_bytes := q, w_nest := WDone, w_phase := Finished off\<rparr>)))"

definition wire_Output :: "wire \<Rightarrow> bytes py" where
  "wire_Output b = (if w_nest b = WDone then Inr (w_bytes b) else Inl BuilderError)"

definition wire_fb :: "wire flatbuffers" where
  "wire_fb = \<lparr>fb_Builder = wire_Builder, fb_CreateString = wire_CreateString,
     fb_StartObject = wire_StartObject, fb_PrependSlot = wire_PrependSlot,
     fb_PrependUOffsetTRelativeSlot = wire_PrependUOffsetTRelativeSlot,
     fb_EndObject = wire_EndObject, fb_StartVector = wire_StartVector,
     fb_PrependUOffsetTRelative = wire_PrependUOffsetTRelative, fb_EndVector = wire_EndVector,
     fb_Finish = wire_Finish, fb_Output = wire_Output,
     fb_encode_Get_uoffset = (\<lambda>buf p. bindE (get_u 4 buf p) (\<lambda>n. Inr (int n))),
     fb_uoffset_py_type = (\<lambda>x. x),
     tab_Offset = wire_Offset, tab_Get = wire_Get, tab_String = wire_String,
     tab_Vector = wire_Vector, tab_VectorLen = wire_VectorLen, tab_Indirect = wire_Indirect,
     tab_Union = wire_Union, tab_call_text = (\<lambda>t name. Inl AttributeError),
     tab_call_int = (\<lambda>t name. Inl AttributeError)\<rparr>"

section \<open>Valid builder states\<close>

fun phase_ok :: "bytes \<Rightarrow> wnest \<Rightarrow> phase \<Rightarrow> bool" where
  "phase_ok bs w Idle = (w = WIdle)"
| "phase_ok bs w (InTable n fs) =
     (\<exists>st slots. w = WTable st slots \<and> length slots = n \<and> n \<le> max_slots \<and> st \<le> length bs \<and>
        length bs \<le> st + 8 * length (filter (\<lambda>s. s \<noteq> 0) slots) \<and> (\<forall>i \<ge> n. fs i = None) \<and>
        (\<forall>i < n. case fs i of None \<Rightarrow> slots ! i = 0
                 | Some f \<Rightarrow> st < slots ! i \<and> slots ! i \<le> length bs \<and> field_at bs (slots ! i) f))"
| "phase_ok bs w (InVector n rs) =
     (w = WVector n \<and> length rs \<le> n \<and> length bs mod 4 = 0 \<and> 4 * length rs \<le> length bs \<and>
      (\<forall>j < length rs. ref_at bs (length bs - 4 * j) (rs ! j)))"
| "phase_ok bs w (Finished root) = (w = WDone \<and> ref_at bs (length bs) root)"

definition wire_valid :: "wire \<Rightarrow> bool" where
  "wire_valid b \<longleftrightarrow> int (length (w_bytes b)) \<le> fb_max \<and> wire_encodes (w_bytes b) (w_store b) \<and>
     phase_ok (w_bytes b) (w_nest b) (w_phase b)"

definition wire_used :: "wire \<Rightarrow> int" where
  "wire_used b = int (length (w_bytes b))"

lemma w_pad_split: obtains z where "w_pad a extra bs = z @ bs" and "length z < Suc a"
proof
  show "w_pad a extra bs = replicate ((a - (length bs + extra) mod a) mod a) 0 @ bs"
    by (simp add: w_pad_def)
  show "length (replicate ((a - (length bs + extra) mod a) mod a) (0 :: byte)) < Suc a"
    by (cases "a = 0") (auto intro: less_SucI)
qed

lemma w_pad_length: "length (w_pad 4 extra bs) \<le> length bs + 3" "length bs \<le> length (w_pad a extra bs)"
    "length (w_pad (nf_width fl) extra bs) \<le> length bs + 3"
proof -
  have "(4 - (length bs + extra) mod 4) mod 4 < (4 :: nat)" by simp
  then show "length (w_pad 4 extra bs) \<le> length bs + 3" by (simp add: w_pad_def)
  show "length bs \<le> length (w_pad a extra bs)" by (simp add: w_pad_def)
  have "(nf_width fl - (length bs + extra) mod nf_width fl) mod nf_width fl < nf_width fl" by simp
  also have "nf_width fl \<le> 4" by simp
  finally show "length (w_pad (nf_width fl) extra bs) \<le> length bs + 3" by (simp add: w_pad_def)
qed

lemma w_pad_aligned: "length bs mod 4 = 0 \<Longrightarrow> w_pad 4 0 bs = bs"
  by (simp add: w_pad_def)

lemma w_pad_mod4: "length (w_pad 4 (4 * n) bs) mod 4 = 0"
proof -
  have "(length bs + 4 * n) mod 4 = length bs mod 4" by simp
  moreover have "((4 - m mod 4) mod 4 + m) mod 4 = 0" for m :: nat
  proof -
    have "m mod 4 \<in> {0, 1, 2, 3}" by auto
    then have "((4 - m mod 4) mod 4 + m mod 4) mod 4 = 0" by auto
    then show ?thesis by (simp add: mod_add_right_eq)
  qed
  ultimately show ?thesis by (simp add: w_pad_def)
qed

lemma w_pad_encodes: "wire_encodes bs S \<Longrightarrow> wire_encodes (w_pad a extra bs) S"
  by (simp add: w_pad_def wire_encodes_append)

lemma w_ref_ok:
  assumes "wire_encodes bs S" and "S off = Some nd" and "int (length bs) + 4 \<le> fb_max"
  shows "\<exists>q. w_ref bs off = Inr q \<and> length q = length bs + 4 \<and> ref_at q (length q) off \<and> (\<exists>p. p \<noteq> [] \<and> q = p @ bs)"
proof -
  note off = wire_encodesD [OF assms(1,2)]
  define n where "n = length bs + 4 - nat off"
  have n: "n < 256 ^ 4" "int n + off = int (length bs + 4)" using off assms(3) by (auto simp: n_def)
  have "le_bytes 4 n \<noteq> []" by (metis length_le_bytes list.size(3) zero_neq_numeral)
  moreover have "rd 4 (le_bytes 4 n @ bs) (4 + length bs) = n" using n(1) by (subst rd_le_bytes) auto
  ultimately show ?thesis
    using off n by (auto simp: w_ref_def n_def [symmetric] ref_at_def)
qed

section \<open>The building laws\<close>

lemma wire_valid_Idle: "wire_valid b \<Longrightarrow> w_phase b = Idle \<Longrightarrow> w_nest b = WIdle"
  by (simp add: wire_valid_def)

lemma wire_create_bytes:
  assumes "wire_valid b" and "w_phase b = Idle"
    and "wire_used b + int (length bs) + 16 \<le> fb_max"
  shows "\<exists>b' off. wire_CreateBytes b bs = Inr (b', off) \<and> wire_valid b' \<and> w_phase b' = Idle \<and>
    w_store b off = None \<and> w_store b' = (w_store b)(off \<mapsto> StrNode bs) \<and>
    wire_used b' \<le> wire_used b + int (length bs) + 16"
proof -
  define p where "p = w_pad 4 (length bs + 1) (w_bytes b)"
  define q where "q = le_bytes 4 (length bs) @ bs @ [0] @ p"
  have p: "length p \<le> length (w_bytes b) + 3" "length (w_bytes b) \<le> length p" "wire_encodes p (w_store b)"
    using assms(1) by (auto simp: p_def w_pad_length w_pad_encodes wire_valid_def)
  have len: "length q = 5 + length bs + length p" by (simp add: q_def)
  have small: "int (length q) \<le> wire_used b + int (length bs) + 16" "int (length q) \<le> fb_max"
    using p assms(3) by (auto simp: len wire_used_def)
  have "holds q (length q) (StrNode bs)"
  proof -
    have "length bs < 256 ^ 4" using small len by simp
    then have "rd 4 q (length q) = length bs" unfolding q_def by (subst rd_le_bytes) auto
    moreover have "suffix_at q (length q - 4) = bs @ [0] @ p"
      by (simp add: suffix_at_def len) (simp add: q_def)
    ultimately show ?thesis by (simp add: len)
  qed
  moreover have "q = (le_bytes 4 (length bs) @ bs @ [0]) @ p" by (simp add: q_def)
  ultimately have "wire_encodes q ((w_store b)(int (length q) \<mapsto> StrNode bs))"
    using wire_encodes_upd [OF p(3), of q _ "length q"] by (auto simp: len)
  moreover have "w_store b (int (length q)) = None"
    using p(2) by (intro wire_encodes_fresh [OF p(3)]) (simp add: len)
  moreover have "wire_CreateBytes b bs =
      Inr (b\<lparr>w_bytes := q, w_store := (w_store b)(int (length q) \<mapsto> StrNode bs)\<rparr>, int (length q))"
    using assms small by (simp add: wire_CreateBytes_def wire_valid_Idle Let_def w_grown_def q_def p_def)
  ultimately show ?thesis
    using assms(1,2) small by (auto simp: wire_valid_def wire_used_def)
qed

lemma wire_create_string:
  assumes "wire_valid b" and "w_phase b = Idle" and "utf8_encode s = Inr bs"
    and "wire_used b + int (length bs) + 16 \<le> fb_max"
  shows "\<exists>b' off. wire_CreateString b s = Inr (b', off) \<and> wire_valid b' \<and> w_phase b' = Idle \<and>
    w_store b off = None \<and> w_store b' = (w_store b)(off \<mapsto> StrNode bs) \<and>
    wire_used b' \<le> wire_used b + int (length bs) + 16"
  using wire_create_bytes [OF assms(1,2,4)] assms(1-3)
  by (simp add: wire_CreateString_def wire_valid_Idle)

lemma wire_start_object:
  assumes "wire_valid b" and "w_phase b = Idle" and "n \<le> max_slots"
  shows "\<exists>b'. wire_StartObject b (int n) = Inr b' \<and> wire_valid b' \<and> w_phase b' = InTable n Map.empty \<and>
    w_store b' = w_store b \<and> wire_used b' \<le> wire_used b"
  using assms by (auto simp: wire_StartObject_def wire_valid_def wire_used_def)

lemma length_filter_update:
  "i < length xs \<Longrightarrow> \<not> P (xs ! i) \<Longrightarrow> P v \<Longrightarrow> length (filter P (xs[i := v])) = Suc (length (filter P xs))"
  by (induction xs arbitrary: i) (auto split: nat.splits)

lemma wire_fill:
  assumes b: "wire_valid b" "w_phase b = InTable n fs" and i: "i < n" "fs i = None"
    and q: "q = p @ w_bytes b" "p \<noteq> []" "length q \<le> length (w_bytes b) + 8" "int (length q) \<le> fb_max"
    and f: "field_at q (length q) f"
  shows "\<exists>b'. w_fill b (int i) q f = Inr b' \<and> wire_valid b' \<and> w_phase b' = InTable n (fs(i \<mapsto> f)) \<and>
    w_store b' = w_store b \<and> wire_used b' \<le> wire_used b + 8"
proof -
  from b obtain st slots where nest: "w_nest b = WTable st slots" and slots: "length slots = n" "n \<le> max_slots"
      "st \<le> length (w_bytes b)" "length (w_bytes b) \<le> st + 8 * length (filter (\<lambda>s. s \<noteq> 0) slots)" "\<forall>i \<ge> n. fs i = None"
      and ent: "\<forall>i < n. case fs i of None \<Rightarrow> slots ! i = 0
        | Some f \<Rightarrow> st < slots ! i \<and> slots ! i \<le> length (w_bytes b) \<and> field_at (w_bytes b) (slots ! i) f"
    by (auto simp: wire_valid_def)
  have longer: "length (w_bytes b) < length q" using q(1,2) by simp
  have empty: "slots ! i = 0" using ent i by auto
  have cnt: "length (filter (\<lambda>s. s \<noteq> 0) (slots[i := length q])) = Suc (length (filter (\<lambda>s. s \<noteq> 0) slots))"
    using i slots empty longer by (subst length_filter_update) auto
  have "phase_ok q (WTable st (slots[i := length q])) (InTable n (fs(i \<mapsto> f)))"
  proof -
    have "case (fs(i \<mapsto> f)) j of None \<Rightarrow> slots[i := length q] ! j = 0
      | Some f \<Rightarrow> st < slots[i := length q] ! j \<and> slots[i := length q] ! j \<le> length q \<and>
          field_at q (slots[i := length q] ! j) f" if "j < n" for j
    proof (cases "j = i")
      case True
      then show ?thesis using f longer slots i by simp
    next
      case False
      with ent that show ?thesis
        using longer slots q(1) by (auto split: option.splits intro: field_at_append)
    qed
    moreover have "\<forall>j \<ge> n. (fs(i \<mapsto> f)) j = None" using slots(5) i(1) by auto
    ultimately show ?thesis using slots cnt longer q(3) by auto
  qed
  moreover have "wire_encodes q (w_store b)"
    using b q(1) by (simp add: wire_valid_def wire_encodes_append)
  ultimately show ?thesis
    using nest slots i q b by (auto simp: w_fill_def w_grown_def wire_valid_def wire_used_def w_slot_filled_def)
qed

lemma wire_prepend_slot:
  assumes "wire_valid b" "w_phase b = InTable n fs" "i < n" "fs i = None"
    and x: "nf_range fl x" "nf_range fl d" and room: "wire_used b + 8 \<le> fb_max"
  shows "\<exists>b'. wire_PrependSlot fl b (int i) x d = Inr b' \<and> wire_valid b' \<and>
    w_phase b' = InTable n (if x = d then fs else fs(i \<mapsto> Scalar fl x)) \<and>
    w_store b' = w_store b \<and> wire_used b' \<le> wire_used b + 8"
proof (cases "x = d")
  case True
  with assms show ?thesis by (auto simp: wire_PrependSlot_def)
next
  case False
  define p where "p = w_pad (nf_width fl) 0 (w_bytes b)"
  define q where "q = num_bytes fl x @ p"
  from w_pad_split obtain z where z: "p = z @ w_bytes b" unfolding p_def by blast
  have len: "length q = nf_width fl + length p" "length p \<le> length (w_bytes b) + 3"
    by (auto simp: q_def p_def w_pad_length)
  have "rd (nf_width fl) q (length q) = nat (x mod 256 ^ nf_width fl)"
    unfolding q_def num_bytes_def by (subst rd_le_bytes) (auto simp: nat_less_iff)
  then have "field_at q (length q) (Scalar fl x)"
    using x by (simp add: num_of_roundtrip len)
  moreover have "num_bytes fl x @ z \<noteq> []"
    by simp
  moreover have "length q \<le> length (w_bytes b) + 8" using len nf_width_pos(2) [of fl] by linarith
  moreover have "int (length q) \<le> fb_max" using calculation(3) room by (simp add: wire_used_def)
  ultimately show ?thesis
    using wire_fill [OF assms(1-4), of q "num_bytes fl x @ z" "Scalar fl x"] False x z
    by (simp add: wire_PrependSlot_def q_def p_def)
qed

lemma wire_prepend_ref_slot:
  assumes "wire_valid b" "w_phase b = InTable n fs" "i < n" "fs i = None"
    and off: "w_store b off = Some nd" and room: "wire_used b + 8 \<le> fb_max"
  shows "\<exists>b'. wire_PrependUOffsetTRelativeSlot b (int i) off 0 = Inr b' \<and> wire_valid b' \<and>
    w_phase b' = InTable n (fs(i \<mapsto> Ref off)) \<and> w_store b' = w_store b \<and> wire_used b' \<le> wire_used b + 8"
proof -
  define p where "p = w_pad 4 0 (w_bytes b)"
  from w_pad_split obtain z where z: "p = z @ w_bytes b" unfolding p_def by blast
  have len: "length p \<le> length (w_bytes b) + 3" by (simp add: p_def w_pad_length)
  have enc: "wire_encodes p (w_store b)" using assms(1) by (simp add: p_def wire_valid_def w_pad_encodes)
  from w_ref_ok [OF enc off] obtain q y where q: "w_ref p off = Inr q" "length q = length p + 4"
      "ref_at q (length q) off" "y \<noteq> []" "q = y @ p"
    using len room by (auto simp: wire_used_def)
  have "0 < off" using enc off by (rule wire_encodesD(1))
  moreover have "\<exists>b'. w_fill b (int i) q (Ref off) = Inr b' \<and> wire_valid b' \<and>
      w_phase b' = InTable n (fs(i \<mapsto> Ref off)) \<and> w_store b' = w_store b \<and> wire_used b' \<le> wire_used b + 8"
    using q len room z by (intro wire_fill [OF assms(1-4), of q "y @ z"]) (auto simp: wire_used_def)
  ultimately show ?thesis using q(1) by (simp add: wire_PrependUOffsetTRelativeSlot_def p_def)
qed

lemma length_w_vtable: "length (w_vtable k st slots) = 4 + 2 * length slots"
  by (simp add: w_vtable_def length_entries del: map_map)

text \<open>A vtable in front of its table makes the pending fields the fields of a table.\<close>

lemma table_at_vtable:
  assumes p: "p = z @ bs" and k: "k = length p + 4" and n: "length slots = n" "n \<le> max_slots"
    and st: "st \<le> length bs" "length p \<le> st + 1024"
    and out: "\<forall>i \<ge> n. fs i = None"
    and ent: "\<forall>i < n. case fs i of None \<Rightarrow> slots ! i = 0
        | Some f \<Rightarrow> st < slots ! i \<and> slots ! i \<le> length bs \<and> field_at bs (slots ! i) f"
  shows "table_at (w_vtable k st slots @ le_bytes 4 (4 + 2 * n) @ p) k fs"
proof -
  define r where "r = le_bytes 4 (4 + 2 * n) @ p"
  define vs where "vs = map (\<lambda>s. if s = 0 then 0 else k - s) slots"
  define q where "q = w_vtable k st slots @ r"
  have r: "length r = k" by (simp add: r_def k)
  have q: "length q = k + 4 + 2 * n" by (simp add: q_def length_w_vtable r n)
  have qe: "q = le_bytes 2 (4 + 2 * n) @ le_bytes 2 (k - st) @ concat (map (le_bytes 2) vs) @ r"
    by (simp add: q_def w_vtable_def vs_def n)
  have ne: "slots ! i = 0 \<or> st < slots ! i \<and> slots ! i \<le> length bs" if "i < n" for i
    using ent that by (auto split: option.splits)
  have vs: "length vs = n" "\<forall>v \<in> set vs. v < 65536"
    using n ne k st by (auto simp: vs_def in_set_conv_nth) fastforce
  have "rd 4 q k = 4 + 2 * n"
  proof -
    have "rd 4 q k = rd 4 r k" unfolding q_def by (simp add: r)
    also have "\<dots> = 4 + 2 * n" unfolding r_def using n(2) k by (subst rd_le_bytes) auto
    finally show ?thesis .
  qed
  moreover have "rd 2 q (k + 4 + 2 * n) = 4 + 2 * n"
    unfolding qe using n(2) q qe by (subst rd_le_bytes) auto
  moreover have "vt_entry q k (rd 2 q (k + 2 * (n - i))) (fs i)" if i: "i < n" for i
  proof -
    have "rd 2 q (k + 2 * (n - i)) = vs ! i"
      unfolding qe using i vs r
      by (simp add: rd_below length_entries) (subst rd_entries, auto)
    moreover have "field_at bs x f \<Longrightarrow> field_at q x f" for x f
      unfolding q_def r_def p using field_at_append [of bs x f] by (metis append.assoc)
    ultimately show ?thesis
      using ent i ne [OF i] n k p by (auto simp: vt_entry_def vs_def split: option.splits)
  qed
  ultimately show ?thesis
    using out n q k unfolding table_at_def q_def r_def by (intro conjI exI [of _ n]) auto
qed

lemma wire_end_object:
  assumes b: "wire_valid b" "w_phase b = InTable n fs" and room: "wire_used b + 16 + 2 * int n \<le> fb_max"
  shows "\<exists>b' off. wire_EndObject b = Inr (b', off) \<and> wire_valid b' \<and> w_phase b' = Idle \<and>
    w_store b off = None \<and> w_store b' = (w_store b)(off \<mapsto> TableNode fs) \<and>
    wire_used b' \<le> wire_used b + 16 + 2 * int n"
proof -
  from b obtain st slots where nest: "w_nest b = WTable st slots" and slots: "length slots = n" "n \<le> max_slots"
      "st \<le> length (w_bytes b)" "length (w_bytes b) \<le> st + 8 * length (filter (\<lambda>s. s \<noteq> 0) slots)" "\<forall>i \<ge> n. fs i = None"
      and ent: "\<forall>i < n. case fs i of None \<Rightarrow> slots ! i = 0
        | Some f \<Rightarrow> st < slots ! i \<and> slots ! i \<le> length (w_bytes b) \<and> field_at (w_bytes b) (slots ! i) f"
    by (auto simp: wire_valid_def)
  define p where "p = w_pad 4 0 (w_bytes b)"
  define k where "k = length p + 4"
  define q where "q = w_vtable k st slots @ le_bytes 4 (4 + 2 * n) @ p"
  from w_pad_split obtain z where z: "p = z @ w_bytes b" unfolding p_def by blast
  have len: "length p \<le> length (w_bytes b) + 3" by (simp add: p_def w_pad_length)
  have lq: "length q = k + 4 + 2 * n" by (simp add: q_def length_w_vtable slots k_def)
  have "length (filter (\<lambda>s. s \<noteq> 0) slots) \<le> max_slots"
    using slots length_filter_le [of "\<lambda>s. s \<noteq> 0" slots] by linarith
  then have "table_at q k fs"
    unfolding q_def using slots ent len by (intro table_at_vtable [OF z k_def]) auto
  moreover have "wire_encodes (w_bytes b) (w_store b)" using b by (simp add: wire_valid_def)
  moreover have "q = (w_vtable k st slots @ le_bytes 4 (4 + 2 * n) @ z) @ w_bytes b" by (simp add: q_def z)
  ultimately have "wire_encodes q ((w_store b)(int k \<mapsto> TableNode fs))"
    using lq by (intro wire_encodes_upd [where bs = "w_bytes b" and q = q]) (auto simp: k_def)
  moreover have "w_store b (int k) = None"
    using b z by (intro wire_encodes_fresh [of "w_bytes b"]) (auto simp: k_def wire_valid_def)
  moreover have "int (length q) \<le> wire_used b + 16 + 2 * int n" using lq len by (simp add: k_def wire_used_def)
  ultimately show ?thesis
    using nest slots b room by (auto simp: wire_EndObject_def Let_def w_grown_def wire_valid_def wire_used_def
        q_def k_def p_def)
qed

lemma wire_start_vector:
  assumes b: "wire_valid b" "w_phase b = Idle" and room: "wire_used b + 8 + 4 * int n \<le> fb_max"
  shows "\<exists>b' r. wire_StartVector b 4 (int n) 4 = Inr (b', r) \<and> wire_valid b' \<and> w_phase b' = InVector n [] \<and>
    w_store b' = w_store b \<and> wire_used b' \<le> wire_used b + 8"
proof -
  define p where "p = w_pad 4 (4 * n) (w_bytes b)"
  define q where "q = w_pad 4 (4 * n) p"
  have "nat (4 * int n) = 4 * n" by simp
  then have eq: "w_pad (nat 4) (nat (4 * int n)) (w_pad 4 (nat (4 * int n)) (w_bytes b)) = q"
    by (simp add: q_def p_def)
  have len: "length q \<le> length p + 3" "length p \<le> length (w_bytes b) + 3"
    by (auto simp: q_def p_def w_pad_length)
  have "wire_encodes q (w_store b)" using b by (simp add: q_def p_def wire_valid_def w_pad_encodes)
  moreover have "length q mod 4 = 0" by (simp add: q_def w_pad_mod4)
  moreover have "int (length q) \<le> wire_used b + 8" using len by (simp add: wire_used_def)
  ultimately show ?thesis
    using b room unfolding wire_StartVector_def eq by (auto simp: Let_def w_grown_def wire_valid_def wire_used_def)
qed

lemma wire_prepend_ref:
  assumes b: "wire_valid b" "w_phase b = InVector n rs" and n: "length rs < n"
    and off: "w_store b off = Some nd" and room: "wire_used b + 4 \<le> fb_max"
  shows "\<exists>b'. wire_PrependUOffsetTRelative b off = Inr b' \<and> wire_valid b' \<and>
    w_phase b' = InVector n (off # rs) \<and> w_store b' = w_store b \<and> wire_used b' \<le> wire_used b + 4"
proof -
  let ?bs = "w_bytes b"
  from b have nest: "w_nest b = WVector n" and al: "length ?bs mod 4 = 0" "4 * length rs \<le> length ?bs"
      and ent: "\<forall>j < length rs. ref_at ?bs (length ?bs - 4 * j) (rs ! j)" and enc: "wire_encodes ?bs (w_store b)"
    by (auto simp: wire_valid_def)
  from w_ref_ok [OF enc off] obtain q y where q: "w_ref ?bs off = Inr q" "length q = length ?bs + 4"
      "ref_at q (length q) off" "q = y @ ?bs"
    using room by (auto simp: wire_used_def)
  have "ref_at q (length q - 4 * j) ((off # rs) ! j)" if "j < Suc (length rs)" for j
  proof (cases j)
    case 0
    then show ?thesis using q(3) by simp
  next
    case (Suc i)
    then have "ref_at ?bs (length ?bs - 4 * i) (rs ! i)" using ent that by simp
    then show ?thesis using Suc q(2,4) by (simp add: ref_at_append)
  qed
  then have "phase_ok q (WVector n) (InVector n (off # rs))"
    using n al q(2) by auto
  moreover have "wire_encodes q (w_store b)" using enc q(4) by (simp add: wire_encodes_append)
  ultimately show ?thesis
    using b nest q room by (auto simp: wire_PrependUOffsetTRelative_def w_pad_aligned [OF al(1)] w_grown_def
        wire_valid_def wire_used_def)
qed

lemma wire_end_vector:
  assumes b: "wire_valid b" "w_phase b = InVector n rs" and n: "length rs = n" and room: "wire_used b + 4 \<le> fb_max"
  shows "\<exists>b' off. wire_EndVector b = Inr (b', off) \<and> wire_valid b' \<and> w_phase b' = Idle \<and>
    w_store b off = None \<and> w_store b' = (w_store b)(off \<mapsto> VecNode rs) \<and> wire_used b' \<le> wire_used b + 4"
proof -
  let ?bs = "w_bytes b"
  define q where "q = le_bytes 4 n @ ?bs"
  from b have nest: "w_nest b = WVector n" and al: "4 * length rs \<le> length ?bs"
      and ent: "\<forall>j < length rs. ref_at ?bs (length ?bs - 4 * j) (rs ! j)" and enc: "wire_encodes ?bs (w_store b)"
    by (auto simp: wire_valid_def)
  have len: "length q = 4 + length ?bs" by (simp add: q_def)
  have "rd 4 q (length q) = n"
    unfolding q_def using n al room by (subst rd_le_bytes) (auto simp: wire_used_def)
  moreover have "ref_at q (length q - 4 - 4 * j) (rs ! j)" if "j < length rs" for j
    using ent that len by (simp add: q_def ref_at_append)
  ultimately have "holds q (length q) (VecNode rs)" using n al len by auto
  then have "wire_encodes q ((w_store b)(int (length q) \<mapsto> VecNode rs))"
    using len by (intro wire_encodes_upd [OF enc]) (auto simp: q_def)
  moreover have "w_store b (int (length q)) = None"
    using len by (intro wire_encodes_fresh [OF enc]) simp
  moreover have "wire_EndVector b = Inr (b\<lparr>w_bytes := q, w_nest := WIdle, w_phase := Idle,
      w_store := (w_store b)(int (length q) \<mapsto> VecNode rs)\<rparr>, int (length q))"
    using nest b room len by (simp add: wire_EndVector_def Let_def w_grown_def wire_used_def q_def)
  ultimately show ?thesis using room len by (auto simp: wire_valid_def wire_used_def)
qed

lemma wire_finish:
  assumes b: "wire_valid b" "w_phase b = Idle" and off: "w_store b off = Some (TableNode fs)"
    and room: "wire_used b + 8 \<le> fb_max"
  shows "\<exists>b'. wire_Finish b off = Inr b' \<and> wire_valid b' \<and> w_phase b' = Finished off \<and>
    w_store b' = w_store b \<and> wire_used b' \<le> wire_used b + 8"
proof -
  define p where "p = w_pad 4 4 (w_bytes b)"
  have len: "length p \<le> length (w_bytes b) + 3" by (simp add: p_def w_pad_length)
  have enc: "wire_encodes p (w_store b)" using b by (simp add: p_def wire_valid_def w_pad_encodes)
  from w_ref_ok [OF enc off] obtain q y where q: "w_ref p off = Inr q" "length q = length p + 4"
      "ref_at q (length q) off" "q = y @ p"
    using len room by (auto simp: wire_used_def)
  moreover have "wire_encodes q (w_store b)" using enc q(4) by (simp add: wire_encodes_append)
  ultimately show ?thesis
    using b len room by (auto simp: wire_Finish_def p_def [symmetric] w_grown_def wire_valid_def wire_used_def)
qed

lemma wire_output:
  assumes "wire_valid b" and "w_phase b = Finished root"
  shows "wire_Output b = Inr (w_bytes b)" and "wire_encodes (w_bytes b) (w_store b)"
    and "get_u 4 (w_bytes b) 0 = Inr (nat (pos_of (w_bytes b) root))" and "0 \<le> pos_of (w_bytes b) root"
proof -
  from assms have r: "w_nest b = WDone" "ref_at (w_bytes b) (length (w_bytes b)) root"
    by (auto simp: wire_valid_def)
  then show "wire_Output b = Inr (w_bytes b)" by (simp add: wire_Output_def)
  from assms show "wire_encodes (w_bytes b) (w_store b)" by (simp add: wire_valid_def)
  have "get_u 4 (w_bytes b) (int (length (w_bytes b)) - int (length (w_bytes b))) =
      Inr (rd 4 (w_bytes b) (length (w_bytes b)))"
    using r by (intro get_u_pos) (auto simp: ref_at_def)
  moreover have "pos_of (w_bytes b) root = int (rd 4 (w_bytes b) (length (w_bytes b)))"
    using r by (simp add: ref_at_def pos_of_def)
  ultimately show "get_u 4 (w_bytes b) 0 = Inr (nat (pos_of (w_bytes b) root))" "0 \<le> pos_of (w_bytes b) root"
    by simp_all
qed

section \<open>The interpretation\<close>

lemma tab_at_pos:
  assumes "wire_encodes buf S" and "S off = Some nd"
  shows "tab_at buf off = \<lparr>Bytes = buf, Pos = int (length buf) - int (nat off)\<rparr>"
    and "pos_of buf off = int (length buf) - int (nat off)"
  using wire_encodesD(1) [OF assms] by (auto simp: tab_at_def pos_of_def)

lemma table_at_store: "wire_encodes buf S \<Longrightarrow> S off = Some (TableNode fs) \<Longrightarrow> table_at buf (nat off) fs"
  by (drule (1) wire_encodesD(3)) simp

lemma wire_slot_ref:
  assumes "wire_encodes buf S" and "S off = Some (TableNode fs)" and "fs i = Some (Ref r)" and "i < max_slots"
  obtains v k where "wire_Offset (tab_at buf off) (4 + 2 * int i) = Inr v" and "v \<noteq> 0"
    and "v + pos_of buf off = int (length buf) - int k" and "ref_at buf k r"
    and "wire_Indirect (tab_at buf off) (v + pos_of buf off) = Inr (pos_of buf r)"
proof -
  from wire_offset_ref [OF table_at_store [OF assms(1,2)] assms(3,4)] obtain v k where
      v: "wire_Offset (tab_at buf off) (4 + 2 * int i) = Inr v" "v \<noteq> 0"
        "v + pos_of buf off = int (length buf) - int k" "ref_at buf k r"
    unfolding tab_at_pos [OF assms(1,2)] by blast
  moreover have "wire_Indirect (tab_at buf off) (v + pos_of buf off) = Inr (pos_of buf r)"
    unfolding v(3) tab_at_def by (rule wire_Indirect_pos [OF v(4)])
  ultimately show thesis by (rule that)
qed

lemma wire_element:
  assumes "wire_encodes buf S" and "S r = Some (VecNode rs)" and "j < length rs"
  shows "ref_at buf (nat r - 4 - 4 * j) (rs ! j)"
    and "pos_of buf r + 4 + int j * 4 = int (length buf) - int (nat r - 4 - 4 * j)"
proof -
  note r = wire_encodesD [OF assms(1,2)]
  then show "ref_at buf (nat r - 4 - 4 * j) (rs ! j)" using assms(3) by simp
  have "4 + 4 * j \<le> nat r" using r assms(3) by simp
  then show "pos_of buf r + 4 + int j * 4 = int (length buf) - int (nat r - 4 - 4 * j)"
    using r(1) by (simp add: pos_of_def)
qed

lemma wire_reader: "fb_reader wire_fb wire_encodes"
proof (unfold_locales, goal_cases)
  case (1 x)
  show ?case by (simp add: wire_fb_def)
next
  case (2 buf S off nd)
  then show ?case using wire_encodesD(1,2) [OF 2] by auto
next
  case (3 buf S off fs i)
  from wire_Offset_entry [OF table_at_store [OF 3(1,2)] 3(4)] 3(3)
  show ?case by (auto simp: wire_fb_def tab_at_pos [OF 3(1,2)] vt_entry_def)
next
  case (4 buf S off fs i fl x)
  from wire_offset_scalar [OF table_at_store [OF 4(1,2)] 4(3,4)]
  show ?case by (simp add: wire_fb_def tab_at_pos [OF 4(1,2)])
next
  case (5 buf S off fs i r bs)
  from wire_slot_ref [OF 5(1-3,5)] obtain v k where
      v: "wire_Offset (tab_at buf off) (4 + 2 * int i) = Inr v" "v \<noteq> 0"
        "v + pos_of buf off = int (length buf) - int k" "ref_at buf k r" .
  have "wire_String (tab_at buf off) (v + pos_of buf off) = Inr bs"
    unfolding v(3) tab_at_def by (rule wire_String_pos [OF v(4) wire_encodesD(1,3) [OF 5(1,4)]])
  with v(1,2) show ?case by (auto simp: wire_fb_def)
next
  case (6 buf S off fs i r fs' t)
  from wire_slot_ref [OF 6(1-3,5)] obtain v where "wire_Offset (tab_at buf off) (4 + 2 * int i) = Inr v"
      "v \<noteq> 0" "wire_Indirect (tab_at buf off) (v + pos_of buf off) = Inr (pos_of buf r)" .
  then show ?case by (auto simp: wire_fb_def wire_Union_def tab_at_def)
next
  case (7 buf S off fs i r rs)
  from wire_slot_ref [OF 7(1-3,5)] obtain v where "wire_Offset (tab_at buf off) (4 + 2 * int i) = Inr v"
      "v \<noteq> 0" "wire_Indirect (tab_at buf off) (v + pos_of buf off) = Inr (pos_of buf r)" .
  moreover have "get_u 4 buf (pos_of buf r) = Inr (length rs)"
    unfolding tab_at_pos(2) [OF 7(1,4)] using wire_encodesD [OF 7(1,4)] by (subst get_u_pos) auto
  ultimately show ?case by (auto simp: wire_fb_def wire_Vector_def wire_VectorLen_def tab_at_def)
next
  case (8 buf S off fs r rs j bs)
  show ?case
    using wire_element [OF 8(1,3,4)] wire_encodesD [OF 8(1,5)]
    by (auto simp: wire_fb_def tab_at_def wire_String_pos)
next
  case (9 buf S off fs r rs j fs')
  show ?case
    using wire_element [OF 9(1,3,4)] by (auto simp: wire_fb_def tab_at_def wire_Indirect_pos)
next
  case (10 fl t p x)
  then obtain n where n: "get_u (nf_width fl) (Bytes t) p = Inr n" and x: "x = num_of fl n"
    by (auto simp: wire_fb_def wire_Get_def elim!: bindE_InrE)
  then have "n < 256 ^ nf_width fl"
    using le_nat_bound [of "take (nf_width fl) (drop (nat p) (Bytes t))"]
    by (auto simp: get_u_def split: if_splits)
  then show ?case by (simp add: x num_of_range)
qed

lemma wire_builder: "fb_builder wire_fb wire_valid w_store w_phase wire_used"
proof (unfold_locales, goal_cases)
  case (1 sz)
  then show ?case
    by (simp add: wire_fb_def wire_Builder_def wire_valid_def wire_encodes_def wire_used_def)
next
  case 2
  then show ?case using wire_create_string by (simp add: wire_fb_def)
next
  case 3
  then show ?case using wire_start_object by (simp add: wire_fb_def)
next
  case 4
  then show ?case using wire_prepend_slot by (simp add: wire_fb_def)
next
  case 5
  then show ?case using wire_prepend_ref_slot by (simp add: wire_fb_def)
next
  case 6
  then show ?case using wire_end_object by (simp add: wire_fb_def)
next
  case 7
  then show ?case using wire_start_vector by (simp add: wire_fb_def)
next
  case 8
  then show ?case using wire_prepend_ref by (simp add: wire_fb_def)
next
  case 9
  then show ?case using wire_end_vector by (simp add: wire_fb_def)
next
  case 10
  then show ?case using wire_finish by (simp add: wire_fb_def)
next
  case 11
  then show ?case by (simp add: wire_fb_def wire_PrependSlot_def)
next
  case 12
  then show ?case by (simp add: wire_fb_def wire_CreateString_def)
qed

lemma wire_package: "flatbuffers_pkg wire_fb wire_encodes wire_valid w_store w_phase wire_used"
proof (intro flatbuffers_pkg.intro flatbuffers_pkg_axioms.intro wire_reader wire_builder)
  fix b root
  assume b: "wire_valid b" "w_phase b = Finished root"
  show "\<exists>buf. fb_Output wire_fb b = Inr buf \<and> wire_encodes buf (w_store b) \<and> int (length buf) = wire_used b \<and>
      fb_encode_Get_uoffset wire_fb buf 0 = Inr (pos_of buf root)"
    using wire_output [OF b] by (simp add: wire_fb_def wire_used_def)
qed

end
