(* ===== verification/Demon_Tables.thy ===== *)
theory Demon_Tables
  imports Fb_Interface
begin

text \<open>
  The modules under \<^verbatim>\<open>src/tests_python/demon\<close>: enum constants, and for every table
  of the schema the accessors of its class (\<open>X_F\<close> is the method \<^verbatim>\<open>F\<close> of class
  \<^verbatim>\<open>X\<close>, on the table the object wraps) and its builder functions (\<open>XAddF\<close> is the
  module function of that name, \<open>X_AddF\<close> its short alias \<^verbatim>\<open>AddF\<close>).  The bodies
  of accessors repeat a handful of shapes, which come first.
\<close>

section \<open>The shapes of accessors\<close>

text \<open>\<^verbatim>\<open>o = ...py_type(self._tab.Offset(vt))\<close>, then a branch on \<^verbatim>\<open>o != 0\<close>.\<close>

definition slot_offset :: "'b flatbuffers \<Rightarrow> int \<Rightarrow> table \<Rightarrow> int py" where
  "slot_offset fb vt tab = bindE (tab_Offset fb tab vt) (\<lambda>x. Inr (fb_uoffset_py_type fb x))"

definition scalar_field :: "'b flatbuffers \<Rightarrow> nflags \<Rightarrow> int \<Rightarrow> int \<Rightarrow> table \<Rightarrow> int py" where
  "scalar_field fb fl vt dflt tab =
     bindE (slot_offset fb vt tab) (\<lambda>x. if x \<noteq> 0 then tab_Get fb fl tab (x + Pos tab) else Inr dflt)"

definition bool_field :: "'b flatbuffers \<Rightarrow> int \<Rightarrow> table \<Rightarrow> bool py" where
  "bool_field fb vt tab =
     bindE (slot_offset fb vt tab) (\<lambda>x.
       if x \<noteq> 0 then bindE (tab_Get fb BoolFlags tab (x + Pos tab)) (\<lambda>v. Inr (v \<noteq> 0)) else Inr False)"

text \<open>\<open>None\<close> is Python's \<^verbatim>\<open>None\<close>, returned for an absent slot.\<close>

definition string_field :: "'b flatbuffers \<Rightarrow> int \<Rightarrow> table \<Rightarrow> bytes option py" where
  "string_field fb vt tab =
     bindE (slot_offset fb vt tab) (\<lambda>x.
       if x \<noteq> 0 then bindE (tab_String fb tab (x + Pos tab)) (\<lambda>s. Inr (Some s)) else Inr None)"

text \<open>A union member: a fresh \<^verbatim>\<open>Table(bytearray(), 0)\<close> that \<^verbatim>\<open>Union\<close> redirects.\<close>

definition union_field :: "'b flatbuffers \<Rightarrow> int \<Rightarrow> table \<Rightarrow> table option py" where
  "union_field fb vt tab =
     bindE (slot_offset fb vt tab) (\<lambda>x.
       if x \<noteq> 0 then bindE (tab_Union fb tab \<lparr>Bytes = [], Pos = 0\<rparr> x) (\<lambda>obj. Inr (Some obj)) else Inr None)"

text \<open>An element of a string vector is a \<^verbatim>\<open>bytes\<close> object, but the fallback is the
  empty \<^verbatim>\<open>str\<close>.\<close>

datatype py_text = PyBytes bytes | PyStr pystr

definition string_vector_field :: "'b flatbuffers \<Rightarrow> int \<Rightarrow> table \<Rightarrow> int \<Rightarrow> py_text py" where
  "string_vector_field fb vt tab j =
     bindE (slot_offset fb vt tab) (\<lambda>x.
       if x \<noteq> 0 then
         bindE (tab_Vector fb tab x) (\<lambda>a.
           bindE (tab_String fb tab (a + fb_uoffset_py_type fb (j * 4))) (\<lambda>s. Inr (PyBytes s)))
       else Inr (PyStr []))"

definition vector_len_field :: "'b flatbuffers \<Rightarrow> int \<Rightarrow> table \<Rightarrow> int py" where
  "vector_len_field fb vt tab =
     bindE (slot_offset fb vt tab) (\<lambda>x. if x \<noteq> 0 then tab_VectorLen fb tab x else Inr 0)"

definition is_none_field :: "'b flatbuffers \<Rightarrow> int \<Rightarrow> table \<Rightarrow> bool py" where
  "is_none_field fb vt tab = bindE (slot_offset fb vt tab) (\<lambda>x. Inr (x = 0))"

definition table_vector_field ::
    "'b flatbuffers \<Rightarrow> int \<Rightarrow> (bytes \<Rightarrow> int \<Rightarrow> table) \<Rightarrow> table \<Rightarrow> int \<Rightarrow> table option py" where
  "table_vector_field fb vt init tab j =
     bindE (slot_offset fb vt tab) (\<lambda>x.
       if x \<noteq> 0 then
         bindE (tab_Vector fb tab x) (\<lambda>y.
           bindE (tab_Indirect fb tab (y + fb_uoffset_py_type fb j * 4)) (\<lambda>z.
             Inr (Some (init (Bytes tab) z))))
       else Inr None)"

section \<open>Enum modules\<close>

subsection \<open>\<^verbatim>\<open>demon/Event.py\<close>\<close>

definition Event_NONE :: int where
  [enums]: "Event_NONE = 0"

definition Event_RunCommand :: int where
  [enums]: "Event_RunCommand = 1"

definition Event_KillProcess :: int where
  [enums]: "Event_KillProcess = 2"

definition Event_EstablishTCPConnection :: int where
  [enums]: "Event_EstablishTCPConnection = 3"

definition Event_EstablishUnixConnection :: int where
  [enums]: "Event_EstablishUnixConnection = 4"

definition Event_ExecveTerminated :: int where
  [enums]: "Event_ExecveTerminated = 5"

definition Event_ProcessLaunched :: int where
  [enums]: "Event_ProcessLaunched = 6"

definition Event_ChildCreationError :: int where
  [enums]: "Event_ChildCreationError = 7"

definition Event_ProcessTerminated :: int where
  [enums]: "Event_ProcessTerminated = 8"

definition Event_TCPSocketListening :: int where
  [enums]: "Event_TCPSocketListening = 9"

definition Event_InotifyPathUpdated :: int where
  [enums]: "Event_InotifyPathUpdated = 10"

definition Event_InotifyWatchListUpdated :: int where
  [enums]: "Event_InotifyWatchListUpdated = 11"

definition Event_SocketWatched :: int where
  [enums]: "Event_SocketWatched = 12"

definition Event_SocketWatchTerminated :: int where
  [enums]: "Event_SocketWatchTerminated = 13"

subsection \<open>\<^verbatim>\<open>demon/Surveillance.py\<close>\<close>

definition Surveillance_NONE :: int where
  [enums]: "Surveillance_NONE = 0"

definition Surveillance_Inotify :: int where
  [enums]: "Surveillance_Inotify = 1"

definition Surveillance_TCPSocket :: int where
  [enums]: "Surveillance_TCPSocket = 2"

subsection \<open>\<^verbatim>\<open>demon/InotifyEvent.py\<close>\<close>

definition InotifyEvent_modified :: int where
  [enums]: "InotifyEvent_modified = 0"

definition InotifyEvent_created :: int where
  [enums]: "InotifyEvent_created = 1"

definition InotifyEvent_size_reached :: int where
  [enums]: "InotifyEvent_size_reached = 2"

definition InotifyEvent_deleted :: int where
  [enums]: "InotifyEvent_deleted = 3"

definition InotifyEvent_accessed :: int where
  [enums]: "InotifyEvent_accessed = 4"

subsection \<open>\<^verbatim>\<open>demon/SocketState.py\<close>\<close>

definition SocketState_unknown :: int where
  [enums]: "SocketState_unknown = 0"

definition SocketState_created :: int where
  [enums]: "SocketState_created = 1"

definition SocketState_listeing :: int where
  [enums]: "SocketState_listeing = 2"

section \<open>Table modules\<close>

subsection \<open>\<^verbatim>\<open>demon/Inotify.py\<close>\<close>

definition Inotify_Init :: "bytes \<Rightarrow> int \<Rightarrow> table" where
  [tables]: "Inotify_Init buf pos = \<lparr>Bytes = buf, Pos = pos\<rparr>"

definition Inotify_GetRootAs :: "'b flatbuffers \<Rightarrow> bytes \<Rightarrow> int \<Rightarrow> table py" where
  [tables]: "Inotify_GetRootAs fb buf offset =
     bindE (fb_encode_Get_uoffset fb buf offset) (\<lambda>n. Inr (Inotify_Init buf (n + offset)))"

definition Inotify_GetRootAsInotify :: "'b flatbuffers \<Rightarrow> bytes \<Rightarrow> int \<Rightarrow> table py" where
  [tables]: "Inotify_GetRootAsInotify fb buf offset = Inotify_GetRootAs fb buf offset"

definition Inotify_RootPaths :: "'b flatbuffers \<Rightarrow> table \<Rightarrow> bytes option py" where
  [tables]: "Inotify_RootPaths fb tab = string_field fb 4 tab"

definition Inotify_Mask :: "'b flatbuffers \<Rightarrow> table \<Rightarrow> int py" where
  [tables]: "Inotify_Mask fb tab = scalar_field fb Int32Flags 6 0 tab"

definition Inotify_Size :: "'b flatbuffers \<Rightarrow> table \<Rightarrow> int py" where
  [tables]: "Inotify_Size fb tab = scalar_field fb Uint32Flags 8 0 tab"

definition InotifyStart :: "'b flatbuffers \<Rightarrow> 'b \<Rightarrow> 'b py" where
  [tables]: "InotifyStart fb b = fb_StartObject fb b 3"

definition Inotify_Start :: "'b flatbuffers \<Rightarrow> 'b \<Rightarrow> 'b py" where
  [tables]: "Inotify_Start fb b = InotifyStart fb b"

definition InotifyAddRootPaths :: "'b flatbuffers \<Rightarrow> 'b \<Rightarrow> int \<Rightarrow> 'b py" where
  [tables]: "InotifyAddRootPaths fb b v = fb_PrependUOffsetTRelativeSlot fb b 0 (fb_uoffset_py_type fb v) 0"

definition Inotify_AddRootPaths :: "'b flatbuffers \<Rightarrow> 'b \<Rightarrow> int \<Rightarrow> 'b py" where
  [tables]: "Inotify_AddRootPaths fb b v = InotifyAddRootPaths fb b v"

definition InotifyAddMask :: "'b flatbuffers \<Rightarrow> 'b \<Rightarrow> int \<Rightarrow> 'b py" where
  [tables]: "InotifyAddMask fb b v = fb_PrependSlot fb Int32Flags b 1 v 0"

definition Inotify_AddMask :: "'b flatbuffers \<Rightarrow> 'b \<Rightarrow> int \<Rightarrow> 'b py" where
  [tables]: "Inotify_AddMask fb b v = InotifyAddMask fb b v"

definition InotifyAddSize :: "'b flatbuffers \<Rightarrow> 'b \<Rightarrow> int \<Rightarrow> 'b py" where
  [tables]: "InotifyAddSize fb b v = fb_PrependSlot fb Uint32Flags b 2 v 0"

definition Inotify_AddSize :: "'b flatbuffers \<Rightarrow> 'b \<Rightarrow> int \<Rightarrow> 'b py" where
  [tables]: "Inotify_AddSize fb b v = InotifyAddSize fb b v"

definition InotifyEnd :: "'b flatbuffers \<Rightarrow> 'b \<Rightarrow> ('b \<times> int) py" where
  [tables]: "InotifyEnd fb b = fb_EndObject fb b"

definition Inotify_End :: "'b flatbuffers \<Rightarrow> 'b \<Rightarrow> ('b \<times> int) py" where
  [tables]: "Inotify_End fb b = InotifyEnd fb b"

subsection \<open>\<^verbatim>\<open>demon/TCPSocket.py\<close>\<close>

definition TCPSocket_Init :: "bytes \<Rightarrow> int \<Rightarrow> table" where
  [tables]: "TCPSocket_Init buf pos = \<lparr>Bytes = buf, Pos = pos\<rparr>"

definition TCPSocket_GetRootAs :: "'b flatbuffers \<Rightarrow> bytes \<Rightarrow> int \<Rightarrow> table py" where
  [tables]: "TCPSocket_GetRootAs fb buf offset =
     bindE (fb_encode_Get_uoffset fb buf offset) (\<lambda>n. Inr (TCPSocket_Init buf (n + offset)))"

definition TCPSocket_GetRootAsTCPSocket :: "'b flatbuffers \<Rightarrow> bytes \<Rightarrow> int \<Rightarrow> table py" where
  [tables]: "TCPSocket_GetRootAsTCPSocket fb buf offset = TCPSocket_GetRootAs fb buf offset"

definition TCPSocket_Destport :: "'b flatbuffers \<Rightarrow> table \<Rightarrow> int py" where
  [tables]: "TCPSocket_Destport fb tab = scalar_field fb Uint32Flags 4 0 tab"

definition TCPSocketStart :: "'b flatbuffers \<Rightarrow> 'b \<Rightarrow> 'b py" where
  [tables]: "TCPSocketStart fb b = fb_StartObject fb b 1"

definition TCPSocket_Start :: "'b flatbuffers \<Rightarrow> 'b \<Rightarrow> 'b py" where
  [tables]: "TCPSocket_Start fb b = TCPSocketStart fb b"

definition TCPSocketAddDestport :: "'b flatbuffers \<Rightarrow> 'b \<Rightarrow> int \<Rightarrow> 'b py" where
  [tables]: "TCPSocketAddDestport fb b v = fb_PrependSlot fb Uint32Flags b 0 v 0"

definition TCPSocket_AddDestport :: "'b flatbuffers \<Rightarrow> 'b \<Rightarrow> int \<Rightarrow> 'b py" where
  [tables]: "TCPSocket_AddDestport fb b v = TCPSocketAddDestport fb b v"

definition TCPSocketEnd :: "'b flatbuffers \<Rightarrow> 'b \<Rightarrow> ('b \<times> int) py" where
  [tables]: "TCPSocketEnd fb b = fb_EndObject fb b"

definition TCPSocket_End :: "'b flatbuffers \<Rightarrow> 'b \<Rightarrow> ('b \<times> int) py" where
  [tables]: "TCPSocket_End fb b = TCPSocketEnd fb b"

subsection \<open>\<^verbatim>\<open>demon/SurveillanceEvent.py\<close>\<close>

definition SurveillanceEvent_Init :: "bytes \<Rightarrow> int \<Rightarrow> table" where
  [tables]: "SurveillanceEvent_Init buf pos = \<lparr>Bytes = buf, Pos = pos\<rparr>"

definition SurveillanceEvent_GetRootAs :: "'b flatbuffers \<Rightarrow> bytes \<Rightarrow> int \<Rightarrow> table py" where
  [tables]: "SurveillanceEvent_GetRootAs fb buf offset =
     bindE (fb_encode_Get_uoffset fb buf offset) (\<lambda>n. Inr (SurveillanceEvent_Init buf (n + offset)))"

definition SurveillanceEvent_GetRootAsSurveillanceEvent :: "'b flatbuffers \<Rightarrow> bytes \<Rightarrow> int \<Rightarrow> table py" where
  [tables]: "SurveillanceEvent_GetRootAsSurveillanceEvent fb buf offset = SurveillanceEvent_GetRootAs fb buf offset"

definition SurveillanceEvent_EventType :: "'b flatbuffers \<Rightarrow> table \<Rightarrow> int py" where
  [tables]: "SurveillanceEvent_EventType fb tab = scalar_field fb Uint8Flags 4 0 tab"

definition SurveillanceEvent_Event :: "'b flatbuffers \<Rightarrow> table \<Rightarrow> table option py" where
  [tables]: "SurveillanceEvent_Event fb tab = union_field fb 6 tab"

definition SurveillanceEventStart :: "'b flatbuffers \<Rightarrow> 'b \<Rightarrow> 'b py" where
  [tables]: "SurveillanceEventStart fb b = fb_StartObject fb b 2"

definition SurveillanceEvent_Start :: "'b flatbuffers \<Rightarrow> 'b \<Rightarrow> 'b py" where
  [tables]: "SurveillanceEvent_Start fb b = SurveillanceEventStart fb b"

definition SurveillanceEventAddEventType :: "'b flatbuffers \<Rightarrow> 'b \<Rightarrow> int \<Rightarrow> 'b py" where
  [tables]: "SurveillanceEventAddEventType fb b v = fb_PrependSlot fb Uint8Flags b 0 v 0"

definition SurveillanceEvent_AddEventType :: "'b flatbuffers \<Rightarrow> 'b \<Rightarrow> int \<Rightarrow> 'b py" where
  [tables]: "SurveillanceEvent_AddEventType fb b v = SurveillanceEventAddEventType fb b v"

definition SurveillanceEventAddEvent :: "'b flatbuffers \<Rightarrow> 'b \<Rightarrow> int \<Rightarrow> 'b py" where
  [tables]: "SurveillanceEventAddEvent fb b v = fb_PrependUOffsetTRelativeSlot fb b 1 (fb_uoffset_py_type fb v) 0"

definition SurveillanceEvent_AddEvent :: "'b flatbuffers \<Rightarrow> 'b \<Rightarrow> int \<Rightarrow> 'b py" where
  [tables]: "SurveillanceEvent_AddEvent fb b v = SurveillanceEventAddEvent fb b v"

definition SurveillanceEventEnd :: "'b flatbuffers \<Rightarrow> 'b \<Rightarrow> ('b \<times> int) py" where
  [tables]: "SurveillanceEventEnd fb b = fb_EndObject fb b"

definition SurveillanceEvent_End :: "'b flatbuffers \<Rightarrow> 'b \<Rightarrow> ('b \<times> int) py" where
  [tables]: "SurveillanceEvent_End fb b = SurveillanceEventEnd fb b"

subsection \<open>\<^verbatim>\<open>demon/RunCommand.py\<close>\<close>

definition RunCommand_Init :: "bytes \<Rightarrow> int \<Rightarrow> table" where
  [tables]: "RunCommand_Init buf pos = \<lparr>Bytes = buf, Pos = pos\<rparr>"

definition RunCommand_GetRootAs :: "'b flatbuffers \<Rightarrow> bytes \<Rightarrow> int \<Rightarrow> table py" where
  [tables]: "RunCommand_GetRootAs fb buf offset =
     bindE (fb_encode_Get_uoffset fb buf offset) (\<lambda>n. Inr (RunCommand_Init buf (n + offset)))"

definition RunCommand_GetRootAsRunCommand :: "'b flatbuffers \<Rightarrow> bytes \<Rightarrow> int \<Rightarrow> table py" where
  [tables]: "RunCommand_GetRootAsRunCommand fb buf offset = RunCommand_GetRootAs fb buf offset"

definition RunCommand_Path :: "'b flatbuffers \<Rightarrow> table \<Rightarrow> bytes option py" where
  [tables]: "RunCommand_Path fb tab = string_field fb 4 tab"

definition RunCommand_Args :: "'b flatbuffers \<Rightarrow> table \<Rightarrow> int \<Rightarrow> py_text py" where
  [tables]: "RunCommand_Args fb tab j = string_vector_field fb 6 tab j"

definition RunCommand_ArgsLength :: "'b flatbuffers \<Rightarrow> table \<Rightarrow> int py" where
  [tables]: "RunCommand_ArgsLength fb tab = vector_len_field fb 6 tab"

definition RunCommand_ArgsIsNone :: "'b flatbuffers \<Rightarrow> table \<Rightarrow> bool py" where
  [tables]: "RunCommand_ArgsIsNone fb tab = is_none_field fb 6 tab"

definition RunCommand_Envp :: "'b flatbuffers \<Rightarrow> table \<Rightarrow> int \<Rightarrow> py_text py" where
  [tables]: "RunCommand_Envp fb tab j = string_vector_field fb 8 tab j"

definition RunCommand_EnvpLength :: "'b flatbuffers \<Rightarrow> table \<Rightarrow> int py" where
  [tables]: "RunCommand_EnvpLength fb tab = vector_len_field fb 8 tab"

definition RunCommand_EnvpIsNone :: "'b flatbuffers \<Rightarrow> table \<Rightarrow> bool py" where
  [tables]: "RunCommand_EnvpIsNone fb tab = is_none_field fb 8 tab"

definition RunCommand_Flags :: "'b flatbuffers \<Rightarrow> table \<Rightarrow> int py" where
  [tables]: "RunCommand_Flags fb tab = scalar_field fb Uint32Flags 10 0 tab"

definition RunCommand_StackSize :: "'b flatbuffers \<Rightarrow> table \<Rightarrow> int py" where
  [tables]: "RunCommand_StackSize fb tab = scalar_field fb Uint32Flags 12 0 tab"

definition RunCommand_ToWatch :: "'b flatbuffers \<Rightarrow> table \<Rightarrow> int \<Rightarrow> table option py" where
  [tables]: "RunCommand_ToWatch fb tab j = table_vector_field fb 14 SurveillanceEvent_Init tab j"

definition RunCommand_ToWatchLength :: "'b flatbuffers \<Rightarrow> table \<Rightarrow> int py" where
  [tables]: "RunCommand_ToWatchLength fb tab = vector_len_field fb 14 tab"

definition RunCommand_ToWatchIsNone :: "'b flatbuffers \<Rightarrow> table \<Rightarrow> bool py" where
  [tables]: "RunCommand_ToWatchIsNone fb tab = is_none_field fb 14 tab"

definition RunCommandStart :: "'b flatbuffers \<Rightarrow> 'b \<Rightarrow> 'b py" where
  [tables]: "RunCommandStart fb b = fb_StartObject fb b 6"

definition RunCommand_Start :: "'b flatbuffers \<Rightarrow> 'b \<Rightarrow> 'b py" where
  [tables]: "RunCommand_Start fb b = RunCommandStart fb b"

definition RunCommandAddPath :: "'b flatbuffers \<Rightarrow> 'b \<Rightarrow> int \<Rightarrow> 'b py" where
  [tables]: "RunCommandAddPath fb b v = fb_PrependUOffsetTRelativeSlot fb b 0 (fb_uoffset_py_type fb v) 0"

definition RunCommand_AddPath :: "'b flatbuffers \<Rightarrow> 'b \<Rightarrow> int \<Rightarrow> 'b py" where
  [tables]: "RunCommand_AddPath fb b v = RunCommandAddPath fb b v"

definition RunCommandAddArgs :: "'b flatbuffers \<Rightarrow> 'b \<Rightarrow> int \<Rightarrow> 'b py" where
  [tables]: "RunCommandAddArgs fb b v = fb_PrependUOffsetTRelativeSlot fb b 1 (fb_uoffset_py_type fb v) 0"

definition RunCommand_AddArgs :: "'b flatbuffers \<Rightarrow> 'b \<Rightarrow> int \<Rightarrow> 'b py" where
  [tables]: "RunCommand_AddArgs fb b v = RunCommandAddArgs fb b v"

definition RunCommandStartArgsVector :: "'b flatbuffers \<Rightarrow> 'b \<Rightarrow> int \<Rightarrow> ('b \<times> int) py" where
  [tables]: "RunCommandStartArgsVector fb b v = fb_StartVector fb b 4 v 4"

definition RunCommand_StartArgsVector :: "'b flatbuffers \<Rightarrow> 'b \<Rightarrow> int \<Rightarrow> ('b \<times> int) py" where
  [tables]: "RunCommand_StartArgsVector fb b v = RunCommandStartArgsVector fb b v"

definition RunCommandAddEnvp :: "'b flatbuffers \<Rightarrow> 'b \<Rightarrow> int \<Rightarrow> 'b py" where
  [tables]: "RunCommandAddEnvp fb b v = fb_PrependUOffsetTRelativeSlot fb b 2 (fb_uoffset_py_type fb v) 0"

definition RunCommand_AddEnvp :: "'b flatbuffers \<Rightarrow> 'b \<Rightarrow> int \<Rightarrow> 'b py" where
  [tables]: "RunCommand_AddEnvp fb b v = RunCommandAddEnvp fb b v"

definition RunCommandStartEnvpVector :: "'b flatbuffers \<Rightarrow> 'b \<Rightarrow> int \<Rightarrow> ('b \<times> int) py" where
  [tables]: "RunCommandStartEnvpVector fb b v = fb_StartVector fb b 4 v 4"

definition RunCommand_StartEnvpVector :: "'b flatbuffers \<Rightarrow> 'b \<Rightarrow> int \<Rightarrow> ('b \<times> int) py" where
  [tables]: "RunCommand_StartEnvpVector fb b v = RunCommandStartEnvpVector fb b v"

definition RunCommandAddFlags :: "'b flatbuffers \<Rightarrow> 'b \<Rightarrow> int \<Rightarrow> 'b py" where
  [tables]: "RunCommandAddFlags fb b v = fb_PrependSlot fb Uint32Flags b 3 v 0"

definition RunCommand_AddFlags :: "'b flatbuffers \<Rightarrow> 'b \<Rightarrow> int \<Rightarrow> 'b py" where
  [tables]: "RunCommand_AddFlags fb b v = RunCommandAddFlags fb b v"

definition RunCommandAddStackSize :: "'b flatbuffers \<Rightarrow> 'b \<Rightarrow> int \<Rightarrow> 'b py" where
  [tables]: "RunCommandAddStackSize fb b v = fb_PrependSlot fb Uint32Flags b 4 v 0"

definition RunCommand_AddStackSize :: "'b flatbuffers \<Rightarrow> 'b \<Rightarrow> int \<Rightarrow> 'b py" where
  [tables]: "RunCommand_AddStackSize fb b v = RunCommandAddStackSize fb b v"

definition RunCommandAddToWatch :: "'b flatbuffers \<Rightarrow> 'b \<Rightarrow> int \<Rightarrow> 'b py" where
  [tables]: "RunCommandAddToWatch fb b v = fb_PrependUOffsetTRelativeSlot fb b 5 (fb_uoffset_py_type fb v) 0"

definition RunCommand_AddToWatch :: "'b flatbuffers \<Rightarrow> 'b \<Rightarrow> int \<Rightarrow> 'b py" where
  [tables]: "RunCommand_AddToWatch fb b v = RunCommandAddToWatch fb b v"

definition RunCommandStartToWatchVector :: "'b flatbuffers \<Rightarrow> 'b \<Rightarrow> int \<Rightarrow> ('b \<times> int) py" where
  [tables]: "RunCommandStartToWatchVector fb b v = fb_StartVector fb b 4 v 4"

definition RunCommand_StartToWatchVector :: "'b flatbuffers \<Rightarrow> 'b \<Rightarrow> int \<Rightarrow> ('b \<times> int) py" where
  [tables]: "RunCommand_StartToWatchVector fb b v = RunCommandStartToWatchVector fb b v"

definition RunCommandEnd :: "'b flatbuffers \<Rightarrow> 'b \<Rightarrow> ('b \<times> int) py" where
  [tables]: "RunCommandEnd fb b = fb_EndObject fb b"

definition RunCommand_End :: "'b flatbuffers \<Rightarrow> 'b \<Rightarrow> ('b \<times> int) py" where
  [tables]: "RunCommand_End fb b = RunCommandEnd fb b"

subsection \<open>\<^verbatim>\<open>demon/KillProcess.py\<close>\<close>

definition KillProcess_Init :: "bytes \<Rightarrow> int \<Rightarrow> table" where
  [tables]: "KillProcess_Init buf pos = \<lparr>Bytes = buf, Pos = pos\<rparr>"

definition KillProcess_GetRootAs :: "'b flatbuffers \<Rightarrow> bytes \<Rightarrow> int \<Rightarrow> table py" where
  [tables]: "KillProcess_GetRootAs fb buf offset =
     bindE (fb_encode_Get_uoffset fb buf offset) (\<lambda>n. Inr (KillProcess_Init buf (n + offset)))"

definition KillProcess_GetRootAsKillProcess :: "'b flatbuffers \<Rightarrow> bytes \<Rightarrow> int \<Rightarrow> table py" where
  [tables]: "KillProcess_GetRootAsKillProcess fb buf offset = KillProcess_GetRootAs fb buf offset"

definition KillProcess_Pid :: "'b flatbuffers \<Rightarrow> table \<Rightarrow> int py" where
  [tables]: "KillProcess_Pid fb tab = scalar_field fb Int32Flags 4 0 tab"

definition KillProcessStart :: "'b flatbuffers \<Rightarrow> 'b \<Rightarrow> 'b py" where
  [tables]: "KillProcessStart fb b = fb_StartObject fb b 1"

definition KillProcess_Start :: "'b flatbuffers \<Rightarrow> 'b \<Rightarrow> 'b py" where
  [tables]: "KillProcess_Start fb b = KillProcessStart fb b"

definition KillProcessAddPid :: "'b flatbuffers \<Rightarrow> 'b \<Rightarrow> int \<Rightarrow> 'b py" where
  [tables]: "KillProcessAddPid fb b v = fb_PrependSlot fb Int32Flags b 0 v 0"

definition KillProcess_AddPid :: "'b flatbuffers \<Rightarrow> 'b \<Rightarrow> int \<Rightarrow> 'b py" where
  [tables]: "KillProcess_AddPid fb b v = KillProcessAddPid fb b v"

definition KillProcessEnd :: "'b flatbuffers \<Rightarrow> 'b \<Rightarrow> ('b \<times> int) py" where
  [tables]: "KillProcessEnd fb b = fb_EndObject fb b"

definition KillProcess_End :: "'b flatbuffers \<Rightarrow> 'b \<Rightarrow> ('b \<times> int) py" where
  [tables]: "KillProcess_End fb b = KillProcessEnd fb b"

subsection \<open>\<^verbatim>\<open>demon/EstablishTCPConnection.py\<close>\<close>

definition EstablishTCPConnection_Init :: "bytes \<Rightarrow> int \<Rightarrow> table" where
  [tables]: "EstablishTCPConnection_Init buf pos = \<lparr>Bytes = buf, Pos = pos\<rparr>"

definition EstablishTCPConnection_GetRootAs :: "'b flatbuffers \<Rightarrow> bytes \<Rightarrow> int \<Rightarrow> table py" where
  [tables]: "EstablishTCPConnection_GetRootAs fb buf offset =
     bindE (fb_encode_Get_uoffset fb buf offset) (\<lambda>n. Inr (EstablishTCPConnection_Init buf (n + offset)))"

definition EstablishTCPConnection_GetRootAsEstablishTCPConnection :: "'b flatbuffers \<Rightarrow> bytes \<Rightarrow> int \<Rightarrow> table py" where
  [tables]: "EstablishTCPConnection_GetRootAsEstablishTCPConnection fb buf offset = EstablishTCPConnection_GetRootAs fb buf offset"

definition EstablishTCPConnection_Destport :: "'b flatbuffers \<Rightarrow> table \<Rightarrow> int py" where
  [tables]: "EstablishTCPConnection_Destport fb tab = scalar_field fb Uint32Flags 4 0 tab"

definition EstablishTCPConnectionStart :: "'b flatbuffers \<Rightarrow> 'b \<Rightarrow> 'b py" where
  [tables]: "EstablishTCPConnectionStart fb b = fb_StartObject fb b 1"

definition EstablishTCPConnection_Start :: "'b flatbuffers \<Rightarrow> 'b \<Rightarrow> 'b py" where
  [tables]: "EstablishTCPConnection_Start fb b = EstablishTCPConnectionStart fb b"

definition EstablishTCPConnectionAddDestport :: "'b flatbuffers \<Rightarrow> 'b \<Rightarrow> int \<Rightarrow> 'b py" where
  [tables]: "EstablishTCPConnectionAddDestport fb b v = fb_PrependSlot fb Uint32Flags b 0 v 0"

definition EstablishTCPConnection_AddDestport :: "'b flatbuffers \<Rightarrow> 'b \<Rightarrow> int \<Rightarrow> 'b py" where
  [tables]: "EstablishTCPConnection_AddDestport fb b v = EstablishTCPConnectionAddDestport fb b v"

definition EstablishTCPConnectionEnd :: "'b flatbuffers \<Rightarrow> 'b \<Rightarrow> ('b \<times> int) py" where
  [tables]: "EstablishTCPConnectionEnd fb b = fb_EndObject fb b"

definition EstablishTCPConnection_End :: "'b flatbuffers \<Rightarrow> 'b \<Rightarrow> ('b \<times> int) py" where
  [tables]: "EstablishTCPConnection_End fb b = EstablishTCPConnectionEnd fb b"

subsection \<open>\<^verbatim>\<open>demon/EstablishUnixConnection.py\<close>\<close>

definition EstablishUnixConnection_Init :: "bytes \<Rightarrow> int \<Rightarrow> table" where
  [tables]: "EstablishUnixConnection_Init buf pos = \<lparr>Bytes = buf, Pos = pos\<rparr>"

definition EstablishUnixConnection_GetRootAs :: "'b flatbuffers \<Rightarrow> bytes \<Rightarrow> int \<Rightarrow> table py" where
  [tables]: "EstablishUnixConnection_GetRootAs fb buf offset =
     bindE (fb_encode_Get_uoffset fb buf offset) (\<lambda>n. Inr (EstablishUnixConnection_Init buf (n + offset)))"

definition EstablishUnixConnection_GetRootAsEstablishUnixConnection :: "'b flatbuffers \<Rightarrow> bytes \<Rightarrow> int \<Rightarrow> table py" where
  [tables]: "EstablishUnixConnection_GetRootAsEstablishUnixConnection fb buf offset = EstablishUnixConnection_GetRootAs fb buf offset"

definition EstablishUnixConnection_Path :: "'b flatbuffers \<Rightarrow> table \<Rightarrow> bytes option py" where
  [tables]: "EstablishUnixConnection_Path fb tab = string_field fb 4 tab"

definition EstablishUnixConnectionStart :: "'b flatbuffers \<Rightarrow> 'b \<Rightarrow> 'b py" where
  [tables]: "EstablishUnixConnectionStart fb b = fb_StartObject fb b 1"

definition EstablishUnixConnection_Start :: "'b flatbuffers \<Rightarrow> 'b \<Rightarrow> 'b py" where
  [tables]: "EstablishUnixConnection_Start fb b = EstablishUnixConnectionStart fb b"

definition EstablishUnixConnectionAddPath :: "'b flatbuffers \<Rightarrow> 'b \<Rightarrow> int \<Rightarrow> 'b py" where
  [tables]: "EstablishUnixConnectionAddPath fb b v = fb_PrependUOffsetTRelativeSlot fb b 0 (fb_uoffset_py_type fb v) 0"

definition EstablishUnixConnection_AddPath :: "'b flatbuffers \<Rightarrow> 'b \<Rightarrow> int \<Rightarrow> 'b py" where
  [tables]: "EstablishUnixConnection_AddPath fb b v = EstablishUnixConnectionAddPath fb b v"

definition EstablishUnixConnectionEnd :: "'b flatbuffers \<Rightarrow> 'b \<Rightarrow> ('b \<times> int) py" where
  [tables]: "EstablishUnixConnectionEnd fb b = fb_EndObject fb b"

definition EstablishUnixConnection_End :: "'b flatbuffers \<Rightarrow> 'b \<Rightarrow> ('b \<times> int) py" where
  [tables]: "EstablishUnixConnection_End fb b = EstablishUnixConnectionEnd fb b"

subsection \<open>\<^verbatim>\<open>demon/ExecveTerminated.py\<close>\<close>

definition ExecveTerminated_Init :: "bytes \<Rightarrow> int \<Rightarrow> table" where
  [tables]: "ExecveTerminated_Init buf pos = \<lparr>Bytes = buf, Pos = pos\<rparr>"

definition ExecveTerminated_GetRootAs :: "'b flatbuffers \<Rightarrow> bytes \<Rightarrow> int \<Rightarrow> table py" where
  [tables]: "ExecveTerminated_GetRootAs fb buf offset =
     bindE (fb_encode_Get_uoffset fb buf offset) (\<lambda>n. Inr (ExecveTerminated_Init buf (n + offset)))"

definition ExecveTerminated_GetRootAsExecveTerminated :: "'b flatbuffers \<Rightarrow> bytes \<Rightarrow> int \<Rightarrow> table py" where
  [tables]: "ExecveTerminated_GetRootAsExecveTerminated fb buf offset = ExecveTerminated_GetRootAs fb buf offset"

definition ExecveTerminated_Pid :: "'b flatbuffers \<Rightarrow> table \<Rightarrow> int py" where
  [tables]: "ExecveTerminated_Pid fb tab = scalar_field fb Int32Flags 4 0 tab"

definition ExecveTerminated_CommandName :: "'b flatbuffers \<Rightarrow> table \<Rightarrow> bytes option py" where
  [tables]: "ExecveTerminated_CommandName fb tab = string_field fb 6 tab"

definition ExecveTerminated_Success :: "'b flatbuffers \<Rightarrow> table \<Rightarrow> bool py" where
  [tables]: "ExecveTerminated_Success fb tab = bool_field fb 8 tab"

definition ExecveTerminatedStart :: "'b flatbuffers \<Rightarrow> 'b \<Rightarrow> 'b py" where
  [tables]: "ExecveTerminatedStart fb b = fb_StartObject fb b 3"

definition ExecveTerminated_Start :: "'b flatbuffers \<Rightarrow> 'b \<Rightarrow> 'b py" where
  [tables]: "ExecveTerminated_Start fb b = ExecveTerminatedStart fb b"

definition ExecveTerminatedAddPid :: "'b flatbuffers \<Rightarrow> 'b \<Rightarrow> int \<Rightarrow> 'b py" where
  [tables]: "ExecveTerminatedAddPid fb b v = fb_PrependSlot fb Int32Flags b 0 v 0"

definition ExecveTerminated_AddPid :: "'b flatbuffers \<Rightarrow> 'b \<Rightarrow> int \<Rightarrow> 'b py" where
  [tables]: "ExecveTerminated_AddPid fb b v = ExecveTerminatedAddPid fb b v"

definition ExecveTerminatedAddCommandName :: "'b flatbuffers \<Rightarrow> 'b \<Rightarrow> int \<Rightarrow> 'b py" where
  [tables]: "ExecveTerminatedAddCommandName fb b v = fb_PrependUOffsetTRelativeSlot fb b 1 (fb_uoffset_py_type fb v) 0"

definition ExecveTerminated_AddCommandName :: "'b flatbuffers \<Rightarrow> 'b \<Rightarrow> int \<Rightarrow> 'b py" where
  [tables]: "ExecveTerminated_AddCommandName fb b v = ExecveTerminatedAddCommandName fb b v"

definition ExecveTerminatedAddSuccess :: "'b flatbuffers \<Rightarrow> 'b \<Rightarrow> bool \<Rightarrow> 'b py" where
  [tables]: "ExecveTerminatedAddSuccess fb b v = fb_PrependSlot fb BoolFlags b 2 (of_bool v) 0"

definition ExecveTerminated_AddSuccess :: "'b flatbuffers \<Rightarrow> 'b \<Rightarrow> bool \<Rightarrow> 'b py" where
  [tables]: "ExecveTerminated_AddSuccess fb b v = ExecveTerminatedAddSuccess fb b v"

definition ExecveTerminatedEnd :: "'b flatbuffers \<Rightarrow> 'b \<Rightarrow> ('b \<times> int) py" where
  [tables]: "ExecveTerminatedEnd fb b = fb_EndObject fb b"

definition ExecveTerminated_End :: "'b flatbuffers \<Rightarrow> 'b \<Rightarrow> ('b \<times> int) py" where
  [tables]: "ExecveTerminated_End fb b = ExecveTerminatedEnd fb b"

subsection \<open>\<^verbatim>\<open>demon/ProcessLaunched.py\<close>\<close>

definition ProcessLaunched_Init :: "bytes \<Rightarrow> int \<Rightarrow> table" where
  [tables]: "ProcessLaunched_Init buf pos = \<lparr>Bytes = buf, Pos = pos\<rparr>"

definition ProcessLaunched_GetRootAs :: "'b flatbuffers \<Rightarrow> bytes \<Rightarrow> int \<Rightarrow> table py" where
  [tables]: "ProcessLaunched_GetRootAs fb buf offset =
     bindE (fb_encode_Get_uoffset fb buf offset) (\<lambda>n. Inr (ProcessLaunched_Init buf (n + offset)))"

definition ProcessLaunched_GetRootAsProcessLaunched :: "'b flatbuffers \<Rightarrow> bytes \<Rightarrow> int \<Rightarrow> table py" where
  [tables]: "ProcessLaunched_GetRootAsProcessLaunched fb buf offset = ProcessLaunched_GetRootAs fb buf offset"

definition ProcessLaunched_Pid :: "'b flatbuffers \<Rightarrow> table \<Rightarrow> int py" where
  [tables]: "ProcessLaunched_Pid fb tab = scalar_field fb Int32Flags 4 0 tab"

definition ProcessLaunchedStart :: "'b flatbuffers \<Rightarrow> 'b \<Rightarrow> 'b py" where
  [tables]: "ProcessLaunchedStart fb b = fb_StartObject fb b 1"

definition ProcessLaunched_Start :: "'b flatbuffers \<Rightarrow> 'b \<Rightarrow> 'b py" where
  [tables]: "ProcessLaunched_Start fb b = ProcessLaunchedStart fb b"

definition ProcessLaunchedAddPid :: "'b flatbuffers \<Rightarrow> 'b \<Rightarrow> int \<Rightarrow> 'b py" where
  [tables]: "ProcessLaunchedAddPid fb b v = fb_PrependSlot fb Int32Flags b 0 v 0"

definition ProcessLaunched_AddPid :: "'b flatbuffers \<Rightarrow> 'b \<Rightarrow> int \<Rightarrow> 'b py" where
  [tables]: "ProcessLaunched_AddPid fb b v = ProcessLaunchedAddPid fb b v"

definition ProcessLaunchedEnd :: "'b flatbuffers \<Rightarrow> 'b \<Rightarrow> ('b \<times> int) py" where
  [tables]: "ProcessLaunchedEnd fb b = fb_EndObject fb b"

definition ProcessLaunched_End :: "'b flatbuffers \<Rightarrow> 'b \<Rightarrow> ('b \<times> int) py" where
  [tables]: "ProcessLaunched_End fb b = ProcessLaunchedEnd fb b"

subsection \<open>\<^verbatim>\<open>demon/ChildCreationError.py\<close>\<close>

definition ChildCreationError_Init :: "bytes \<Rightarrow> int \<Rightarrow> table" where
  [tables]: "ChildCreationError_Init buf pos = \<lparr>Bytes = buf, Pos = pos\<rparr>"

definition ChildCreationError_GetRootAs :: "'b flatbuffers \<Rightarrow> bytes \<Rightarrow> int \<Rightarrow> table py" where
  [tables]: "ChildCreationError_GetRootAs fb buf offset =
     bindE (fb_encode_Get_uoffset fb buf offset) (\<lambda>n. Inr (ChildCreationError_Init buf (n + offset)))"

definition ChildCreationError_GetRootAsChildCreationError :: "'b flatbuffers \<Rightarrow> bytes \<Rightarrow> int \<Rightarrow> table py" where
  [tables]: "ChildCreationError_GetRootAsChildCreationError fb buf offset = ChildCreationError_GetRootAs fb buf offset"

definition ChildCreationError_ErrorCode :: "'b flatbuffers \<Rightarrow> table \<Rightarrow> int py" where
  [tables]: "ChildCreationError_ErrorCode fb tab = scalar_field fb Uint32Flags 4 0 tab"

definition ChildCreationErrorStart :: "'b flatbuffers \<Rightarrow> 'b \<Rightarrow> 'b py" where
  [tables]: "ChildCreationErrorStart fb b = fb_StartObject fb b 1"

definition ChildCreationError_Start :: "'b flatbuffers \<Rightarrow> 'b \<Rightarrow> 'b py" where
  [tables]: "ChildCreationError_Start fb b = ChildCreationErrorStart fb b"

definition ChildCreationErrorAddErrorCode :: "'b flatbuffers \<Rightarrow> 'b \<Rightarrow> int \<Rightarrow> 'b py" where
  [tables]: "ChildCreationErrorAddErrorCode fb b v = fb_PrependSlot fb Uint32Flags b 0 v 0"

definition ChildCreationError_AddErrorCode :: "'b flatbuffers \<Rightarrow> 'b \<Rightarrow> int \<Rightarrow> 'b py" where
  [tables]: "ChildCreationError_AddErrorCode fb b v = ChildCreationErrorAddErrorCode fb b v"

definition ChildCreationErrorEnd :: "'b flatbuffers \<Rightarrow> 'b \<Rightarrow> ('b \<times> int) py" where
  [tables]: "ChildCreationErrorEnd fb b = fb_EndObject fb b"

definition ChildCreationError_End :: "'b flatbuffers \<Rightarrow> 'b \<Rightarrow> ('b \<times> int) py" where
  [tables]: "ChildCreationError_End fb b = ChildCreationErrorEnd fb b"

subsection \<open>\<^verbatim>\<open>demon/ProcessTerminated.py\<close>\<close>

definition ProcessTerminated_Init :: "bytes \<Rightarrow> int \<Rightarrow> table" where
  [tables]: "ProcessTerminated_Init buf pos = \<lparr>Bytes = buf, Pos = pos\<rparr>"

definition ProcessTerminated_GetRootAs :: "'b flatbuffers \<Rightarrow> bytes \<Rightarrow> int \<Rightarrow> table py" where
  [tables]: "ProcessTerminated_GetRootAs fb buf offset =
     bindE (fb_encode_Get_uoffset fb buf offset) (\<lambda>n. Inr (ProcessTerminated_Init buf (n + offset)))"

definition ProcessTerminated_GetRootAsProcessTerminated :: "'b flatbuffers \<Rightarrow> bytes \<Rightarrow> int \<Rightarrow> table py" where
  [tables]: "ProcessTerminated_GetRootAsProcessTerminated fb buf offset = ProcessTerminated_GetRootAs fb buf offset"

definition ProcessTerminated_Pid :: "'b flatbuffers \<Rightarrow> table \<Rightarrow> int py" where
  [tables]: "ProcessTerminated_Pid fb tab = scalar_field fb Int32Flags 4 0 tab"

definition ProcessTerminated_ErrorCode :: "'b flatbuffers \<Rightarrow> table \<Rightarrow> int py" where
  [tables]: "ProcessTerminated_ErrorCode fb tab = scalar_field fb Uint32Flags 6 0 tab"

definition ProcessTerminatedStart :: "'b flatbuffers \<Rightarrow> 'b \<Rightarrow> 'b py" where
  [tables]: "ProcessTerminatedStart fb b = fb_StartObject fb b 2"

definition ProcessTerminated_Start :: "'b flatbuffers \<Rightarrow> 'b \<Rightarrow> 'b py" where
  [tables]: "ProcessTerminated_Start fb b = ProcessTerminatedStart fb b"

definition ProcessTerminatedAddPid :: "'b flatbuffers \<Rightarrow> 'b \<Rightarrow> int \<Rightarrow> 'b py" where
  [tables]: "ProcessTerminatedAddPid fb b v = fb_PrependSlot fb Int32Flags b 0 v 0"

definition ProcessTerminated_AddPid :: "'b flatbuffers \<Rightarrow> 'b \<Rightarrow> int \<Rightarrow> 'b py" where
  [tables]: "ProcessTerminated_AddPid fb b v = ProcessTerminatedAddPid fb b v"

definition ProcessTerminatedAddErrorCode :: "'b flatbuffers \<Rightarrow> 'b \<Rightarrow> int \<Rightarrow> 'b py" where
  [tables]: "ProcessTerminatedAddErrorCode fb b v = fb_PrependSlot fb Uint32Flags b 1 v 0"

definition ProcessTerminated_AddErrorCode :: "'b flatbuffers \<Rightarrow> 'b \<Rightarrow> int \<Rightarrow> 'b py" where
  [tables]: "ProcessTerminated_AddErrorCode fb b v = ProcessTerminatedAddErrorCode fb b v"

definition ProcessTerminatedEnd :: "'b flatbuffers \<Rightarrow> 'b \<Rightarrow> ('b \<times> int) py" where
  [tables]: "ProcessTerminatedEnd fb b = fb_EndObject fb b"

definition ProcessTerminated_End :: "'b flatbuffers \<Rightarrow> 'b \<Rightarrow> ('b \<times> int) py" where
  [tables]: "ProcessTerminated_End fb b = ProcessTerminatedEnd fb b"

subsection \<open>\<^verbatim>\<open>demon/TCPSocketListening.py\<close>\<close>

definition TCPSocketListening_Init :: "bytes \<Rightarrow> int \<Rightarrow> table" where
  [tables]: "TCPSocketListening_Init buf pos = \<lparr>Bytes = buf, Pos = pos\<rparr>"

definition TCPSocketListening_GetRootAs :: "'b flatbuffers \<Rightarrow> bytes \<Rightarrow> int \<Rightarrow> table py" where
  [tables]: "TCPSocketListening_GetRootAs fb buf offset =
     bindE (fb_encode_Get_uoffset fb buf offset) (\<lambda>n. Inr (TCPSocketListening_Init buf (n + offset)))"

definition TCPSocketListening_GetRootAsTCPSocketListening :: "'b flatbuffers \<Rightarrow> bytes \<Rightarrow> int \<Rightarrow> table py" where
  [tables]: "TCPSocketListening_GetRootAsTCPSocketListening fb buf offset = TCPSocketListening_GetRootAs fb buf offset"

definition TCPSocketListening_Port :: "'b flatbuffers \<Rightarrow> table \<Rightarrow> int py" where
  [tables]: "TCPSocketListening_Port fb tab = scalar_field fb Uint16Flags 4 0 tab"

definition TCPSocketListeningStart :: "'b flatbuffers \<Rightarrow> 'b \<Rightarrow> 'b py" where
  [tables]: "TCPSocketListeningStart fb b = fb_StartObject fb b 1"

definition TCPSocketListening_Start :: "'b flatbuffers \<Rightarrow> 'b \<Rightarrow> 'b py" where
  [tables]: "TCPSocketListening_Start fb b = TCPSocketListeningStart fb b"

definition TCPSocketListeningAddPort :: "'b flatbuffers \<Rightarrow> 'b \<Rightarrow> int \<Rightarrow> 'b py" where
  [tables]: "TCPSocketListeningAddPort fb b v = fb_PrependSlot fb Uint16Flags b 0 v 0"

definition TCPSocketListening_AddPort :: "'b flatbuffers \<Rightarrow> 'b \<Rightarrow> int \<Rightarrow> 'b py" where
  [tables]: "TCPSocketListening_AddPort fb b v = TCPSocketListeningAddPort fb b v"

definition TCPSocketListeningEnd :: "'b flatbuffers \<Rightarrow> 'b \<Rightarrow> ('b \<times> int) py" where
  [tables]: "TCPSocketListeningEnd fb b = fb_EndObject fb b"

definition TCPSocketListening_End :: "'b flatbuffers \<Rightarrow> 'b \<Rightarrow> ('b \<times> int) py" where
  [tables]: "TCPSocketListening_End fb b = TCPSocketListeningEnd fb b"

subsection \<open>\<^verbatim>\<open>demon/InotifyPathUpdated.py\<close>\<close>

definition InotifyPathUpdated_Init :: "bytes \<Rightarrow> int \<Rightarrow> table" where
  [tables]: "InotifyPathUpdated_Init buf pos = \<lparr>Bytes = buf, Pos = pos\<rparr>"

definition InotifyPathUpdated_GetRootAs :: "'b flatbuffers \<Rightarrow> bytes \<Rightarrow> int \<Rightarrow> table py" where
  [tables]: "InotifyPathUpdated_GetRootAs fb buf offset =
     bindE (fb_encode_Get_uoffset fb buf offset) (\<lambda>n. Inr (InotifyPathUpdated_Init buf (n + offset)))"

definition InotifyPathUpdated_GetRootAsInotifyPathUpdated :: "'b flatbuffers \<Rightarrow> bytes \<Rightarrow> int \<Rightarrow> table py" where
  [tables]: "InotifyPathUpdated_GetRootAsInotifyPathUpdated fb buf offset = InotifyPathUpdated_GetRootAs fb buf offset"

definition InotifyPathUpdated_Path :: "'b flatbuffers \<Rightarrow> table \<Rightarrow> bytes option py" where
  [tables]: "InotifyPathUpdated_Path fb tab = string_field fb 4 tab"

definition InotifyPathUpdated_TriggerEvents :: "'b flatbuffers \<Rightarrow> table \<Rightarrow> int py" where
  [tables]: "InotifyPathUpdated_TriggerEvents fb tab = scalar_field fb Int8Flags 6 0 tab"

definition InotifyPathUpdated_Size :: "'b flatbuffers \<Rightarrow> table \<Rightarrow> int py" where
  [tables]: "InotifyPathUpdated_Size fb tab = scalar_field fb Uint32Flags 8 0 tab"

definition InotifyPathUpdated_SizeLimit :: "'b flatbuffers \<Rightarrow> table \<Rightarrow> int py" where
  [tables]: "InotifyPathUpdated_SizeLimit fb tab = scalar_field fb Uint32Flags 10 0 tab"

definition InotifyPathUpdatedStart :: "'b flatbuffers \<Rightarrow> 'b \<Rightarrow> 'b py" where
  [tables]: "InotifyPathUpdatedStart fb b = fb_StartObject fb b 4"

definition InotifyPathUpdated_Start :: "'b flatbuffers \<Rightarrow> 'b \<Rightarrow> 'b py" where
  [tables]: "InotifyPathUpdated_Start fb b = InotifyPathUpdatedStart fb b"

definition InotifyPathUpdatedAddPath :: "'b flatbuffers \<Rightarrow> 'b \<Rightarrow> int \<Rightarrow> 'b py" where
  [tables]: "InotifyPathUpdatedAddPath fb b v = fb_PrependUOffsetTRelativeSlot fb b 0 (fb_uoffset_py_type fb v) 0"

definition InotifyPathUpdated_AddPath :: "'b flatbuffers \<Rightarrow> 'b \<Rightarrow> int \<Rightarrow> 'b py" where
  [tables]: "InotifyPathUpdated_AddPath fb b v = InotifyPathUpdatedAddPath fb b v"

definition InotifyPathUpdatedAddTriggerEvents :: "'b flatbuffers \<Rightarrow> 'b \<Rightarrow> int \<Rightarrow> 'b py" where
  [tables]: "InotifyPathUpdatedAddTriggerEvents fb b v = fb_PrependSlot fb Int8Flags b 1 v 0"

definition InotifyPathUpdated_AddTriggerEvents :: "'b flatbuffers \<Rightarrow> 'b \<Rightarrow> int \<Rightarrow> 'b py" where
  [tables]: "InotifyPathUpdated_AddTriggerEvents fb b v = InotifyPathUpdatedAddTriggerEvents fb b v"

definition InotifyPathUpdatedAddSize :: "'b flatbuffers \<Rightarrow> 'b \<Rightarrow> int \<Rightarrow> 'b py" where
  [tables]: "InotifyPathUpdatedAddSize fb b v = fb_PrependSlot fb Uint32Flags b 2 v 0"

definition InotifyPathUpdated_AddSize :: "'b flatbuffers \<Rightarrow> 'b \<Rightarrow> int \<Rightarrow> 'b py" where
  [tables]: "InotifyPathUpdated_AddSize fb b v = InotifyPathUpdatedAddSize fb b v"

definition InotifyPathUpdatedAddSizeLimit :: "'b flatbuffers \<Rightarrow> 'b \<Rightarrow> int \<Rightarrow> 'b py" where
  [tables]: "InotifyPathUpdatedAddSizeLimit fb b v = fb_PrependSlot fb Uint32Flags b 3 v 0"

definition InotifyPathUpdated_AddSizeLimit :: "'b flatbuffers \<Rightarrow> 'b \<Rightarrow> int \<Rightarrow> 'b py" where
  [tables]: "InotifyPathUpdated_AddSizeLimit fb b v = InotifyPathUpdatedAddSizeLimit fb b v"

definition InotifyPathUpdatedEnd :: "'b flatbuffers \<Rightarrow> 'b \<Rightarrow> ('b \<times> int) py" where
  [tables]: "InotifyPathUpdatedEnd fb b = fb_EndObject fb b"

definition InotifyPathUpdated_End :: "'b flatbuffers \<Rightarrow> 'b \<Rightarrow> ('b \<times> int) py" where
  [tables]: "InotifyPathUpdated_End fb b = InotifyPathUpdatedEnd fb b"

subsection \<open>\<^verbatim>\<open>demon/InotifyWatchListUpdated.py\<close>\<close>

definition InotifyWatchListUpdated_Init :: "bytes \<Rightarrow> int \<Rightarrow> table" where
  [tables]: "InotifyWatchListUpdated_Init buf pos = \<lparr>Bytes = buf, Pos = pos\<rparr>"

definition InotifyWatchListUpdated_GetRootAs :: "'b flatbuffers \<Rightarrow> bytes \<Rightarrow> int \<Rightarrow> table py" where
  [tables]: "InotifyWatchListUpdated_GetRootAs fb buf offset =
     bindE (fb_encode_Get_uoffset fb buf offset) (\<lambda>n. Inr (InotifyWatchListUpdated_Init buf (n + offset)))"

definition InotifyWatchListUpdated_GetRootAsInotifyWatchListUpdated :: "'b flatbuffers \<Rightarrow> bytes \<Rightarrow> int \<Rightarrow> table py" where
  [tables]: "InotifyWatchListUpdated_GetRootAsInotifyWatchListUpdated fb buf offset = InotifyWatchListUpdated_GetRootAs fb buf offset"

definition InotifyWatchListUpdated_Path :: "'b flatbuffers \<Rightarrow> table \<Rightarrow> bytes option py" where
  [tables]: "InotifyWatchListUpdated_Path fb tab = string_field fb 4 tab"

definition InotifyWatchListUpdatedStart :: "'b flatbuffers \<Rightarrow> 'b \<Rightarrow> 'b py" where
  [tables]: "InotifyWatchListUpdatedStart fb b = fb_StartObject fb b 1"

definition InotifyWatchListUpdated_Start :: "'b flatbuffers \<Rightarrow> 'b \<Rightarrow> 'b py" where
  [tables]: "InotifyWatchListUpdated_Start fb b = InotifyWatchListUpdatedStart fb b"

definition InotifyWatchListUpdatedAddPath :: "'b flatbuffers \<Rightarrow> 'b \<Rightarrow> int \<Rightarrow> 'b py" where
  [tables]: "InotifyWatchListUpdatedAddPath fb b v = fb_PrependUOffsetTRelativeSlot fb b 0 (fb_uoffset_py_type fb v) 0"

definition InotifyWatchListUpdated_AddPath :: "'b flatbuffers \<Rightarrow> 'b \<Rightarrow> int \<Rightarrow> 'b py" where
  [tables]: "InotifyWatchListUpdated_AddPath fb b v = InotifyWatchListUpdatedAddPath fb b v"

definition InotifyWatchListUpdatedEnd :: "'b flatbuffers \<Rightarrow> 'b \<Rightarrow> ('b \<times> int) py" where
  [tables]: "InotifyWatchListUpdatedEnd fb b = fb_EndObject fb b"

definition InotifyWatchListUpdated_End :: "'b flatbuffers \<Rightarrow> 'b \<Rightarrow> ('b \<times> int) py" where
  [tables]: "InotifyWatchListUpdated_End fb b = InotifyWatchListUpdatedEnd fb b"

subsection \<open>\<^verbatim>\<open>demon/SocketWatched.py\<close>\<close>

definition SocketWatched_Init :: "bytes \<Rightarrow> int \<Rightarrow> table" where
  [tables]: "SocketWatched_Init buf pos = \<lparr>Bytes = buf, Pos = pos\<rparr>"

definition SocketWatched_GetRootAs :: "'b flatbuffers \<Rightarrow> bytes \<Rightarrow> int \<Rightarrow> table py" where
  [tables]: "SocketWatched_GetRootAs fb buf offset =
     bindE (fb_encode_Get_uoffset fb buf offset) (\<lambda>n. Inr (SocketWatched_Init buf (n + offset)))"

definition SocketWatched_GetRootAsSocketWatched :: "'b flatbuffers \<Rightarrow> bytes \<Rightarrow> int \<Rightarrow> table py" where
  [tables]: "SocketWatched_GetRootAsSocketWatched fb buf offset = SocketWatched_GetRootAs fb buf offset"

definition SocketWatched_Port :: "'b flatbuffers \<Rightarrow> table \<Rightarrow> int py" where
  [tables]: "SocketWatched_Port fb tab = scalar_field fb Int32Flags 4 0 tab"

definition SocketWatchedStart :: "'b flatbuffers \<Rightarrow> 'b \<Rightarrow> 'b py" where
  [tables]: "SocketWatchedStart fb b = fb_StartObject fb b 1"

definition SocketWatched_Start :: "'b flatbuffers \<Rightarrow> 'b \<Rightarrow> 'b py" where
  [tables]: "SocketWatched_Start fb b = SocketWatchedStart fb b"

definition SocketWatchedAddPort :: "'b flatbuffers \<Rightarrow> 'b \<Rightarrow> int \<Rightarrow> 'b py" where
  [tables]: "SocketWatchedAddPort fb b v = fb_PrependSlot fb Int32Flags b 0 v 0"

definition SocketWatched_AddPort :: "'b flatbuffers \<Rightarrow> 'b \<Rightarrow> int \<Rightarrow> 'b py" where
  [tables]: "SocketWatched_AddPort fb b v = SocketWatchedAddPort fb b v"

definition SocketWatchedEnd :: "'b flatbuffers \<Rightarrow> 'b \<Rightarrow> ('b \<times> int) py" where
  [tables]: "SocketWatchedEnd fb b = fb_EndObject fb b"

definition SocketWatched_End :: "'b flatbuffers \<Rightarrow> 'b \<Rightarrow> ('b \<times> int) py" where
  [tables]: "SocketWatched_End fb b = SocketWatchedEnd fb b"

subsection \<open>\<^verbatim>\<open>demon/SocketWatchTerminated.py\<close>\<close>

definition SocketWatchTerminated_Init :: "bytes \<Rightarrow> int \<Rightarrow> table" where
  [tables]: "SocketWatchTerminated_Init buf pos = \<lparr>Bytes = buf, Pos = pos\<rparr>"

definition SocketWatchTerminated_GetRootAs :: "'b flatbuffers \<Rightarrow> bytes \<Rightarrow> int \<Rightarrow> table py" where
  [tables]: "SocketWatchTerminated_GetRootAs fb buf offset =
     bindE (fb_encode_Get_uoffset fb buf offset) (\<lambda>n. Inr (SocketWatchTerminated_Init buf (n + offset)))"

definition SocketWatchTerminated_GetRootAsSocketWatchTerminated :: "'b flatbuffers \<Rightarrow> bytes \<Rightarrow> int \<Rightarrow> table py" where
  [tables]: "SocketWatchTerminated_GetRootAsSocketWatchTerminated fb buf offset = SocketWatchTerminated_GetRootAs fb buf offset"

definition SocketWatchTerminated_Port :: "'b flatbuffers \<Rightarrow> table \<Rightarrow> int py" where
  [tables]: "SocketWatchTerminated_Port fb tab = scalar_field fb Int32Flags 4 0 tab"

definition SocketWatchTerminated_State :: "'b flatbuffers \<Rightarrow> table \<Rightarrow> int py" where
  [tables]: "SocketWatchTerminated_State fb tab = scalar_field fb Int8Flags 6 0 tab"

definition SocketWatchTerminatedStart :: "'b flatbuffers \<Rightarrow> 'b \<Rightarrow> 'b py" where
  [tables]: "SocketWatchTerminatedStart fb b = fb_StartObject fb b 2"

definition SocketWatchTerminated_Start :: "'b flatbuffers \<Rightarrow> 'b \<Rightarrow> 'b py" where
  [tables]: "SocketWatchTerminated_Start fb b = SocketWatchTerminatedStart fb b"

definition SocketWatchTerminatedAddPort :: "'b flatbuffers \<Rightarrow> 'b \<Rightarrow> int \<Rightarrow> 'b py" where
  [tables]: "SocketWatchTerminatedAddPort fb b v = fb_PrependSlot fb Int32Flags b 0 v 0"

definition SocketWatchTerminated_AddPort :: "'b flatbuffers \<Rightarrow> 'b \<Rightarrow> int \<Rightarrow> 'b py" where
  [tables]: "SocketWatchTerminated_AddPort fb b v = SocketWatchTerminatedAddPort fb b v"

definition SocketWatchTerminatedAddState :: "'b flatbuffers \<Rightarrow> 'b \<Rightarrow> int \<Rightarrow> 'b py" where
  [tables]: "SocketWatchTerminatedAddState fb b v = fb_PrependSlot fb Int8Flags b 1 v 0"

definition SocketWatchTerminated_AddState :: "'b flatbuffers \<Rightarrow> 'b \<Rightarrow> int \<Rightarrow> 'b py" where
  [tables]: "SocketWatchTerminated_AddState fb b v = SocketWatchTerminatedAddState fb b v"

definition SocketWatchTerminatedEnd :: "'b flatbuffers \<Rightarrow> 'b \<Rightarrow> ('b \<times> int) py" where
  [tables]: "SocketWatchTerminatedEnd fb b = fb_EndObject fb b"

definition SocketWatchTerminated_End :: "'b flatbuffers \<Rightarrow> 'b \<Rightarrow> ('b \<times> int) py" where
  [tables]: "SocketWatchTerminated_End fb b = SocketWatchTerminatedEnd fb b"

subsection \<open>\<^verbatim>\<open>demon/Message.py\<close>\<close>

definition Message_Init :: "bytes \<Rightarrow> int \<Rightarrow> table" where
  [tables]: "Message_Init buf pos = \<lparr>Bytes = buf, Pos = pos\<rparr>"

definition Message_GetRootAs :: "'b flatbuffers \<Rightarrow> bytes \<Rightarrow> int \<Rightarrow> table py" where
  [tables]: "Message_GetRootAs fb buf offset =
     bindE (fb_encode_Get_uoffset fb buf offset) (\<lambda>n. Inr (Message_Init buf (n + offset)))"

definition Message_GetRootAsMessage :: "'b flatbuffers \<Rightarrow> bytes \<Rightarrow> int \<Rightarrow> table py" where
  [tables]: "Message_GetRootAsMessage fb buf offset = Message_GetRootAs fb buf offset"

definition Message_EventsType :: "'b flatbuffers \<Rightarrow> table \<Rightarrow> int py" where
  [tables]: "Message_EventsType fb tab = scalar_field fb Uint8Flags 4 0 tab"

definition Message_Events :: "'b flatbuffers \<Rightarrow> table \<Rightarrow> table option py" where
  [tables]: "Message_Events fb tab = union_field fb 6 tab"

definition MessageStart :: "'b flatbuffers \<Rightarrow> 'b \<Rightarrow> 'b py" where
  [tables]: "MessageStart fb b = fb_StartObject fb b 2"

definition Message_Start :: "'b flatbuffers \<Rightarrow> 'b \<Rightarrow> 'b py" where
  [tables]: "Message_Start fb b = MessageStart fb b"

definition MessageAddEventsType :: "'b flatbuffers \<Rightarrow> 'b \<Rightarrow> int \<Rightarrow> 'b py" where
  [tables]: "MessageAddEventsType fb b v = fb_PrependSlot fb Uint8Flags b 0 v 0"

definition Message_AddEventsType :: "'b flatbuffers \<Rightarrow> 'b \<Rightarrow> int \<Rightarrow> 'b py" where
  [tables]: "Message_AddEventsType fb b v = MessageAddEventsType fb b v"

definition MessageAddEvents :: "'b flatbuffers \<Rightarrow> 'b \<Rightarrow> int \<Rightarrow> 'b py" where
  [tables]: "MessageAddEvents fb b v = fb_PrependUOffsetTRelativeSlot fb b 1 (fb_uoffset_py_type fb v) 0"

definition Message_AddEvents :: "'b flatbuffers \<Rightarrow> 'b \<Rightarrow> int \<Rightarrow> 'b py" where
  [tables]: "Message_AddEvents fb b v = MessageAddEvents fb b v"

definition MessageEnd :: "'b flatbuffers \<Rightarrow> 'b \<Rightarrow> ('b \<times> int) py" where
  [tables]: "MessageEnd fb b = fb_EndObject fb b"

definition Message_End :: "'b flatbuffers \<Rightarrow> 'b \<Rightarrow> ('b \<times> int) py" where
  [tables]: "Message_End fb b = MessageEnd fb b"

end
