(* ===== verification/Message_Spec.thy ===== *)
theory Message_Spec
  imports Demon_Tables
begin

text \<open>
  The messages of the protocol as values, independent of bytes: the members of the
  schema's \<^verbatim>\<open>Event\<close> union (\<^verbatim>\<open>flatbuffer/demon.fbs\<close>).  \<open>carries fb enc buf m\<close> says
  that the buffer \<open>buf\<close> is an encoding of the message \<open>m\<close>, whoever wrote it and
  however absent defaults are represented; the lemmas in the reader's locale say what every
  accessor of the generated modules returns on such a buffer.
\<close>

section \<open>Messages\<close>

datatype watch = WatchInotify bytes int int | WatchSocket int

record run_command =
  rc_path :: bytes
  rc_args :: "bytes list"
  rc_envp :: "bytes list"
  rc_flags :: int
  rc_stack_size :: int
  rc_to_watch :: "watch list"

datatype message =
    MRunCommand run_command
  | MKillProcess int
  | MEstablishTCPConnection int
  | MEstablishUnixConnection bytes
  | MExecveTerminated int bytes bool
  | MProcessLaunched int
  | MChildCreationError int
  | MProcessTerminated int int
  | MTCPSocketListening int
  | MInotifyPathUpdated bytes int int int
  | MInotifyWatchListUpdated bytes
  | MSocketWatched int
  | MSocketWatchTerminated int int

text \<open>The tag of a union member is its position in the schema's union, from 1.\<close>

fun event_code :: "message \<Rightarrow> int" where
  "event_code (MRunCommand _) = 1"
| "event_code (MKillProcess _) = 2"
| "event_code (MEstablishTCPConnection _) = 3"
| "event_code (MEstablishUnixConnection _) = 4"
| "event_code (MExecveTerminated _ _ _) = 5"
| "event_code (MProcessLaunched _) = 6"
| "event_code (MChildCreationError _) = 7"
| "event_code (MProcessTerminated _ _) = 8"
| "event_code (MTCPSocketListening _) = 9"
| "event_code (MInotifyPathUpdated _ _ _ _) = 10"
| "event_code (MInotifyWatchListUpdated _) = 11"
| "event_code (MSocketWatched _) = 12"
| "event_code (MSocketWatchTerminated _ _) = 13"

section \<open>Messages in a store\<close>

text \<open>A scalar slot holds its value, or is absent when the value is the default 0.\<close>

definition has_scalar :: "(nat \<rightharpoonup> fval) \<Rightarrow> nat \<Rightarrow> nflags \<Rightarrow> int \<Rightarrow> bool" where
  "has_scalar fs i fl x \<longleftrightarrow> fs i = Some (Scalar fl x) \<or> fs i = None \<and> x = 0"

definition has_string :: "store \<Rightarrow> (nat \<rightharpoonup> fval) \<Rightarrow> nat \<Rightarrow> bytes \<Rightarrow> bool" where
  "has_string S fs i bs \<longleftrightarrow> (\<exists>r. fs i = Some (Ref r) \<and> S r = Some (StrNode bs))"

definition has_vector :: "store \<Rightarrow> (nat \<rightharpoonup> fval) \<Rightarrow> nat \<Rightarrow> int list \<Rightarrow> bool" where
  "has_vector S fs i rs \<longleftrightarrow> (\<exists>r. fs i = Some (Ref r) \<and> S r = Some (VecNode rs))"

definition has_table :: "store \<Rightarrow> (nat \<rightharpoonup> fval) \<Rightarrow> nat \<Rightarrow> int \<Rightarrow> (nat \<rightharpoonup> fval) \<Rightarrow> bool" where
  "has_table S fs i r fs' \<longleftrightarrow> fs i = Some (Ref r) \<and> S r = Some (TableNode fs')"

fun watch_fields :: "store \<Rightarrow> (nat \<rightharpoonup> fval) \<Rightarrow> watch \<Rightarrow> bool" where
  "watch_fields S fs (WatchInotify p m s) =
     (fs 0 = Some (Scalar Uint8Flags 1) \<and> (\<exists>r fs'. has_table S fs 1 r fs' \<and>
        has_string S fs' 0 p \<and> has_scalar fs' 1 Int32Flags m \<and> has_scalar fs' 2 Uint32Flags s))"
| "watch_fields S fs (WatchSocket p) =
     (fs 0 = Some (Scalar Uint8Flags 2) \<and> (\<exists>r fs'. has_table S fs 1 r fs' \<and> has_scalar fs' 0 Uint32Flags p))"

definition str_at :: "store \<Rightarrow> int \<Rightarrow> bytes \<Rightarrow> bool" where
  "str_at S r bs \<longleftrightarrow> S r = Some (StrNode bs)"

definition watch_at :: "store \<Rightarrow> int \<Rightarrow> watch \<Rightarrow> bool" where
  "watch_at S r w \<longleftrightarrow> (\<exists>fs. S r = Some (TableNode fs) \<and> watch_fields S fs w)"

fun body_fields :: "store \<Rightarrow> (nat \<rightharpoonup> fval) \<Rightarrow> message \<Rightarrow> bool" where
  "body_fields S fs (MRunCommand c) =
     (has_string S fs 0 (rc_path c) \<and>
      (\<exists>rs. has_vector S fs 1 rs \<and> list_all2 (str_at S) rs (rc_args c)) \<and>
      (\<exists>rs. has_vector S fs 2 rs \<and> list_all2 (str_at S) rs (rc_envp c)) \<and>
      has_scalar fs 3 Uint32Flags (rc_flags c) \<and> has_scalar fs 4 Uint32Flags (rc_stack_size c) \<and>
      (\<exists>rs. has_vector S fs 5 rs \<and> list_all2 (watch_at S) rs (rc_to_watch c)))"
| "body_fields S fs (MKillProcess pid) = has_scalar fs 0 Int32Flags pid"
| "body_fields S fs (MEstablishTCPConnection p) = has_scalar fs 0 Uint32Flags p"
| "body_fields S fs (MEstablishUnixConnection p) = has_string S fs 0 p"
| "body_fields S fs (MExecveTerminated pid name ok) =
     (has_scalar fs 0 Int32Flags pid \<and> has_string S fs 1 name \<and> has_scalar fs 2 BoolFlags (of_bool ok))"
| "body_fields S fs (MProcessLaunched pid) = has_scalar fs 0 Int32Flags pid"
| "body_fields S fs (MChildCreationError e) = has_scalar fs 0 Uint32Flags e"
| "body_fields S fs (MProcessTerminated pid e) = (has_scalar fs 0 Int32Flags pid \<and> has_scalar fs 1 Uint32Flags e)"
| "body_fields S fs (MTCPSocketListening p) = has_scalar fs 0 Uint16Flags p"
| "body_fields S fs (MInotifyPathUpdated p t s l) =
     (has_string S fs 0 p \<and> has_scalar fs 1 Int8Flags t \<and> has_scalar fs 2 Uint32Flags s \<and>
      has_scalar fs 3 Uint32Flags l)"
| "body_fields S fs (MInotifyWatchListUpdated p) = has_string S fs 0 p"
| "body_fields S fs (MSocketWatched p) = has_scalar fs 0 Int32Flags p"
| "body_fields S fs (MSocketWatchTerminated p s) = (has_scalar fs 0 Int32Flags p \<and> has_scalar fs 1 Int8Flags s)"

definition carries_at :: "store \<Rightarrow> int \<Rightarrow> message \<Rightarrow> bool" where
  "carries_at S root m \<longleftrightarrow> (\<exists>fs body fs'. S root = Some (TableNode fs) \<and>
     fs 0 = Some (Scalar Uint8Flags (event_code m)) \<and> has_table S fs 1 body fs' \<and> body_fields S fs' m)"

definition carries :: "'b flatbuffers \<Rightarrow> (bytes \<Rightarrow> store \<Rightarrow> bool) \<Rightarrow> bytes \<Rightarrow> message \<Rightarrow> bool" where
  "carries fb enc buf m \<longleftrightarrow>
     (\<exists>S root. enc buf S \<and> fb_encode_Get_uoffset fb buf 0 = Inr (pos_of buf root) \<and> carries_at S root m)"

section \<open>Growing the store keeps its messages\<close>

lemma map_le_fresh: "S r = None \<Longrightarrow> S \<subseteq>\<^sub>m S(r \<mapsto> nd)"
  by (auto simp: map_le_def)

lemma map_leD: "S \<subseteq>\<^sub>m T \<Longrightarrow> S r = Some nd \<Longrightarrow> T r = Some nd"
  by (auto simp: map_le_def dom_def)

lemma map_le_upd: "S(r \<mapsto> nd) \<subseteq>\<^sub>m T \<Longrightarrow> T r = Some nd"
  by (auto simp: map_le_def)

lemma map_le_upd2: "S(q \<mapsto> nq, r \<mapsto> nr) \<subseteq>\<^sub>m T \<Longrightarrow> q \<noteq> r \<Longrightarrow> T q = Some nq"
  by (auto simp: map_le_def split: if_splits)

lemma has_string_mono: "S \<subseteq>\<^sub>m T \<Longrightarrow> has_string S fs i bs \<Longrightarrow> has_string T fs i bs"
  by (auto simp: has_string_def dest: map_leD)

lemma has_vector_mono: "S \<subseteq>\<^sub>m T \<Longrightarrow> has_vector S fs i rs \<Longrightarrow> has_vector T fs i rs"
  by (auto simp: has_vector_def dest: map_leD)

lemma has_table_mono: "S \<subseteq>\<^sub>m T \<Longrightarrow> has_table S fs i r fs' \<Longrightarrow> has_table T fs i r fs'"
  by (auto simp: has_table_def dest: map_leD)

lemma watch_fields_mono: "S \<subseteq>\<^sub>m T \<Longrightarrow> watch_fields S fs w \<Longrightarrow> watch_fields T fs w"
  by (cases w) (auto dest: has_table_mono has_string_mono)

lemma watch_at_mono: "S \<subseteq>\<^sub>m T \<Longrightarrow> watch_at S r w \<Longrightarrow> watch_at T r w"
  unfolding watch_at_def by (blast dest: map_leD watch_fields_mono)

lemma str_at_mono: "S \<subseteq>\<^sub>m T \<Longrightarrow> str_at S r bs \<Longrightarrow> str_at T r bs"
  by (auto simp: str_at_def dest: map_leD)

lemma body_fields_mono:
  assumes "S \<subseteq>\<^sub>m T" and "body_fields S fs m"
  shows "body_fields T fs m"
proof (cases m)
  case (MRunCommand c)
  with assms show ?thesis
    by (fastforce dest: has_vector_mono has_string_mono
        elim: list_all2_mono [of "str_at S" _ _ "str_at T"] list_all2_mono [of "watch_at S" _ _ "watch_at T"]
        intro: str_at_mono watch_at_mono)
qed (use assms in \<open>auto dest: has_string_mono\<close>)

section \<open>Accessors on an encoded message\<close>

context fb_reader
begin

lemma slot_offset_eq [simp]: "slot_offset fb vt tab = tab_Offset fb tab vt"
  by (cases "tab_Offset fb tab vt") (simp_all add: slot_offset_def py_type_id)

lemma scalar_field_at:
  assumes "encodes buf S" and "S off = Some (TableNode fs)" and "has_scalar fs i fl x" and "i < max_slots"
    and "vt = 4 + 2 * int i"
  shows "scalar_field fb fl vt 0 (tab_at buf off) = Inr x"
proof (cases "fs i")
  case None
  with assms show ?thesis
    by (simp add: scalar_field_def offset_absent [OF assms(1,2)] has_scalar_def)
next
  case (Some f)
  with assms(3) have "fs i = Some (Scalar fl x)" by (auto simp: has_scalar_def)
  from offset_scalar [OF assms(1,2) this assms(4)] show ?thesis
    by (auto simp: scalar_field_def assms(5) tab_at_def)
qed

lemma bool_field_at:
  assumes "encodes buf S" and "S off = Some (TableNode fs)" and "has_scalar fs i BoolFlags (of_bool v)" and "i < max_slots"
    and "vt = 4 + 2 * int i"
  shows "bool_field fb vt (tab_at buf off) = Inr v"
proof -
  have "bool_field fb vt (tab_at buf off) = bindE (scalar_field fb BoolFlags vt 0 (tab_at buf off)) (\<lambda>x. Inr (x \<noteq> 0))"
    by (cases "tab_Offset fb (tab_at buf off) vt") (simp_all add: bool_field_def scalar_field_def)
  with scalar_field_at [OF assms] show ?thesis by simp
qed

lemma string_field_at:
  assumes "encodes buf S" and "S off = Some (TableNode fs)" and "has_string S fs i bs" and "i < max_slots"
    and "vt = 4 + 2 * int i"
  shows "string_field fb vt (tab_at buf off) = Inr (Some bs)"
proof -
  from assms(3) obtain r where "fs i = Some (Ref r)" "S r = Some (StrNode bs)" by (auto simp: has_string_def)
  from offset_string [OF assms(1,2) this assms(4)] show ?thesis
    by (auto simp: string_field_def assms(5) tab_at_def)
qed

lemma union_field_at:
  assumes "encodes buf S" and "S off = Some (TableNode fs)" and "has_table S fs i r fs'" and "i < max_slots"
    and "vt = 4 + 2 * int i"
  shows "union_field fb vt (tab_at buf off) = Inr (Some (tab_at buf r))"
proof -
  from assms(3) have "fs i = Some (Ref r)" "S r = Some (TableNode fs')" by (auto simp: has_table_def)
  from offset_table [OF assms(1,2) this assms(4), where t = "\<lparr>Bytes = [], Pos = 0\<rparr>"] show ?thesis
    by (auto simp: union_field_def assms(5))
qed

lemma string_vector_field_at:
  assumes "encodes buf S" and "S off = Some (TableNode fs)" and "has_vector S fs i rs" and "i < max_slots"
    and "vt = 4 + 2 * int i" and "list_all2 (str_at S) rs bss" and "j < length bss"
  shows "string_vector_field fb vt (tab_at buf off) (int j) = Inr (PyBytes (bss ! j))"
proof -
  from assms(3) obtain r where r: "fs i = Some (Ref r)" "S r = Some (VecNode rs)" by (auto simp: has_vector_def)
  have "S (rs ! j) = Some (StrNode (bss ! j))"
    using assms(6,7) by (auto simp: list_all2_conv_all_nth str_at_def)
  moreover have "j < length rs" using assms(6,7) by (simp add: list_all2_lengthD)
  ultimately have "tab_String fb (tab_at buf off) (pos_of buf r + 4 + int j * 4) = Inr (bss ! j)"
    using vector_string [OF assms(1,2) r(2)] by simp
  with offset_vector [OF assms(1,2) r assms(4)] show ?thesis
    by (auto simp: string_vector_field_def assms(5) py_type_id)
qed

lemma vector_len_field_at:
  assumes "encodes buf S" and "S off = Some (TableNode fs)" and "has_vector S fs i rs" and "i < max_slots"
    and "vt = 4 + 2 * int i"
  shows "vector_len_field fb vt (tab_at buf off) = Inr (int (length rs))"
proof -
  from assms(3) obtain r where r: "fs i = Some (Ref r)" "S r = Some (VecNode rs)" by (auto simp: has_vector_def)
  from offset_vector [OF assms(1,2) this assms(4)] show ?thesis
    by (auto simp: vector_len_field_def assms(5))
qed

lemma table_vector_field_at:
  assumes "encodes buf S" and "S off = Some (TableNode fs)" and "has_vector S fs i rs" and "i < max_slots"
    and "vt = 4 + 2 * int i" and "j < length rs" and "S (rs ! j) = Some (TableNode fs')"
  shows "table_vector_field fb vt init (tab_at buf off) (int j) = Inr (Some (init buf (pos_of buf (rs ! j))))"
proof -
  from assms(3) obtain r where r: "fs i = Some (Ref r)" "S r = Some (VecNode rs)" by (auto simp: has_vector_def)
  have "tab_Indirect fb (tab_at buf off) (pos_of buf r + 4 + int j * 4) = Inr (pos_of buf (rs ! j))"
    using vector_table [OF assms(1,2) r(2) assms(6,7)] .
  with offset_vector [OF assms(1,2) r assms(4)] show ?thesis
    by (auto simp: table_vector_field_def assms(5) py_type_id tab_at_def)
qed

lemma scalar_field_range: "scalar_field fb fl vt d tab = Inr x \<Longrightarrow> nf_range fl d \<Longrightarrow> nf_range fl x"
  by (auto simp: scalar_field_def elim!: bindE_InrE split: if_splits dest: get_range)

end

end
