(* ===== verification/Serialization.thy ===== *)
theory Serialization
  imports Demon_Tables
begin

text \<open>
  The module \<^verbatim>\<open>src/tests_python/serialization.py\<close>: its data classes and enums, the
  functions that serialise a message (\<open>send_\<dots>\<close>) and those that read one
  (\<open>receive_\<dots>\<close>).  A function whose body can raise has a result in \<open>'a py\<close>; the
  \<^verbatim>\<open>try\<close> blocks are \<open>try_except\<close>.  Printing to the console is left out.
\<close>

section \<open>Data classes and enums\<close>

record TCPSocket =
  sock_destport :: int

record BufferInfo =
  bi_buffer :: bytes
  bi_size :: int

record ExecveInfo =
  ei_pid :: int
  ei_command_name :: pystr
  ei_success :: bool

record ProcessTerminatedInfo =
  pti_pid :: int
  pti_error_code :: int

datatype SocketState = SOCKET_UNKNOWN | SOCKET_LISTENING | SOCKET_CREATED

fun SocketState_value :: "SocketState \<Rightarrow> int" where
  "SocketState_value SOCKET_UNKNOWN = 0"
| "SocketState_value SOCKET_LISTENING = 1"
| "SocketState_value SOCKET_CREATED = 2"

text \<open>\<^verbatim>\<open>SocketState(v)\<close>: the member with value \<open>v\<close>, or \<^verbatim>\<open>ValueError\<close>.\<close>

definition SocketState_of :: "int \<Rightarrow> SocketState py" where
  "SocketState_of v =
     (if v = 0 then Inr SOCKET_UNKNOWN else if v = 1 then Inr SOCKET_LISTENING
      else if v = 2 then Inr SOCKET_CREATED else Inl ValueError)"

record SocketWatchInfo =
  swi_port :: int
  swi_state :: SocketState

datatype InotifyEvent = MODIFIED | CREATED | SIZE_REACHED | DELETED | ACCESSED

fun InotifyEvent_value :: "InotifyEvent \<Rightarrow> int" where
  "InotifyEvent_value MODIFIED = 0"
| "InotifyEvent_value CREATED = 1"
| "InotifyEvent_value SIZE_REACHED = 2"
| "InotifyEvent_value DELETED = 3"
| "InotifyEvent_value ACCESSED = 4"

definition InotifyEvent_of :: "int \<Rightarrow> InotifyEvent py" where
  "InotifyEvent_of v =
     (if v = 0 then Inr MODIFIED else if v = 1 then Inr CREATED else if v = 2 then Inr SIZE_REACHED
      else if v = 3 then Inr DELETED else if v = 4 then Inr ACCESSED else Inl ValueError)"

record InotifyParameters =
  ip_root_paths :: pystr
  ip_mask :: int
  ip_size :: int

datatype SurveillanceEventType = INOTIFY | WATCH_SOCKET

text \<open>The field \<^verbatim>\<open>event\<close> of a surveillance is declared to be an enum member, but
  \<open>receive_command\<close> stores a string in it; \<^verbatim>\<open>ptr_event\<close> is \<^verbatim>\<open>Any\<close>, one of two
  classes according to its comment.\<close>

datatype SurveillanceTag = TagEnum SurveillanceEventType | TagStr string

datatype SurveillancePtr = PtrInotify InotifyParameters | PtrSocket TCPSocket

record Surveillance =
  sv_event :: SurveillanceTag
  sv_ptr_event :: SurveillancePtr

record InotifyPathUpdated =
  ipu_path :: pystr
  ipu_event :: InotifyEvent
  ipu_size :: int
  ipu_size_limit :: int

record Command =
  cmd_path :: pystr
  cmd_args :: "pystr list"
  cmd_envp :: "pystr list"
  cmd_flags :: int
  cmd_stack_size :: int
  cmd_to_watch :: "Surveillance list"

datatype Event =
    NONE
  | RUN_COMMAND
  | KILL_PROCESS
  | ESTABLISH_TCP_CONNECTION
  | ESTABLISH_UNIX_CONNECTION
  | PROCESS_LAUNCHED
  | CHILD_CREATION_ERROR
  | PROCESS_TERMINATED
  | TCP_SOCKET_LISTENING
  | INOTIFY_PATH_UPDATED
  | INOTIFY_WATCH_LIST_UPDATED
  | SOCKET_WATCHED
  | SOCKET_WATCH_TERMINATED
  | EXECVE_TERMINATED

fun Event_value :: "Event \<Rightarrow> int" where
  "Event_value NONE = -1"
| "Event_value RUN_COMMAND = 0"
| "Event_value KILL_PROCESS = 1"
| "Event_value ESTABLISH_TCP_CONNECTION = 2"
| "Event_value ESTABLISH_UNIX_CONNECTION = 3"
| "Event_value PROCESS_LAUNCHED = 4"
| "Event_value CHILD_CREATION_ERROR = 5"
| "Event_value PROCESS_TERMINATED = 6"
| "Event_value TCP_SOCKET_LISTENING = 7"
| "Event_value INOTIFY_PATH_UPDATED = 8"
| "Event_value INOTIFY_WATCH_LIST_UPDATED = 9"
| "Event_value SOCKET_WATCHED = 10"
| "Event_value SOCKET_WATCH_TERMINATED = 11"
| "Event_value EXECVE_TERMINATED = 12"

text \<open>The two classifiers return an enum member, or the integer \<^verbatim>\<open>-1\<close> (which is no
  member of the enum); \<open>receive_processterminated\<close> returns an object, \<^verbatim>\<open>None\<close> or
  \<^verbatim>\<open>-1\<close>.\<close>

datatype EventResult = EvMember Event | EvInt int

datatype TerminatedResult = PtInfo ProcessTerminatedInfo | PtNone | PtInt int

section \<open>Python attribute access\<close>

text \<open>
  \<^verbatim>\<open>serialization.py\<close> names attributes that the generated classes and the package
  \<^verbatim>\<open>demon\<close> do not have, or calls them with the wrong arguments.  Those calls are looked up when the
  program runs: an object has a dictionary of methods, a package one of attributes, and a call
  \<^verbatim>\<open>obj.name(...)\<close> raises \<^verbatim>\<open>AttributeError\<close> when the name is not there and
  \<^verbatim>\<open>TypeError\<close> when what is there does not accept the call.  The values that can come out:
\<close>

datatype py_value =
    VNone
  | VBool bool
  | VInt int
  | VBytes bytes
  | VStr pystr
  | VList "py_value list"
  | VInotifyEvent InotifyEvent
  | VTable table
  | VRunCommand table
  | VSurveillanceEvent table

type_synonym methods = "(string \<times> (py_value list \<Rightarrow> py_value py)) list"

definition call_method :: "methods \<Rightarrow> string \<Rightarrow> py_value list \<Rightarrow> py_value py" where
  "call_method ms name args = (case map_of ms name of None \<Rightarrow> Inl AttributeError | Some f \<Rightarrow> f args)"

text \<open>Methods by the arguments they take besides \<^verbatim>\<open>self\<close>: none, an index, or a buffer and a position
  (the latter optional for the class methods).  The other forms of call are a \<^verbatim>\<open>TypeError\<close>.\<close>

fun method0 :: "('a \<Rightarrow> py_value) \<Rightarrow> 'a py \<Rightarrow> py_value list \<Rightarrow> py_value py" where
  "method0 val m [] = bindE m (\<lambda>x. Inr (val x))"
| "method0 val m _ = Inl TypeError"

fun method1 :: "('a \<Rightarrow> py_value) \<Rightarrow> (int \<Rightarrow> 'a py) \<Rightarrow> py_value list \<Rightarrow> py_value py" where
  "method1 val m [VInt j] = bindE (m j) (\<lambda>x. Inr (val x))"
| "method1 val m _ = Inl TypeError"

fun root_method :: "('a \<Rightarrow> py_value) \<Rightarrow> (bytes \<Rightarrow> int \<Rightarrow> 'a py) \<Rightarrow> py_value list \<Rightarrow> py_value py" where
  "root_method val m [VBytes buf] = bindE (m buf 0) (\<lambda>x. Inr (val x))"
| "root_method val m [VBytes buf, VInt i] = bindE (m buf i) (\<lambda>x. Inr (val x))"
| "root_method val m _ = Inl TypeError"

fun init_method :: "py_value list \<Rightarrow> py_value py" where
  "init_method [buf, pos] = Inr VNone"
| "init_method _ = Inl TypeError"

definition opt_value :: "('a \<Rightarrow> py_value) \<Rightarrow> 'a option \<Rightarrow> py_value" where
  "opt_value val x = (case x of None \<Rightarrow> VNone | Some y \<Rightarrow> val y)"

fun text_value :: "py_text \<Rightarrow> py_value" where
  "text_value (PyBytes bs) = VBytes bs"
| "text_value (PyStr s) = VStr s"

text \<open>The methods of an object of class \<^verbatim>\<open>RunCommand\<close> and of class \<^verbatim>\<open>SurveillanceEvent\<close>, with the
  accessors of \<open>Demon_Tables\<close>.  (\<^verbatim>\<open>Init\<close> has been called when the object is looked at; that it changes the
  object is not part of its entry.)\<close>

definition RunCommand_methods :: "'b flatbuffers \<Rightarrow> table \<Rightarrow> methods" where
  "RunCommand_methods fb t =
     [(''GetRootAs'', root_method VRunCommand (RunCommand_GetRootAs fb)),
      (''GetRootAsRunCommand'', root_method VRunCommand (RunCommand_GetRootAsRunCommand fb)),
      (''Init'', init_method),
      (''Path'', method0 (opt_value VBytes) (RunCommand_Path fb t)),
      (''Args'', method1 text_value (RunCommand_Args fb t)),
      (''ArgsLength'', method0 VInt (RunCommand_ArgsLength fb t)),
      (''ArgsIsNone'', method0 VBool (RunCommand_ArgsIsNone fb t)),
      (''Envp'', method1 text_value (RunCommand_Envp fb t)),
      (''EnvpLength'', method0 VInt (RunCommand_EnvpLength fb t)),
      (''EnvpIsNone'', method0 VBool (RunCommand_EnvpIsNone fb t)),
      (''Flags'', method0 VInt (RunCommand_Flags fb t)),
      (''StackSize'', method0 VInt (RunCommand_StackSize fb t)),
      (''ToWatch'', method1 (opt_value VSurveillanceEvent) (RunCommand_ToWatch fb t)),
      (''ToWatchLength'', method0 VInt (RunCommand_ToWatchLength fb t)),
      (''ToWatchIsNone'', method0 VBool (RunCommand_ToWatchIsNone fb t))]"

definition SurveillanceEvent_methods :: "'b flatbuffers \<Rightarrow> table \<Rightarrow> methods" where
  "SurveillanceEvent_methods fb t =
     [(''GetRootAs'', root_method VSurveillanceEvent (SurveillanceEvent_GetRootAs fb)),
      (''GetRootAsSurveillanceEvent'', root_method VSurveillanceEvent (SurveillanceEvent_GetRootAsSurveillanceEvent fb)),
      (''Init'', init_method),
      (''EventType'', method0 VInt (SurveillanceEvent_EventType fb t)),
      (''Event'', method0 (opt_value VTable) (SurveillanceEvent_Event fb t))]"

text \<open>\<^verbatim>\<open>v.Length()\<close> and the like on a value that \<^verbatim>\<open>ToWatch\<close> has returned: only an object of the
  two classes has methods of these names.\<close>

fun methods_of :: "'b flatbuffers \<Rightarrow> py_value \<Rightarrow> methods" where
  "methods_of fb (VRunCommand t) = RunCommand_methods fb t"
| "methods_of fb (VSurveillanceEvent t) = SurveillanceEvent_methods fb t"
| "methods_of fb _ = []"

text \<open>\<^verbatim>\<open>[x.decode('utf-8') for x in v]\<close>, \<^verbatim>\<open>if v:\<close>, \<^verbatim>\<open>range(v)\<close>, and
  \<^verbatim>\<open>v.EventType()\<close>, which only a \<^verbatim>\<open>SurveillanceEvent\<close> has.\<close>

fun elements :: "py_value \<Rightarrow> py_value list py" where
  "elements (VList vs) = Inr vs"
| "elements (VBytes bs) = Inr (map (\<lambda>x. VInt (uint x)) bs)"
| "elements (VStr s) = Inr (map (\<lambda>c. VStr [c]) s)"
| "elements _ = Inl TypeError"

fun decode_value :: "py_value \<Rightarrow> pystr py" where
  "decode_value (VBytes bs) = utf8_decode bs"
| "decode_value _ = Inl AttributeError"

fun truth :: "py_value \<Rightarrow> bool" where
  "truth VNone = False"
| "truth (VBool x) = x"
| "truth (VInt n) = (n \<noteq> 0)"
| "truth (VBytes bs) = (bs \<noteq> [])"
| "truth (VStr s) = (s \<noteq> [])"
| "truth (VList vs) = (vs \<noteq> [])"
| "truth _ = True"

fun range_value :: "py_value \<Rightarrow> int list py" where
  "range_value (VInt n) = Inr [0..n - 1]"
| "range_value (VBool x) = Inr (if x then [0] else [])"
| "range_value _ = Inl TypeError"

fun as_surveillance :: "py_value \<Rightarrow> table py" where
  "as_surveillance (VSurveillanceEvent t) = Inr t"
| "as_surveillance _ = Inl AttributeError"

text \<open>An attribute of a package is a module, which cannot be called, or something that can; a call may change the
  builder it is given.\<close>

datatype 'b pkg_attribute = Module | Callable "'b \<Rightarrow> py_value list \<Rightarrow> ('b \<times> int) py"

definition attribute :: "(string \<times> 'b pkg_attribute) list \<Rightarrow> string \<Rightarrow> 'b pkg_attribute py" where
  "attribute attrs name = (case map_of attrs name of None \<Rightarrow> Inl AttributeError | Some a \<Rightarrow> Inr a)"

fun call_attribute :: "'b pkg_attribute \<Rightarrow> 'b \<Rightarrow> py_value list \<Rightarrow> ('b \<times> int) py" where
  "call_attribute Module b args = Inl TypeError"
| "call_attribute (Callable f) b args = f b args"

text \<open>The attributes of package \<^verbatim>\<open>demon\<close>: its \<^verbatim>\<open>__init__.py\<close> is empty, so exactly the
  submodules that have been imported.\<close>

definition demon_attributes :: "(string \<times> 'b pkg_attribute) list" where
  "demon_attributes =
     [(''ExecveTerminated'', Module), (''RunCommand'', Module), (''Message'', Module), (''KillProcess'', Module),
      (''ProcessLaunched'', Module), (''ChildCreationError'', Module), (''ProcessTerminated'', Module),
      (''TCPSocketListening'', Module), (''InotifyPathUpdated'', Module), (''InotifyWatchListUpdated'', Module),
      (''SocketWatched'', Module), (''SocketWatchTerminated'', Module), (''Event'', Module), (''Inotify'', Module),
      (''Surveillance'', Module), (''TCPSocket'', Module), (''SurveillanceEvent'', Module)]"

text \<open>\<^verbatim>\<open>x.decode('utf-8')\<close> where \<open>x\<close> may be \<^verbatim>\<open>None\<close>.\<close>

definition decode_opt :: "bytes option \<Rightarrow> pystr py" where
  "decode_opt x = (case x of None \<Rightarrow> Inl AttributeError | Some bs \<Rightarrow> utf8_decode bs)"

text \<open>\<^verbatim>\<open>surv.ptr_event.root_paths\<close> and so on: the attribute of the right class.\<close>

fun as_inotify :: "SurveillancePtr \<Rightarrow> InotifyParameters py" where
  "as_inotify (PtrInotify p) = Inr p"
| "as_inotify (PtrSocket s) = Inl AttributeError"

fun as_socket :: "SurveillancePtr \<Rightarrow> TCPSocket py" where
  "as_socket (PtrSocket s) = Inr s"
| "as_socket (PtrInotify p) = Inl AttributeError"

section \<open>Sending\<close>

text \<open>The end of every \<open>send_\<dots>\<close> function: wrap the event in a \<^verbatim>\<open>Message\<close>, finish
  the buffer and return it with its length.\<close>

definition wrap_message :: "'b flatbuffers \<Rightarrow> 'b \<Rightarrow> int \<Rightarrow> int \<Rightarrow> BufferInfo py" where
  "wrap_message fb b ty event =
     bindE (Message_Start fb b) (\<lambda>b.
     bindE (Message_AddEventsType fb b ty) (\<lambda>b.
     bindE (Message_AddEvents fb b event) (\<lambda>b.
     bindE (Message_End fb b) (\<lambda>(b, message).
     bindE (fb_Finish fb b message) (\<lambda>b.
     bindE (fb_Output fb b) (\<lambda>buf.
     Inr \<lparr>bi_buffer = buf, bi_size = int (length buf)\<rparr>))))))"

text \<open>\<^verbatim>\<open>except Exception: return None\<close>\<close>

definition or_none :: "'a py \<Rightarrow> 'a option" where
  "or_none m = try_except (bindE m (\<lambda>x. Inr (Some x))) None"

definition send_inotify_surveillance :: "'b flatbuffers \<Rightarrow> 'b \<Rightarrow> SurveillancePtr \<Rightarrow> ('b \<times> int) py" where
  "send_inotify_surveillance fb b ptr =
     bindE (as_inotify ptr) (\<lambda>inotify.
     bindE (fb_CreateString fb b (ip_root_paths inotify)) (\<lambda>(b, root_paths_offset).
     bindE (Inotify_Start fb b) (\<lambda>b.
     bindE (Inotify_AddRootPaths fb b root_paths_offset) (\<lambda>b.
     bindE (Inotify_AddMask fb b (ip_mask inotify)) (\<lambda>b.
     bindE (Inotify_AddSize fb b (ip_size inotify)) (\<lambda>b.
     bindE (Inotify_End fb b) (\<lambda>(b, inotify_offset).
     bindE (SurveillanceEvent_Start fb b) (\<lambda>b.
     bindE (SurveillanceEvent_AddEventType fb b Surveillance_Inotify) (\<lambda>b.
     bindE (SurveillanceEvent_AddEvent fb b inotify_offset) (\<lambda>b.
     SurveillanceEvent_End fb b))))))))))"

definition send_socket_surveillance :: "'b flatbuffers \<Rightarrow> 'b \<Rightarrow> SurveillancePtr \<Rightarrow> ('b \<times> int) py" where
  "send_socket_surveillance fb b ptr =
     bindE (TCPSocket_Start fb b) (\<lambda>b.
     bindE (as_socket ptr) (\<lambda>socket.
     bindE (TCPSocket_AddDestport fb b (sock_destport socket)) (\<lambda>b.
     bindE (TCPSocket_End fb b) (\<lambda>(b, socket_offset).
     bindE (SurveillanceEvent_Start fb b) (\<lambda>b.
     bindE (SurveillanceEvent_AddEventType fb b Surveillance_TCPSocket) (\<lambda>b.
     bindE (SurveillanceEvent_AddEvent fb b socket_offset) (\<lambda>b.
     SurveillanceEvent_End fb b)))))))"

text \<open>The loop over \<^verbatim>\<open>cmd.to_watch\<close>: an entry whose tag is neither enum member is
  skipped.\<close>

fun send_surveillances :: "'b flatbuffers \<Rightarrow> 'b \<Rightarrow> Surveillance list \<Rightarrow> ('b \<times> int list) py" where
  "send_surveillances fb b [] = Inr (b, [])"
| "send_surveillances fb b (surv # rest) =
     (if sv_event surv = TagEnum INOTIFY then
        bindE (send_inotify_surveillance fb b (sv_ptr_event surv)) (\<lambda>(b, off).
        bindE (send_surveillances fb b rest) (\<lambda>(b, offs). Inr (b, off # offs)))
      else if sv_event surv = TagEnum WATCH_SOCKET then
        bindE (send_socket_surveillance fb b (sv_ptr_event surv)) (\<lambda>(b, off).
        bindE (send_surveillances fb b rest) (\<lambda>(b, offs). Inr (b, off # offs)))
      else send_surveillances fb b rest)"

text \<open>\<^verbatim>\<open>for x in reversed(offsets): builder.PrependUOffsetTRelative(x)\<close>, then
  \<^verbatim>\<open>EndVector\<close>.\<close>

definition end_offsets :: "'b flatbuffers \<Rightarrow> 'b \<Rightarrow> int list \<Rightarrow> ('b \<times> int) py" where
  "end_offsets fb b offs =
     bindE (foldE (fb_PrependUOffsetTRelative fb) b (rev offs)) (\<lambda>b. fb_EndVector fb b)"

definition send_command_to_demon :: "'b flatbuffers \<Rightarrow> Command \<Rightarrow> BufferInfo py" where
  "send_command_to_demon fb cmd =
     bindE (fb_Builder fb 1024) (\<lambda>b.
     bindE (mapaccE (fb_CreateString fb) b (cmd_args cmd)) (\<lambda>(b, args_offsets).
     bindE (mapaccE (fb_CreateString fb) b (cmd_envp cmd)) (\<lambda>(b, envp_offsets).
     bindE (fb_CreateString fb b (cmd_path cmd)) (\<lambda>(b, path_offset).
     bindE (send_surveillances fb b (cmd_to_watch cmd)) (\<lambda>(b, surveillance_offsets).
     bindE (RunCommandStartArgsVector fb b (int (length args_offsets))) (\<lambda>(b, _).
     bindE (end_offsets fb b args_offsets) (\<lambda>(b, args_vector).
     bindE (RunCommandStartEnvpVector fb b (int (length envp_offsets))) (\<lambda>(b, _).
     bindE (end_offsets fb b envp_offsets) (\<lambda>(b, envp_vector).
     bindE (RunCommandStartToWatchVector fb b (int (length surveillance_offsets))) (\<lambda>(b, _).
     bindE (end_offsets fb b surveillance_offsets) (\<lambda>(b, surveillance_vector).
     bindE (RunCommand_Start fb b) (\<lambda>b.
     bindE (RunCommand_AddPath fb b path_offset) (\<lambda>b.
     bindE (RunCommand_AddArgs fb b args_vector) (\<lambda>b.
     bindE (RunCommand_AddEnvp fb b envp_vector) (\<lambda>b.
     bindE (RunCommand_AddFlags fb b (cmd_flags cmd)) (\<lambda>b.
     bindE (RunCommand_AddStackSize fb b (cmd_stack_size cmd)) (\<lambda>b.
     bindE (RunCommand_AddToWatch fb b surveillance_vector) (\<lambda>b.
     bindE (RunCommand_End fb b) (\<lambda>(b, run_command).
     wrap_message fb b Event_RunCommand run_command)))))))))))))))))))"

definition send_kill_to_demon :: "'b flatbuffers \<Rightarrow> int \<Rightarrow> BufferInfo py" where
  "send_kill_to_demon fb pid =
     bindE (fb_Builder fb 1024) (\<lambda>b.
     bindE (KillProcess_Start fb b) (\<lambda>b.
     bindE (KillProcess_AddPid fb b pid) (\<lambda>b.
     bindE (KillProcess_End fb b) (\<lambda>(b, kill_process).
     wrap_message fb b Event_KillProcess kill_process))))"

definition send_processlaunched_to_user :: "'b flatbuffers \<Rightarrow> int \<Rightarrow> BufferInfo option py" where
  "send_processlaunched_to_user fb pid =
     bindE (fb_Builder fb 1024) (\<lambda>b. Inr (or_none (
       bindE (ProcessLaunched_Start fb b) (\<lambda>b.
       bindE (ProcessLaunched_AddPid fb b pid) (\<lambda>b.
       bindE (ProcessLaunched_End fb b) (\<lambda>(b, process_launched).
       wrap_message fb b Event_ProcessLaunched process_launched))))))"

definition send_childcreationerror_to_user :: "'b flatbuffers \<Rightarrow> int \<Rightarrow> BufferInfo option py" where
  "send_childcreationerror_to_user fb error_code =
     bindE (fb_Builder fb 1024) (\<lambda>b. Inr (or_none (
       bindE (ChildCreationError_Start fb b) (\<lambda>b.
       bindE (ChildCreationError_AddErrorCode fb b error_code) (\<lambda>b.
       bindE (ChildCreationError_End fb b) (\<lambda>(b, child_creation_error).
       wrap_message fb b Event_ChildCreationError child_creation_error))))))"

definition send_processterminated_to_user :: "'b flatbuffers \<Rightarrow> int \<Rightarrow> int \<Rightarrow> BufferInfo option py" where
  "send_processterminated_to_user fb pid error_code =
     bindE (fb_Builder fb 1024) (\<lambda>b. Inr (or_none (
       bindE (ProcessTerminated_Start fb b) (\<lambda>b.
       bindE (ProcessTerminated_AddPid fb b pid) (\<lambda>b.
       bindE (ProcessTerminated_AddErrorCode fb b error_code) (\<lambda>b.
       bindE (ProcessTerminated_End fb b) (\<lambda>(b, process_terminated).
       wrap_message fb b Event_ProcessTerminated process_terminated)))))))"

definition send_tcpsocketlistening_to_user :: "'b flatbuffers \<Rightarrow> int \<Rightarrow> BufferInfo option py" where
  "send_tcpsocketlistening_to_user fb port =
     bindE (fb_Builder fb 1024) (\<lambda>b. Inr (or_none (
       bindE (TCPSocketListening_Start fb b) (\<lambda>b.
       bindE (TCPSocketListening_AddPort fb b port) (\<lambda>b.
       bindE (TCPSocketListening_End fb b) (\<lambda>(b, tcp_socket_listening).
       wrap_message fb b Event_TCPSocketListening tcp_socket_listening))))))"

text \<open>The \<^verbatim>\<open>try\<close> block of \<^verbatim>\<open>send_inotifypathupdated_to_user\<close>.\<close>

definition inotifypathupdated_body :: "'b flatbuffers \<Rightarrow> InotifyPathUpdated \<Rightarrow> 'b \<Rightarrow> BufferInfo py" where
  "inotifypathupdated_body fb inotify b =
     bindE (fb_CreateString fb b (ipu_path inotify)) (\<lambda>(b, path_str).
     bindE (InotifyPathUpdated_Start fb b) (\<lambda>b.
     bindE (InotifyPathUpdated_AddPath fb b path_str) (\<lambda>b.
     bindE (attribute demon_attributes ''InotifyEvent'') (\<lambda>InotifyEvent.
     bindE (call_attribute InotifyEvent b [VInotifyEvent (ipu_event inotify)]) (\<lambda>(b, event).
     bindE (InotifyPathUpdated_AddTriggerEvents fb b event) (\<lambda>b.
     bindE (InotifyPathUpdated_AddSize fb b (ipu_size inotify)) (\<lambda>b.
     bindE (InotifyPathUpdated_AddSizeLimit fb b (ipu_size_limit inotify)) (\<lambda>b.
     bindE (InotifyPathUpdated_End fb b) (\<lambda>(b, inotify_path_updated).
     wrap_message fb b Event_InotifyPathUpdated inotify_path_updated)))))))))"

definition send_inotifypathupdated_to_user :: "'b flatbuffers \<Rightarrow> InotifyPathUpdated \<Rightarrow> BufferInfo option py" where
  "send_inotifypathupdated_to_user fb inotify =
     bindE (fb_Builder fb 1024) (\<lambda>b. Inr (or_none (inotifypathupdated_body fb inotify b)))"

definition send_inotifywatchlistupdated_to_user :: "'b flatbuffers \<Rightarrow> pystr \<Rightarrow> BufferInfo option py" where
  "send_inotifywatchlistupdated_to_user fb path =
     bindE (fb_Builder fb 1024) (\<lambda>b. Inr (or_none (
       bindE (fb_CreateString fb b path) (\<lambda>(b, path_str).
       bindE (InotifyWatchListUpdated_Start fb b) (\<lambda>b.
       bindE (InotifyWatchListUpdated_AddPath fb b path_str) (\<lambda>b.
       bindE (InotifyWatchListUpdated_End fb b) (\<lambda>(b, inotify_watch_list_updated).
       wrap_message fb b Event_InotifyWatchListUpdated inotify_watch_list_updated)))))))"

definition send_socketwatched_to_user :: "'b flatbuffers \<Rightarrow> int \<Rightarrow> BufferInfo option py" where
  "send_socketwatched_to_user fb port =
     bindE (fb_Builder fb 1024) (\<lambda>b. Inr (or_none (
       bindE (SocketWatched_Start fb b) (\<lambda>b.
       bindE (SocketWatched_AddPort fb b port) (\<lambda>b.
       bindE (SocketWatched_End fb b) (\<lambda>(b, socket_watched).
       wrap_message fb b Event_SocketWatched socket_watched))))))"

text \<open>The \<^verbatim>\<open>try\<close> block of \<^verbatim>\<open>send_socketwatchterminated_to_user\<close>: the function is looked up, then
  its arguments are evaluated, then it is called.\<close>

definition socketwatchterminated_body :: "'b flatbuffers \<Rightarrow> SocketWatchInfo \<Rightarrow> 'b \<Rightarrow> BufferInfo py" where
  "socketwatchterminated_body fb socket_info b =
     bindE (attribute demon_attributes ''CreateSocketWatchTerminated'') (\<lambda>CreateSocketWatchTerminated.
     bindE (attribute demon_attributes ''SocketState'') (\<lambda>SocketState.
     bindE (call_attribute SocketState b [VInt (SocketState_value (swi_state socket_info))]) (\<lambda>(b, state).
     bindE (call_attribute CreateSocketWatchTerminated b [VInt (swi_port socket_info), VInt state]) (\<lambda>(b, socket_watch_terminated).
     wrap_message fb b Event_SocketWatchTerminated socket_watch_terminated))))"

definition send_socketwatchterminated_to_user :: "'b flatbuffers \<Rightarrow> SocketWatchInfo \<Rightarrow> BufferInfo option py" where
  "send_socketwatchterminated_to_user fb socket_info =
     bindE (fb_Builder fb 1024) (\<lambda>b. Inr (or_none (socketwatchterminated_body fb socket_info b)))"

section \<open>Receiving\<close>

text \<open>\<^verbatim>\<open>obj.attribute\<close> where \<open>obj\<close> may be \<^verbatim>\<open>None\<close>.\<close>

definition not_none :: "'a option \<Rightarrow> 'a py" where
  "not_none x = (case x of None \<Rightarrow> Inl AttributeError | Some obj \<Rightarrow> Inr obj)"

text \<open>\<^verbatim>\<open>x.Init(message.Events().Bytes, message.Events().Pos)\<close>\<close>

definition message_member :: "'b flatbuffers \<Rightarrow> table \<Rightarrow> table py" where
  "message_member fb message =
     bindE (Message_Events fb message) not_none"

definition init_events :: "'b flatbuffers \<Rightarrow> (bytes \<Rightarrow> int \<Rightarrow> table) \<Rightarrow> table \<Rightarrow> table py" where
  "init_events fb init message =
     bindE (message_member fb message) (\<lambda>t1. bindE (message_member fb message) (\<lambda>t2.
       Inr (init (Bytes t1) (Pos t2))))"

text \<open>One round of the loop over \<^verbatim>\<open>surveillances\<close> in \<^verbatim>\<open>receive_command\<close>.\<close>

definition receive_surveillance :: "'b flatbuffers \<Rightarrow> table \<Rightarrow> Surveillance list \<Rightarrow> Surveillance list py" where
  "receive_surveillance fb surveillance_event acc =
     bindE (SurveillanceEvent_EventType fb surveillance_event) (\<lambda>ty.
     if ty = Surveillance_Inotify then
       bindE (SurveillanceEvent_Event fb surveillance_event) (\<lambda>t.
       bindE (not_none t) (\<lambda>inotify_event.
       bindE (tab_call_text fb inotify_event ''RootPaths'') (\<lambda>p. bindE (decode_opt p) (\<lambda>root_paths.
       bindE (tab_call_int fb inotify_event ''Mask'') (\<lambda>mask_v.
       bindE (tab_call_int fb inotify_event ''Size'') (\<lambda>size_v.
       Inr (acc @ [\<lparr>sv_event = TagStr ''INOTIFY'', sv_ptr_event = PtrInotify
              \<lparr>ip_root_paths = root_paths, ip_mask = mask_v, ip_size = size_v\<rparr>\<rparr>])))))))
     else bindE (SurveillanceEvent_EventType fb surveillance_event) (\<lambda>ty.
     if ty = Surveillance_TCPSocket then
       bindE (SurveillanceEvent_Event fb surveillance_event) (\<lambda>t.
       bindE (not_none t) (\<lambda>socket_event.
       bindE (tab_call_int fb socket_event ''Destport'') (\<lambda>destport.
       Inr (acc @ [\<lparr>sv_event = TagStr ''WATCH_SOCKET'',
              sv_ptr_event = PtrSocket \<lparr>sock_destport = destport\<rparr>\<rparr>]))))
     else Inr acc))"

text \<open>The inner \<^verbatim>\<open>try\<close> block.\<close>

definition receive_command_body :: "'b flatbuffers \<Rightarrow> table \<Rightarrow> Command option py" where
  "receive_command_body fb run_command =
     bindE (RunCommand_Path fb run_command) (\<lambda>p. bindE (decode_opt p) (\<lambda>path.
     bindE (bindE (call_method (RunCommand_methods fb run_command) ''ArgsAsNumpy'' []) elements) (\<lambda>args0.
     bindE (mapE decode_value args0) (\<lambda>args.
     bindE (bindE (call_method (RunCommand_methods fb run_command) ''EnvpAsNumpy'' []) elements) (\<lambda>envp0.
     bindE (mapE decode_value envp0) (\<lambda>envp.
     bindE (RunCommand_Flags fb run_command) (\<lambda>flags.
     bindE (RunCommand_StackSize fb run_command) (\<lambda>stack_size.
     bindE (call_method (RunCommand_methods fb run_command) ''ToWatch'' []) (\<lambda>surveillances.
     bindE (if truth surveillances then
              bindE (bindE (call_method (methods_of fb surveillances) ''Length'' []) range_value) (\<lambda>is.
              foldE (\<lambda>acc i. bindE (call_method (methods_of fb surveillances) ''Get'' [VInt i]) (\<lambda>v.
                bindE (as_surveillance v) (\<lambda>surveillance_event. receive_surveillance fb surveillance_event acc))) [] is)
            else Inr []) (\<lambda>to_watch.
     Inr (Some \<lparr>cmd_path = path, cmd_args = args, cmd_envp = envp, cmd_flags = flags,
            cmd_stack_size = stack_size, cmd_to_watch = to_watch\<rparr>)))))))))))"

definition receive_command :: "'b flatbuffers \<Rightarrow> bytes \<Rightarrow> int \<Rightarrow> Command option" where
  "receive_command fb buffer sz =
     (if buffer = [] \<or> sz \<le> 0 then None
      else try_except (
        bindE (Message_GetRootAsMessage fb buffer 0) (\<lambda>message.
        bindE (Message_EventsType fb message) (\<lambda>ty.
        if ty \<noteq> Event_RunCommand then Inr None
        else bindE (init_events fb RunCommand_Init message) (\<lambda>run_command.
          Inr (try_except (receive_command_body fb run_command) None))))) None)"

definition receive_kill :: "'b flatbuffers \<Rightarrow> bytes \<Rightarrow> int \<Rightarrow> int" where
  "receive_kill fb buffer sz =
     (if buffer = [] \<or> sz \<le> 0 then -1
      else try_except (
        bindE (Message_GetRootAsMessage fb buffer 0) (\<lambda>message.
        bindE (Message_EventsType fb message) (\<lambda>ty.
        if ty \<noteq> Event_KillProcess then Inr (-1)
        else bindE (init_events fb KillProcess_Init message) (\<lambda>kill_process.
          KillProcess_Pid fb kill_process)))) (-1))"

definition receive_message_from_user :: "'b flatbuffers \<Rightarrow> bytes \<Rightarrow> int \<Rightarrow> EventResult" where
  "receive_message_from_user fb buffer sz =
     (if buffer = [] \<or> sz \<le> 0 then EvMember NONE
      else try_except (
        bindE (Message_GetRootAsMessage fb buffer 0) (\<lambda>message.
        bindE (Message_EventsType fb message) (\<lambda>ty.
        if ty = Event_RunCommand then Inr (EvMember RUN_COMMAND)
        else bindE (Message_EventsType fb message) (\<lambda>ty.
          if ty = Event_KillProcess then Inr (EvMember KILL_PROCESS)
          else Inr (EvMember NONE))))) (EvInt (-1)))"

definition receive_execveterminated :: "'b flatbuffers \<Rightarrow> bytes \<Rightarrow> int \<Rightarrow> ExecveInfo option" where
  "receive_execveterminated fb buffer sz =
     (if buffer = [] \<or> sz \<le> 0 then None
      else try_except (
        bindE (Message_GetRootAsMessage fb buffer 0) (\<lambda>message.
        bindE (Message_EventsType fb message) (\<lambda>ty.
        if ty \<noteq> Event_ExecveTerminated then Inr None
        else bindE (init_events fb ExecveTerminated_Init message) (\<lambda>execve_terminated.
          bindE (ExecveTerminated_Pid fb execve_terminated) (\<lambda>pid.
          bindE (ExecveTerminated_CommandName fb execve_terminated) (\<lambda>n. bindE (decode_opt n) (\<lambda>name.
          bindE (ExecveTerminated_Success fb execve_terminated) (\<lambda>success.
          Inr (Some \<lparr>ei_pid = pid, ei_command_name = name, ei_success = success\<rparr>)))))))))
        None)"

definition receive_processlaunched :: "'b flatbuffers \<Rightarrow> bytes \<Rightarrow> int \<Rightarrow> int" where
  "receive_processlaunched fb buffer sz =
     (if buffer = [] \<or> sz \<le> 0 then -1
      else try_except (
        bindE (Message_GetRootAsMessage fb buffer 0) (\<lambda>message.
        bindE (Message_EventsType fb message) (\<lambda>ty.
        if ty \<noteq> Event_ProcessLaunched then Inr (-1)
        else bindE (init_events fb ProcessLaunched_Init message) (\<lambda>process_launched.
          ProcessLaunched_Pid fb process_launched)))) (-1))"

definition receive_childcreationerror :: "'b flatbuffers \<Rightarrow> bytes \<Rightarrow> int \<Rightarrow> int" where
  "receive_childcreationerror fb buffer sz =
     (if buffer = [] \<or> sz \<le> 0 then -1
      else try_except (
        bindE (Message_GetRootAsMessage fb buffer 0) (\<lambda>message.
        bindE (Message_EventsType fb message) (\<lambda>ty.
        if ty \<noteq> Event_ChildCreationError then Inr (-1)
        else bindE (init_events fb ChildCreationError_Init message) (\<lambda>child_creation_error.
          ChildCreationError_ErrorCode fb child_creation_error)))) (-1))"

definition receive_processterminated :: "'b flatbuffers \<Rightarrow> bytes \<Rightarrow> int \<Rightarrow> TerminatedResult" where
  "receive_processterminated fb buffer sz =
     (if buffer = [] \<or> sz \<le> 0 then PtNone
      else try_except (
        bindE (Message_GetRootAsMessage fb buffer 0) (\<lambda>message.
        bindE (Message_EventsType fb message) (\<lambda>ty.
        if ty \<noteq> Event_ProcessTerminated then Inr PtNone
        else bindE (init_events fb ProcessTerminated_Init message) (\<lambda>process_terminated.
          bindE (ProcessTerminated_Pid fb process_terminated) (\<lambda>pid.
          bindE (ProcessTerminated_ErrorCode fb process_terminated) (\<lambda>error_code.
          Inr (PtInfo \<lparr>pti_pid = pid, pti_error_code = error_code\<rparr>))))))) (PtInt (-1)))"

definition receive_TCPSocketListening :: "'b flatbuffers \<Rightarrow> bytes \<Rightarrow> int \<Rightarrow> int" where
  "receive_TCPSocketListening fb buffer sz =
     (if buffer = [] \<or> sz \<le> 0 then -1
      else try_except (
        bindE (Message_GetRootAsMessage fb buffer 0) (\<lambda>message.
        bindE (Message_EventsType fb message) (\<lambda>actual_type.
        bindE (Message_EventsType fb message) (\<lambda>ty.
        if ty \<noteq> Event_TCPSocketListening then Inr (-1)
        else bindE (init_events fb TCPSocketListening_Init message) (\<lambda>tcp_socket_listening.
          TCPSocketListening_Port fb tcp_socket_listening))))) (-1))"

definition receive_inotifypathupdated :: "'b flatbuffers \<Rightarrow> bytes \<Rightarrow> int \<Rightarrow> InotifyPathUpdated option" where
  "receive_inotifypathupdated fb buffer sz =
     (if buffer = [] \<or> sz \<le> 0 then None
      else try_except (
        bindE (Message_GetRootAsMessage fb buffer 0) (\<lambda>message.
        bindE (Message_EventsType fb message) (\<lambda>actual_type.
        bindE (Message_EventsType fb message) (\<lambda>ty.
        if ty \<noteq> Event_InotifyPathUpdated then Inr None
        else bindE (init_events fb InotifyPathUpdated_Init message) (\<lambda>inotify_path_updated.
          bindE (InotifyPathUpdated_Path fb inotify_path_updated) (\<lambda>p. bindE (decode_opt p) (\<lambda>path.
          bindE (InotifyPathUpdated_TriggerEvents fb inotify_path_updated) (\<lambda>t. bindE (InotifyEvent_of t) (\<lambda>event.
          bindE (InotifyPathUpdated_Size fb inotify_path_updated) (\<lambda>size_v.
          bindE (InotifyPathUpdated_SizeLimit fb inotify_path_updated) (\<lambda>size_limit.
          Inr (Some \<lparr>ipu_path = path, ipu_event = event, ipu_size = size_v,
                 ipu_size_limit = size_limit\<rparr>)))))))))))) None)"

definition receive_inotifywatchlistupdated :: "'b flatbuffers \<Rightarrow> bytes \<Rightarrow> int \<Rightarrow> pystr option" where
  "receive_inotifywatchlistupdated fb buffer sz =
     (if buffer = [] \<or> sz \<le> 0 then None
      else try_except (
        bindE (Message_GetRootAsMessage fb buffer 0) (\<lambda>message.
        bindE (Message_EventsType fb message) (\<lambda>actual_type.
        bindE (Message_EventsType fb message) (\<lambda>ty.
        if ty \<noteq> Event_InotifyWatchListUpdated then Inr None
        else bindE (init_events fb InotifyWatchListUpdated_Init message) (\<lambda>inotify_watch_list_updated.
          bindE (InotifyWatchListUpdated_Path fb inotify_watch_list_updated) (\<lambda>p.
          bindE (decode_opt p) (\<lambda>path. Inr (Some path))))))))  None)"

definition receive_socketwatched :: "'b flatbuffers \<Rightarrow> bytes \<Rightarrow> int \<Rightarrow> int" where
  "receive_socketwatched fb buffer sz =
     (if buffer = [] \<or> sz \<le> 0 then -1
      else try_except (
        bindE (Message_GetRootAsMessage fb buffer 0) (\<lambda>message.
        bindE (Message_EventsType fb message) (\<lambda>actual_type.
        bindE (Message_EventsType fb message) (\<lambda>ty.
        if ty \<noteq> Event_SocketWatched then Inr (-1)
        else bindE (init_events fb SocketWatched_Init message) (\<lambda>socket_watched.
          SocketWatched_Port fb socket_watched))))) (-1))"

definition receive_socketwatchterminated :: "'b flatbuffers \<Rightarrow> bytes \<Rightarrow> int \<Rightarrow> SocketWatchInfo option" where
  "receive_socketwatchterminated fb buffer sz =
     (if buffer = [] \<or> sz \<le> 0 then None
      else try_except (
        bindE (Message_GetRootAsMessage fb buffer 0) (\<lambda>message.
        bindE (Message_EventsType fb message) (\<lambda>actual_type.
        bindE (Message_EventsType fb message) (\<lambda>ty.
        if ty \<noteq> Event_SocketWatchTerminated then Inr None
        else bindE (init_events fb SocketWatchTerminated_Init message) (\<lambda>socket_watch_terminated.
          bindE (SocketWatchTerminated_Port fb socket_watch_terminated) (\<lambda>port.
          bindE (SocketWatchTerminated_State fb socket_watch_terminated) (\<lambda>s. bindE (SocketState_of s) (\<lambda>state.
          Inr (Some \<lparr>swi_port = port, swi_state = state\<rparr>)))))))))  None)"

definition event_map :: "(int \<times> Event) list" where
  "event_map =
     [(Event_ProcessLaunched, PROCESS_LAUNCHED),
      (Event_ChildCreationError, CHILD_CREATION_ERROR),
      (Event_ProcessTerminated, PROCESS_TERMINATED),
      (Event_TCPSocketListening, TCP_SOCKET_LISTENING),
      (Event_InotifyPathUpdated, INOTIFY_PATH_UPDATED),
      (Event_InotifyWatchListUpdated, INOTIFY_WATCH_LIST_UPDATED),
      (Event_SocketWatched, SOCKET_WATCHED),
      (Event_SocketWatchTerminated, SOCKET_WATCH_TERMINATED),
      (Event_ExecveTerminated, EXECVE_TERMINATED)]"

definition receive_message_from_demon :: "'b flatbuffers \<Rightarrow> bytes \<Rightarrow> int \<Rightarrow> EventResult" where
  "receive_message_from_demon fb buffer sz =
     (if buffer = [] \<or> sz \<le> 0 then EvMember NONE
      else try_except (
        bindE (Message_GetRootAsMessage fb buffer 0) (\<lambda>message.
        bindE (Message_EventsType fb message) (\<lambda>ty.
        Inr (EvMember (case map_of event_map ty of None \<Rightarrow> NONE | Some e \<Rightarrow> e))))) (EvInt (-1)))"

end
