(* ===== verification/Receive_Correct.thy ===== *)
theory Receive_Correct
  imports Message_Spec Serialization
begin

text \<open>
  The \<open>receive_\<dots>\<close> functions of \<^verbatim>\<open>serialization.py\<close> against the abstract messages:
  what each of them returns on a buffer that carries a message of any kind, and what can
  come out of an arbitrary buffer.
\<close>

section \<open>What a receiver should return\<close>

definition text_or :: "bytes \<Rightarrow> 'a \<Rightarrow> (pystr \<Rightarrow> 'a) \<Rightarrow> 'a" where
  "text_or bs d f = (case utf8_decode bs of Inl _ \<Rightarrow> d | Inr s \<Rightarrow> f s)"

text \<open>The enums of \<^verbatim>\<open>demon.fbs\<close>, whose members are numbered from 0 in the order of their
  declaration, with the member of \<^verbatim>\<open>serialization.py\<close> that stands for each.\<close>

definition schema_InotifyEvent :: "(int \<times> InotifyEvent) list" where
  "schema_InotifyEvent = [(0, MODIFIED), (1, CREATED), (2, SIZE_REACHED), (3, DELETED), (4, ACCESSED)]"

definition schema_SocketState :: "(int \<times> SocketState) list" where
  "schema_SocketState = [(0, SOCKET_UNKNOWN), (1, SOCKET_CREATED), (2, SOCKET_LISTENING)]"

fun want_execveterminated :: "message \<Rightarrow> ExecveInfo option" where
  "want_execveterminated (MExecveTerminated pid name ok) =
     text_or name None (\<lambda>s. Some \<lparr>ei_pid = pid, ei_command_name = s, ei_success = ok\<rparr>)"
| "want_execveterminated _ = None"

fun want_inotifypathupdated :: "message \<Rightarrow> InotifyPathUpdated option" where
  "want_inotifypathupdated (MInotifyPathUpdated p t s l) =
     text_or p None (\<lambda>path. case map_of schema_InotifyEvent t of None \<Rightarrow> None
       | Some e \<Rightarrow> Some \<lparr>ipu_path = path, ipu_event = e, ipu_size = s, ipu_size_limit = l\<rparr>)"
| "want_inotifypathupdated _ = None"

fun want_inotifywatchlistupdated :: "message \<Rightarrow> pystr option" where
  "want_inotifywatchlistupdated (MInotifyWatchListUpdated p) = text_or p None Some"
| "want_inotifywatchlistupdated _ = None"

fun want_processterminated :: "message \<Rightarrow> TerminatedResult" where
  "want_processterminated (MProcessTerminated pid e) = PtInfo \<lparr>pti_pid = pid, pti_error_code = e\<rparr>"
| "want_processterminated _ = PtNone"

fun want_socketwatchterminated :: "message \<Rightarrow> SocketWatchInfo option" where
  "want_socketwatchterminated (MSocketWatchTerminated p s) =
     (case map_of schema_SocketState s of None \<Rightarrow> None | Some st \<Rightarrow> Some \<lparr>swi_port = p, swi_state = st\<rparr>)"
| "want_socketwatchterminated _ = None"

text \<open>The reading of a socket's state in which created and listening are taken for each other.\<close>

fun exchanged :: "SocketState \<Rightarrow> SocketState" where
  "exchanged SOCKET_UNKNOWN = SOCKET_UNKNOWN"
| "exchanged SOCKET_CREATED = SOCKET_LISTENING"
| "exchanged SOCKET_LISTENING = SOCKET_CREATED"

definition exchange_states :: "SocketWatchInfo \<Rightarrow> SocketWatchInfo" where
  "exchange_states i = i\<lparr>swi_state := exchanged (swi_state i)\<rparr>"

text \<open>The class of a message, as seen by the user and by the daemon.\<close>

fun want_event_user :: "message \<Rightarrow> Event" where
  "want_event_user (MExecveTerminated _ _ _) = EXECVE_TERMINATED"
| "want_event_user (MProcessLaunched _) = PROCESS_LAUNCHED"
| "want_event_user (MChildCreationError _) = CHILD_CREATION_ERROR"
| "want_event_user (MProcessTerminated _ _) = PROCESS_TERMINATED"
| "want_event_user (MTCPSocketListening _) = TCP_SOCKET_LISTENING"
| "want_event_user (MInotifyPathUpdated _ _ _ _) = INOTIFY_PATH_UPDATED"
| "want_event_user (MInotifyWatchListUpdated _) = INOTIFY_WATCH_LIST_UPDATED"
| "want_event_user (MSocketWatched _) = SOCKET_WATCHED"
| "want_event_user (MSocketWatchTerminated _ _) = SOCKET_WATCH_TERMINATED"
| "want_event_user _ = NONE"

fun want_event_demon :: "message \<Rightarrow> Event" where
  "want_event_demon (MRunCommand _) = RUN_COMMAND"
| "want_event_demon (MKillProcess _) = KILL_PROCESS"
| "want_event_demon _ = NONE"

section \<open>Enum members\<close>

text \<open>The enum \<^verbatim>\<open>InotifyEvent\<close> of \<^verbatim>\<open>serialization.py\<close> numbers its members as the schema does;
  \<^verbatim>\<open>SocketState\<close> has the numbers of two of its members the other way round.\<close>

lemma InotifyEvent_schema:
  "InotifyEvent_of v = (case map_of schema_InotifyEvent v of None \<Rightarrow> Inl ValueError | Some e \<Rightarrow> Inr e)"
  by (auto simp: InotifyEvent_of_def schema_InotifyEvent_def)

lemma SocketState_schema:
  "SocketState_of v = (case map_of schema_SocketState v of None \<Rightarrow> Inl ValueError | Some st \<Rightarrow> Inr (exchanged st))"
  by (auto simp: SocketState_of_def schema_SocketState_def)

section \<open>Receivers on encoded messages\<close>

text \<open>A buffer opened as a message: its root, the type tag, and where the member's table
  is.\<close>

definition opened :: "'b flatbuffers \<Rightarrow> (bytes \<Rightarrow> store \<Rightarrow> bool) \<Rightarrow> bytes \<Rightarrow> message \<Rightarrow>
    table \<Rightarrow> int \<Rightarrow> store \<Rightarrow> (nat \<rightharpoonup> fval) \<Rightarrow> bool" where
  "opened fb enc buf m root body S fs \<longleftrightarrow> buf \<noteq> [] \<and> enc buf S \<and> S body = Some (TableNode fs) \<and>
     body_fields S fs m \<and> Message_GetRootAsMessage fb buf 0 = Inr root \<and>
     Message_EventsType fb root = Inr (event_code m) \<and>
     (\<forall>init. init_events fb init root = Inr (init buf (pos_of buf body)))"

context fb_reader
begin

lemma openE:
  assumes "carries fb encodes buf m"
  obtains root body S fs where "opened fb encodes buf m root body S fs"
proof -
  from assms obtain S root fs body fs' where enc: "encodes buf S"
      and root: "fb_encode_Get_uoffset fb buf 0 = Inr (pos_of buf root)" "S root = Some (TableNode fs)"
      and ty: "fs 0 = Some (Scalar Uint8Flags (event_code m))" and ev: "has_table S fs 1 body fs'"
      and body: "body_fields S fs' m"
    by (auto simp: carries_def carries_at_def)
  have "scalar_field fb Uint8Flags 4 0 (tab_at buf root) = Inr (event_code m)"
    using ty by (intro scalar_field_at [OF enc root(2)]) (auto simp: has_scalar_def)
  moreover have "union_field fb 6 (tab_at buf root) = Inr (Some (tab_at buf body))"
    by (intro union_field_at [OF enc root(2) ev]) auto
  moreover have "S body = Some (TableNode fs')" using ev by (simp add: has_table_def)
  ultimately have "opened fb encodes buf m (tab_at buf root) body S fs'"
    using encodes_nonempty [OF enc root(2)] enc root body
    by (auto simp: opened_def tables tab_at_def init_events_def message_member_def not_none_def)
  then show thesis by (rule that)
qed

lemmas fields_at = scalar_field_at [where i = 0] scalar_field_at [where i = 1] scalar_field_at [where i = 2]
  scalar_field_at [where i = 3] string_field_at [where i = 0] string_field_at [where i = 1]
  bool_field_at [where i = 2]

lemmas receiver_simps = opened_def tables enums tab_at_def [symmetric] fields_at

lemma kill_reads:
  assumes "carries fb encodes buf m" and "0 < sz"
  shows "receive_kill fb buf sz = (case m of MKillProcess pid \<Rightarrow> pid | _ \<Rightarrow> -1)"
  using assms(1)
proof (rule openE)
  fix root body S fs
  assume "opened fb encodes buf m root body S fs"
  with assms(2) show ?thesis by (cases m) (auto simp: receive_kill_def receiver_simps)
qed

lemma processlaunched_reads:
  assumes "carries fb encodes buf m" and "0 < sz"
  shows "receive_processlaunched fb buf sz = (case m of MProcessLaunched pid \<Rightarrow> pid | _ \<Rightarrow> -1)"
  using assms(1)
proof (rule openE)
  fix root body S fs
  assume "opened fb encodes buf m root body S fs"
  with assms(2) show ?thesis by (cases m) (auto simp: receive_processlaunched_def receiver_simps)
qed

lemma childcreationerror_reads:
  assumes "carries fb encodes buf m" and "0 < sz"
  shows "receive_childcreationerror fb buf sz = (case m of MChildCreationError e \<Rightarrow> e | _ \<Rightarrow> -1)"
  using assms(1)
proof (rule openE)
  fix root body S fs
  assume "opened fb encodes buf m root body S fs"
  with assms(2) show ?thesis by (cases m) (auto simp: receive_childcreationerror_def receiver_simps)
qed

lemma tcpsocketlistening_reads:
  assumes "carries fb encodes buf m" and "0 < sz"
  shows "receive_TCPSocketListening fb buf sz = (case m of MTCPSocketListening p \<Rightarrow> p | _ \<Rightarrow> -1)"
  using assms(1)
proof (rule openE)
  fix root body S fs
  assume "opened fb encodes buf m root body S fs"
  with assms(2) show ?thesis by (cases m) (auto simp: receive_TCPSocketListening_def receiver_simps)
qed

lemma socketwatched_reads:
  assumes "carries fb encodes buf m" and "0 < sz"
  shows "receive_socketwatched fb buf sz = (case m of MSocketWatched p \<Rightarrow> p | _ \<Rightarrow> -1)"
  using assms(1)
proof (rule openE)
  fix root body S fs
  assume "opened fb encodes buf m root body S fs"
  with assms(2) show ?thesis by (cases m) (auto simp: receive_socketwatched_def receiver_simps)
qed

lemma processterminated_reads:
  assumes "carries fb encodes buf m" and "0 < sz"
  shows "receive_processterminated fb buf sz = want_processterminated m"
  using assms(1)
proof (rule openE)
  fix root body S fs
  assume "opened fb encodes buf m root body S fs"
  with assms(2) show ?thesis by (cases m) (auto simp: receive_processterminated_def receiver_simps)
qed

lemma execveterminated_reads:
  assumes "carries fb encodes buf m" and "0 < sz"
  shows "receive_execveterminated fb buf sz = want_execveterminated m"
  using assms(1)
proof (rule openE)
  fix root body S fs
  assume "opened fb encodes buf m root body S fs"
  with assms(2) show ?thesis
    by (cases m) (auto simp: receive_execveterminated_def receiver_simps decode_opt_def text_or_def split: sum.splits)
qed

lemma inotifypathupdated_reads:
  assumes "carries fb encodes buf m" and "0 < sz"
  shows "receive_inotifypathupdated fb buf sz = want_inotifypathupdated m"
  using assms(1)
proof (rule openE)
  fix root body S fs
  assume "opened fb encodes buf m root body S fs"
  with assms(2) show ?thesis
    by (cases m) (auto simp: receive_inotifypathupdated_def receiver_simps decode_opt_def text_or_def InotifyEvent_schema
        split: sum.splits option.splits)
qed

lemma inotifywatchlistupdated_reads:
  assumes "carries fb encodes buf m" and "0 < sz"
  shows "receive_inotifywatchlistupdated fb buf sz = want_inotifywatchlistupdated m"
  using assms(1)
proof (rule openE)
  fix root body S fs
  assume "opened fb encodes buf m root body S fs"
  with assms(2) show ?thesis
    by (cases m) (auto simp: receive_inotifywatchlistupdated_def receiver_simps decode_opt_def text_or_def split: sum.splits)
qed

lemma socketwatchterminated_reads:
  assumes "carries fb encodes buf m" and "0 < sz"
  shows "receive_socketwatchterminated fb buf sz = map_option exchange_states (want_socketwatchterminated m)"
  using assms(1)
proof (rule openE)
  fix root body S fs
  assume "opened fb encodes buf m root body S fs"
  with assms(2) show ?thesis
    by (cases m) (auto simp: receive_socketwatchterminated_def receiver_simps SocketState_schema exchange_states_def
        split: sum.splits option.splits)
qed

lemma message_from_demon_reads:
  assumes "carries fb encodes buf m" and "0 < sz"
  shows "receive_message_from_demon fb buf sz = EvMember (want_event_user m)"
  using assms(1)
proof (rule openE)
  fix root body S fs
  assume "opened fb encodes buf m root body S fs"
  with assms(2) show ?thesis by (cases m) (auto simp: receive_message_from_demon_def event_map_def opened_def enums)
qed

lemma message_from_user_reads:
  assumes "carries fb encodes buf m" and "0 < sz"
  shows "receive_message_from_user fb buf sz = EvMember (want_event_demon m)"
  using assms(1)
proof (rule openE)
  fix root body S fs
  assume "opened fb encodes buf m root body S fs"
  with assms(2) show ?thesis by (cases m) (auto simp: receive_message_from_user_def opened_def enums)
qed

end

end
