(* ===== verification/Send_Correct.thy ===== *)
theory Send_Correct
  imports Message_Spec Serialization
begin

text \<open>
  The \<open>send_\<dots>\<close> functions of \<^verbatim>\<open>serialization.py\<close>: they return, and the buffer they
  return carries the message they were asked to send.  The builder's laws become rules of
  total correctness over a description of its state (\<open>bstate\<close>), and each function is a
  short walk through these rules.
\<close>

definition bstate :: "('b \<Rightarrow> bool) \<Rightarrow> ('b \<Rightarrow> store) \<Rightarrow> ('b \<Rightarrow> phase) \<Rightarrow> ('b \<Rightarrow> int) \<Rightarrow>
    store \<Rightarrow> phase \<Rightarrow> int \<Rightarrow> 'b \<Rightarrow> bool" where
  "bstate valid store phase used S ph u b \<longleftrightarrow> valid b \<and> store b = S \<and> phase b = ph \<and> used b \<le> u"

definition sent :: "'b flatbuffers \<Rightarrow> (bytes \<Rightarrow> store \<Rightarrow> bool) \<Rightarrow> message \<Rightarrow> int \<Rightarrow> BufferInfo \<Rightarrow> bool" where
  "sent fb enc m u bi \<longleftrightarrow> carries fb enc (bi_buffer bi) m \<and>
     bi_size bi = int (length (bi_buffer bi)) \<and> bi_size bi \<le> u"

lemma ok_sent_le: "okE r (sent fb enc m u) \<Longrightarrow> u \<le> v \<Longrightarrow> okE r (sent fb enc m v)"
  by (auto simp: okE_def sent_def)

lemma or_none_ok: "okE r Q \<Longrightarrow> \<exists>x. or_none r = Some x \<and> Q x"
  by (auto simp: okE_def or_none_def)

lemma or_none_raises: "raises r \<Longrightarrow> or_none r = None"
  by (auto simp: raises_def or_none_def)

text \<open>A scalar slot is written unless it has the default value.\<close>

definition put :: "(nat \<rightharpoonup> fval) \<Rightarrow> nat \<Rightarrow> nflags \<Rightarrow> int \<Rightarrow> (nat \<rightharpoonup> fval)" where
  "put fs k fl x = (if x = 0 then fs else fs(k \<mapsto> Scalar fl x))"

lemma put_other [simp]: "j \<noteq> k \<Longrightarrow> put fs k fl x j = fs j"
  by (simp add: put_def)

lemma has_scalar_put [simp]: "fs k = None \<Longrightarrow> has_scalar (put fs k fl x) k fl x"
  by (simp add: put_def has_scalar_def)

lemma has_slot_other [simp]:
  "j \<noteq> k \<Longrightarrow> has_scalar (put fs k fl x) j fl' y = has_scalar fs j fl' y"
  "j \<noteq> k \<Longrightarrow> has_string S (put fs k fl x) j bs = has_string S fs j bs"
  "j \<noteq> k \<Longrightarrow> has_vector S (put fs k fl x) j rs = has_vector S fs j rs"
  "j \<noteq> k \<Longrightarrow> has_scalar (fs(k \<mapsto> v)) j fl' y = has_scalar fs j fl' y"
  "j \<noteq> k \<Longrightarrow> has_string S (fs(k \<mapsto> v)) j bs = has_string S fs j bs"
  "j \<noteq> k \<Longrightarrow> has_vector S (fs(k \<mapsto> v)) j rs = has_vector S fs j rs"
  by (simp_all add: has_scalar_def has_string_def has_vector_def)

lemma nf_range_0 [simp]: "nf_range fl 0"
  by (cases fl) auto

section \<open>Rules for the builder\<close>

context fb_builder
begin

abbreviation at :: "store \<Rightarrow> phase \<Rightarrow> int \<Rightarrow> 'b \<Rightarrow> bool" where
  "at \<equiv> bstate valid store phase used"

lemma at_le: "at S ph u b \<Longrightarrow> u \<le> v \<Longrightarrow> at S ph v b"
  by (auto simp: bstate_def)

text \<open>A piece has been built: the store has grown, \<open>Q\<close> holds of the piece.\<close>

definition built :: "store \<Rightarrow> (store \<Rightarrow> 'a \<Rightarrow> bool) \<Rightarrow> int \<Rightarrow> 'b \<times> 'a \<Rightarrow> bool" where
  "built S Q u r \<longleftrightarrow> (\<exists>T. S \<subseteq>\<^sub>m T \<and> Q T (snd r) \<and> at T Idle u (fst r))"

lemma builtI: "S \<subseteq>\<^sub>m T \<Longrightarrow> Q T x \<Longrightarrow> at T Idle v b \<Longrightarrow> v \<le> u \<Longrightarrow> built S Q u (b, x)"
  unfolding built_def by (auto intro: at_le)

lemma builtE:
  assumes "built S Q u (b, x)"
  obtains T where "S \<subseteq>\<^sub>m T" and "Q T x" and "at T Idle u b"
  using assms by (auto simp: built_def)

lemma built_from: "built T Q v r \<Longrightarrow> S \<subseteq>\<^sub>m T \<Longrightarrow> v \<le> u \<Longrightarrow> built S Q u r"
  unfolding built_def by (blast intro: at_le map_le_trans)

lemma ok_Builder: "okE (fb_Builder fb 1024) (at Map.empty Idle 0)"
  using builder_new [of 1024] by (auto simp: okE_def bstate_def)

lemma ok_CreateString:
  "at S Idle u b \<Longrightarrow> utf8_encode s = Inr bs \<Longrightarrow> u + int (length bs) + 16 \<le> fb_max \<Longrightarrow>
   okE (fb_CreateString fb b s)
     (\<lambda>(b', off). S off = None \<and> at (S(off \<mapsto> StrNode bs)) Idle (u + int (length bs) + 16) b')"
  using create_string [of b s bs] by (fastforce simp: okE_def bstate_def)

lemma ok_StartObject:
  assumes "at S Idle u b" and "0 \<le> n" and "n \<le> int max_slots"
  shows "okE (fb_StartObject fb b n) (at S (InTable (nat n) Map.empty) u)"
  using start_object [of b "nat n"] assms by (fastforce simp: okE_def bstate_def)

lemma ok_PrependSlot:
  assumes "at S (InTable n fs) u b" and "0 \<le> k" and "nat k < n" and "fs (nat k) = None"
    and "nf_range fl x" and "u + 8 \<le> fb_max"
  shows "okE (fb_PrependSlot fb fl b k x 0) (at S (InTable n (put fs (nat k) fl x)) (u + 8))"
  using prepend_slot [of b n fs "nat k" fl x 0] assms by (fastforce simp: okE_def bstate_def put_def)

lemma ok_PrependRefSlot:
  assumes "at S (InTable n fs) u b" and "0 \<le> k" and "nat k < n" and "fs (nat k) = None"
    and "S off = Some nd" and "u + 8 \<le> fb_max"
  shows "okE (fb_PrependUOffsetTRelativeSlot fb b k off 0) (at S (InTable n (fs(nat k \<mapsto> Ref off))) (u + 8))"
  using prepend_ref_slot [of b n fs "nat k" off nd] assms by (fastforce simp: okE_def bstate_def)

lemma ok_EndObject:
  assumes "at S (InTable n fs) u b" and "u + 16 + 2 * int n \<le> fb_max"
  shows "okE (fb_EndObject fb b)
    (\<lambda>(b', off). S off = None \<and> at (S(off \<mapsto> TableNode fs)) Idle (u + 16 + 2 * int n) b')"
  using end_object [of b n fs] assms by (fastforce simp: okE_def bstate_def)

lemma ok_StartVector:
  assumes "at S Idle u b" and "u + 8 + 4 * int n \<le> fb_max"
  shows "okE (fb_StartVector fb b 4 (int n) 4) (\<lambda>(b', _). at S (InVector n []) (u + 8) b')"
  using start_vector [of b n] assms by (fastforce simp: okE_def bstate_def)

lemma ok_PrependRef:
  assumes "at S (InVector n rs) u b" and "length rs < n" and "S off = Some nd" and "u + 4 \<le> fb_max"
  shows "okE (fb_PrependUOffsetTRelative fb b off) (at S (InVector n (off # rs)) (u + 4))"
  using prepend_ref [of b n rs off nd] assms by (fastforce simp: okE_def bstate_def)

lemma ok_EndVector:
  assumes "at S (InVector n rs) u b" and "length rs = n" and "u + 4 \<le> fb_max"
  shows "okE (fb_EndVector fb b) (\<lambda>(b', off). S off = None \<and> at (S(off \<mapsto> VecNode rs)) Idle (u + 4) b')"
  using end_vector [of b n rs] assms by (fastforce simp: okE_def bstate_def)

lemma ok_Finish:
  assumes "at S Idle u b" and "S off = Some (TableNode fs)" and "u + 8 \<le> fb_max"
  shows "okE (fb_Finish fb b off) (at S (Finished off) (u + 8))"
  using finish [of b off fs] assms by (fastforce simp: okE_def bstate_def)

text \<open>The vector loop: the references given in reverse end up in order.\<close>

lemma ok_prepend_all:
  assumes "at S (InVector n rs) u b" and "length rs + length offs \<le> n" and "\<forall>off \<in> set offs. S off \<noteq> None"
    and "u + 4 * int (length offs) \<le> fb_max"
  shows "okE (foldE (fb_PrependUOffsetTRelative fb) b offs)
    (at S (InVector n (rev offs @ rs)) (u + 4 * int (length offs)))"
  using assms
proof (induction offs arbitrary: rs u b)
  case Nil
  then show ?case by simp
next
  case (Cons off offs)
  then obtain nd where "S off = Some nd" by auto
  with Cons.prems have "okE (fb_PrependUOffsetTRelative fb b off) (at S (InVector n (off # rs)) (u + 4))"
    by (intro ok_PrependRef) auto
  then show ?case
  proof (simp only: foldE.simps, rule okE_bind)
    fix b'
    assume "at S (InVector n (off # rs)) (u + 4) b'"
    from Cons.IH [OF this] Cons.prems show "okE (foldE (fb_PrependUOffsetTRelative fb) b' offs)
        (at S (InVector n (rev (off # offs) @ rs)) (u + 4 * int (length (off # offs))))"
      by (simp add: algebra_simps)
  qed
qed

lemma ok_end_offsets:
  assumes "at S (InVector (length offs) []) u b" and "\<forall>off \<in> set offs. S off \<noteq> None"
    and "u + 4 + 4 * int (length offs) \<le> fb_max"
  shows "okE (end_offsets fb b offs)
    (\<lambda>(b', off). S off = None \<and> at (S(off \<mapsto> VecNode offs)) Idle (u + 4 + 4 * int (length offs)) b')"
  unfolding end_offsets_def
proof (rule okE_bind)
  show "okE (foldE (fb_PrependUOffsetTRelative fb) b (rev offs)) (at S (InVector (length offs) offs) (u + 4 * int (length offs)))"
    using ok_prepend_all [OF assms(1), of "rev offs"] assms(2,3) by simp
next
  fix b'
  assume "at S (InVector (length offs) offs) (u + 4 * int (length offs)) b'"
  from ok_EndVector [OF this] assms(3) show "okE (fb_EndVector fb b')
      (\<lambda>(b', off). S off = None \<and> at (S(off \<mapsto> VecNode offs)) Idle (u + 4 + 4 * int (length offs)) b')"
    by (simp add: algebra_simps)
qed

end

section \<open>Wrapping a member into a message\<close>

context flatbuffers_pkg
begin

lemma ok_Output:
  assumes "at S (Finished root) u b"
  shows "okE (fb_Output fb b) (\<lambda>buf. encodes buf S \<and> int (length buf) \<le> u \<and>
    fb_encode_Get_uoffset fb buf 0 = Inr (pos_of buf root))"
  using output_finished [of b root] assms by (fastforce simp: okE_def bstate_def)

lemma ok_wrap_message:
  assumes b: "at S Idle u b" and ev: "S event = Some (TableNode fs)" and m: "body_fields S fs m"
    and room: "u + 44 \<le> fb_max" and ty: "ty = event_code m"
  shows "okE (wrap_message fb b ty event) (sent fb encodes m (u + 44))"
proof -
  have code: "nf_range Uint8Flags ty" "ty \<noteq> 0" by (cases m; simp add: ty)+
  define root_fs where "root_fs = [0 \<mapsto> Scalar Uint8Flags ty, Suc 0 \<mapsto> Ref event]"
  have done_: "sent fb encodes m (u + 44) \<lparr>bi_buffer = buf, bi_size = int (length buf)\<rparr>"
    if "S root = None" "encodes buf (S(root \<mapsto> TableNode root_fs))" "int (length buf) \<le> u + 44"
      "fb_encode_Get_uoffset fb buf 0 = Inr (pos_of buf root)" for buf root
  proof -
    let ?T = "S(root \<mapsto> TableNode root_fs)"
    have le: "S \<subseteq>\<^sub>m ?T" by (rule map_le_fresh) (rule that(1))
    have "body_fields ?T fs m" using body_fields_mono [OF le m] .
    moreover have "?T event = Some (TableNode fs)" using map_leD [OF le ev] .
    ultimately have "carries_at ?T root m"
      by (auto simp: carries_at_def has_table_def root_fs_def ty)
    with that show ?thesis by (auto simp: sent_def carries_def)
  qed
  show ?thesis
    unfolding wrap_message_def tables py_type_id
    apply (rule okE_bind [OF ok_StartObject [OF b]], simp, simp)
    apply (rule okE_bind, erule ok_PrependSlot [where fl = Uint8Flags], simp, simp, simp, rule code)
    subgoal using room by simp
    apply (rule okE_bind, erule ok_PrependRefSlot, simp, simp, simp, rule ev)
    subgoal using room by simp
    apply (rule okE_bind2, erule ok_EndObject)
    subgoal using room by simp
    apply (erule conjE, rule okE_bind, erule ok_Finish, simp)
    subgoal using room by simp
    apply (rule okE_bind, erule ok_Output)
    apply (auto intro!: done_ simp: code root_fs_def put_def)
    done
qed

text \<open>A member with one scalar slot, and one with a string slot.\<close>

lemma ok_scalar_message:
  assumes b: "at Map.empty Idle 0 b" and x: "nf_range fl x" and ty: "ty = event_code m"
    and m: "\<And>S fs. has_scalar fs 0 fl x \<Longrightarrow> body_fields S fs m"
  shows "okE (bindE (fb_StartObject fb b 1) (\<lambda>b. bindE (fb_PrependSlot fb fl b 0 x 0) (\<lambda>b.
    bindE (fb_EndObject fb b) (\<lambda>(b, event). wrap_message fb b ty event)))) (sent fb encodes m 70)"
  apply (rule okE_bind [OF ok_StartObject [OF b]], simp, simp)
  apply (rule okE_bind, erule ok_PrependSlot [where fl = fl], simp, simp, simp, rule x, simp)
  apply (rule okE_bind2, erule ok_EndObject, simp)
  apply (erule conjE, rule ok_sent_le, erule ok_wrap_message [where m = m])
  by (auto simp: ty intro!: m)

lemma ok_string_message:
  assumes b: "at Map.empty Idle 0 b" and s: "utf8_encode s = Inr bs" and ty: "ty = event_code m"
    and room: "int (length bs) + 86 \<le> fb_max"
    and m: "\<And>S fs. has_string S fs 0 bs \<Longrightarrow> body_fields S fs m"
  shows "okE (bindE (fb_CreateString fb b s) (\<lambda>(b, str). bindE (fb_StartObject fb b 1) (\<lambda>b.
    bindE (fb_PrependUOffsetTRelativeSlot fb b 0 str 0) (\<lambda>b.
    bindE (fb_EndObject fb b) (\<lambda>(b, event). wrap_message fb b ty event))))) (sent fb encodes m (int (length bs) + 86))"
  apply (rule okE_bind2, rule ok_CreateString [OF b s])
  subgoal using room by simp
  apply (erule conjE, rule okE_bind, erule ok_StartObject, simp, simp)
  apply (rule okE_bind, erule ok_PrependRefSlot, simp, simp, simp, simp)
  subgoal using room by simp
  apply (rule okE_bind2, erule ok_EndObject)
  subgoal using room by simp
  apply (erule conjE, rule ok_sent_le, erule ok_wrap_message [where m = m])
  using room by (auto simp: ty has_string_def intro!: m split: if_splits)

text \<open>The functions.  \<open>ok_new\<close> starts one with a fresh builder.\<close>

lemma ok_new: "(\<And>b. at Map.empty Idle 0 b \<Longrightarrow> okE (f b) Q) \<Longrightarrow> okE (bindE (fb_Builder fb 1024) f) Q"
  by (rule okE_bind [OF ok_Builder])

lemma ok_new_or_none:
  assumes "\<And>b. at Map.empty Idle 0 b \<Longrightarrow> okE (f b) Q"
  shows "\<exists>x. bindE (fb_Builder fb 1024) (\<lambda>b. Inr (or_none (f b))) = Inr (Some x) \<and> Q x"
proof -
  from ok_Builder obtain b where b: "fb_Builder fb 1024 = Inr b" "at Map.empty Idle 0 b"
    by (auto simp: okE_def)
  from or_none_ok [OF assms [OF b(2)]] b(1) show ?thesis by simp
qed

lemma kill_sends:
  "nf_range Int32Flags pid \<Longrightarrow> okE (send_kill_to_demon fb pid) (sent fb encodes (MKillProcess pid) 70)"
  unfolding send_kill_to_demon_def tables
  by (rule ok_new, erule ok_scalar_message) (auto simp: enums)

lemma processlaunched_sends:
  "nf_range Int32Flags pid \<Longrightarrow>
   \<exists>bi. send_processlaunched_to_user fb pid = Inr (Some bi) \<and> sent fb encodes (MProcessLaunched pid) 70 bi"
  unfolding send_processlaunched_to_user_def tables
  by (rule ok_new_or_none, erule ok_scalar_message) (auto simp: enums)

lemma childcreationerror_sends:
  "nf_range Uint32Flags e \<Longrightarrow>
   \<exists>bi. send_childcreationerror_to_user fb e = Inr (Some bi) \<and> sent fb encodes (MChildCreationError e) 70 bi"
  unfolding send_childcreationerror_to_user_def tables
  by (rule ok_new_or_none, erule ok_scalar_message) (auto simp: enums)

lemma tcpsocketlistening_sends:
  "nf_range Uint16Flags p \<Longrightarrow>
   \<exists>bi. send_tcpsocketlistening_to_user fb p = Inr (Some bi) \<and> sent fb encodes (MTCPSocketListening p) 70 bi"
  unfolding send_tcpsocketlistening_to_user_def tables
  by (rule ok_new_or_none, erule ok_scalar_message) (auto simp: enums)

lemma socketwatched_sends:
  "nf_range Int32Flags p \<Longrightarrow>
   \<exists>bi. send_socketwatched_to_user fb p = Inr (Some bi) \<and> sent fb encodes (MSocketWatched p) 70 bi"
  unfolding send_socketwatched_to_user_def tables
  by (rule ok_new_or_none, erule ok_scalar_message) (auto simp: enums)

lemma inotifywatchlistupdated_sends:
  "utf8_encode path = Inr bs \<Longrightarrow> int (length bs) + 86 \<le> fb_max \<Longrightarrow>
   \<exists>bi. send_inotifywatchlistupdated_to_user fb path = Inr (Some bi) \<and>
     sent fb encodes (MInotifyWatchListUpdated bs) (int (length bs) + 86) bi"
  unfolding send_inotifywatchlistupdated_to_user_def tables py_type_id
  by (rule ok_new_or_none, erule ok_string_message) (auto simp: enums)

lemma ok_processterminated:
  assumes b: "at Map.empty Idle 0 b" and pid: "nf_range Int32Flags pid" and e: "nf_range Uint32Flags e"
  shows "okE (bindE (fb_StartObject fb b 2) (\<lambda>b. bindE (fb_PrependSlot fb Int32Flags b 0 pid 0) (\<lambda>b.
    bindE (fb_PrependSlot fb Uint32Flags b 1 e 0) (\<lambda>b.
    bindE (fb_EndObject fb b) (\<lambda>(b, event). wrap_message fb b 8 event))))) (sent fb encodes (MProcessTerminated pid e) 80)"
  apply (rule okE_bind [OF ok_StartObject [OF b]], simp, simp)
  apply (rule okE_bind, erule ok_PrependSlot [where fl = Int32Flags], simp, simp, simp, rule pid, simp)
  apply (rule okE_bind, erule ok_PrependSlot [where fl = Uint32Flags], simp, simp, simp, rule e, simp)
  apply (rule okE_bind2, erule ok_EndObject, simp)
  apply (erule conjE, rule ok_sent_le, erule ok_wrap_message [where m = "MProcessTerminated pid e"])
  by auto

lemma processterminated_sends:
  assumes "nf_range Int32Flags pid" and "nf_range Uint32Flags e"
  shows "\<exists>bi. send_processterminated_to_user fb pid e = Inr (Some bi) \<and> sent fb encodes (MProcessTerminated pid e) 80 bi"
  unfolding send_processterminated_to_user_def tables enums
  using ok_processterminated [OF _ assms] by (rule ok_new_or_none)

end

end
