(* ===== verification/Send_Command.thy ===== *)
theory Send_Command
  imports Send_Correct
begin

text \<open>
  \<open>send_command_to_demon\<close>: which commands it serialises, which message the buffer then
  carries, and an exception in every other case.
\<close>

section \<open>The message a command stands for\<close>

definition text_bytes :: "pystr \<Rightarrow> bytes option" where
  "text_bytes s = (case utf8_encode s of Inl _ \<Rightarrow> None | Inr bs \<Rightarrow> Some bs)"

fun watch_of :: "SurveillanceEventType \<Rightarrow> SurveillancePtr \<Rightarrow> watch option" where
  "watch_of INOTIFY (PtrInotify p) =
     (if nf_range Int32Flags (ip_mask p) \<and> nf_range Uint32Flags (ip_size p)
      then map_option (\<lambda>bs. WatchInotify bs (ip_mask p) (ip_size p)) (text_bytes (ip_root_paths p)) else None)"
| "watch_of WATCH_SOCKET (PtrSocket s) =
     (if nf_range Uint32Flags (sock_destport s) then Some (WatchSocket (sock_destport s)) else None)"
| "watch_of INOTIFY (PtrSocket s) = None"
| "watch_of WATCH_SOCKET (PtrInotify p) = None"

text \<open>Surveillances whose tag is a string leave no trace in the message.\<close>

fun watches_of :: "Surveillance list \<Rightarrow> watch list option" where
  "watches_of [] = Some []"
| "watches_of (s # rest) = (case sv_event s of
     TagStr _ \<Rightarrow> watches_of rest
   | TagEnum t \<Rightarrow> Option.bind (watch_of t (sv_ptr_event s)) (\<lambda>w. map_option (Cons w) (watches_of rest)))"

definition command_message :: "Command \<Rightarrow> run_command option" where
  "command_message cmd =
     Option.bind (those (map text_bytes (cmd_args cmd))) (\<lambda>args.
     Option.bind (those (map text_bytes (cmd_envp cmd))) (\<lambda>envp.
     Option.bind (text_bytes (cmd_path cmd)) (\<lambda>path.
     Option.bind (watches_of (cmd_to_watch cmd)) (\<lambda>ws.
     if nf_range Uint32Flags (cmd_flags cmd) \<and> nf_range Uint32Flags (cmd_stack_size cmd)
     then Some \<lparr>rc_path = path, rc_args = args, rc_envp = envp, rc_flags = cmd_flags cmd,
            rc_stack_size = cmd_stack_size cmd, rc_to_watch = ws\<rparr> else None))))"

text \<open>Upper bounds on the bytes a message takes.\<close>

definition strs_cost :: "bytes list \<Rightarrow> int" where
  "strs_cost bss = (\<Sum>bs\<leftarrow>bss. int (length bs) + 16)"

fun watch_cost :: "watch \<Rightarrow> int" where
  "watch_cost (WatchInotify bs m s) = int (length bs) + 98"
| "watch_cost (WatchSocket p) = 62"

definition watches_cost :: "watch list \<Rightarrow> int" where
  "watches_cost ws = (\<Sum>w\<leftarrow>ws. watch_cost w)"

definition vec_cost :: "'a list \<Rightarrow> int" where
  "vec_cost xs = 12 + 4 * int (length xs)"

definition command_cost :: "run_command \<Rightarrow> int" where
  "command_cost c = strs_cost (rc_args c) + strs_cost (rc_envp c) + int (length (rc_path c)) + 16 +
     watches_cost (rc_to_watch c) + vec_cost (rc_args c) + vec_cost (rc_envp c) + vec_cost (rc_to_watch c) + 120"

lemma cost_simps [simp]:
  "strs_cost [] = 0" "strs_cost (bs # bss) = int (length bs) + 16 + strs_cost bss"
  "watches_cost [] = 0" "watches_cost (w # ws) = watch_cost w + watches_cost ws"
  by (simp_all add: strs_cost_def watches_cost_def)

lemma watch_cost_pos: "0 \<le> watch_cost w"
  by (cases w) auto

lemma costs_pos [simp]: "0 \<le> strs_cost bss" "0 \<le> watches_cost ws" "0 \<le> vec_cost xs"
proof -
  show "0 \<le> strs_cost bss" by (induction bss) auto
  show "0 \<le> watches_cost ws" by (induction ws) (auto simp: watch_cost_pos)
  show "0 \<le> vec_cost xs" by (simp add: vec_cost_def)
qed

lemma text_bytes_Some: "text_bytes s = Some bs \<longleftrightarrow> utf8_encode s = Inr bs"
  by (auto simp: text_bytes_def split: sum.splits)

lemma text_bytes_None: "text_bytes s = None \<longleftrightarrow> (\<exists>e. utf8_encode s = Inl e)"
  by (auto simp: text_bytes_def split: sum.splits)

text \<open>The loop over the surveillances, by tag.\<close>

lemma send_surveillances_enum:
  "sv_event s = TagEnum t \<Longrightarrow> send_surveillances fb b (s # rest) =
     bindE (case t of
        INOTIFY \<Rightarrow> send_inotify_surveillance fb b (sv_ptr_event s)
      | WATCH_SOCKET \<Rightarrow> send_socket_surveillance fb b (sv_ptr_event s))
     (\<lambda>(b, off). bindE (send_surveillances fb b rest) (\<lambda>(b, offs). Inr (b, off # offs)))"
  by (cases t) simp_all

lemma send_surveillances_str:
  "sv_event s = TagStr x \<Longrightarrow> send_surveillances fb b (s # rest) = send_surveillances fb b rest"
  by simp

section \<open>A command that has a message is sent\<close>

context fb_builder
begin

lemma ok_strings:
  assumes "at S Idle u b" and "those (map text_bytes ss) = Some bss" and "u + strs_cost bss \<le> fb_max"
  shows "okE (mapaccE (fb_CreateString fb) b ss) (built S (\<lambda>T offs. list_all2 (str_at T) offs bss) (u + strs_cost bss))"
  using assms
proof (induction ss arbitrary: S u b bss)
  case Nil
  then show ?case by (auto intro!: builtI)
next
  case (Cons s ss)
  from Cons.prems(2) obtain bs bss' where bss: "bss = bs # bss'" "utf8_encode s = Inr bs"
      "those (map text_bytes ss) = Some bss'"
    by (auto simp: text_bytes_Some split: option.splits)
  have room: "u + int (length bs) + 16 + strs_cost bss' \<le> fb_max"
    using Cons.prems(3) bss(1) by simp
  moreover have "0 \<le> strs_cost bss'" by simp
  ultimately have "u + int (length bs) + 16 \<le> fb_max" by linarith
  note first = ok_CreateString [OF Cons.prems(1) bss(2) this]
  show ?case
  proof (simp only: mapaccE.simps, rule okE_bind2 [OF first], elim conjE)
    fix b' off
    assume fresh: "S off = None" and b': "at (S(off \<mapsto> StrNode bs)) Idle (u + int (length bs) + 16) b'"
    have le: "S \<subseteq>\<^sub>m S(off \<mapsto> StrNode bs)" by (rule map_le_fresh) (rule fresh)
    show "okE (bindE (mapaccE (fb_CreateString fb) b' ss) (\<lambda>(s'', ys). Inr (s'', off # ys)))
        (built S (\<lambda>T offs. list_all2 (str_at T) offs bss) (u + strs_cost bss))"
    proof (rule okE_bind [OF Cons.IH [OF b' bss(3) room]], clarify, elim builtE)
      fix b'' offs T
      assume T: "S(off \<mapsto> StrNode bs) \<subseteq>\<^sub>m T" "list_all2 (str_at T) offs bss'"
          "at T Idle (u + int (length bs) + 16 + strs_cost bss') b''"
      have "S \<subseteq>\<^sub>m T" using le T(1) by (rule map_le_trans)
      moreover have "str_at T off bs" using map_leD [OF T(1)] by (simp add: str_at_def)
      ultimately show "okE (Inr (b'', off # offs)) (built S (\<lambda>T offs. list_all2 (str_at T) offs bss) (u + strs_cost bss))"
        using T(2,3) by (auto simp: bss(1) intro: builtI)
    qed
  qed
qed

lemma ok_vector:
  assumes "at S Idle u b" and "\<forall>off \<in> set offs. S off \<noteq> None" and "u + vec_cost offs \<le> fb_max"
    and "\<And>b' off. S off = None \<Longrightarrow> at (S(off \<mapsto> VecNode offs)) Idle (u + vec_cost offs) b' \<Longrightarrow> okE (f (b', off)) Q"
  shows "okE (bindE (fb_StartVector fb b 4 (int (length offs)) 4) (\<lambda>(b, _). bindE (end_offsets fb b offs) f)) Q"
proof (rule okE_bind2)
  show "okE (fb_StartVector fb b 4 (int (length offs)) 4) (\<lambda>(b', _). at S (InVector (length offs) []) (u + 8) b')"
    using assms(3) by (intro ok_StartVector [OF assms(1)]) (simp add: vec_cost_def)
next
  fix b' and r :: int
  assume "at S (InVector (length offs) []) (u + 8) b'"
  from ok_end_offsets [OF this assms(2)] assms(3)
  have "okE (end_offsets fb b' offs)
    (\<lambda>(b', off). S off = None \<and> at (S(off \<mapsto> VecNode offs)) Idle (u + vec_cost offs) b')"
    by (simp add: vec_cost_def algebra_simps)
  then show "okE (bindE (end_offsets fb b' offs) f) Q"
    by (rule okE_bind) (use assms(4) in auto)
qed

end

context flatbuffers_pkg
begin

lemma ok_surveillance_event:
  assumes b: "at S Idle u b" and ev: "S event = Some (TableNode fs)" and room: "u + 36 \<le> fb_max"
    and ty: "ty = 1 \<or> ty = 2"
    and w: "\<And>T fs'. S \<subseteq>\<^sub>m T \<Longrightarrow> fs' 0 = Some (Scalar Uint8Flags ty) \<Longrightarrow> fs' 1 = Some (Ref event) \<Longrightarrow> watch_fields T fs' w"
  shows "okE (bindE (fb_StartObject fb b 2) (\<lambda>b. bindE (fb_PrependSlot fb Uint8Flags b 0 ty 0) (\<lambda>b.
    bindE (fb_PrependUOffsetTRelativeSlot fb b 1 event 0) (\<lambda>b. fb_EndObject fb b))))
    (built S (\<lambda>T off. watch_at T off w) (u + 36))"
proof -
  define fs' where "fs' = [0 \<mapsto> Scalar Uint8Flags ty, Suc 0 \<mapsto> Ref event]"
  have done_: "built S (\<lambda>T off. watch_at T off w) (u + 36) (b', off)"
    if fresh: "S off = None" and b': "at (S(off \<mapsto> TableNode fs')) Idle (36 + u) b'" for off b'
  proof -
    have le: "S \<subseteq>\<^sub>m S(off \<mapsto> TableNode fs')" by (rule map_le_fresh) (rule fresh)
    have "watch_at (S(off \<mapsto> TableNode fs')) off w"
      using w [OF le, of fs'] by (simp add: watch_at_def fs'_def)
    with le b' show ?thesis by (auto intro: builtI)
  qed
  show ?thesis
    apply (rule okE_bind [OF ok_StartObject [OF b]], simp, simp)
    apply (rule okE_bind, erule ok_PrependSlot [where fl = Uint8Flags], simp, simp, simp)
    subgoal using ty by auto
    subgoal using room by simp
    apply (rule okE_bind, erule ok_PrependRefSlot, simp, simp, simp, rule ev)
    subgoal using room by simp
    apply (rule okE_weaken, erule ok_EndObject)
    subgoal using room by simp
    using ty by (auto intro!: done_ simp: fs'_def put_def)
qed

lemma ok_socket_surveillance:
  assumes b: "at S Idle u b" and p: "nf_range Uint32Flags (sock_destport s)" and room: "u + 62 \<le> fb_max"
  shows "okE (send_socket_surveillance fb b (PtrSocket s)) (built S (\<lambda>T off. watch_at T off (WatchSocket (sock_destport s))) (u + 62))"
  unfolding send_socket_surveillance_def tables enums py_type_id as_socket.simps bindE_Inr
  apply (rule okE_bind [OF ok_StartObject [OF b]], simp, simp)
  apply (rule okE_bind, erule ok_PrependSlot [where fl = Uint32Flags], simp, simp, simp, rule p)
  subgoal using room by simp
  apply (rule okE_bind2, erule ok_EndObject)
  subgoal using room by simp
  apply (erule conjE, rule okE_weaken, erule ok_surveillance_event [where w = "WatchSocket (sock_destport s)"], simp)
  subgoal using room by simp
  apply simp
  subgoal by (auto simp: has_table_def dest: map_leD)
  subgoal by (erule built_from, erule map_le_fresh) simp
  done

lemma ok_inotify_surveillance:
  assumes b: "at S Idle u b" and m: "nf_range Int32Flags (ip_mask p)" and s: "nf_range Uint32Flags (ip_size p)"
    and bs: "utf8_encode (ip_root_paths p) = Inr bs" and room: "u + int (length bs) + 98 \<le> fb_max"
  shows "okE (send_inotify_surveillance fb b (PtrInotify p))
    (built S (\<lambda>T off. watch_at T off (WatchInotify bs (ip_mask p) (ip_size p))) (u + int (length bs) + 98))"
  unfolding send_inotify_surveillance_def tables enums py_type_id as_inotify.simps bindE_Inr
  apply (rule okE_bind2, rule ok_CreateString [OF b bs])
  subgoal using room by simp
  apply (erule conjE, rule okE_bind, erule ok_StartObject, simp, simp)
  apply (rule okE_bind, erule ok_PrependRefSlot, simp, simp, simp, simp)
  subgoal using room by simp
  apply (rule okE_bind, erule ok_PrependSlot [where fl = Int32Flags], simp, simp, simp, rule m)
  subgoal using room by simp
  apply (rule okE_bind, erule ok_PrependSlot [where fl = Uint32Flags], simp, simp, simp, rule s)
  subgoal using room by simp
  apply (rule okE_bind2, erule ok_EndObject)
  subgoal using room by simp
  apply (erule conjE, rule okE_weaken,
      erule ok_surveillance_event [where w = "WatchInotify bs (ip_mask p) (ip_size p)"], simp)
  subgoal using room by simp
  apply simp
  subgoal by (frule map_le_upd, drule map_le_upd2) (auto simp: has_table_def has_string_def split: if_splits)
  subgoal by (erule built_from, erule (1) map_le_trans [OF map_le_fresh map_le_fresh]) simp
  done

text \<open>One surveillance that is not skipped.\<close>

lemma ok_surveillance:
  assumes b: "at S Idle u b" and w: "watch_of t p = Some w" and room: "u + watch_cost w \<le> fb_max"
  shows "okE (case t of
      INOTIFY \<Rightarrow> send_inotify_surveillance fb b p
    | WATCH_SOCKET \<Rightarrow> send_socket_surveillance fb b p)
    (built S (\<lambda>T off. watch_at T off w) (u + watch_cost w))"
proof (cases t)
  case INOTIFY
  with w obtain ip bs where "p = PtrInotify ip" "nf_range Int32Flags (ip_mask ip)" "nf_range Uint32Flags (ip_size ip)"
      "utf8_encode (ip_root_paths ip) = Inr bs" "w = WatchInotify bs (ip_mask ip) (ip_size ip)"
    by (cases p) (auto simp: text_bytes_Some split: if_splits)
  with ok_inotify_surveillance [OF b, of ip bs] INOTIFY room show ?thesis by (simp add: add.assoc)
next
  case WATCH_SOCKET
  with w obtain s where "p = PtrSocket s" "nf_range Uint32Flags (sock_destport s)" "w = WatchSocket (sock_destport s)"
    by (cases p) (auto split: if_splits)
  with ok_socket_surveillance [OF b, of s] WATCH_SOCKET room show ?thesis by simp
qed

lemma ok_surveillances:
  assumes "at S Idle u b" and "watches_of ss = Some ws" and "u + watches_cost ws \<le> fb_max"
  shows "okE (send_surveillances fb b ss) (built S (\<lambda>T offs. list_all2 (watch_at T) offs ws) (u + watches_cost ws))"
  using assms
proof (induction ss arbitrary: S u b ws)
  case Nil
  then show ?case by (auto intro!: builtI)
next
  case (Cons s ss)
  show ?case
  proof (cases "sv_event s")
    case (TagStr x)
    with Cons show ?thesis by (simp add: send_surveillances_str)
  next
    case (TagEnum t)
    with Cons.prems(2) obtain w ws' where ws: "ws = w # ws'" "watch_of t (sv_ptr_event s) = Some w" "watches_of ss = Some ws'"
      by (auto simp: bind_eq_Some_conv)
    have room: "u + watch_cost w + watches_cost ws' \<le> fb_max" using Cons.prems(3) ws(1) by simp
    moreover have "0 \<le> watches_cost ws'" by simp
    ultimately have "u + watch_cost w \<le> fb_max" by linarith
    note first = ok_surveillance [OF Cons.prems(1) ws(2) this]
    show ?thesis
    proof (subst send_surveillances_enum [OF TagEnum], rule okE_bind [OF first], clarify, elim builtE)
      fix b' off T
      assume T: "S \<subseteq>\<^sub>m T" "watch_at T off w" "at T Idle (u + watch_cost w) b'"
      show "okE (bindE (send_surveillances fb b' ss) (\<lambda>(b, offs). Inr (b, off # offs)))
          (built S (\<lambda>T offs. list_all2 (watch_at T) offs ws) (u + watches_cost ws))"
      proof (rule okE_bind [OF Cons.IH [OF T(3) ws(3) room]], clarify, elim builtE)
        fix b'' offs T'
        assume T': "T \<subseteq>\<^sub>m T'" "list_all2 (watch_at T') offs ws'" "at T' Idle (u + watch_cost w + watches_cost ws') b''"
        have "S \<subseteq>\<^sub>m T'" using T(1) T'(1) by (rule map_le_trans)
        with watch_at_mono [OF T'(1) T(2)] T'(2,3)
        show "okE (Inr (b'', off # offs)) (built S (\<lambda>T offs. list_all2 (watch_at T) offs ws) (u + watches_cost ws))"
          by (auto simp: ws(1) intro: builtI)
      qed
    qed
  qed
qed

text \<open>The table of the command, once its strings and vectors are in the store.\<close>

definition parts_of :: "store \<Rightarrow> run_command \<Rightarrow> int \<Rightarrow> int \<Rightarrow> int \<Rightarrow> int \<Rightarrow> bool" where
  "parts_of S c path args envp ws \<longleftrightarrow> str_at S path (rc_path c) \<and>
     (\<exists>rs. S args = Some (VecNode rs) \<and> list_all2 (str_at S) rs (rc_args c)) \<and>
     (\<exists>rs. S envp = Some (VecNode rs) \<and> list_all2 (str_at S) rs (rc_envp c)) \<and>
     (\<exists>rs. S ws = Some (VecNode rs) \<and> list_all2 (watch_at S) rs (rc_to_watch c))"

lemma parts_of_body:
  assumes "parts_of S c path args envp ws" and "S \<subseteq>\<^sub>m T"
    and "fs 0 = Some (Ref path)" and "fs 1 = Some (Ref args)" and "fs 2 = Some (Ref envp)" and "fs 5 = Some (Ref ws)"
    and "has_scalar fs 3 Uint32Flags (rc_flags c)" and "has_scalar fs 4 Uint32Flags (rc_stack_size c)"
  shows "body_fields T fs (MRunCommand c)"
proof -
  have "body_fields S fs (MRunCommand c)"
    using assms by (auto simp: parts_of_def has_string_def has_vector_def str_at_def)
  then show ?thesis using assms(2) body_fields_mono by blast
qed

lemma ok_run_command:
  assumes b: "at S Idle u b" and parts: "parts_of S c path args envp ws" and room: "u + 120 \<le> fb_max"
    and fl: "nf_range Uint32Flags (rc_flags c)" and st: "nf_range Uint32Flags (rc_stack_size c)"
  shows "okE (
     bindE (fb_StartObject fb b 6) (\<lambda>b.
     bindE (fb_PrependUOffsetTRelativeSlot fb b 0 path 0) (\<lambda>b.
     bindE (fb_PrependUOffsetTRelativeSlot fb b 1 args 0) (\<lambda>b.
     bindE (fb_PrependUOffsetTRelativeSlot fb b 2 envp 0) (\<lambda>b.
     bindE (fb_PrependSlot fb Uint32Flags b 3 (rc_flags c) 0) (\<lambda>b.
     bindE (fb_PrependSlot fb Uint32Flags b 4 (rc_stack_size c) 0) (\<lambda>b.
     bindE (fb_PrependUOffsetTRelativeSlot fb b 5 ws 0) (\<lambda>b.
     bindE (fb_EndObject fb b) (\<lambda>(b, run_command). wrap_message fb b 1 run_command)))))))))
     (sent fb encodes (MRunCommand c) (u + 120))"
proof -
  from parts obtain ras res rws where in_store: "S path = Some (StrNode (rc_path c))" "S args = Some (VecNode ras)"
      "S envp = Some (VecNode res)" "S ws = Some (VecNode rws)"
    by (auto simp: parts_of_def str_at_def)
  have room': "v \<le> u + 120 \<Longrightarrow> v \<le> fb_max" for v using room by simp
  show ?thesis
    apply (rule okE_bind [OF ok_StartObject [OF b]], simp, simp)
    apply (rule okE_bind, erule ok_PrependRefSlot, simp, simp, simp, rule in_store, rule room', simp)
    apply (rule okE_bind, erule ok_PrependRefSlot, simp, simp, simp, rule in_store, rule room', simp)
    apply (rule okE_bind, erule ok_PrependRefSlot, simp, simp, simp, rule in_store, rule room', simp)
    apply (rule okE_bind, erule ok_PrependSlot, simp, simp, simp, rule fl, rule room', simp)
    apply (rule okE_bind, erule ok_PrependSlot, simp, simp, simp, rule st, rule room', simp)
    apply (rule okE_bind, erule ok_PrependRefSlot, simp, simp, simp, rule in_store, rule room', simp)
    apply (rule okE_bind2, erule ok_EndObject, rule room', simp)
    apply (erule conjE, rule ok_sent_le, erule ok_wrap_message [where m = "MRunCommand c"], simp)
       apply (rule parts_of_body [OF parts], erule map_le_fresh)
    using room by simp_all
qed

text \<open>The three vectors.\<close>

lemma ok_command_vectors:
  assumes b: "at S Idle u b" and path: "str_at S path (rc_path c)" and args: "list_all2 (str_at S) aoffs (rc_args c)"
    and envp: "list_all2 (str_at S) eoffs (rc_envp c)" and ws: "list_all2 (watch_at S) woffs (rc_to_watch c)"
    and room: "u + vec_cost (rc_args c) + vec_cost (rc_envp c) + vec_cost (rc_to_watch c) \<le> fb_max"
    and k: "\<And>T b args envp ws. parts_of T c path args envp ws \<Longrightarrow>
        at T Idle (u + vec_cost (rc_args c) + vec_cost (rc_envp c) + vec_cost (rc_to_watch c)) b \<Longrightarrow>
        okE (k args envp ws b) Q"
  shows "okE (
     bindE (fb_StartVector fb b 4 (int (length aoffs)) 4) (\<lambda>(b, _).
     bindE (end_offsets fb b aoffs) (\<lambda>(b, args).
     bindE (fb_StartVector fb b 4 (int (length eoffs)) 4) (\<lambda>(b, _).
     bindE (end_offsets fb b eoffs) (\<lambda>(b, envp).
     bindE (fb_StartVector fb b 4 (int (length woffs)) 4) (\<lambda>(b, _).
     bindE (end_offsets fb b woffs) (\<lambda>(b, ws). k args envp ws b))))))) Q"
proof -
  have cost: "vec_cost aoffs = vec_cost (rc_args c)" "vec_cost eoffs = vec_cost (rc_envp c)"
      "vec_cost woffs = vec_cost (rc_to_watch c)"
    using args envp ws by (auto simp: vec_cost_def dest: list_all2_lengthD)
  have pos: "0 \<le> vec_cost (rc_envp c)" "0 \<le> vec_cost (rc_to_watch c)" by simp_all
  have inS: "\<forall>off \<in> set aoffs. S off \<noteq> None" "\<forall>off \<in> set eoffs. S off \<noteq> None" "\<forall>off \<in> set woffs. S off \<noteq> None"
  proof -
    show "\<forall>off \<in> set aoffs. S off \<noteq> None" by (rule list_all2_left [OF args]) (simp add: str_at_def)
    show "\<forall>off \<in> set eoffs. S off \<noteq> None" by (rule list_all2_left [OF envp]) (simp add: str_at_def)
    show "\<forall>off \<in> set woffs. S off \<noteq> None" by (rule list_all2_left [OF ws]) (auto simp: watch_at_def)
  qed
  have fin: "parts_of T c path ar er wr"
    if "S \<subseteq>\<^sub>m T" "T ar = Some (VecNode aoffs)" "T er = Some (VecNode eoffs)" "T wr = Some (VecNode woffs)" for T ar er wr
    using that path list_all2_mono [OF args str_at_mono [OF that(1)]] list_all2_mono [OF envp str_at_mono [OF that(1)]]
      list_all2_mono [OF ws watch_at_mono [OF that(1)]] str_at_mono [OF that(1)]
    by (auto simp: parts_of_def)
  show ?thesis
    apply (rule ok_vector [OF b inS(1)])
    subgoal unfolding cost using room pos by linarith
    apply (simp only: prod.case, rule ok_vector, assumption)
    subgoal using inS(2) by auto
    subgoal unfolding cost using room pos by linarith
    apply (simp only: prod.case, rule ok_vector, assumption)
    subgoal using inS(3) by auto
    subgoal using room by (simp add: cost)
    apply (simp only: prod.case, rule k [rotated], fold cost, assumption)
    by (rule fin) (auto simp: map_le_def split: if_splits)
qed

lemma command_sends:
  assumes c: "command_message cmd = Some c" and room: "command_cost c \<le> fb_max"
  shows "okE (send_command_to_demon fb cmd) (sent fb encodes (MRunCommand c) (command_cost c))"
proof -
  from c have parts: "those (map text_bytes (cmd_args cmd)) = Some (rc_args c)"
      "those (map text_bytes (cmd_envp cmd)) = Some (rc_envp c)" "utf8_encode (cmd_path cmd) = Inr (rc_path c)"
      "watches_of (cmd_to_watch cmd) = Some (rc_to_watch c)"
      and rng: "nf_range Uint32Flags (rc_flags c)" "nf_range Uint32Flags (rc_stack_size c)"
      and eq: "cmd_flags cmd = rc_flags c" "cmd_stack_size cmd = rc_stack_size c"
    by (auto simp: command_message_def text_bytes_Some bind_eq_Some_conv split: if_splits)
  have pos: "0 \<le> strs_cost (rc_args c)" "0 \<le> strs_cost (rc_envp c)" "0 \<le> watches_cost (rc_to_watch c)"
      "0 \<le> vec_cost (rc_args c)" "0 \<le> vec_cost (rc_envp c)" "0 \<le> vec_cost (rc_to_watch c)" by simp_all
  note room = room [unfolded command_cost_def]
  show ?thesis
    unfolding send_command_to_demon_def tables enums py_type_id eq
    apply (rule ok_new)
    apply (rule okE_bind, erule ok_strings [OF _ parts(1)])
    subgoal using room pos by linarith
    apply (clarify, elim builtE)
    apply (rule okE_bind, erule ok_strings [OF _ parts(2)])
    subgoal using room pos by linarith
    apply (clarify, elim builtE)
    apply (rule okE_bind2, erule ok_CreateString [OF _ parts(3)])
    subgoal using room pos by linarith
    apply (elim conjE)
    apply (rule okE_bind, erule ok_surveillances [OF _ parts(4)])
    subgoal using room pos by linarith
    apply (clarify, elim builtE)
    apply (rule ok_command_vectors [where c = c], assumption)
         apply (simp only: str_at_def, erule map_le_upd)
        apply (erule list_all2_mono, erule str_at_mono [rotated], erule map_le_trans, erule map_le_trans [OF map_le_fresh], assumption)
       apply (erule list_all2_mono, erule str_at_mono [rotated], erule map_le_trans [OF map_le_fresh], assumption)
      apply assumption
    subgoal using room pos by linarith
    apply (rule ok_sent_le, erule ok_run_command, assumption)
    using room rng by (auto simp: command_cost_def)
qed

end

section \<open>A command that has no message raises\<close>

context fb_builder
begin

lemma string_raises: "text_bytes s = None \<Longrightarrow> raises (fb_CreateString fb b s)"
  using string_unencodable [of s _ b] by (auto simp: text_bytes_None raises_def)

lemma slot_raises: "\<not> nf_range fl x \<Longrightarrow> raises (fb_PrependSlot fb fl b k x d)"
  using slot_out_of_range [of fl x b k d] by (auto simp: raises_def)

lemma strings_raise: "those (map text_bytes ss) = None \<Longrightarrow> raises (mapaccE (fb_CreateString fb) b ss)"
proof (induction ss arbitrary: b)
  case Nil
  then show ?case by simp
next
  case (Cons s ss)
  show ?case
  proof (cases "text_bytes s")
    case None
    then show ?thesis by (simp add: string_raises raises_here)
  next
    case (Some bs)
    with Cons.prems have "those (map text_bytes ss) = None" by simp
    note rest = Cons.IH [OF this]
    show ?thesis by (simp only: mapaccE.simps) (rule raises_later2, rule raises_here, rule rest)
  qed
qed

lemma surveillance_raises:
  assumes "watch_of t p = None"
  shows "raises (case t of
      INOTIFY \<Rightarrow> send_inotify_surveillance fb b p
    | WATCH_SOCKET \<Rightarrow> send_socket_surveillance fb b p)"
proof (cases t)
  case INOTIFY
  with assms consider s where "p = PtrSocket s" | ip where "p = PtrInotify ip" "text_bytes (ip_root_paths ip) = None"
    | ip where "p = PtrInotify ip" "\<not> nf_range Int32Flags (ip_mask ip)"
    | ip where "p = PtrInotify ip" "\<not> nf_range Uint32Flags (ip_size ip)"
    by (cases p) (auto split: if_splits)
  then have "raises (send_inotify_surveillance fb b p)"
    unfolding send_inotify_surveillance_def tables
    by cases (simp only: as_inotify.simps bindE_Inr bindE_Inl raises_Inl
        | (rule raises_here, rule string_raises slot_raises, assumption) | rule raises_later2 raises_later)+
  with INOTIFY show ?thesis by simp
next
  case WATCH_SOCKET
  with assms consider ip where "p = PtrInotify ip" | s where "p = PtrSocket s" "\<not> nf_range Uint32Flags (sock_destport s)"
    by (cases p) (auto split: if_splits)
  then have "raises (send_socket_surveillance fb b p)"
    unfolding send_socket_surveillance_def tables
    by cases (simp only: as_socket.simps bindE_Inr bindE_Inl raises_Inl
        | (rule raises_here, rule slot_raises, assumption) | rule raises_later2 raises_later | simp)+
  with WATCH_SOCKET show ?thesis by simp
qed

lemma surveillances_raise: "watches_of ss = None \<Longrightarrow> raises (send_surveillances fb b ss)"
proof (induction ss arbitrary: b)
  case Nil
  then show ?case by simp
next
  case (Cons s ss)
  show ?case
  proof (cases "sv_event s")
    case (TagStr x)
    with Cons show ?thesis by (simp add: send_surveillances_str)
  next
    case (TagEnum t)
    show ?thesis
    proof (cases "watch_of t (sv_ptr_event s)")
      case None
      from surveillance_raises [OF this, of b] show ?thesis
        by (simp only: send_surveillances_enum [OF TagEnum] raises_here)
    next
      case (Some w)
      with Cons.prems TagEnum have "watches_of ss = None" by simp
      from Cons.IH [OF this] show ?thesis
        by (simp only: send_surveillances_enum [OF TagEnum]) (rule raises_later2, rule raises_here)
    qed
  qed
qed

lemma command_raises:
  assumes "command_message cmd = None"
  shows "raises (send_command_to_demon fb cmd)"
proof -
  consider "those (map text_bytes (cmd_args cmd)) = None" | "those (map text_bytes (cmd_envp cmd)) = None"
    | "text_bytes (cmd_path cmd) = None" | "watches_of (cmd_to_watch cmd) = None"
    | "\<not> nf_range Uint32Flags (cmd_flags cmd)" | "\<not> nf_range Uint32Flags (cmd_stack_size cmd)"
    using assms unfolding command_message_def by (auto simp: bind_eq_None_conv split: if_splits)
  then show ?thesis
    unfolding send_command_to_demon_def tables
    by cases ((rule raises_here, rule strings_raise string_raises surveillances_raise slot_raises, assumption)
        | rule raises_later2 raises_later)+
qed

end

end
