(* ===== verification/Command_Delivery.thy ===== *)
theory Command_Delivery
  imports Receive_Correct Send_Command
begin

text \<open>
  A command that \<open>send_command_to_demon\<close> has serialised, read back with the accessors
  of the generated modules: every field of the \<open>Command\<close> object is there.  (The repository's own
  \<open>receive_command\<close> does not work, see \<open>Receive_Safety\<close>.)
\<close>

section \<open>A command seen through the accessors\<close>

definition shows_text :: "bytes option py \<Rightarrow> pystr \<Rightarrow> bool" where
  "shows_text r s \<longleftrightarrow> (\<exists>p. r = Inr (Some p) \<and> utf8_decode p = Inr s)"

definition shows_texts :: "int py \<Rightarrow> (int \<Rightarrow> py_text py) \<Rightarrow> pystr list \<Rightarrow> bool" where
  "shows_texts len get ss \<longleftrightarrow> len = Inr (int (length ss)) \<and>
     (\<forall>j < length ss. \<exists>p. get (int j) = Inr (PyBytes p) \<and> utf8_decode p = Inr (ss ! j))"

text \<open>The table of a union member, wrapped by the class \<open>init\<close>.\<close>

definition shows_member :: "table option py \<Rightarrow> (bytes \<Rightarrow> int \<Rightarrow> table) \<Rightarrow> (table \<Rightarrow> bool) \<Rightarrow> bool" where
  "shows_member r init P \<longleftrightarrow> (\<exists>u. r = Inr (Some u) \<and> P (init (Bytes u) (Pos u)))"

fun shows_watch :: "'b flatbuffers \<Rightarrow> table \<Rightarrow> SurveillancePtr \<Rightarrow> bool" where
  "shows_watch fb t (PtrInotify p) =
     (SurveillanceEvent_EventType fb t = Inr Surveillance_Inotify \<and>
      shows_member (SurveillanceEvent_Event fb t) Inotify_Init (\<lambda>i.
        shows_text (Inotify_RootPaths fb i) (ip_root_paths p) \<and>
        Inotify_Mask fb i = Inr (ip_mask p) \<and> Inotify_Size fb i = Inr (ip_size p)))"
| "shows_watch fb t (PtrSocket s) =
     (SurveillanceEvent_EventType fb t = Inr Surveillance_TCPSocket \<and>
      shows_member (SurveillanceEvent_Event fb t) TCPSocket_Init (\<lambda>i. TCPSocket_Destport fb i = Inr (sock_destport s)))"

definition sent_watches :: "Surveillance list \<Rightarrow> SurveillancePtr list" where
  "sent_watches ss = [sv_ptr_event s. s \<leftarrow> ss, case sv_event s of TagEnum _ \<Rightarrow> True | TagStr _ \<Rightarrow> False]"

definition shows_command :: "'b flatbuffers \<Rightarrow> table \<Rightarrow> Command \<Rightarrow> bool" where
  "shows_command fb t cmd \<longleftrightarrow>
     shows_text (RunCommand_Path fb t) (cmd_path cmd) \<and>
     shows_texts (RunCommand_ArgsLength fb t) (RunCommand_Args fb t) (cmd_args cmd) \<and>
     shows_texts (RunCommand_EnvpLength fb t) (RunCommand_Envp fb t) (cmd_envp cmd) \<and>
     RunCommand_Flags fb t = Inr (cmd_flags cmd) \<and>
     RunCommand_StackSize fb t = Inr (cmd_stack_size cmd) \<and>
     RunCommand_ToWatchLength fb t = Inr (int (length (sent_watches (cmd_to_watch cmd)))) \<and>
     (\<forall>j < length (sent_watches (cmd_to_watch cmd)). \<exists>w.
        RunCommand_ToWatch fb t (int j) = Inr (Some w) \<and> shows_watch fb w (sent_watches (cmd_to_watch cmd) ! j))"

section \<open>Encoded lists and the lists they come from\<close>

lemma those_nth:
  assumes "those (map f xs) = Some ys"
  shows "length ys = length xs" and "j < length xs \<Longrightarrow> f (xs ! j) = Some (ys ! j)"
proof -
  have "list_all2 (\<lambda>x y. f x = Some y) xs ys"
    using assms by (induction xs arbitrary: ys) (auto split: option.splits)
  then show "length ys = length xs" "j < length xs \<Longrightarrow> f (xs ! j) = Some (ys ! j)"
    by (auto simp: list_all2_conv_all_nth)
qed

fun encodes_ptr :: "SurveillancePtr \<Rightarrow> watch \<Rightarrow> bool" where
  "encodes_ptr (PtrInotify p) (WatchInotify bs m s) =
     (utf8_encode (ip_root_paths p) = Inr bs \<and> m = ip_mask p \<and> s = ip_size p)"
| "encodes_ptr (PtrSocket s) (WatchSocket p) = (p = sock_destport s)"
| "encodes_ptr _ _ = False"

lemma watch_of_encodes: "watch_of t p = Some w \<Longrightarrow> encodes_ptr p w"
  by (cases t; cases p) (auto simp: text_bytes_Some split: if_splits)

lemma watches_of_encodes: "watches_of ss = Some ws \<Longrightarrow> list_all2 encodes_ptr (sent_watches ss) ws"
proof (induction ss arbitrary: ws)
  case Nil
  then show ?case by (simp add: sent_watches_def)
next
  case (Cons s ss)
  then show ?case
    by (cases "sv_event s") (auto simp: sent_watches_def bind_eq_Some_conv dest: watch_of_encodes)
qed

section \<open>Reading a command\<close>

context fb_reader
begin

lemma watch_shown:
  assumes enc: "encodes buf S" and w: "watch_at S r w" and p: "encodes_ptr p w"
  shows "shows_watch fb (SurveillanceEvent_Init buf (pos_of buf r)) p"
proof -
  from w obtain fs where fs: "S r = Some (TableNode fs)" "watch_fields S fs w" by (auto simp: watch_at_def)
  note at = scalar_field_at [OF enc] string_field_at [OF enc] union_field_at [OF enc]
  show ?thesis
  proof (cases w)
    case (WatchInotify bs m s)
    with p obtain ip where ip: "p = PtrInotify ip" "utf8_encode (ip_root_paths ip) = Inr bs" "m = ip_mask ip" "s = ip_size ip"
      by (cases p) auto
    from fs(2) WatchInotify obtain q fs' where ty: "fs 0 = Some (Scalar Uint8Flags 1)" and q: "has_table S fs 1 q fs'"
        and fs': "has_string S fs' 0 bs" "has_scalar fs' 1 Int32Flags m" "has_scalar fs' 2 Uint32Flags s"
      by auto
    have q': "S q = Some (TableNode fs')" using q by (simp add: has_table_def)
    have "scalar_field fb Uint8Flags 4 0 (tab_at buf r) = Inr 1"
      using ty by (intro at(1) [OF fs(1)]) (auto simp: has_scalar_def)
    moreover have "union_field fb 6 (tab_at buf r) = Inr (Some (tab_at buf q))" by (rule at(3) [OF fs(1) q]) auto
    moreover have "string_field fb 4 (tab_at buf q) = Inr (Some bs)" by (rule at(2) [OF q' fs'(1)]) auto
    moreover have "scalar_field fb Int32Flags 6 0 (tab_at buf q) = Inr m" by (rule at(1) [OF q' fs'(2)]) auto
    moreover have "scalar_field fb Uint32Flags 8 0 (tab_at buf q) = Inr s" by (rule at(1) [OF q' fs'(3)]) auto
    ultimately show ?thesis using utf8_roundtrip [OF ip(2)] ip
      by (simp add: tables enums tab_at_def shows_member_def shows_text_def)
  next
    case (WatchSocket port)
    with p obtain s where s: "p = PtrSocket s" "port = sock_destport s" by (cases p) auto
    from fs(2) WatchSocket obtain q fs' where ty: "fs 0 = Some (Scalar Uint8Flags 2)" and q: "has_table S fs 1 q fs'"
        and fs': "has_scalar fs' 0 Uint32Flags port"
      by auto
    have q': "S q = Some (TableNode fs')" using q by (simp add: has_table_def)
    have "scalar_field fb Uint8Flags 4 0 (tab_at buf r) = Inr 2"
      using ty by (intro at(1) [OF fs(1)]) (auto simp: has_scalar_def)
    moreover have "union_field fb 6 (tab_at buf r) = Inr (Some (tab_at buf q))" by (rule at(3) [OF fs(1) q]) auto
    moreover have "scalar_field fb Uint32Flags 4 0 (tab_at buf q) = Inr port" by (rule at(1) [OF q' fs']) auto
    ultimately show ?thesis using s
      by (simp add: tables enums tab_at_def shows_member_def)
  qed
qed

lemma texts_shown:
  assumes "encodes buf S" and "S off = Some (TableNode fs)" and "has_vector S fs i rs" and "i < max_slots"
    and "vt = 4 + 2 * int i" and "list_all2 (str_at S) rs bss" and "those (map text_bytes ss) = Some bss"
  shows "shows_texts (vector_len_field fb vt (tab_at buf off)) (string_vector_field fb vt (tab_at buf off)) ss"
  using vector_len_field_at [OF assms(1-5)] string_vector_field_at [OF assms(1-6)] those_nth [OF assms(7)]
    list_all2_lengthD [OF assms(6)]
  by (auto simp: shows_texts_def text_bytes_Some utf8_roundtrip)

lemma command_shown:
  assumes enc: "encodes buf S" and off: "S off = Some (TableNode fs)" and body: "body_fields S fs (MRunCommand c)"
    and c: "command_message cmd = Some c"
  shows "shows_command fb (RunCommand_Init buf (pos_of buf off)) cmd"
proof -
  from c have parts: "those (map text_bytes (cmd_args cmd)) = Some (rc_args c)"
      "those (map text_bytes (cmd_envp cmd)) = Some (rc_envp c)" "utf8_encode (cmd_path cmd) = Inr (rc_path c)"
      "watches_of (cmd_to_watch cmd) = Some (rc_to_watch c)"
      and eq: "cmd_flags cmd = rc_flags c" "cmd_stack_size cmd = rc_stack_size c"
    by (auto simp: command_message_def text_bytes_Some bind_eq_Some_conv split: if_splits)
  let ?t = "tab_at buf off" and ?ws = "sent_watches (cmd_to_watch cmd)"
  from body obtain as es ws where path: "has_string S fs 0 (rc_path c)"
      and args: "has_vector S fs 1 as" "list_all2 (str_at S) as (rc_args c)"
      and envp: "has_vector S fs 2 es" "list_all2 (str_at S) es (rc_envp c)"
      and num: "has_scalar fs 3 Uint32Flags (rc_flags c)" "has_scalar fs 4 Uint32Flags (rc_stack_size c)"
      and ws: "has_vector S fs 5 ws" "list_all2 (watch_at S) ws (rc_to_watch c)"
    by auto
  have "shows_text (string_field fb 4 ?t) (cmd_path cmd)"
    using string_field_at [OF enc off path] utf8_roundtrip [OF parts(3)] by (simp add: shows_text_def)
  moreover have "shows_texts (vector_len_field fb 6 ?t) (string_vector_field fb 6 ?t) (cmd_args cmd)"
    by (rule texts_shown [OF enc off args(1) _ _ args(2) parts(1)]) auto
  moreover have "shows_texts (vector_len_field fb 8 ?t) (string_vector_field fb 8 ?t) (cmd_envp cmd)"
    by (rule texts_shown [OF enc off envp(1) _ _ envp(2) parts(2)]) auto
  moreover have "scalar_field fb Uint32Flags 10 0 ?t = Inr (cmd_flags cmd)"
    using scalar_field_at [OF enc off num(1)] eq by simp
  moreover have "scalar_field fb Uint32Flags 12 0 ?t = Inr (cmd_stack_size cmd)"
    using scalar_field_at [OF enc off num(2)] eq by simp
  moreover have "vector_len_field fb 14 ?t = Inr (int (length ?ws))"
    using vector_len_field_at [OF enc off ws(1)] list_all2_lengthD [OF ws(2)]
      list_all2_lengthD [OF watches_of_encodes [OF parts(4)]] by simp
  moreover have "\<exists>w. table_vector_field fb 14 SurveillanceEvent_Init ?t (int j) = Inr (Some w) \<and> shows_watch fb w (?ws ! j)"
    if j: "j < length ?ws" for j
  proof -
    have w: "watch_at S (ws ! j) (rc_to_watch c ! j)" "encodes_ptr (?ws ! j) (rc_to_watch c ! j)" "j < length ws"
      using j ws(2) watches_of_encodes [OF parts(4)] by (auto simp: list_all2_conv_all_nth)
    then obtain fs' where "S (ws ! j) = Some (TableNode fs')" by (auto simp: watch_at_def)
    with table_vector_field_at [OF enc off ws(1) _ _ w(3), of 14 fs' SurveillanceEvent_Init]
    show ?thesis using watch_shown [OF enc w(1,2)] by simp
  qed
  moreover have "RunCommand_Args fb = string_vector_field fb 6" "RunCommand_Envp fb = string_vector_field fb 8"
    by (simp_all add: fun_eq_iff tables)
  ultimately show ?thesis by (simp add: shows_command_def tables tab_at_def)
qed

lemma command_reads:
  assumes "carries fb encodes buf (MRunCommand c)" and "command_message cmd = Some c"
  shows "\<exists>msg t. Message_GetRootAsMessage fb buf 0 = Inr msg \<and> Message_EventsType fb msg = Inr Event_RunCommand \<and>
    init_events fb RunCommand_Init msg = Inr t \<and> shows_command fb t cmd"
  using assms(1)
proof (rule openE)
  fix root body S fs
  assume o: "opened fb encodes buf (MRunCommand c) root body S fs"
  then have "shows_command fb (RunCommand_Init buf (pos_of buf body)) cmd"
    unfolding opened_def by (blast intro: command_shown [OF _ _ _ assms(2)])
  with o show ?thesis by (auto simp: opened_def enums)
qed

end

end
