(* ===== verification/Daemon_Messages.thy ===== *)
theory Daemon_Messages
  imports Send_Correct
begin

text \<open>
  The three messages that only a daemon can send: \<^verbatim>\<open>serialization.py\<close> has no working
  sender for \<^verbatim>\<open>ExecveTerminated\<close>, \<^verbatim>\<open>InotifyPathUpdated\<close> and
  \<^verbatim>\<open>SocketWatchTerminated\<close>.  Here they are built with the functions of the generated
  modules, in the order of the schema, as the peers of the Python receivers.
\<close>

text \<open>The part after the name has been written.\<close>

definition build_execve_table :: "'b flatbuffers \<Rightarrow> int \<Rightarrow> bool \<Rightarrow> 'b \<Rightarrow> int \<Rightarrow> BufferInfo py" where
  "build_execve_table fb pid success b s =
     bindE (ExecveTerminated_Start fb b) (\<lambda>b.
     bindE (ExecveTerminated_AddPid fb b pid) (\<lambda>b.
     bindE (ExecveTerminated_AddCommandName fb b s) (\<lambda>b.
     bindE (ExecveTerminated_AddSuccess fb b success) (\<lambda>b.
     bindE (ExecveTerminated_End fb b) (\<lambda>(b, event).
     wrap_message fb b Event_ExecveTerminated event)))))"

definition build_execveterminated :: "'b flatbuffers \<Rightarrow> int \<Rightarrow> pystr \<Rightarrow> bool \<Rightarrow> BufferInfo py" where
  "build_execveterminated fb pid name success =
     bindE (fb_Builder fb 1024) (\<lambda>b. bindE (fb_CreateString fb b name) (\<lambda>(b, s). build_execve_table fb pid success b s))"

definition build_inotifypathupdated :: "'b flatbuffers \<Rightarrow> pystr \<Rightarrow> int \<Rightarrow> int \<Rightarrow> int \<Rightarrow> BufferInfo py" where
  "build_inotifypathupdated fb path trigger size_v size_limit =
     bindE (fb_Builder fb 1024) (\<lambda>b.
     bindE (fb_CreateString fb b path) (\<lambda>(b, s).
     bindE (InotifyPathUpdated_Start fb b) (\<lambda>b.
     bindE (InotifyPathUpdated_AddPath fb b s) (\<lambda>b.
     bindE (InotifyPathUpdated_AddTriggerEvents fb b trigger) (\<lambda>b.
     bindE (InotifyPathUpdated_AddSize fb b size_v) (\<lambda>b.
     bindE (InotifyPathUpdated_AddSizeLimit fb b size_limit) (\<lambda>b.
     bindE (InotifyPathUpdated_End fb b) (\<lambda>(b, event).
     wrap_message fb b Event_InotifyPathUpdated event))))))))"

definition build_socketwatchterminated :: "'b flatbuffers \<Rightarrow> int \<Rightarrow> int \<Rightarrow> BufferInfo py" where
  "build_socketwatchterminated fb port state =
     bindE (fb_Builder fb 1024) (\<lambda>b.
     bindE (SocketWatchTerminated_Start fb b) (\<lambda>b.
     bindE (SocketWatchTerminated_AddPort fb b port) (\<lambda>b.
     bindE (SocketWatchTerminated_AddState fb b state) (\<lambda>b.
     bindE (SocketWatchTerminated_End fb b) (\<lambda>(b, event).
     wrap_message fb b Event_SocketWatchTerminated event)))))"

context flatbuffers_pkg
begin

lemma execve_table_builds:
  assumes b: "at S Idle u b" and off: "S off = Some (StrNode bs)" and pid: "nf_range Int32Flags pid"
    and room: "u + 90 \<le> fb_max"
  shows "okE (build_execve_table fb pid ok b off) (sent fb encodes (MExecveTerminated pid bs ok) (u + 90))"
proof -
  have room': "v \<le> u + 90 \<Longrightarrow> v \<le> fb_max" for v using room by simp
  show ?thesis
    unfolding build_execve_table_def tables enums py_type_id
    apply (rule okE_bind [OF ok_StartObject [OF b]], simp, simp)
    apply (rule okE_bind, erule ok_PrependSlot [where fl = Int32Flags], simp, simp, simp, rule pid, rule room', simp)
    apply (rule okE_bind, erule ok_PrependRefSlot, simp, simp, simp, rule off, rule room', simp)
    apply (rule okE_bind, erule ok_PrependSlot [where fl = BoolFlags], simp, simp, simp, simp, rule room', simp)
    apply (rule okE_bind2, erule ok_EndObject, rule room', simp)
    apply (erule conjE, rule ok_sent_le, erule ok_wrap_message [where m = "MExecveTerminated pid bs ok"])
    using room off by (auto simp: has_string_def intro!: exI [of _ off])
qed

lemma execveterminated_builds:
  assumes pid: "nf_range Int32Flags pid" and s: "utf8_encode name = Inr bs" and room: "int (length bs) + 106 \<le> fb_max"
  shows "okE (build_execveterminated fb pid name ok)
    (sent fb encodes (MExecveTerminated pid bs ok) (int (length bs) + 106))"
  unfolding build_execveterminated_def
  apply (rule ok_new, rule okE_bind2, erule ok_CreateString [OF _ s])
  subgoal using room by simp
  apply (erule conjE, rule ok_sent_le, erule execve_table_builds, simp, rule pid)
  using room by simp_all

lemma inotifypathupdated_builds:
  assumes s: "utf8_encode path = Inr bs" and t: "nf_range Int8Flags t" and sz: "nf_range Uint32Flags sz"
    and l: "nf_range Uint32Flags l" and room: "int (length bs) + 116 \<le> fb_max"
  shows "okE (build_inotifypathupdated fb path t sz l)
    (sent fb encodes (MInotifyPathUpdated bs t sz l) (int (length bs) + 116))"
proof -
  have room': "v \<le> int (length bs) + 116 \<Longrightarrow> v \<le> fb_max" for v using room by simp
  show ?thesis
    unfolding build_inotifypathupdated_def tables enums py_type_id
    apply (rule ok_new, rule okE_bind2, erule ok_CreateString [OF _ s], rule room', simp)
    apply (erule conjE, rule okE_bind, erule ok_StartObject, simp, simp)
    apply (rule okE_bind, erule ok_PrependRefSlot, simp, simp, simp, simp, rule room', simp)
    apply (rule okE_bind, erule ok_PrependSlot [where fl = Int8Flags], simp, simp, simp, rule t, rule room', simp)
    apply (rule okE_bind, erule ok_PrependSlot [where fl = Uint32Flags], simp, simp, simp, rule sz, rule room', simp)
    apply (rule okE_bind, erule ok_PrependSlot [where fl = Uint32Flags], simp, simp, simp, rule l, rule room', simp)
    apply (rule okE_bind2, erule ok_EndObject, rule room', simp)
    apply (erule conjE, rule ok_sent_le, erule ok_wrap_message [where m = "MInotifyPathUpdated bs t sz l"])
    using room by (auto simp: has_string_def split: if_splits)
qed

lemma socketwatchterminated_builds:
  assumes p: "nf_range Int32Flags p" and s: "nf_range Int8Flags s"
  shows "okE (build_socketwatchterminated fb p s) (sent fb encodes (MSocketWatchTerminated p s) 80)"
  unfolding build_socketwatchterminated_def tables enums py_type_id
  apply (rule ok_new, rule okE_bind, erule ok_StartObject, simp, simp)
  apply (rule okE_bind, erule ok_PrependSlot [where fl = Int32Flags], simp, simp, simp, rule p, simp)
  apply (rule okE_bind, erule ok_PrependSlot [where fl = Int8Flags], simp, simp, simp, rule s, simp)
  apply (rule okE_bind2, erule ok_EndObject, simp)
  apply (erule conjE, rule ok_sent_le, erule ok_wrap_message [where m = "MSocketWatchTerminated p s"])
  by auto

end

end
