(* ===== verification/Wire_Messages.thy ===== *)
theory Wire_Messages
  imports Fb_Wire Command_Delivery Daemon_Messages
begin

text \<open>
  Sample messages over the byte-level implementation \<open>wire_fb\<close> of the package's
  interface: the laws of the locales hold there, so a buffer exists for each of them.
\<close>

interpretation wire_read: fb_reader wire_fb wire_encodes
  by (rule wire_reader)

interpretation wire_build: fb_builder wire_fb wire_valid w_store w_phase wire_used
  by (rule wire_builder)

interpretation wire: flatbuffers_pkg wire_fb wire_encodes wire_valid w_store w_phase wire_used
  by (rule wire_package)

text \<open>A buffer that a function returned is a buffer.\<close>

lemma sent_carries: "okE r (sent fb enc m u) \<Longrightarrow> \<exists>buf. carries fb enc buf m"
  by (auto simp: okE_def sent_def)

lemma wire_kill: "\<exists>buf. carries wire_fb wire_encodes buf (MKillProcess 42)"
  by (rule sent_carries [OF wire.kill_sends]) simp

lemma utf8_sh: "utf8_encode (pystr_of ''sh'') = Inr [115, 104]"
  by code_simp

lemma wire_execveterminated:
  "\<exists>buf. carries wire_fb wire_encodes buf (MExecveTerminated 7 [115, 104] True)"
  by (rule sent_carries [OF wire.execveterminated_builds [OF _ utf8_sh]]) simp_all

text \<open>A peer may put any bytes in a string, also bytes that are not UTF-8.\<close>

lemma wire_raw_name:
  "\<exists>r :: BufferInfo py. okE r (sent wire_fb wire_encodes (MExecveTerminated 42 [255] True) 107)"
proof -
  obtain b where b: "wire_valid b" "w_store b = Map.empty" "w_phase b = Idle" "wire_used b = 0"
    using wire_build.builder_new [of 1024] by auto
  obtain b' off where b': "wire_valid b'" "w_phase b' = Idle" "w_store b' = [off \<mapsto> StrNode [255]]" "wire_used b' \<le> 17"
    using wire_create_bytes [OF b(1,3), of "[255]"] b(2,4) by auto
  then have "bstate wire_valid w_store w_phase wire_used [off \<mapsto> StrNode [255]] Idle 17 b'" by (simp add: bstate_def)
  from wire.execve_table_builds [OF this, of off "[255]" 42 True]
  show ?thesis by auto
qed

lemma wire_inotifypathupdated:
  "\<exists>buf. carries wire_fb wire_encodes buf (MInotifyPathUpdated [115, 104] 2 10 5)"
  by (rule sent_carries [OF wire.inotifypathupdated_builds [OF utf8_sh]]) simp_all

lemma wire_socketwatchterminated:
  "nf_range Int8Flags s \<Longrightarrow> \<exists>buf. carries wire_fb wire_encodes buf (MSocketWatchTerminated 8080 s)"
  by (rule sent_carries [OF wire.socketwatchterminated_builds]) simp_all

section \<open>A sample command\<close>

definition sample_command :: Command where
  "sample_command = \<lparr>cmd_path = pystr_of ''/bin/sh'', cmd_args = [pystr_of ''sh'', pystr_of ''-c''],
     cmd_envp = [], cmd_flags = 17, cmd_stack_size = 1048576,
     cmd_to_watch = [\<lparr>sv_event = TagEnum WATCH_SOCKET, sv_ptr_event = PtrSocket \<lparr>sock_destport = 8080\<rparr>\<rparr>,
       \<lparr>sv_event = TagEnum INOTIFY, sv_ptr_event = PtrInotify
          \<lparr>ip_root_paths = pystr_of ''/tmp'', ip_mask = 2, ip_size = 0\<rparr>\<rparr>]\<rparr>"

definition sample_message :: run_command where
  "sample_message = \<lparr>rc_path = [47, 98, 105, 110, 47, 115, 104], rc_args = [[115, 104], [45, 99]],
     rc_envp = [], rc_flags = 17, rc_stack_size = 1048576,
     rc_to_watch = [WatchSocket 8080, WatchInotify [47, 116, 109, 112] 2 0]\<rparr>"

lemma sample_command_message: "command_message sample_command = Some sample_message"
  by code_simp

lemma sample_command_cost: "command_cost sample_message \<le> 2147483647"
  by code_simp

lemma sample_negative_flags: "command_message (sample_command\<lparr>cmd_flags := -1\<rparr>) = None"
  by code_simp

end
