(* ===== verification/Send_Safety.thy ===== *)
theory Send_Safety
  imports Wire_Messages
begin

text \<open>
  The \<open>send_\<dots>\<close> functions of \<^verbatim>\<open>serialization.py\<close> on arguments that the schema
  cannot hold, and the two that never produce a message.
\<close>

section \<open>Arguments out of range\<close>

context flatbuffers_pkg
begin

lemma new_or_none_raises:
  assumes "\<And>b. raises (f b)"
  shows "bindE (fb_Builder fb 1024) (\<lambda>b. Inr (or_none (f b))) = Inr None"
proof -
  from ok_Builder obtain b where "fb_Builder fb 1024 = Inr b" by (auto simp: okE_def)
  with or_none_raises [OF assms] show ?thesis by simp
qed

text \<open>A slot that does not take its value makes the body of a sender raise.\<close>

lemmas slot_raises_here = raises_here [OF slot_raises]

lemma kill_out_of_range: "\<not> nf_range Int32Flags pid \<Longrightarrow> raises (send_kill_to_demon fb pid)"
  unfolding send_kill_to_demon_def tables
  by (rule raises_later, rule raises_later, erule slot_raises_here)

lemma processlaunched_out_of_range:
  "\<not> nf_range Int32Flags pid \<Longrightarrow> send_processlaunched_to_user fb pid = Inr None"
  unfolding send_processlaunched_to_user_def tables
  by (rule new_or_none_raises, rule raises_later, erule slot_raises_here)

lemma childcreationerror_out_of_range:
  "\<not> nf_range Uint32Flags e \<Longrightarrow> send_childcreationerror_to_user fb e = Inr None"
  unfolding send_childcreationerror_to_user_def tables
  by (rule new_or_none_raises, rule raises_later, erule slot_raises_here)

lemma tcpsocketlistening_out_of_range:
  "\<not> nf_range Uint16Flags p \<Longrightarrow> send_tcpsocketlistening_to_user fb p = Inr None"
  unfolding send_tcpsocketlistening_to_user_def tables
  by (rule new_or_none_raises, rule raises_later, erule slot_raises_here)

lemma socketwatched_out_of_range:
  "\<not> nf_range Int32Flags p \<Longrightarrow> send_socketwatched_to_user fb p = Inr None"
  unfolding send_socketwatched_to_user_def tables
  by (rule new_or_none_raises, rule raises_later, erule slot_raises_here)

lemma processterminated_out_of_range:
  assumes "\<not> (nf_range Int32Flags pid \<and> nf_range Uint32Flags e)"
  shows "send_processterminated_to_user fb pid e = Inr None"
proof -
  consider "\<not> nf_range Int32Flags pid" | "\<not> nf_range Uint32Flags e" using assms by blast
  then show ?thesis
    unfolding send_processterminated_to_user_def tables
    by cases (rule new_or_none_raises, rule raises_later,
        (erule slot_raises_here | (rule raises_later, erule slot_raises_here)))+
qed

lemma inotifywatchlistupdated_unencodable:
  "text_bytes path = None \<Longrightarrow> send_inotifywatchlistupdated_to_user fb path = Inr None"
  unfolding send_inotifywatchlistupdated_to_user_def
  by (rule new_or_none_raises, rule raises_here, erule string_raises)

end

text \<open>\<^verbatim>\<open>send_kill_to_demon\<close>, which has no handler of its own, raises exactly
  when the pid is not a 32-bit signed integer.\<close>

lemma send_kill_raises_iff:
  assumes "flatbuffers_pkg fb enc valid store phase used"
  shows "(\<exists>e. send_kill_to_demon fb pid = Inl e) \<longleftrightarrow> \<not> nf_range Int32Flags pid"
  using flatbuffers_pkg.kill_out_of_range [OF assms, of pid] flatbuffers_pkg.kill_sends [OF assms, of pid]
  by (auto simp: raises_def okE_def)

text \<open>The senders of numbers to the user return \<^verbatim>\<open>None\<close> exactly when an argument
  does not fit the field of the schema: a signed 32-bit pid or watched port, an unsigned 32-bit
  error code, an unsigned 16-bit port.\<close>

lemma number_senders_none_iff:
  assumes "flatbuffers_pkg fb enc valid store phase used"
  shows "(send_processlaunched_to_user fb pid = Inr None) = (\<not> nf_range Int32Flags pid) \<and>
    (send_childcreationerror_to_user fb e = Inr None) = (\<not> nf_range Uint32Flags e) \<and>
    (send_processterminated_to_user fb pid e = Inr None) = (\<not> (nf_range Int32Flags pid \<and> nf_range Uint32Flags e)) \<and>
    (send_tcpsocketlistening_to_user fb port = Inr None) = (\<not> nf_range Uint16Flags port) \<and>
    (send_socketwatched_to_user fb port = Inr None) = (\<not> nf_range Int32Flags port)"
proof (intro conjI)
  show "(send_processlaunched_to_user fb pid = Inr None) = (\<not> nf_range Int32Flags pid)"
    using flatbuffers_pkg.processlaunched_out_of_range [OF assms] flatbuffers_pkg.processlaunched_sends [OF assms, of pid]
    by fastforce
  show "(send_childcreationerror_to_user fb e = Inr None) = (\<not> nf_range Uint32Flags e)"
    using flatbuffers_pkg.childcreationerror_out_of_range [OF assms] flatbuffers_pkg.childcreationerror_sends [OF assms, of e]
    by fastforce
  show "(send_processterminated_to_user fb pid e = Inr None) = (\<not> (nf_range Int32Flags pid \<and> nf_range Uint32Flags e))"
    using flatbuffers_pkg.processterminated_out_of_range [OF assms] flatbuffers_pkg.processterminated_sends [OF assms, of pid e]
    by fastforce
  show "(send_tcpsocketlistening_to_user fb port = Inr None) = (\<not> nf_range Uint16Flags port)"
    using flatbuffers_pkg.tcpsocketlistening_out_of_range [OF assms] flatbuffers_pkg.tcpsocketlistening_sends [OF assms, of port]
    by fastforce
  show "(send_socketwatched_to_user fb port = Inr None) = (\<not> nf_range Int32Flags port)"
    using flatbuffers_pkg.socketwatched_out_of_range [OF assms] flatbuffers_pkg.socketwatched_sends [OF assms, of port]
    by fastforce
qed

text \<open>A watch-list path that has no UTF-8 encoding (a lone surrogate) is not sent:
  the function returns \<^verbatim>\<open>None\<close>.\<close>

lemma watchlist_unencodable:
  assumes "flatbuffers_pkg fb enc valid store phase used" and "utf8_encode path = Inl e"
  shows "send_inotifywatchlistupdated_to_user fb path = Inr None"
  using assms by (auto intro: flatbuffers_pkg.inotifywatchlistupdated_unencodable simp: text_bytes_None)

text \<open>What the senders refuse.  \<^verbatim>\<open>send_kill_to_demon\<close>, which has no handler of its own,
  raises exactly when the pid is not a signed 32-bit integer; the senders of reports return
  \<^verbatim>\<open>None\<close> exactly when a number does not fit its field (a signed 32-bit pid or watched port, an
  unsigned 32-bit error code, an unsigned 16-bit port), and for a watch-list path that has no UTF-8 encoding
  (a lone surrogate).\<close>

theorem senders_refuse:
  assumes "flatbuffers_pkg fb enc valid store phase used"
  shows "(\<exists>x. send_kill_to_demon fb pid = Inl x) = (\<not> nf_range Int32Flags pid) \<and>
    (send_processlaunched_to_user fb pid = Inr None) = (\<not> nf_range Int32Flags pid) \<and>
    (send_childcreationerror_to_user fb e = Inr None) = (\<not> nf_range Uint32Flags e) \<and>
    (send_processterminated_to_user fb pid e = Inr None) = (\<not> (nf_range Int32Flags pid \<and> nf_range Uint32Flags e)) \<and>
    (send_tcpsocketlistening_to_user fb port = Inr None) = (\<not> nf_range Uint16Flags port) \<and>
    (send_socketwatched_to_user fb port = Inr None) = (\<not> nf_range Int32Flags port) \<and>
    (utf8_encode path = Inl x \<longrightarrow> send_inotifywatchlistupdated_to_user fb path = Inr None)"
  using send_kill_raises_iff [OF assms] number_senders_none_iff [OF assms] watchlist_unencodable [OF assms] by blast

theorem senders_refuse_witness:
  "(\<exists>x. send_kill_to_demon wire_fb 2147483648 = Inl x) \<and> send_tcpsocketlistening_to_user wire_fb 65536 = Inr None \<and>
   send_socketwatched_to_user wire_fb 65536 \<noteq> Inr None \<and> send_inotifywatchlistupdated_to_user wire_fb [55296] = Inr None"
proof -
  have "utf8_encode [55296] = Inl UnicodeError" by (simp add: utf8_char_def)
  with senders_refuse [OF wire_package, of 2147483648 0 65536 "[55296]" UnicodeError] show ?thesis by simp
qed

section \<open>Senders that never send\<close>

text \<open>\<^verbatim>\<open>send_inotifypathupdated_to_user\<close> returns \<^verbatim>\<open>None\<close> for every
  update (once it has a builder): \<^verbatim>\<open>demon.InotifyEvent\<close> has not been imported, and the exception is
  swallowed.\<close>

lemma inotifypathupdated_error:
  "inotifypathupdated_body fb inotify b = bindE (fb_CreateString fb b (ipu_path inotify)) (\<lambda>(b, path_str).
     bindE (InotifyPathUpdated_Start fb b) (\<lambda>b. bindE (InotifyPathUpdated_AddPath fb b path_str) (\<lambda>_. Inl AttributeError)))"
  by (simp add: inotifypathupdated_body_def attribute_def demon_attributes_def)

lemma send_inotifypathupdated_never:
  "send_inotifypathupdated_to_user fb inotify = bindE (fb_Builder fb 1024) (\<lambda>_. Inr None)"
proof -
  have "or_none (inotifypathupdated_body fb inotify b) = None" for b
    unfolding inotifypathupdated_error by (rule or_none_raises, rule raises_later2, rule raises_later, rule raises_later) simp
  then show ?thesis unfolding send_inotifypathupdated_to_user_def by simp
qed

text \<open>\<^verbatim>\<open>send_socketwatchterminated_to_user\<close> returns \<^verbatim>\<open>None\<close> for every
  socket (once it has a builder): the package \<^verbatim>\<open>demon\<close> has no
  \<^verbatim>\<open>CreateSocketWatchTerminated\<close>.\<close>

lemma socketwatchterminated_error: "socketwatchterminated_body fb socket_info b = Inl AttributeError"
  by (simp add: socketwatchterminated_body_def attribute_def demon_attributes_def)

lemma send_socketwatchterminated_never:
  "send_socketwatchterminated_to_user fb socket_info = bindE (fb_Builder fb 1024) (\<lambda>_. Inr None)"
  unfolding send_socketwatchterminated_to_user_def by (simp add: socketwatchterminated_error or_none_raises)

end
