(* ===== verification/Client.thy ===== *)
theory Client
  imports Serialization
begin

text \<open>
  The client functions of \<^verbatim>\<open>src/tests_python/test_demon.py\<close>: connect to a daemon, send a
  command, wait for the message of interest among the frames that arrive, and judge it.  The
  connection is explicit state; what the daemon sends is a list of segments, cut as the network
  likes.  The wait loops have no exit when the daemon closes the connection, so they are partial:
  the value \<open>None\<close> is a loop that never ends.
\<close>

section \<open>A connection\<close>

text \<open>What \<^verbatim>\<open>recv\<close> meets: bytes that arrived together, or an error.  After the last
  segment the peer has closed the connection.\<close>

datatype segment = Seg bytes | Reset

record conn =
  conn_in :: "segment list"
  conn_out :: bytes
  conn_can_send :: bool
  conn_open :: bool

fun recv_segments :: "segment list \<Rightarrow> nat \<Rightarrow> (segment list \<times> bytes) py" where
  "recv_segments [] n = Inr ([], [])"
| "recv_segments (Reset # rest) n = Inl OSError"
| "recv_segments (Seg bs # rest) n =
     (if bs = [] then recv_segments rest n
      else if length bs \<le> n then Inr (rest, bs) else Inr (Seg (drop n bs) # rest, take n bs))"

text \<open>\<^verbatim>\<open>client.recv(n)\<close>: at most \<open>n\<close> bytes, the empty string when the peer has closed
  or nothing was asked for.\<close>

definition recv :: "conn \<Rightarrow> int \<Rightarrow> (conn \<times> bytes) py" where
  "recv c n =
     (if n < 0 then Inl ValueError else if n = 0 then Inr (c, [])
      else bindE (recv_segments (conn_in c) (nat n)) (\<lambda>(segs, bs). Inr (c\<lparr>conn_in := segs\<rparr>, bs)))"

definition sendall :: "conn \<Rightarrow> bytes \<Rightarrow> conn py" where
  "sendall c bs = (if conn_can_send c then Inr (c\<lparr>conn_out := conn_out c @ bs\<rparr>) else Inl OSError)"

definition close :: "conn \<Rightarrow> conn" where
  "close c = c\<lparr>conn_open := False\<rparr>"

text \<open>\<^verbatim>\<open>client.connect\<close>: refused, or a connection.\<close>

definition connect :: "conn option \<Rightarrow> conn py" where
  "connect peer = (case peer of None \<Rightarrow> Inl OSError | Some c \<Rightarrow> Inr c)"

section \<open>Frames\<close>

text \<open>Four bytes of length, then the message.\<close>

definition send_frame :: "conn \<Rightarrow> BufferInfo \<Rightarrow> conn py" where
  "send_frame c buf = bindE (int_to_bytes (bi_size buf) 4) (\<lambda>header. sendall c (header @ bi_buffer buf))"

definition read_frame :: "conn \<Rightarrow> (conn \<times> bytes \<times> int) py" where
  "read_frame c =
     bindE (recv c 4) (\<lambda>(c, size_bytes).
     bindE (recv c (int_from_bytes size_bytes)) (\<lambda>(c, res).
     Inr (c, res, int_from_bytes size_bytes)))"

section \<open>The wait loop\<close>

partial_function (option) wait_for ::
    "'b flatbuffers \<Rightarrow> Event \<Rightarrow> conn \<Rightarrow> bytes \<Rightarrow> int \<Rightarrow> (conn \<times> bytes \<times> int) py option" where
  "wait_for fb ev c res sz =
     (if receive_message_from_demon fb res sz \<noteq> EvMember ev then
        (case read_frame c of Inl e \<Rightarrow> Some (Inl e) | Inr (c, res, sz) \<Rightarrow> wait_for fb ev c res sz)
      else Some (Inr (c, res, sz)))"

text \<open>The first frame, then the loop.\<close>

definition await :: "'b flatbuffers \<Rightarrow> Event \<Rightarrow> conn \<Rightarrow> (conn \<times> bytes \<times> int) py option" where
  "await fb ev c = (case read_frame c of Inl e \<Rightarrow> Some (Inl e) | Inr (c, res, sz) \<Rightarrow> wait_for fb ev c res sz)"

text \<open>The value a client function returns (\<open>None\<close> is Python's \<^verbatim>\<open>None\<close>), with the
  connection it has closed, if it has.  Not ending and an escaping exception are outside of it.\<close>

type_synonym verdict = "int option"
type_synonym 'a run = "'a py option"
type_synonym outcome = "(conn option \<times> verdict) run"

text \<open>\<^verbatim>\<open>except ConnectionRefusedError\<close> and \<^verbatim>\<open>except socket.error\<close>: both are
  \<open>OSError\<close>; any other exception escapes.\<close>

definition except_socket_error :: "outcome \<Rightarrow> verdict \<Rightarrow> outcome" where
  "except_socket_error r d = (if r = Some (Inl OSError) then Some (Inr (None, d)) else r)"

text \<open>Connect and send the command.\<close>

definition start_command :: "'b flatbuffers \<Rightarrow> conn option \<Rightarrow> Command \<Rightarrow> conn py" where
  "start_command fb peer command =
     bindE (connect peer) (\<lambda>c. bindE (send_command_to_demon fb command) (\<lambda>buf. send_frame c buf))"

text \<open>Judge the frame that ended the wait and close the connection.\<close>

definition judged :: "(conn \<times> bytes \<times> int) run \<Rightarrow> (bytes \<Rightarrow> int \<Rightarrow> verdict py) \<Rightarrow> outcome" where
  "judged r judge = (case r of None \<Rightarrow> None | Some (Inl e) \<Rightarrow> Some (Inl e)
     | Some (Inr (c, res, sz)) \<Rightarrow> Some (bindE (judge res sz) (\<lambda>v. Inr (Some (close c), v))))"

definition reply_to :: "'b flatbuffers \<Rightarrow> conn option \<Rightarrow> Command \<Rightarrow> Event \<Rightarrow>
    (bytes \<Rightarrow> int \<Rightarrow> verdict py) \<Rightarrow> verdict \<Rightarrow> outcome" where
  "reply_to fb peer command ev judge d = except_socket_error
     (case start_command fb peer command of Inl e \<Rightarrow> Some (Inl e) | Inr c \<Rightarrow> judged (await fb ev c) judge) d"

definition pass_if :: "bool \<Rightarrow> verdict py" where
  "pass_if b = Inr (Some (if b then 1 else -1))"

section \<open>The client functions\<close>

definition connect_to_daemon :: "'b flatbuffers \<Rightarrow> conn option \<Rightarrow> int \<Rightarrow> outcome" where
  "connect_to_daemon fb peer port = except_socket_error
     (judged (Some (bindE (connect peer) (\<lambda>c. read_frame c)))
        (\<lambda>data sz. pass_if (receive_TCPSocketListening fb data sz = port))) (Some (-1))"

definition launch_process :: "'b flatbuffers \<Rightarrow> conn option \<Rightarrow> Command \<Rightarrow> outcome" where
  "launch_process fb peer command = reply_to fb peer command PROCESS_LAUNCHED
     (\<lambda>res sz. pass_if (\<not> receive_processlaunched fb res sz < 0)) (Some (-1))"

definition execve_executed :: "'b flatbuffers \<Rightarrow> conn option \<Rightarrow> Command \<Rightarrow> outcome" where
  "execve_executed fb peer command = reply_to fb peer command EXECVE_TERMINATED
     (\<lambda>res sz. bindE (not_none (receive_execveterminated fb res sz)) (\<lambda>data.
        pass_if (ei_success data \<and> ei_pid data > 0))) (Some (-1))"

text \<open>The good branch of this one has no \<^verbatim>\<open>return\<close>.\<close>

definition fail_launch_process :: "'b flatbuffers \<Rightarrow> conn option \<Rightarrow> Command \<Rightarrow> outcome" where
  "fail_launch_process fb peer command = reply_to fb peer command EXECVE_TERMINATED
     (\<lambda>res sz. bindE (not_none (receive_execveterminated fb res sz)) (\<lambda>data.
        if \<not> ei_success data \<and> ei_pid data > 0 then Inr None else Inr (Some (-1)))) (Some (-1))"

text \<open>\<^verbatim>\<open>info.error_code\<close> where \<open>info\<close> may be \<^verbatim>\<open>None\<close> or \<^verbatim>\<open>-1\<close>.\<close>

definition terminated_info :: "TerminatedResult \<Rightarrow> ProcessTerminatedInfo py" where
  "terminated_info r = (case r of PtInfo i \<Rightarrow> Inr i | PtNone \<Rightarrow> Inl AttributeError | PtInt n \<Rightarrow> Inl AttributeError)"

definition process_terminated :: "'b flatbuffers \<Rightarrow> conn option \<Rightarrow> Command \<Rightarrow> outcome" where
  "process_terminated fb peer command = reply_to fb peer command PROCESS_TERMINATED
     (\<lambda>res sz. bindE (terminated_info (receive_processterminated fb res sz)) (\<lambda>info.
        pass_if (pti_pid info \<ge> 0 \<and> pti_error_code info = 0))) (Some (-1))"

definition inotify_watchlist_updated :: "'b flatbuffers \<Rightarrow> conn option \<Rightarrow> Command \<Rightarrow> outcome" where
  "inotify_watchlist_updated fb peer command = reply_to fb peer command INOTIFY_WATCH_LIST_UPDATED
     (\<lambda>res sz. pass_if (receive_inotifywatchlistupdated fb res sz \<noteq> None)) (Some (-1))"

text \<open>\<^verbatim>\<open>info.path\<close> is a string here, never \<^verbatim>\<open>None\<close>.\<close>

definition inotify_event :: "'b flatbuffers \<Rightarrow> conn option \<Rightarrow> Command \<Rightarrow> outcome" where
  "inotify_event fb peer command = reply_to fb peer command INOTIFY_PATH_UPDATED
     (\<lambda>res sz. bindE (not_none (receive_inotifypathupdated fb res sz)) (\<lambda>info. pass_if True)) (Some (-1))"

text \<open>\<open>in_time\<close> is the outcome of the test on the elapsed time.\<close>

definition response_time :: "'b flatbuffers \<Rightarrow> conn option \<Rightarrow> Command \<Rightarrow> bool \<Rightarrow> outcome" where
  "response_time fb peer command in_time = except_socket_error
     (case bindE (connect peer) (\<lambda>c. bindE (read_frame c) (\<lambda>(c, data, sz).
             bindE (send_command_to_demon fb command) (\<lambda>buf. send_frame c buf))) of
        Inl e \<Rightarrow> Some (Inl e)
      | Inr c \<Rightarrow> judged (await fb PROCESS_TERMINATED c)
          (\<lambda>res sz. bindE (terminated_info (receive_processterminated fb res sz)) (\<lambda>info.
             pass_if (pti_pid info > 0 \<and> pti_error_code info = 0 \<and> in_time)))) (Some (-1))"

text \<open>The handlers of the next two print and fall off the end.\<close>

definition watching_socket :: "'b flatbuffers \<Rightarrow> conn option \<Rightarrow> Command \<Rightarrow> outcome" where
  "watching_socket fb peer command = reply_to fb peer command SOCKET_WATCHED
     (\<lambda>res sz. pass_if (receive_socketwatched fb res sz > 0)) None"

definition socket_listening :: "'b flatbuffers \<Rightarrow> conn option \<Rightarrow> Command \<Rightarrow> outcome" where
  "socket_listening fb peer command = reply_to fb peer command SOCKET_WATCH_TERMINATED
     (\<lambda>res sz. bindE (not_none (receive_socketwatchterminated fb res sz)) (\<lambda>info. pass_if (swi_port info > 0))) None"

text \<open>The loop of \<^verbatim>\<open>kill_process\<close> answers an \<open>EXECVE_TERMINATED\<close> with a kill
  request for its pid.\<close>

definition kill_step :: "'b flatbuffers \<Rightarrow> conn \<Rightarrow> bytes \<Rightarrow> int \<Rightarrow> (conn \<times> bytes \<times> int) py" where
  "kill_step fb c res sz =
     bindE (if receive_message_from_demon fb res sz = EvMember EXECVE_TERMINATED then
              bindE (not_none (receive_execveterminated fb res sz)) (\<lambda>data.
              bindE (send_kill_to_demon fb (ei_pid data)) (\<lambda>buf. send_frame c buf))
            else Inr c) (\<lambda>c. read_frame c)"

partial_function (option) kill_loop ::
    "'b flatbuffers \<Rightarrow> conn \<Rightarrow> bytes \<Rightarrow> int \<Rightarrow> (conn \<times> bytes \<times> int) run" where
  "kill_loop fb c res sz =
     (if receive_message_from_demon fb res sz \<noteq> EvMember PROCESS_TERMINATED then
        (case kill_step fb c res sz of Inl e \<Rightarrow> Some (Inl e) | Inr (c, res, sz) \<Rightarrow> kill_loop fb c res sz)
      else Some (Inr (c, res, sz)))"

definition kill_process :: "'b flatbuffers \<Rightarrow> conn option \<Rightarrow> Command \<Rightarrow> bool \<Rightarrow> outcome" where
  "kill_process fb peer command in_time = except_socket_error
     (case bindE (start_command fb peer command) (\<lambda>c. read_frame c) of Inl e \<Rightarrow> Some (Inl e)
      | Inr (c, res, sz) \<Rightarrow> judged (kill_loop fb c res sz)
          (\<lambda>res sz. bindE (terminated_info (receive_processterminated fb res sz)) (\<lambda>info.
             pass_if (pti_pid info > 0 \<and> pti_error_code info > 0 \<and> in_time)))) (Some (-1))"

end
