(* ===== verification/Test_Cases.thy ===== *)
theory Test_Cases
  imports Client
begin

text \<open>
  The twelve test functions of \<^verbatim>\<open>src/tests_python/test_demon.py\<close>, each run by pytest on both
  daemons.  A test is the client function it calls on the command it builds, followed by its assertion.  The
  connection to the daemon of the fixture is an argument, \<open>None\<close> when it is refused, and so is the outcome of
  the two tests on the clock.
\<close>

section \<open>The fixture and the assertion\<close>

datatype daemon_type = RustDaemon | CDaemon

definition DAEMON_PORTS :: "daemon_type \<Rightarrow> int" where
  "DAEMON_PORTS t = (case t of RustDaemon \<Rightarrow> 8080 | CDaemon \<Rightarrow> 9090)"

text \<open>A client that never returns runs into the limit of \<^verbatim>\<open>pytest.mark.timeout\<close>; an exception that
  escapes is an error of the test.\<close>

datatype test_result = Passed | Failed | TimedOut | Errored py_exn

definition assert_res :: "outcome \<Rightarrow> test_result" where
  "assert_res r = (case r of None \<Rightarrow> TimedOut | Some (Inl e) \<Rightarrow> Errored e
     | Some (Inr (_, res)) \<Rightarrow> if res \<noteq> Some (-1) then Passed else Failed)"

section \<open>The commands\<close>

definition test_command :: "string \<Rightarrow> string list \<Rightarrow> string list \<Rightarrow> Surveillance list \<Rightarrow> Command" where
  "test_command path args envp to_watch = \<lparr>cmd_path = pystr_of path, cmd_args = map pystr_of args, cmd_envp = map pystr_of envp,
     cmd_flags = 0, cmd_stack_size = 1024 * 1024, cmd_to_watch = to_watch\<rparr>"

definition py_IN_MODIFY :: int where "py_IN_MODIFY = 2"
definition py_IN_CREATE :: int where "py_IN_CREATE = 256"
definition py_IN_ACCESS :: int where "py_IN_ACCESS = 1"

definition ls_command :: Command where
  "ls_command = test_command ''/bin/ls'' [''ls'', ''-l''] [] []"

definition bad_command :: Command where
  "bad_command = test_command ''/bin/OIHDOEJ'' [''lss'', ''-la''] [''badenvp''] []"

definition echo_command :: Command where
  "echo_command = test_command ''/bin/echo'' [''echo'', ''bonjour''] [] []"

definition sleep_command :: "string \<Rightarrow> Command" where
  "sleep_command seconds = test_command ''/bin/sleep'' [''sleep'', seconds] [] []"

definition socket_command :: "int \<Rightarrow> Command" where
  "socket_command port = test_command [] [] []
     [\<lparr>sv_event = TagEnum WATCH_SOCKET, sv_ptr_event = PtrSocket \<lparr>sock_destport = port\<rparr>\<rparr>]"

definition inotify_command :: "string \<Rightarrow> int \<Rightarrow> int \<Rightarrow> Command" where
  "inotify_command root m sz = test_command ''/bin/echo'' [''echo'', ''bonjour''] []
     [\<lparr>sv_event = TagEnum INOTIFY, sv_ptr_event = PtrInotify \<lparr>ip_root_paths = pystr_of root, ip_mask = m, ip_size = sz\<rparr>\<rparr>]"

definition watchlist_command :: Command where
  "watchlist_command = inotify_command ''./test.txt'' (or py_IN_MODIFY py_IN_CREATE) 4096"

definition event_command :: Command where
  "event_command = inotify_command ''/bin/'' (or (or py_IN_MODIFY py_IN_CREATE) py_IN_ACCESS) 128"

section \<open>The tests\<close>

definition test_daemon_connection :: "'b flatbuffers \<Rightarrow> conn option \<Rightarrow> daemon_type \<Rightarrow> test_result" where
  "test_daemon_connection fb peer t = assert_res (connect_to_daemon fb peer (DAEMON_PORTS t))"

definition test_receiving_launch_process :: "'b flatbuffers \<Rightarrow> conn option \<Rightarrow> test_result" where
  "test_receiving_launch_process fb peer = assert_res (launch_process fb peer ls_command)"

definition test_receiving_failed_launch_process :: "'b flatbuffers \<Rightarrow> conn option \<Rightarrow> test_result" where
  "test_receiving_failed_launch_process fb peer = assert_res (fail_launch_process fb peer bad_command)"

definition test_receiving_process_terminated :: "'b flatbuffers \<Rightarrow> conn option \<Rightarrow> test_result" where
  "test_receiving_process_terminated fb peer = assert_res (process_terminated fb peer ls_command)"

definition test_echo :: "'b flatbuffers \<Rightarrow> conn option \<Rightarrow> test_result" where
  "test_echo fb peer = assert_res (process_terminated fb peer echo_command)"

definition test_response_time :: "'b flatbuffers \<Rightarrow> conn option \<Rightarrow> bool \<Rightarrow> test_result" where
  "test_response_time fb peer in_time = assert_res (response_time fb peer (sleep_command ''3'') in_time)"

definition test_execve_terminated :: "'b flatbuffers \<Rightarrow> conn option \<Rightarrow> test_result" where
  "test_execve_terminated fb peer = assert_res (execve_executed fb peer echo_command)"

definition test_socket_listening :: "'b flatbuffers \<Rightarrow> conn option \<Rightarrow> daemon_type \<Rightarrow> test_result" where
  "test_socket_listening fb peer t = assert_res (socket_listening fb peer (socket_command (DAEMON_PORTS t)))"

definition test_watching_socket :: "'b flatbuffers \<Rightarrow> conn option \<Rightarrow> daemon_type \<Rightarrow> test_result" where
  "test_watching_socket fb peer t = assert_res (watching_socket fb peer (socket_command (DAEMON_PORTS t)))"

definition test_inotify_result :: "'b flatbuffers \<Rightarrow> conn option \<Rightarrow> test_result" where
  "test_inotify_result fb peer = assert_res (inotify_watchlist_updated fb peer watchlist_command)"

definition test_inotify_event :: "'b flatbuffers \<Rightarrow> conn option \<Rightarrow> test_result" where
  "test_inotify_event fb peer = assert_res (inotify_event fb peer event_command)"

definition test_kill_process :: "'b flatbuffers \<Rightarrow> conn option \<Rightarrow> bool \<Rightarrow> test_result" where
  "test_kill_process fb peer in_time = assert_res (kill_process fb peer (sleep_command ''10'') in_time)"

section \<open>Without a daemon\<close>

lemma assert_res_returns [simp]:
  "assert_res (Some (Inr (k, v))) = (if v = Some (-1) then Failed else Passed)" "assert_res None = TimedOut"
  "assert_res (Some (Inl e)) = Errored e"
  by (simp_all add: assert_res_def)

lemma start_refused: "start_command fb None cmd = Inl OSError"
  by (simp add: start_command_def connect_def)

lemma reply_refused: "reply_to fb None cmd ev judge d = Some (Inr (None, d))"
  by (simp add: reply_to_def start_refused except_socket_error_def)

lemmas client_functions = launch_process_def execve_executed_def fail_launch_process_def process_terminated_def
  inotify_watchlist_updated_def inotify_event_def watching_socket_def socket_listening_def

text \<open>C38 (error).  The test suite when no daemon accepts the connection: ten tests fail, the two on sockets
  pass, because their client functions return nothing from their exception handlers and the tests only check
  that the result is not -1.\<close>

theorem tests_without_daemon:
  "test_daemon_connection fb None t = Failed \<and> test_receiving_launch_process fb None = Failed \<and>
   test_receiving_failed_launch_process fb None = Failed \<and> test_receiving_process_terminated fb None = Failed \<and>
   test_echo fb None = Failed \<and> test_response_time fb None in_time = Failed \<and> test_execve_terminated fb None = Failed \<and>
   test_inotify_result fb None = Failed \<and> test_inotify_event fb None = Failed \<and> test_kill_process fb None in_time = Failed \<and>
   test_socket_listening fb None t = Passed \<and> test_watching_socket fb None t = Passed"
  by (simp add: test_daemon_connection_def test_receiving_launch_process_def test_receiving_failed_launch_process_def
      test_receiving_process_terminated_def test_echo_def test_response_time_def test_execve_terminated_def test_inotify_result_def
      test_inotify_event_def test_kill_process_def test_socket_listening_def test_watching_socket_def client_functions
      connect_to_daemon_def response_time_def kill_process_def reply_refused start_refused connect_def judged_def except_socket_error_def)

end
