(* ===== verification/Receive_Safety.thy ===== *)
theory Receive_Safety
  imports Wire_Messages
begin

text \<open>
  What the \<open>receive_\<dots>\<close> functions of \<^verbatim>\<open>serialization.py\<close> do with bytes that
  nobody vouches for: a receiver accepts only buffers the classifiers put in its class,
  what it returns fits the number type of the field it comes from, and the receivers that
  call what does not exist accept nothing at all.
\<close>

section \<open>The common shape of receivers\<close>

text \<open>Check the arguments, open the buffer, compare the type tag, read the member; every
  exception gives \<open>exn\<close>, a wrong tag gives \<open>rej\<close>.\<close>

definition typed_receive :: "'b flatbuffers \<Rightarrow> int \<Rightarrow> 'a \<Rightarrow> 'a \<Rightarrow> (table \<Rightarrow> 'a py) \<Rightarrow> bytes \<Rightarrow> int \<Rightarrow> 'a" where
  "typed_receive fb code rej exn k buffer sz =
     (if buffer = [] \<or> sz \<le> 0 then rej
      else try_except (bindE (Message_GetRootAsMessage fb buffer 0) (\<lambda>message.
        bindE (Message_EventsType fb message) (\<lambda>ty. if ty \<noteq> code then Inr rej else k message))) exn)"

lemma bindE_twice: "bindE m (\<lambda>_. bindE m f) = bindE m f"
  by (cases m) auto

named_theorems receiver_shapes \<open>the receivers as instances of the common shape\<close>

lemma receive_kill_shape [receiver_shapes]:
  "receive_kill fb = typed_receive fb Event_KillProcess (-1) (-1)
     (\<lambda>msg. bindE (init_events fb KillProcess_Init msg) (KillProcess_Pid fb))"
  by (simp add: fun_eq_iff receive_kill_def typed_receive_def)

lemma receive_processlaunched_shape [receiver_shapes]:
  "receive_processlaunched fb = typed_receive fb Event_ProcessLaunched (-1) (-1)
     (\<lambda>msg. bindE (init_events fb ProcessLaunched_Init msg) (ProcessLaunched_Pid fb))"
  by (simp add: fun_eq_iff receive_processlaunched_def typed_receive_def)

lemma receive_childcreationerror_shape [receiver_shapes]:
  "receive_childcreationerror fb = typed_receive fb Event_ChildCreationError (-1) (-1)
     (\<lambda>msg. bindE (init_events fb ChildCreationError_Init msg) (ChildCreationError_ErrorCode fb))"
  by (simp add: fun_eq_iff receive_childcreationerror_def typed_receive_def)

lemma receive_TCPSocketListening_shape [receiver_shapes]:
  "receive_TCPSocketListening fb = typed_receive fb Event_TCPSocketListening (-1) (-1)
     (\<lambda>msg. bindE (init_events fb TCPSocketListening_Init msg) (TCPSocketListening_Port fb))"
  by (simp add: fun_eq_iff receive_TCPSocketListening_def typed_receive_def bindE_twice)

lemma receive_socketwatched_shape [receiver_shapes]:
  "receive_socketwatched fb = typed_receive fb Event_SocketWatched (-1) (-1)
     (\<lambda>msg. bindE (init_events fb SocketWatched_Init msg) (SocketWatched_Port fb))"
  by (simp add: fun_eq_iff receive_socketwatched_def typed_receive_def bindE_twice)

lemma receive_processterminated_shape [receiver_shapes]:
  "receive_processterminated fb = typed_receive fb Event_ProcessTerminated PtNone (PtInt (-1))
     (\<lambda>msg. bindE (init_events fb ProcessTerminated_Init msg) (\<lambda>t. bindE (ProcessTerminated_Pid fb t) (\<lambda>pid.
       bindE (ProcessTerminated_ErrorCode fb t) (\<lambda>e. Inr (PtInfo \<lparr>pti_pid = pid, pti_error_code = e\<rparr>)))))"
  by (simp add: fun_eq_iff receive_processterminated_def typed_receive_def)

lemma receive_execveterminated_shape [receiver_shapes]:
  "receive_execveterminated fb = typed_receive fb Event_ExecveTerminated None None
     (\<lambda>msg. bindE (init_events fb ExecveTerminated_Init msg) (\<lambda>t. bindE (ExecveTerminated_Pid fb t) (\<lambda>pid.
       bindE (ExecveTerminated_CommandName fb t) (\<lambda>n. bindE (decode_opt n) (\<lambda>name.
       bindE (ExecveTerminated_Success fb t) (\<lambda>ok.
       Inr (Some \<lparr>ei_pid = pid, ei_command_name = name, ei_success = ok\<rparr>)))))))"
  by (simp add: fun_eq_iff receive_execveterminated_def typed_receive_def)

lemma receive_inotifypathupdated_shape [receiver_shapes]:
  "receive_inotifypathupdated fb = typed_receive fb Event_InotifyPathUpdated None None
     (\<lambda>msg. bindE (init_events fb InotifyPathUpdated_Init msg) (\<lambda>t. bindE (InotifyPathUpdated_Path fb t) (\<lambda>p.
       bindE (decode_opt p) (\<lambda>path. bindE (InotifyPathUpdated_TriggerEvents fb t) (\<lambda>v. bindE (InotifyEvent_of v) (\<lambda>e.
       bindE (InotifyPathUpdated_Size fb t) (\<lambda>s. bindE (InotifyPathUpdated_SizeLimit fb t) (\<lambda>l.
       Inr (Some \<lparr>ipu_path = path, ipu_event = e, ipu_size = s, ipu_size_limit = l\<rparr>)))))))))"
  by (simp add: fun_eq_iff receive_inotifypathupdated_def typed_receive_def bindE_twice)

lemma receive_inotifywatchlistupdated_shape [receiver_shapes]:
  "receive_inotifywatchlistupdated fb = typed_receive fb Event_InotifyWatchListUpdated None None
     (\<lambda>msg. bindE (init_events fb InotifyWatchListUpdated_Init msg) (\<lambda>t.
       bindE (InotifyWatchListUpdated_Path fb t) (\<lambda>p. bindE (decode_opt p) (\<lambda>path. Inr (Some path)))))"
  by (simp add: fun_eq_iff receive_inotifywatchlistupdated_def typed_receive_def bindE_twice)

lemma receive_socketwatchterminated_shape [receiver_shapes]:
  "receive_socketwatchterminated fb = typed_receive fb Event_SocketWatchTerminated None None
     (\<lambda>msg. bindE (init_events fb SocketWatchTerminated_Init msg) (\<lambda>t. bindE (SocketWatchTerminated_Port fb t) (\<lambda>p.
       bindE (SocketWatchTerminated_State fb t) (\<lambda>s. bindE (SocketState_of s) (\<lambda>st.
       Inr (Some \<lparr>swi_port = p, swi_state = st\<rparr>))))))"
  by (simp add: fun_eq_iff receive_socketwatchterminated_def typed_receive_def bindE_twice)

text \<open>What comes out of the common shape.\<close>

lemma typed_receive_disj:
  "typed_receive fb code rej exn k buf sz \<in> {rej, exn} \<or> buf \<noteq> [] \<and> 0 < sz \<and>
   (\<exists>message. Message_GetRootAsMessage fb buf 0 = Inr message \<and> Message_EventsType fb message = Inr code \<and>
     k message = Inr (typed_receive fb code rej exn k buf sz))"
proof (cases "buf = [] \<or> sz \<le> 0")
  case True
  then show ?thesis by (simp add: typed_receive_def)
next
  case args: False
  show ?thesis
  proof (cases "Message_GetRootAsMessage fb buf 0")
    case (Inl e)
    with args show ?thesis by (simp add: typed_receive_def)
  next
    case root: (Inr message)
    show ?thesis
    proof (cases "bindE (Message_EventsType fb message) (\<lambda>ty. if ty \<noteq> code then Inr rej else k message)")
      case (Inl e)
      with args root show ?thesis by (simp add: typed_receive_def)
    next
      case (Inr x)
      with args root show ?thesis by (auto simp: typed_receive_def elim!: bindE_InrE split: if_splits)
    qed
  qed
qed

lemma typed_receive_pred:
  assumes "P rej" and "P exn" and "\<And>msg x. k msg = Inr x \<Longrightarrow> P x"
  shows "P (typed_receive fb code rej exn k buf sz)"
  using typed_receive_disj [of fb code rej exn k buf sz] assms by auto

lemma typed_receive_class:
  assumes "typed_receive fb code rej exn k buf sz = x" and "x \<notin> {rej, exn}" and "map_of event_map code = Some e"
  shows "receive_message_from_demon fb buf sz = EvMember e"
  using typed_receive_disj [of fb code rej exn k buf sz] assms
  by (auto simp: receive_message_from_demon_def)

lemma typed_receive_class_ne:
  assumes "typed_receive fb code d d k buf sz \<noteq> d"
  shows "map_of event_map code = Some e \<Longrightarrow> receive_message_from_demon fb buf sz = EvMember e"
    and "code = Event_KillProcess \<Longrightarrow> receive_message_from_user fb buf sz = EvMember KILL_PROCESS"
  using typed_receive_disj [of fb code d d k buf sz] assms
  by (auto simp: receive_message_from_demon_def receive_message_from_user_def enums)

lemma event_map_codes [simp]:
  "map_of event_map Event_ProcessLaunched = Some PROCESS_LAUNCHED"
  "map_of event_map Event_ChildCreationError = Some CHILD_CREATION_ERROR"
  "map_of event_map Event_ProcessTerminated = Some PROCESS_TERMINATED"
  "map_of event_map Event_TCPSocketListening = Some TCP_SOCKET_LISTENING"
  "map_of event_map Event_InotifyPathUpdated = Some INOTIFY_PATH_UPDATED"
  "map_of event_map Event_InotifyWatchListUpdated = Some INOTIFY_WATCH_LIST_UPDATED"
  "map_of event_map Event_SocketWatched = Some SOCKET_WATCHED"
  "map_of event_map Event_SocketWatchTerminated = Some SOCKET_WATCH_TERMINATED"
  "map_of event_map Event_ExecveTerminated = Some EXECVE_TERMINATED"
  by (simp_all add: event_map_def enums)

section \<open>Acceptance agrees with classification\<close>

text \<open>C12 (safety).  On arbitrary bytes and with an arbitrary \<^verbatim>\<open>flatbuffers\<close> package,
  a receiver that returns anything but its failure values is the one the classifiers
  \<^verbatim>\<open>receive_message_from_demon\<close> and \<^verbatim>\<open>receive_message_from_user\<close> select for the
  buffer: no buffer is accepted as two kinds of message.\<close>

theorem accepted_implies_classified:
  "(receive_kill fb buf sz \<noteq> -1 \<longrightarrow> receive_message_from_user fb buf sz = EvMember KILL_PROCESS) \<and>
   (receive_processlaunched fb buf sz \<noteq> -1 \<longrightarrow> receive_message_from_demon fb buf sz = EvMember PROCESS_LAUNCHED) \<and>
   (receive_childcreationerror fb buf sz \<noteq> -1 \<longrightarrow> receive_message_from_demon fb buf sz = EvMember CHILD_CREATION_ERROR) \<and>
   (receive_TCPSocketListening fb buf sz \<noteq> -1 \<longrightarrow> receive_message_from_demon fb buf sz = EvMember TCP_SOCKET_LISTENING) \<and>
   (receive_socketwatched fb buf sz \<noteq> -1 \<longrightarrow> receive_message_from_demon fb buf sz = EvMember SOCKET_WATCHED) \<and>
   (\<forall>i. receive_processterminated fb buf sz = PtInfo i \<longrightarrow> receive_message_from_demon fb buf sz = EvMember PROCESS_TERMINATED) \<and>
   (receive_execveterminated fb buf sz \<noteq> None \<longrightarrow> receive_message_from_demon fb buf sz = EvMember EXECVE_TERMINATED) \<and>
   (receive_inotifypathupdated fb buf sz \<noteq> None \<longrightarrow> receive_message_from_demon fb buf sz = EvMember INOTIFY_PATH_UPDATED) \<and>
   (receive_inotifywatchlistupdated fb buf sz \<noteq> None \<longrightarrow>
      receive_message_from_demon fb buf sz = EvMember INOTIFY_WATCH_LIST_UPDATED) \<and>
   (receive_socketwatchterminated fb buf sz \<noteq> None \<longrightarrow>
      receive_message_from_demon fb buf sz = EvMember SOCKET_WATCH_TERMINATED)"
  unfolding receiver_shapes
  by (intro conjI allI impI; (erule typed_receive_class_ne | erule typed_receive_class); simp)

theorem accepted_implies_classified_witness:
  "\<exists>buf. receive_kill wire_fb buf 1 = 42 \<and> receive_message_from_user wire_fb buf 1 = EvMember KILL_PROCESS"
proof -
  obtain buf where "carries wire_fb wire_encodes buf (MKillProcess 42)" using wire_kill by blast
  then have "receive_kill wire_fb buf 1 = 42" by (simp add: wire_read.kill_reads)
  with accepted_implies_classified [of wire_fb buf 1] show ?thesis by auto
qed

section \<open>Refinement of the message specification\<close>

lemma sh_decoded: "utf8_decode [115, 104] = Inr (pystr_of ''sh'')"
  by (rule utf8_roundtrip) (rule utf8_sh)

text \<open>C17 (refinement).  On a buffer that carries any message of the protocol, the classifiers return
  its class: \<^verbatim>\<open>receive_message_from_demon\<close> that of a report, and \<open>NONE\<close> for a request;
  \<^verbatim>\<open>receive_message_from_user\<close> tells the two requests apart and returns \<open>NONE\<close> for
  everything else.\<close>

theorem classifiers_refine:
  assumes "fb_reader fb enc" and "carries fb enc buf m" and "0 < sz"
  shows "receive_message_from_demon fb buf sz = EvMember (want_event_user m) \<and>
    receive_message_from_user fb buf sz = EvMember (want_event_demon m)"
  using fb_reader.message_from_demon_reads [OF assms] fb_reader.message_from_user_reads [OF assms] by blast

theorem classifiers_refine_witness:
  "\<exists>buf. receive_message_from_demon wire_fb buf 1 = EvMember EXECVE_TERMINATED \<and>
     receive_message_from_user wire_fb buf 1 = EvMember NONE"
  using wire_execveterminated classifiers_refine [OF wire_reader, of _ "MExecveTerminated 7 [115, 104] True" 1] by auto

text \<open>C16 (refinement).  The receivers implement their specifications: on a buffer that carries a message,
  each returns the fields of its own kind of message, with texts decoded and enum members looked up by their numbers
  in the schema, and its failure value (\<^verbatim>\<open>-1\<close> or \<^verbatim>\<open>None\<close>) when a text is not UTF-8, a number
  is no member of the enum, or the message is of another kind.  The one exception is
  \<^verbatim>\<open>receive_socketwatchterminated\<close>, which takes a created socket for a listening one and a listening one
  for a created one.\<close>

theorem receivers_refine:
  assumes "fb_reader fb enc" and "carries fb enc buf m" and "0 < sz"
  shows "receive_kill fb buf sz = (case m of MKillProcess pid \<Rightarrow> pid | _ \<Rightarrow> -1) \<and>
    receive_processlaunched fb buf sz = (case m of MProcessLaunched pid \<Rightarrow> pid | _ \<Rightarrow> -1) \<and>
    receive_childcreationerror fb buf sz = (case m of MChildCreationError e \<Rightarrow> e | _ \<Rightarrow> -1) \<and>
    receive_TCPSocketListening fb buf sz = (case m of MTCPSocketListening p \<Rightarrow> p | _ \<Rightarrow> -1) \<and>
    receive_socketwatched fb buf sz = (case m of MSocketWatched p \<Rightarrow> p | _ \<Rightarrow> -1) \<and>
    receive_processterminated fb buf sz = want_processterminated m \<and>
    receive_execveterminated fb buf sz = want_execveterminated m \<and>
    receive_inotifypathupdated fb buf sz = want_inotifypathupdated m \<and>
    receive_inotifywatchlistupdated fb buf sz = want_inotifywatchlistupdated m \<and>
    receive_socketwatchterminated fb buf sz = map_option exchange_states (want_socketwatchterminated m)"
  using fb_reader.kill_reads [OF assms] fb_reader.processlaunched_reads [OF assms]
    fb_reader.childcreationerror_reads [OF assms] fb_reader.tcpsocketlistening_reads [OF assms]
    fb_reader.socketwatched_reads [OF assms] fb_reader.processterminated_reads [OF assms]
    fb_reader.execveterminated_reads [OF assms] fb_reader.inotifypathupdated_reads [OF assms]
    fb_reader.inotifywatchlistupdated_reads [OF assms] fb_reader.socketwatchterminated_reads [OF assms] by blast

theorem receivers_refine_witness:
  "\<exists>buf. receive_execveterminated wire_fb buf 1 =
     Some \<lparr>ei_pid = 7, ei_command_name = pystr_of ''sh'', ei_success = True\<rparr> \<and> receive_kill wire_fb buf 1 = -1"
  using wire_execveterminated receivers_refine [OF wire_reader, of _ "MExecveTerminated 7 [115, 104] True" 1]
  by (auto simp: text_or_def sh_decoded)

section \<open>Ranges of what comes out\<close>

definition terminated_in_range :: "TerminatedResult \<Rightarrow> bool" where
  "terminated_in_range r = (case r of PtInfo i \<Rightarrow> -2147483648 \<le> pti_pid i \<and> pti_pid i \<le> 2147483647 \<and>
     0 \<le> pti_error_code i \<and> pti_error_code i \<le> 4294967295 | PtNone \<Rightarrow> True | PtInt n \<Rightarrow> n = -1)"

context fb_reader
begin

lemma scalar_ranges:
  "scalar_field fb Uint8Flags vt 0 t = Inr x \<Longrightarrow> 0 \<le> x \<and> x \<le> 255"
  "scalar_field fb Uint16Flags vt 0 t = Inr x \<Longrightarrow> 0 \<le> x \<and> x \<le> 65535"
  "scalar_field fb Uint32Flags vt 0 t = Inr x \<Longrightarrow> 0 \<le> x \<and> x \<le> 4294967295"
  "scalar_field fb Int32Flags vt 0 t = Inr x \<Longrightarrow> -2147483648 \<le> x \<and> x \<le> 2147483647"
  by (drule scalar_field_range, simp, simp)+

lemma pid_ranges:
  "-2147483648 \<le> receive_kill fb buf sz \<and> receive_kill fb buf sz \<le> 2147483647"
  "-2147483648 \<le> receive_processlaunched fb buf sz \<and> receive_processlaunched fb buf sz \<le> 2147483647"
  "-2147483648 \<le> receive_socketwatched fb buf sz \<and> receive_socketwatched fb buf sz \<le> 2147483647"
  unfolding receiver_shapes
  by (rule typed_receive_pred; auto simp: tables elim!: bindE_InrE dest: scalar_ranges)+

lemma code_ranges:
  "-1 \<le> receive_childcreationerror fb buf sz \<and> receive_childcreationerror fb buf sz \<le> 4294967295"
  "-1 \<le> receive_TCPSocketListening fb buf sz \<and> receive_TCPSocketListening fb buf sz \<le> 65535"
  unfolding receiver_shapes
  by (rule typed_receive_pred; auto simp: tables elim!: bindE_InrE dest: scalar_ranges)+

lemma terminated_range: "terminated_in_range (receive_processterminated fb buf sz)"
  unfolding receiver_shapes
  by (rule typed_receive_pred; auto simp: terminated_in_range_def tables elim!: bindE_InrE dest!: scalar_ranges)

end

text \<open>Whatever the bytes are, the numbers the receivers return are within the
  width of the schema's field, or \<^verbatim>\<open>-1\<close>.\<close>

theorem received_numbers_bounded:
  assumes "fb_reader fb enc"
  shows "-2147483648 \<le> receive_kill fb buf sz \<and> receive_kill fb buf sz \<le> 2147483647 \<and>
    -2147483648 \<le> receive_processlaunched fb buf sz \<and> receive_processlaunched fb buf sz \<le> 2147483647 \<and>
    -2147483648 \<le> receive_socketwatched fb buf sz \<and> receive_socketwatched fb buf sz \<le> 2147483647 \<and>
    -1 \<le> receive_childcreationerror fb buf sz \<and> receive_childcreationerror fb buf sz \<le> 4294967295 \<and>
    -1 \<le> receive_TCPSocketListening fb buf sz \<and> receive_TCPSocketListening fb buf sz \<le> 65535 \<and>
    terminated_in_range (receive_processterminated fb buf sz)"
  using fb_reader.pid_ranges [OF assms] fb_reader.code_ranges [OF assms] fb_reader.terminated_range [OF assms] by blast

theorem received_numbers_bounded_witness: "receive_TCPSocketListening wire_fb [1, 2, 3] 3 \<le> 65535"
  using received_numbers_bounded [OF wire_reader, of "[1, 2, 3]" 3] by blast

section \<open>Buffers that cannot be opened\<close>

text \<open>When the bytes cannot be opened as a FlatBuffer (reading the root offset
  raises), every receiver returns its failure value; that of
  \<^verbatim>\<open>receive_processterminated\<close> and of both classifiers is the integer \<^verbatim>\<open>-1\<close>, which
  is neither the \<^verbatim>\<open>None\<close> nor the enum member their signatures announce.\<close>

theorem unopened_buffer:
  assumes "fb_encode_Get_uoffset fb buf 0 = Inl e" and "buf \<noteq> []" and "0 < sz"
  shows "receive_kill fb buf sz = -1 \<and> receive_processlaunched fb buf sz = -1 \<and>
    receive_childcreationerror fb buf sz = -1 \<and> receive_TCPSocketListening fb buf sz = -1 \<and>
    receive_socketwatched fb buf sz = -1 \<and> receive_execveterminated fb buf sz = None \<and>
    receive_inotifypathupdated fb buf sz = None \<and> receive_inotifywatchlistupdated fb buf sz = None \<and>
    receive_socketwatchterminated fb buf sz = None \<and> receive_command fb buf sz = None \<and>
    receive_processterminated fb buf sz = PtInt (-1) \<and>
    receive_message_from_demon fb buf sz = EvInt (-1) \<and> receive_message_from_user fb buf sz = EvInt (-1)"
proof -
  have "Message_GetRootAsMessage fb buf 0 = Inl e" using assms(1) by (simp add: tables)
  with assms(2,3) show ?thesis
    by (simp add: receiver_shapes typed_receive_def receive_command_def receive_message_from_demon_def
        receive_message_from_user_def)
qed

theorem unopened_buffer_witness: "receive_processterminated wire_fb [0] 1 = PtInt (-1)"
proof -
  have "fb_encode_Get_uoffset wire_fb [0] 0 = Inl StructError" by code_simp
  from unopened_buffer [OF this, of 1] show ?thesis by simp
qed

section \<open>The size argument\<close>

text \<open>No receiver reads an empty buffer or one whose announced size is not
  positive.\<close>

lemma nothing_to_read:
  assumes "buf = [] \<or> sz \<le> 0"
  shows "receive_kill fb buf sz = -1 \<and> receive_processlaunched fb buf sz = -1 \<and>
    receive_childcreationerror fb buf sz = -1 \<and> receive_TCPSocketListening fb buf sz = -1 \<and>
    receive_socketwatched fb buf sz = -1 \<and> receive_execveterminated fb buf sz = None \<and>
    receive_inotifypathupdated fb buf sz = None \<and> receive_inotifywatchlistupdated fb buf sz = None \<and>
    receive_socketwatchterminated fb buf sz = None \<and> receive_command fb buf sz = None \<and>
    receive_processterminated fb buf sz = PtNone \<and>
    receive_message_from_demon fb buf sz = EvMember NONE \<and> receive_message_from_user fb buf sz = EvMember NONE"
  using assms
  by (auto simp: receiver_shapes typed_receive_def receive_command_def receive_message_from_demon_def
      receive_message_from_user_def)

text \<open>Apart from that test the announced size is not used: two positive
  sizes give the same result on the same buffer.\<close>

lemma size_is_only_a_guard:
  assumes "0 < sz" and "0 < sz'"
  shows "receive_kill fb buf sz = receive_kill fb buf sz' \<and>
    receive_processlaunched fb buf sz = receive_processlaunched fb buf sz' \<and>
    receive_childcreationerror fb buf sz = receive_childcreationerror fb buf sz' \<and>
    receive_TCPSocketListening fb buf sz = receive_TCPSocketListening fb buf sz' \<and>
    receive_socketwatched fb buf sz = receive_socketwatched fb buf sz' \<and>
    receive_execveterminated fb buf sz = receive_execveterminated fb buf sz' \<and>
    receive_inotifypathupdated fb buf sz = receive_inotifypathupdated fb buf sz' \<and>
    receive_inotifywatchlistupdated fb buf sz = receive_inotifywatchlistupdated fb buf sz' \<and>
    receive_socketwatchterminated fb buf sz = receive_socketwatchterminated fb buf sz' \<and>
    receive_processterminated fb buf sz = receive_processterminated fb buf sz' \<and>
    receive_message_from_demon fb buf sz = receive_message_from_demon fb buf sz' \<and>
    receive_message_from_user fb buf sz = receive_message_from_user fb buf sz'"
  using assms
  by (simp add: receiver_shapes typed_receive_def receive_message_from_demon_def receive_message_from_user_def)

section \<open>A receiver that accepts nothing\<close>

lemma no_numpy_methods:
  "call_method (RunCommand_methods fb t) ''ArgsAsNumpy'' args = Inl AttributeError"
  by (simp add: call_method_def RunCommand_methods_def)

lemma receive_command_body_error:
  "receive_command_body fb t = bindE (RunCommand_Path fb t) (\<lambda>p. bindE (decode_opt p) (\<lambda>_. Inl AttributeError))"
  by (simp add: receive_command_body_def no_numpy_methods)

lemma receive_command_body_raises: "raises (receive_command_body fb t)"
  unfolding receive_command_body_error by (rule raises_later, rule raises_later) simp

text \<open>\<^verbatim>\<open>receive_command\<close> returns \<^verbatim>\<open>None\<close> on every buffer, valid or not: the
  class \<^verbatim>\<open>RunCommand\<close> has no method \<^verbatim>\<open>ArgsAsNumpy\<close>, so building the \<open>Command\<close> object
  always raises.\<close>

lemma receive_command_never: "receive_command fb buf sz = None"
proof -
  have "try_except (receive_command_body fb t) None = None" for t
    using receive_command_body_raises [of fb t] by (auto simp: raises_def)
  then show ?thesis
    unfolding receive_command_def
    by (auto intro!: try_exceptI [where P = "\<lambda>x. x = None"] elim!: bindE_InrE split: if_splits)
qed

end
