(* ===== verification/Client_Correct.thy ===== *)
theory Client_Correct
  imports Client Receive_Safety
begin

text \<open>
  The clients of \<^verbatim>\<open>test_demon.py\<close> against a daemon that sends a sequence of messages:
  frames survive the connection, the wait loop finds the message it waits for, sends nothing else,
  and does not end when the message does not come.
\<close>

section \<open>Frames on a connection\<close>

definition header_of :: "bytes \<Rightarrow> bytes" where
  "header_of buf = le_bytes 4 (length buf)"

text \<open>A frame arrives in one segment, or the header apart from the message.\<close>

definition frame_segments :: "bytes \<Rightarrow> segment list \<Rightarrow> bool" where
  "frame_segments buf segs \<longleftrightarrow> buf \<noteq> [] \<and> length buf < 2 ^ 32 \<and>
     (segs = [Seg (header_of buf @ buf)] \<or> segs = [Seg (header_of buf), Seg buf])"

lemma length_header [simp]: "length (header_of buf) = 4"
  by (simp add: header_of_def)

lemma header_size: "length buf < 2 ^ 32 \<Longrightarrow> int_from_bytes (header_of buf) = int (length buf)"
  by (simp add: header_of_def int_from_bytes_def le_nat_roundtrip)

lemma header_nonempty: "header_of buf \<noteq> []"
  using length_header [of buf] by (metis length_0_conv zero_neq_numeral)

lemma read_frame_segments:
  assumes "frame_segments buf segs"
  shows "read_frame (c\<lparr>conn_in := segs @ rest\<rparr>) = Inr (c\<lparr>conn_in := rest\<rparr>, buf, int (length buf))"
proof -
  have buf: "buf \<noteq> []" "int_from_bytes (header_of buf) = int (length buf)"
    using assms by (auto simp: frame_segments_def header_size)
  then show ?thesis
    using assms by (auto simp: frame_segments_def read_frame_def recv_def header_nonempty)
qed

lemma read_frame_closed: "read_frame (c\<lparr>conn_in := []\<rparr>) = Inr (c\<lparr>conn_in := []\<rparr>, [], 0)"
  by (simp add: read_frame_def recv_def int_from_bytes_def)

lemma send_frame_ok:
  assumes "conn_can_send c" and "bi_size bi = int (length (bi_buffer bi))" and "bi_size bi \<le> fb_max"
  shows "send_frame c bi = Inr (c\<lparr>conn_out := conn_out c @ header_of (bi_buffer bi) @ bi_buffer bi\<rparr>)"
  using assms by (simp add: send_frame_def int_to_bytes_def sendall_def header_of_def)

section \<open>Streams of messages\<close>

inductive streams :: "'b flatbuffers \<Rightarrow> (bytes \<Rightarrow> store \<Rightarrow> bool) \<Rightarrow> segment list \<Rightarrow> message list \<Rightarrow> bool"
  for fb enc where
  streams_end: "streams fb enc [] []"
| streams_frame: "frame_segments buf s \<Longrightarrow> carries fb enc buf m \<Longrightarrow> streams fb enc segs ms \<Longrightarrow>
    streams fb enc (s @ segs) (m # ms)"

inductive_cases streams_ConsE: "streams fb enc segs (m # ms)"
inductive_cases streams_NilE: "streams fb enc segs []"

context fb_reader
begin

lemma await_streams:
  assumes "streams fb encodes segs (m # ms)"
  obtains buf segs' where "carries fb encodes buf m" and "streams fb encodes segs' ms"
    and "read_frame (c\<lparr>conn_in := segs\<rparr>) = Inr (c\<lparr>conn_in := segs'\<rparr>, buf, int (length buf))"
    and "receive_message_from_demon fb buf (int (length buf)) = EvMember (want_event_user m)"
proof -
  from assms obtain buf s segs' where s: "segs = s @ segs'" "frame_segments buf s" "carries fb encodes buf m"
      "streams fb encodes segs' ms" by (auto elim: streams_ConsE)
  have "0 < int (length buf)" using s(2) by (simp add: frame_segments_def)
  from message_from_demon_reads [OF s(3) this] read_frame_segments [OF s(2)] s that show thesis by simp
qed

lemma await_found:
  assumes "streams fb encodes segs (pre @ m # post)" and "\<forall>m' \<in> set pre. want_event_user m' \<noteq> ev"
    and "want_event_user m = ev"
  shows "\<exists>buf segs'. carries fb encodes buf m \<and> streams fb encodes segs' post \<and>
    await fb ev (c\<lparr>conn_in := segs\<rparr>) = Some (Inr (c\<lparr>conn_in := segs'\<rparr>, buf, int (length buf)))"
  using assms(1,2)
proof (induction pre arbitrary: segs)
  case Nil
  then have "streams fb encodes segs (m # post)" by simp
  then show ?case
  proof (rule await_streams [where c = c])
    fix buf segs'
    assume "carries fb encodes buf m" "streams fb encodes segs' post"
      and "read_frame (c\<lparr>conn_in := segs\<rparr>) = Inr (c\<lparr>conn_in := segs'\<rparr>, buf, int (length buf))"
      and "receive_message_from_demon fb buf (int (length buf)) = EvMember (want_event_user m)"
    with assms(3) show ?thesis by (auto simp: await_def wait_for.simps)
  qed
next
  case (Cons m' pre)
  then have "streams fb encodes segs (m' # pre @ m # post)" by simp
  then show ?case
  proof (rule await_streams [where c = c])
    fix buf segs'
    assume read: "read_frame (c\<lparr>conn_in := segs\<rparr>) = Inr (c\<lparr>conn_in := segs'\<rparr>, buf, int (length buf))"
      and "receive_message_from_demon fb buf (int (length buf)) = EvMember (want_event_user m')"
      and segs': "streams fb encodes segs' (pre @ m # post)"
    then have "await fb ev (c\<lparr>conn_in := segs\<rparr>) = await fb ev (c\<lparr>conn_in := segs'\<rparr>)"
      using Cons.prems(2) by (simp add: await_def wait_for.simps [of fb ev _ buf])
    with Cons.IH [OF segs'] Cons.prems(2) show ?thesis by simp
  qed
qed

end

text \<open>After the peer has closed, every frame is empty and none is of a class.\<close>

lemma empty_is_no_event: "receive_message_from_demon fb [] 0 = EvMember NONE"
  by (simp add: receive_message_from_demon_def)

lemma read_frame_closed': "conn_in c = [] \<Longrightarrow> read_frame c = Inr (c, [], 0)"
  using read_frame_closed [of c] by (cases c) simp

lemma wait_for_closed_ends:
  assumes "wait_for fb ev c res sz = Some y"
  shows "conn_in c = [] \<longrightarrow> res = [] \<longrightarrow> sz = 0 \<longrightarrow> ev = NONE"
proof (rule wait_for.raw_induct [OF _ assms], intro impI)
  fix f :: "'a flatbuffers \<Rightarrow> Event \<Rightarrow> conn \<Rightarrow> bytes \<Rightarrow> int \<Rightarrow> (conn \<times> bytes \<times> int) py option"
    and fb :: "'a flatbuffers" and ev c and res :: bytes and sz :: int and y
  assume IH: "\<And>fb ev c res sz y. f fb ev c res sz = Some y \<Longrightarrow>
      conn_in c = [] \<longrightarrow> res = [] \<longrightarrow> sz = 0 \<longrightarrow> ev = NONE"
    and body: "(if receive_message_from_demon fb res sz \<noteq> EvMember ev then
        (case read_frame c of Inl e \<Rightarrow> Some (Inl e) | Inr (c, res, sz) \<Rightarrow> f fb ev c res sz)
      else Some (Inr (c, res, sz))) = Some y"
    and closed: "conn_in c = []" "res = []" "sz = 0"
  show "ev = NONE"
  proof (rule ccontr)
    assume "ev \<noteq> NONE"
    with body closed have "f fb ev c [] 0 = Some y" by (simp add: empty_is_no_event read_frame_closed')
    from IH [OF this] closed \<open>ev \<noteq> NONE\<close> show False by simp
  qed
qed

lemma wait_for_closed: "ev \<noteq> NONE \<Longrightarrow> wait_for fb ev (c\<lparr>conn_in := []\<rparr>) [] 0 = None"
  using wait_for_closed_ends [of fb ev "c\<lparr>conn_in := []\<rparr>" "[]" 0]
  by (cases "wait_for fb ev (c\<lparr>conn_in := []\<rparr>) [] 0") auto

context fb_reader
begin

lemma await_lost:
  assumes "streams fb encodes segs ms" and "\<forall>m \<in> set ms. want_event_user m \<noteq> ev" and "ev \<noteq> NONE"
  shows "await fb ev (c\<lparr>conn_in := segs\<rparr>) = None"
  using assms(1,2)
proof (induction ms arbitrary: segs rule: list.induct)
  case Nil
  then have "segs = []" by (auto elim: streams_NilE)
  then show ?case using assms(3)
    by (simp add: await_def read_frame_closed wait_for_closed)
next
  case (Cons m ms)
  from Cons.prems(1) show ?case
  proof (rule await_streams [where c = c])
    fix buf segs'
    assume "read_frame (c\<lparr>conn_in := segs\<rparr>) = Inr (c\<lparr>conn_in := segs'\<rparr>, buf, int (length buf))"
      and "receive_message_from_demon fb buf (int (length buf)) = EvMember (want_event_user m)"
      and segs': "streams fb encodes segs' ms"
    then have "await fb ev (c\<lparr>conn_in := segs\<rparr>) = await fb ev (c\<lparr>conn_in := segs'\<rparr>)"
      using Cons.prems(2) by (simp add: await_def wait_for.simps [of fb ev _ buf])
    with Cons.IH [OF segs'] Cons.prems(2) show ?thesis by simp
  qed
qed

end

section \<open>A client and its daemon\<close>

text \<open>The connection a client starts with: it can send, and the daemon will send \<open>ms\<close>.\<close>

definition serves :: "'b flatbuffers \<Rightarrow> (bytes \<Rightarrow> store \<Rightarrow> bool) \<Rightarrow> conn \<Rightarrow> message list \<Rightarrow> bool" where
  "serves fb enc k ms \<longleftrightarrow> conn_can_send k \<and> streams fb enc (conn_in k) ms"

text \<open>The connection it ends with: closed, and \<open>sent_msgs\<close> have been sent on it, a frame each.\<close>

fun frames_of :: "'b flatbuffers \<Rightarrow> (bytes \<Rightarrow> store \<Rightarrow> bool) \<Rightarrow> message list \<Rightarrow> bytes \<Rightarrow> bool" where
  "frames_of fb enc [] bs = (bs = [])"
| "frames_of fb enc (m # ms) bs = (\<exists>buf rest. bs = header_of buf @ buf @ rest \<and> carries fb enc buf m \<and> frames_of fb enc ms rest)"

definition served :: "'b flatbuffers \<Rightarrow> (bytes \<Rightarrow> store \<Rightarrow> bool) \<Rightarrow> conn \<Rightarrow> message list \<Rightarrow> conn \<Rightarrow> bool" where
  "served fb enc k sent_msgs k' \<longleftrightarrow> \<not> conn_open k' \<and> (\<exists>bs. conn_out k' = conn_out k @ bs \<and> frames_of fb enc sent_msgs bs)"

lemma conn_in_same: "conn_in k = segs \<Longrightarrow> k\<lparr>conn_in := segs\<rparr> = k"
  by (cases k) simp

context flatbuffers_pkg
begin

lemma start_command_ok:
  assumes "command_message cmd = Some c" and "command_cost c \<le> fb_max" and "conn_can_send k"
  shows "\<exists>buf. carries fb encodes buf (MRunCommand c) \<and>
    start_command fb (Some k) cmd = Inr (k\<lparr>conn_out := conn_out k @ header_of buf @ buf\<rparr>)"
proof -
  from command_sends [OF assms(1,2)] obtain bi where bi: "send_command_to_demon fb cmd = Inr bi"
      "sent fb encodes (MRunCommand c) (command_cost c) bi" by (auto simp: okE_def)
  then have "bi_size bi = int (length (bi_buffer bi))" "bi_size bi \<le> fb_max"
    using assms(2) by (auto simp: sent_def)
  from send_frame_ok [OF assms(3) this] bi show ?thesis
    by (auto simp: start_command_def connect_def sent_def)
qed

lemma reply_found:
  assumes cmd: "command_message cmd = Some c" "command_cost c \<le> fb_max" and k: "serves fb encodes k (pre @ m # post)"
    and pre: "\<forall>m' \<in> set pre. want_event_user m' \<noteq> ev" and m: "want_event_user m = ev"
  shows "\<exists>buf k'. carries fb encodes buf m \<and> 0 < int (length buf) \<and> served fb encodes k [MRunCommand c] (close k') \<and>
    streams fb encodes (conn_in k') post \<and>
    reply_to fb (Some k) cmd ev judge d =
      except_socket_error (Some (bindE (judge buf (int (length buf))) (\<lambda>v. Inr (Some (close k'), v)))) d"
proof -
  from start_command_ok [OF cmd] k obtain out where out: "carries fb encodes out (MRunCommand c)"
      "start_command fb (Some k) cmd = Inr (k\<lparr>conn_out := conn_out k @ header_of out @ out\<rparr>)"
    by (auto simp: serves_def)
  let ?k = "k\<lparr>conn_out := conn_out k @ header_of out @ out\<rparr>"
  have "streams fb encodes (conn_in k) (pre @ m # post)" using k by (simp add: serves_def)
  from await_found [OF this pre m, of ?k] obtain buf segs where buf: "carries fb encodes buf m" "streams fb encodes segs post"
      "await fb ev (?k\<lparr>conn_in := conn_in k\<rparr>) = Some (Inr (?k\<lparr>conn_in := segs\<rparr>, buf, int (length buf)))" by blast
  have same: "?k\<lparr>conn_in := conn_in k\<rparr> = ?k" by (rule conn_in_same) simp
  obtain root body S fs where "opened fb encodes buf m root body S fs" using openE [OF buf(1)] by blast
  then have "0 < int (length buf)" by (simp add: opened_def)
  moreover have "served fb encodes k [MRunCommand c] (close (?k\<lparr>conn_in := segs\<rparr>))"
    using out(1) by (auto simp: served_def close_def)
  moreover have "reply_to fb (Some k) cmd ev judge d = except_socket_error
      (Some (bindE (judge buf (int (length buf))) (\<lambda>v. Inr (Some (close (?k\<lparr>conn_in := segs\<rparr>)), v)))) d"
    using buf(3) unfolding same by (simp add: reply_to_def out(2) judged_def)
  ultimately show ?thesis using buf(1,2) by fastforce
qed

lemma reply_lost:
  assumes cmd: "command_message cmd = Some c" "command_cost c \<le> fb_max" and k: "serves fb encodes k ms"
    and ms: "\<forall>m \<in> set ms. want_event_user m \<noteq> ev" and ev: "ev \<noteq> NONE"
  shows "reply_to fb (Some k) cmd ev judge d = None"
proof -
  from start_command_ok [OF cmd] k obtain out where
      out: "start_command fb (Some k) cmd = Inr (k\<lparr>conn_out := conn_out k @ header_of out @ out\<rparr>)"
    by (auto simp: serves_def)
  let ?k = "k\<lparr>conn_out := conn_out k @ header_of out @ out\<rparr>"
  have "streams fb encodes (conn_in k) ms" using k by (simp add: serves_def)
  from await_lost [OF this ms ev, of ?k] have "await fb ev (?k\<lparr>conn_in := conn_in k\<rparr>) = None" .
  moreover have "?k\<lparr>conn_in := conn_in k\<rparr> = ?k" by (rule conn_in_same) simp
  ultimately show ?thesis by (simp add: reply_to_def out judged_def except_socket_error_def)
qed

end

section \<open>The loop that kills\<close>

definition kill_await :: "'b flatbuffers \<Rightarrow> conn \<Rightarrow> (conn \<times> bytes \<times> int) run" where
  "kill_await fb c = (case read_frame c of Inl e \<Rightarrow> Some (Inl e) | Inr (c, res, sz) \<Rightarrow> kill_loop fb c res sz)"

lemma judged_kill_await:
  "(case read_frame c of Inl e \<Rightarrow> Some (Inl e) | Inr (c, res, sz) \<Rightarrow> judged (kill_loop fb c res sz) j) =
   judged (kill_await fb c) j"
  by (auto simp: kill_await_def judged_def split: sum.splits)

context fb_reader
begin

lemma kill_skip:
  assumes "streams fb encodes segs (m # ms)" and "want_event_user m \<notin> {PROCESS_TERMINATED, EXECVE_TERMINATED}"
  shows "\<exists>segs'. streams fb encodes segs' ms \<and> kill_await fb (c\<lparr>conn_in := segs\<rparr>) = kill_await fb (c\<lparr>conn_in := segs'\<rparr>)"
  using assms(1)
proof (rule await_streams [where c = c])
  fix buf segs'
  assume "streams fb encodes segs' ms"
    and "read_frame (c\<lparr>conn_in := segs\<rparr>) = Inr (c\<lparr>conn_in := segs'\<rparr>, buf, int (length buf))"
    and "receive_message_from_demon fb buf (int (length buf)) = EvMember (want_event_user m)"
  with assms(2) show ?thesis
    by (intro exI [of _ segs']) (simp add: kill_await_def kill_loop.simps [of fb _ buf] kill_step_def)
qed

lemma kill_skip_all:
  assumes "streams fb encodes segs (pre @ ms)"
    and "\<forall>m \<in> set pre. want_event_user m \<notin> {PROCESS_TERMINATED, EXECVE_TERMINATED}"
  shows "\<exists>segs'. streams fb encodes segs' ms \<and> kill_await fb (c\<lparr>conn_in := segs\<rparr>) = kill_await fb (c\<lparr>conn_in := segs'\<rparr>)"
  using assms
proof (induction pre arbitrary: segs)
  case Nil
  then show ?case by auto
next
  case (Cons m pre)
  then obtain segs' where segs': "streams fb encodes segs' (pre @ ms)"
      "kill_await fb (c\<lparr>conn_in := segs\<rparr>) = kill_await fb (c\<lparr>conn_in := segs'\<rparr>)"
    using kill_skip [of segs m "pre @ ms" c] by auto
  from Cons.IH [OF segs'(1)] Cons.prems(2) segs'(2) show ?case by simp
qed

end

context flatbuffers_pkg
begin

text \<open>The step that answers the report of a started process.\<close>

lemma kill_answers:
  assumes "streams fb encodes segs (MExecveTerminated pid name ok # ms)" and "utf8_decode name = Inr s"
    and "nf_range Int32Flags pid" and "conn_can_send c"
  shows "\<exists>segs' out. streams fb encodes segs' ms \<and> carries fb encodes out (MKillProcess pid) \<and>
    kill_await fb (c\<lparr>conn_in := segs\<rparr>) =
    kill_await fb (c\<lparr>conn_in := segs', conn_out := conn_out c @ header_of out @ out\<rparr>)"
  using assms(1)
proof (rule await_streams [where c = c])
  fix buf segs'
  assume buf: "carries fb encodes buf (MExecveTerminated pid name ok)" "streams fb encodes segs' ms"
    and read: "read_frame (c\<lparr>conn_in := segs\<rparr>) = Inr (c\<lparr>conn_in := segs'\<rparr>, buf, int (length buf))"
    and ev: "receive_message_from_demon fb buf (int (length buf)) =
      EvMember (want_event_user (MExecveTerminated pid name ok))"
  obtain root body S fs where "opened fb encodes buf (MExecveTerminated pid name ok) root body S fs"
    using openE [OF buf(1)] by blast
  then have "0 < int (length buf)" by (simp add: opened_def)
  from execveterminated_reads [OF buf(1) this] assms(2)
  have data: "receive_execveterminated fb buf (int (length buf)) =
      Some \<lparr>ei_pid = pid, ei_command_name = s, ei_success = ok\<rparr>" by (simp add: text_or_def)
  from kill_sends [OF assms(3)] obtain bi where bi: "send_kill_to_demon fb pid = Inr bi"
      "sent fb encodes (MKillProcess pid) 70 bi" by (auto simp: okE_def)
  have "send_frame (c\<lparr>conn_in := segs'\<rparr>) bi = Inr (c\<lparr>conn_in := segs',
      conn_out := conn_out c @ header_of (bi_buffer bi) @ bi_buffer bi\<rparr>)"
    using send_frame_ok [of "c\<lparr>conn_in := segs'\<rparr>" bi] assms(4) bi(2) by (simp add: sent_def)
  then have "kill_await fb (c\<lparr>conn_in := segs\<rparr>) = kill_await fb (c\<lparr>conn_in := segs',
      conn_out := conn_out c @ header_of (bi_buffer bi) @ bi_buffer bi\<rparr>)"
    using ev data bi(1) by (simp add: kill_await_def read kill_loop.simps [of fb _ buf] kill_step_def not_none_def)
  with buf(2) bi(2) show ?thesis by (auto simp: sent_def)
qed

lemma kill_ends:
  assumes "streams fb encodes segs (MProcessTerminated p e # ms)"
  shows "\<exists>segs' buf. carries fb encodes buf (MProcessTerminated p e) \<and> streams fb encodes segs' ms \<and>
    kill_await fb (c\<lparr>conn_in := segs\<rparr>) = Some (Inr (c\<lparr>conn_in := segs'\<rparr>, buf, int (length buf)))"
  using assms
proof (rule await_streams [where c = c])
  fix buf segs'
  assume "carries fb encodes buf (MProcessTerminated p e)" "streams fb encodes segs' ms"
    and "read_frame (c\<lparr>conn_in := segs\<rparr>) = Inr (c\<lparr>conn_in := segs'\<rparr>, buf, int (length buf))"
    and "receive_message_from_demon fb buf (int (length buf)) = EvMember (want_event_user (MProcessTerminated p e))"
  then show ?thesis by (auto simp: kill_await_def kill_loop.simps [of fb _ buf])
qed

lemma kill_process_run:
  assumes cmd: "command_message cmd = Some c" "command_cost c \<le> fb_max"
    and k: "serves fb encodes k (pre @ MExecveTerminated pid name ok # mid @ MProcessTerminated p e # post)"
    and quiet: "\<forall>m \<in> set pre \<union> set mid. want_event_user m \<notin> {PROCESS_TERMINATED, EXECVE_TERMINATED}"
    and name: "utf8_decode name = Inr s" and pid: "nf_range Int32Flags pid"
  shows "\<exists>k'. kill_process fb (Some k) cmd in_time =
      Some (Inr (Some k', Some (if p > 0 \<and> e > 0 \<and> in_time then 1 else -1))) \<and>
    served fb encodes k [MRunCommand c, MKillProcess pid] k' \<and> streams fb encodes (conn_in k') post"
proof -
  from start_command_ok [OF cmd] k obtain out where out: "carries fb encodes out (MRunCommand c)"
      "start_command fb (Some k) cmd = Inr (k\<lparr>conn_out := conn_out k @ header_of out @ out\<rparr>)"
    by (auto simp: serves_def)
  define k1 where "k1 = k\<lparr>conn_out := conn_out k @ header_of out @ out\<rparr>"
  have k1: "conn_can_send k1" "k1\<lparr>conn_in := conn_in k\<rparr> = k1"
    using k by (auto simp: k1_def serves_def intro: conn_in_same)
  from k quiet kill_skip_all [of "conn_in k" pre _ k1] obtain s1 where
    s1: "streams fb encodes s1 (MExecveTerminated pid name ok # mid @ MProcessTerminated p e # post)"
      "kill_await fb k1 = kill_await fb (k1\<lparr>conn_in := s1\<rparr>)" by (auto simp: serves_def k1(2))
  from kill_answers [OF s1(1) name pid k1(1)] obtain s2 kout where
    s2: "streams fb encodes s2 (mid @ MProcessTerminated p e # post)" "carries fb encodes kout (MKillProcess pid)"
      "kill_await fb k1 = kill_await fb (k1\<lparr>conn_in := s2, conn_out := conn_out k1 @ header_of kout @ kout\<rparr>)"
    unfolding s1(2) by blast
  define k2 where "k2 = k1\<lparr>conn_out := conn_out k1 @ header_of kout @ kout\<rparr>"
  have k2: "k1\<lparr>conn_in := s2, conn_out := conn_out k1 @ header_of kout @ kout\<rparr> = k2\<lparr>conn_in := s2\<rparr>"
    by (simp add: k2_def)
  from kill_skip_all [OF s2(1), of k2] quiet obtain s3 where s3: "streams fb encodes s3 (MProcessTerminated p e # post)"
      "kill_await fb k1 = kill_await fb (k2\<lparr>conn_in := s3\<rparr>)" unfolding s2(3) k2 by auto
  from kill_ends [OF s3(1), of k2] obtain s4 buf where s4: "carries fb encodes buf (MProcessTerminated p e)"
      "streams fb encodes s4 post" "kill_await fb k1 = Some (Inr (k2\<lparr>conn_in := s4\<rparr>, buf, int (length buf)))"
    unfolding s3(2) by blast
  obtain root body S fs where "opened fb encodes buf (MProcessTerminated p e) root body S fs" using openE [OF s4(1)] by blast
  then have "0 < int (length buf)" by (simp add: opened_def)
  from processterminated_reads [OF s4(1) this]
  have info: "receive_processterminated fb buf (int (length buf)) = PtInfo \<lparr>pti_pid = p, pti_error_code = e\<rparr>" by simp
  have "kill_process fb (Some k) cmd in_time =
      Some (Inr (Some (close (k2\<lparr>conn_in := s4\<rparr>)), Some (if p > 0 \<and> e > 0 \<and> in_time then 1 else -1)))"
    using s4(3) by (simp add: kill_process_def out(2) k1_def [symmetric] judged_kill_await judged_def info
        terminated_info_def pass_if_def except_socket_error_def)
  moreover have "served fb encodes k [MRunCommand c, MKillProcess pid] (close (k2\<lparr>conn_in := s4\<rparr>))"
    using out(1) s2(2) by (auto simp: served_def close_def k1_def k2_def)
  moreover have "streams fb encodes (conn_in (close (k2\<lparr>conn_in := s4\<rparr>))) post" using s4(2) by (simp add: close_def)
  ultimately show ?thesis by blast
qed

end

end
