(* ===== verification/Client_Runs.thy ===== *)
theory Client_Runs
  imports Client_Correct
begin

text \<open>
  What the client functions of \<^verbatim>\<open>test_demon.py\<close> return, for every conversation with a
  daemon: the message they wait for arrives, it never does, or it cannot be read.
\<close>

section \<open>Sample conversations\<close>

lemma sent_frame:
  assumes "fb_reader fb enc" and "okE r (sent fb enc m u)" and "u \<le> 2147483647"
  shows "\<exists>buf. carries fb enc buf m \<and> buf \<noteq> [] \<and> length buf < 2 ^ 32"
proof -
  from assms(2) obtain bi where bi: "sent fb enc m u bi" by (auto simp: okE_def)
  then have c: "carries fb enc (bi_buffer bi) m" by (simp add: sent_def)
  obtain root body S fs where "opened fb enc (bi_buffer bi) m root body S fs"
    using fb_reader.openE [OF assms(1) c] by blast
  with bi c assms(3) show ?thesis by (auto simp: sent_def opened_def)
qed

lemma streams_exist:
  assumes "\<forall>m \<in> set ms. \<exists>buf. carries fb enc buf m \<and> buf \<noteq> [] \<and> length buf < 2 ^ 32"
  shows "\<exists>segs. streams fb enc segs ms"
  using assms
proof (induction ms)
  case Nil
  show ?case by (blast intro: streams_end)
next
  case (Cons m ms)
  then obtain buf segs where "carries fb enc buf m" "buf \<noteq> []" "length buf < 2 ^ 32" "streams fb enc segs ms" by auto
  then have "streams fb enc ([Seg (header_of buf @ buf)] @ segs) (m # ms)"
    by (intro streams_frame) (auto simp: frame_segments_def)
  then show ?case by blast
qed

lemma serves_exist:
  assumes "\<forall>m \<in> set ms. \<exists>buf. carries fb enc buf m \<and> buf \<noteq> [] \<and> length buf < 2 ^ 32"
  shows "\<exists>k. serves fb enc k ms"
proof -
  from streams_exist [OF assms] obtain segs where "streams fb enc segs ms" by blast
  then have "serves fb enc \<lparr>conn_in = segs, conn_out = [], conn_can_send = True, conn_open = True\<rparr> ms"
    by (simp add: serves_def)
  then show ?thesis by blast
qed

lemma okE_some: "\<exists>x. r = Inr (Some x) \<and> Q x \<Longrightarrow> okE (bindE r not_none) Q"
  by (auto simp: not_none_def)

lemma wire_frames:
  "\<exists>buf. carries wire_fb wire_encodes buf (MProcessLaunched 42) \<and> buf \<noteq> [] \<and> length buf < 2 ^ 32"
  "\<exists>buf. carries wire_fb wire_encodes buf (MProcessTerminated 42 9) \<and> buf \<noteq> [] \<and> length buf < 2 ^ 32"
  "\<exists>buf. carries wire_fb wire_encodes buf (MTCPSocketListening 9090) \<and> buf \<noteq> [] \<and> length buf < 2 ^ 32"
  "\<exists>buf. carries wire_fb wire_encodes buf (MSocketWatched 9090) \<and> buf \<noteq> [] \<and> length buf < 2 ^ 32"
  "\<exists>buf. carries wire_fb wire_encodes buf (MExecveTerminated 42 [115, 104] True) \<and> buf \<noteq> [] \<and> length buf < 2 ^ 32"
  "\<exists>buf. carries wire_fb wire_encodes buf (MSocketWatchTerminated 9090 1) \<and> buf \<noteq> [] \<and> length buf < 2 ^ 32"
proof -
  note frame = sent_frame [OF wire_reader] and some = okE_some
  show "\<exists>buf. carries wire_fb wire_encodes buf (MProcessLaunched 42) \<and> buf \<noteq> [] \<and> length buf < 2 ^ 32"
    by (rule frame [OF some [OF wire.processlaunched_sends]]) simp_all
  show "\<exists>buf. carries wire_fb wire_encodes buf (MProcessTerminated 42 9) \<and> buf \<noteq> [] \<and> length buf < 2 ^ 32"
    by (rule frame [OF some [OF wire.processterminated_sends]]) simp_all
  show "\<exists>buf. carries wire_fb wire_encodes buf (MTCPSocketListening 9090) \<and> buf \<noteq> [] \<and> length buf < 2 ^ 32"
    by (rule frame [OF some [OF wire.tcpsocketlistening_sends]]) simp_all
  show "\<exists>buf. carries wire_fb wire_encodes buf (MSocketWatched 9090) \<and> buf \<noteq> [] \<and> length buf < 2 ^ 32"
    by (rule frame [OF some [OF wire.socketwatched_sends]]) simp_all
  show "\<exists>buf. carries wire_fb wire_encodes buf (MExecveTerminated 42 [115, 104] True) \<and> buf \<noteq> [] \<and> length buf < 2 ^ 32"
    by (rule frame [OF wire.execveterminated_builds [OF _ utf8_sh]]) simp_all
  show "\<exists>buf. carries wire_fb wire_encodes buf (MSocketWatchTerminated 9090 1) \<and> buf \<noteq> [] \<and> length buf < 2 ^ 32"
    by (rule frame [OF wire.socketwatchterminated_builds]) simp_all
qed

text \<open>A daemon that announces its port, the new process, its exec, and its end.\<close>

abbreviation sample_talk :: "message list" where
  "sample_talk \<equiv> [MTCPSocketListening 9090, MProcessLaunched 42, MExecveTerminated 42 [115, 104] True,
     MProcessTerminated 42 9]"

lemma wire_talk: "\<exists>k. serves wire_fb wire_encodes k sample_talk"
  by (rule serves_exist) (use wire_frames in auto)

section \<open>The message arrives\<close>

lemma launch_process_run:
  assumes "flatbuffers_pkg fb enc valid store phase used" and "command_message cmd = Some c"
    and "command_cost c \<le> 2147483647" and "serves fb enc k (pre @ MProcessLaunched pid # post)"
    and "\<forall>m \<in> set pre. want_event_user m \<noteq> PROCESS_LAUNCHED"
  shows "\<exists>k'. launch_process fb (Some k) cmd = Some (Inr (Some k', Some (if pid < 0 then -1 else 1))) \<and>
    served fb enc k [MRunCommand c] k' \<and> streams fb enc (conn_in k') post"
proof -
  have r: "fb_reader fb enc" using assms(1) by (rule flatbuffers_pkg.axioms(1))
  let ?j = "\<lambda>res sz. pass_if (\<not> receive_processlaunched fb res sz < 0)"
  from flatbuffers_pkg.reply_found [OF assms, of ?j "Some (-1)"] obtain buf k' where
    buf: "carries fb enc buf (MProcessLaunched pid)" "0 < int (length buf)" and
    k': "served fb enc k [MRunCommand c] (close k')" "streams fb enc (conn_in k') post" and
    run: "launch_process fb (Some k) cmd = except_socket_error
      (Some (bindE (?j buf (int (length buf))) (\<lambda>v. Inr (Some (close k'), v)))) (Some (-1))"
    unfolding launch_process_def by auto
  from fb_reader.processlaunched_reads [OF r buf] k' show ?thesis
    unfolding run by (auto simp: pass_if_def except_socket_error_def close_def)
qed

lemma process_terminated_run:
  assumes "flatbuffers_pkg fb enc valid store phase used" and "command_message cmd = Some c"
    and "command_cost c \<le> 2147483647" and "serves fb enc k (pre @ MProcessTerminated pid e # post)"
    and "\<forall>m \<in> set pre. want_event_user m \<noteq> PROCESS_TERMINATED"
  shows "\<exists>k'. process_terminated fb (Some k) cmd = Some (Inr (Some k', Some (if pid \<ge> 0 \<and> e = 0 then 1 else -1))) \<and>
    served fb enc k [MRunCommand c] k' \<and> streams fb enc (conn_in k') post"
proof -
  have r: "fb_reader fb enc" using assms(1) by (rule flatbuffers_pkg.axioms(1))
  let ?j = "\<lambda>res sz. bindE (terminated_info (receive_processterminated fb res sz)) (\<lambda>info.
        pass_if (pti_pid info \<ge> 0 \<and> pti_error_code info = 0))"
  from flatbuffers_pkg.reply_found [OF assms, of ?j "Some (-1)"] obtain buf k' where
    buf: "carries fb enc buf (MProcessTerminated pid e)" "0 < int (length buf)" and
    k': "served fb enc k [MRunCommand c] (close k')" "streams fb enc (conn_in k') post" and
    run: "process_terminated fb (Some k) cmd = except_socket_error
      (Some (bindE (?j buf (int (length buf))) (\<lambda>v. Inr (Some (close k'), v)))) (Some (-1))"
    unfolding process_terminated_def by auto
  from fb_reader.processterminated_reads [OF r buf] k' show ?thesis
    unfolding run by (auto simp: pass_if_def terminated_info_def except_socket_error_def close_def)
qed

text \<open>C18 (liveness).  \<^verbatim>\<open>launch_process\<close> and \<^verbatim>\<open>process_terminated\<close> end.  Whatever the daemon
  sends before the report the client waits for, and however its frames are cut between header and body, the
  client has sent the command and nothing else, closed the connection, and left the later messages unread.
  The first returns 1, or -1 for a negative pid; the second returns 1 exactly for a pid that is not negative
  and error code 0, -1 otherwise.\<close>

theorem launch_and_end_replies:
  assumes "flatbuffers_pkg fb enc valid store phase used" and "command_message cmd = Some c" and "command_cost c \<le> 2147483647"
  shows "(serves fb enc k (pre @ MProcessLaunched pid # post) \<and> (\<forall>m \<in> set pre. want_event_user m \<noteq> PROCESS_LAUNCHED) \<longrightarrow>
      (\<exists>k'. launch_process fb (Some k) cmd = Some (Inr (Some k', Some (if pid < 0 then -1 else 1))) \<and>
        served fb enc k [MRunCommand c] k' \<and> streams fb enc (conn_in k') post)) \<and>
    (serves fb enc k (pre @ MProcessTerminated pid e # post) \<and> (\<forall>m \<in> set pre. want_event_user m \<noteq> PROCESS_TERMINATED) \<longrightarrow>
      (\<exists>k'. process_terminated fb (Some k) cmd = Some (Inr (Some k', Some (if pid \<ge> 0 \<and> e = 0 then 1 else -1))) \<and>
        served fb enc k [MRunCommand c] k' \<and> streams fb enc (conn_in k') post))"
  using launch_process_run [OF assms] process_terminated_run [OF assms] by blast

theorem launch_and_end_replies_witness:
  "\<exists>k k' k''. launch_process wire_fb (Some k) sample_command = Some (Inr (Some k', Some 1)) \<and>
     process_terminated wire_fb (Some k) sample_command = Some (Inr (Some k'', Some (-1)))"
proof -
  obtain k where k: "serves wire_fb wire_encodes k sample_talk" using wire_talk by blast
  note replies = launch_and_end_replies [OF wire_package sample_command_message sample_command_cost]
  have "\<exists>k'. launch_process wire_fb (Some k) sample_command = Some (Inr (Some k', Some 1))"
    using replies [of k "[MTCPSocketListening 9090]" 42 "[MExecveTerminated 42 [115, 104] True, MProcessTerminated 42 9]"] k by auto
  moreover have "\<exists>k'. process_terminated wire_fb (Some k) sample_command = Some (Inr (Some k', Some (-1)))"
    using replies [of k "[MTCPSocketListening 9090, MProcessLaunched 42, MExecveTerminated 42 [115, 104] True]" 42 "[]" 9] k by auto
  ultimately show ?thesis by blast
qed

lemma execve_run:
  assumes "flatbuffers_pkg fb enc valid store phase used" and "command_message cmd = Some c"
    and "command_cost c \<le> 2147483647" and "serves fb enc k (pre @ MExecveTerminated pid name ok # post)"
    and "\<forall>m \<in> set pre. want_event_user m \<noteq> EXECVE_TERMINATED" and "utf8_decode name = Inr s"
  shows "(\<exists>k'. execve_executed fb (Some k) cmd = Some (Inr (Some k', Some (if ok \<and> pid > 0 then 1 else -1))) \<and>
      served fb enc k [MRunCommand c] k') \<and>
    (\<exists>k'. fail_launch_process fb (Some k) cmd = Some (Inr (Some k', if \<not> ok \<and> pid > 0 then None else Some (-1))) \<and>
      served fb enc k [MRunCommand c] k')"
proof
  have r: "fb_reader fb enc" using assms(1) by (rule flatbuffers_pkg.axioms(1))
  note reads = fb_reader.execveterminated_reads [OF r]
  have is_exec: "want_event_user (MExecveTerminated pid name ok) = EXECVE_TERMINATED" by simp
  note found = flatbuffers_pkg.reply_found [OF assms(1-5) is_exec]
  show "\<exists>k'. execve_executed fb (Some k) cmd = Some (Inr (Some k', Some (if ok \<and> pid > 0 then 1 else -1))) \<and>
      served fb enc k [MRunCommand c] k'"
    unfolding execve_executed_def
    using found [of "\<lambda>res sz. bindE (not_none (receive_execveterminated fb res sz)) (\<lambda>data.
        pass_if (ei_success data \<and> ei_pid data > 0))" "Some (-1)"] assms(6)
    by (auto simp: reads text_or_def not_none_def pass_if_def except_socket_error_def)
  show "\<exists>k'. fail_launch_process fb (Some k) cmd = Some (Inr (Some k', if \<not> ok \<and> pid > 0 then None else Some (-1))) \<and>
      served fb enc k [MRunCommand c] k'"
    unfolding fail_launch_process_def
    using found [of "\<lambda>res sz. bindE (not_none (receive_execveterminated fb res sz)) (\<lambda>data.
        if \<not> ei_success data \<and> ei_pid data > 0 then Inr None else Inr (Some (-1)))" "Some (-1)"] assms(6)
    by (auto simp: reads text_or_def not_none_def except_socket_error_def)
qed

lemma socket_run:
  assumes "flatbuffers_pkg fb enc valid store phase used" and "command_message cmd = Some c"
    and "command_cost c \<le> 2147483647"
    and "serves fb enc k (pre @ MSocketWatched p # mid @ MSocketWatchTerminated q (SocketState_value st) # post)"
    and "\<forall>m \<in> set pre \<union> set mid. want_event_user m \<notin> {SOCKET_WATCHED, SOCKET_WATCH_TERMINATED}"
  shows "(\<exists>k'. watching_socket fb (Some k) cmd = Some (Inr (Some k', Some (if p > 0 then 1 else -1))) \<and>
      served fb enc k [MRunCommand c] k') \<and>
    (\<exists>k'. socket_listening fb (Some k) cmd = Some (Inr (Some k', Some (if q > 0 then 1 else -1))) \<and>
      served fb enc k [MRunCommand c] k')"
proof
  have r: "fb_reader fb enc" using assms(1) by (rule flatbuffers_pkg.axioms(1))
  note found = flatbuffers_pkg.reply_found [OF assms(1-3)]
  let ?last = "MSocketWatchTerminated q (SocketState_value st)"
  show "\<exists>k'. watching_socket fb (Some k) cmd = Some (Inr (Some k', Some (if p > 0 then 1 else -1))) \<and>
      served fb enc k [MRunCommand c] k'"
    unfolding watching_socket_def
    using found [of k pre "MSocketWatched p" "mid @ ?last # post" SOCKET_WATCHED
        "\<lambda>res sz. pass_if (receive_socketwatched fb res sz > 0)" None] assms(4,5)
    by (auto simp: fb_reader.socketwatched_reads [OF r] pass_if_def except_socket_error_def)
  have st: "map_of schema_SocketState (SocketState_value st) = Some (exchanged st)"
    by (cases st) (simp_all add: schema_SocketState_def)
  show "\<exists>k'. socket_listening fb (Some k) cmd = Some (Inr (Some k', Some (if q > 0 then 1 else -1))) \<and>
      served fb enc k [MRunCommand c] k'"
    unfolding socket_listening_def
    using found [of k "pre @ MSocketWatched p # mid" ?last post SOCKET_WATCH_TERMINATED
        "\<lambda>res sz. bindE (not_none (receive_socketwatchterminated fb res sz)) (\<lambda>info. pass_if (swi_port info > 0))" None]
      assms(4,5)
    by (auto simp: fb_reader.socketwatchterminated_reads [OF r] st exchange_states_def not_none_def pass_if_def except_socket_error_def)
qed

text \<open>\<^verbatim>\<open>watching_socket\<close> and \<^verbatim>\<open>socket_listening\<close> end when the daemon
  reports that the socket is watched, respectively the end of the watch with a known state, and return 1
  exactly for a positive port, -1 otherwise.\<close>

theorem socket_replies:
  assumes "flatbuffers_pkg fb enc valid store phase used" and "command_message cmd = Some c"
    and "command_cost c \<le> 2147483647"
    and "serves fb enc k (pre @ MSocketWatched p # mid @ MSocketWatchTerminated q (SocketState_value st) # post)"
    and "\<forall>m \<in> set pre \<union> set mid. want_event_user m \<notin> {SOCKET_WATCHED, SOCKET_WATCH_TERMINATED}"
  shows "(\<exists>k'. watching_socket fb (Some k) cmd = Some (Inr (Some k', Some (if p > 0 then 1 else -1))) \<and>
      served fb enc k [MRunCommand c] k') \<and>
    (\<exists>k'. socket_listening fb (Some k) cmd = Some (Inr (Some k', Some (if q > 0 then 1 else -1))) \<and>
      served fb enc k [MRunCommand c] k')"
  using assms by (rule socket_run)

lemma wire_socket_talk:
  "\<exists>k. serves wire_fb wire_encodes k ([] @ MSocketWatched 9090 # [] @ MSocketWatchTerminated 9090 (SocketState_value SOCKET_LISTENING) # [])"
  by (rule serves_exist) (use wire_frames in auto)

theorem socket_replies_witness:
  "\<exists>k k'. socket_listening wire_fb (Some k) sample_command = Some (Inr (Some k', Some 1))"
proof -
  from wire_socket_talk obtain k where "serves wire_fb wire_encodes k
    ([] @ MSocketWatched 9090 # [] @ MSocketWatchTerminated 9090 (SocketState_value SOCKET_LISTENING) # [])" by blast
  from socket_replies [OF wire_package sample_command_message sample_command_cost this] show ?thesis by auto
qed

text \<open>C19 (functional).  \<^verbatim>\<open>kill_process\<close>: when the daemon reports the exec of a process and later
  the end of one, the client has sent exactly two frames, the command and a kill request for the pid of the
  exec report, and returns 1 exactly when the ended process has a positive pid and a positive error code and
  the time was short enough.\<close>

theorem kill_process_kills:
  assumes "flatbuffers_pkg fb enc valid store phase used" and "command_message cmd = Some c"
    and "command_cost c \<le> 2147483647"
    and "serves fb enc k (pre @ MExecveTerminated pid name ok # mid @ MProcessTerminated p e # post)"
    and "\<forall>m \<in> set pre \<union> set mid. want_event_user m \<notin> {PROCESS_TERMINATED, EXECVE_TERMINATED}"
    and "utf8_decode name = Inr s" and "-2147483648 \<le> pid" and "pid \<le> 2147483647"
  shows "\<exists>k'. kill_process fb (Some k) cmd in_time =
      Some (Inr (Some k', Some (if p > 0 \<and> e > 0 \<and> in_time then 1 else -1))) \<and>
    served fb enc k [MRunCommand c, MKillProcess pid] k' \<and> streams fb enc (conn_in k') post"
  using flatbuffers_pkg.kill_process_run [OF assms(1-6)] assms(7,8) by simp

theorem kill_process_kills_witness:
  "\<exists>k k'. kill_process wire_fb (Some k) sample_command True = Some (Inr (Some k', Some 1)) \<and>
     served wire_fb wire_encodes k [MRunCommand sample_message, MKillProcess 42] k'"
proof -
  obtain k where "serves wire_fb wire_encodes k sample_talk" using wire_talk by blast
  then have "serves wire_fb wire_encodes k ([MTCPSocketListening 9090, MProcessLaunched 42] @
      MExecveTerminated 42 [115, 104] True # [] @ MProcessTerminated 42 9 # [])" by simp
  from kill_process_kills [OF wire_package sample_command_message sample_command_cost this _ sh_decoded, of True]
  show ?thesis by auto
qed

section \<open>The message does not arrive\<close>

text \<open>C20 (termination).  When the daemon closes the connection without having sent the message a
  client waits for, the client never returns: its loop reads empty frames for ever.  For each client this
  holds whatever other messages came before.\<close>

theorem clients_wait_forever:
  assumes "flatbuffers_pkg fb enc valid store phase used" and "command_message cmd = Some c"
    and "command_cost c \<le> 2147483647" and "serves fb enc k ms"
  shows "(PROCESS_LAUNCHED \<notin> want_event_user ` set ms \<longrightarrow> launch_process fb (Some k) cmd = None) \<and>
    (EXECVE_TERMINATED \<notin> want_event_user ` set ms \<longrightarrow>
       execve_executed fb (Some k) cmd = None \<and> fail_launch_process fb (Some k) cmd = None) \<and>
    (PROCESS_TERMINATED \<notin> want_event_user ` set ms \<longrightarrow> process_terminated fb (Some k) cmd = None) \<and>
    (INOTIFY_WATCH_LIST_UPDATED \<notin> want_event_user ` set ms \<longrightarrow> inotify_watchlist_updated fb (Some k) cmd = None) \<and>
    (INOTIFY_PATH_UPDATED \<notin> want_event_user ` set ms \<longrightarrow> inotify_event fb (Some k) cmd = None) \<and>
    (SOCKET_WATCHED \<notin> want_event_user ` set ms \<longrightarrow> watching_socket fb (Some k) cmd = None) \<and>
    (SOCKET_WATCH_TERMINATED \<notin> want_event_user ` set ms \<longrightarrow> socket_listening fb (Some k) cmd = None)"
proof -
  have "reply_to fb (Some k) cmd ev judge d = None" if "ev \<notin> want_event_user ` set ms" "ev \<noteq> NONE" for ev judge d
    using flatbuffers_pkg.reply_lost [OF assms _ that(2)] that(1) by blast
  then show ?thesis
    unfolding launch_process_def execve_executed_def fail_launch_process_def process_terminated_def
      inotify_watchlist_updated_def inotify_event_def watching_socket_def socket_listening_def
    by simp
qed

theorem clients_wait_forever_witness:
  "\<exists>k. serves wire_fb wire_encodes k sample_talk \<and> watching_socket wire_fb (Some k) sample_command = None"
proof -
  obtain k where "serves wire_fb wire_encodes k sample_talk" using wire_talk by blast
  with clients_wait_forever [OF wire_package sample_command_message sample_command_cost this] show ?thesis by auto
qed

section \<open>Errors\<close>

lemma unreadable_name_run:
  assumes "flatbuffers_pkg fb enc valid store phase used" and "command_message cmd = Some c"
    and "command_cost c \<le> 2147483647" and "serves fb enc k (pre @ MExecveTerminated pid name ok # post)"
    and "\<forall>m \<in> set pre. want_event_user m \<noteq> EXECVE_TERMINATED" and "utf8_decode name = Inl e"
  shows "execve_executed fb (Some k) cmd = Some (Inl AttributeError) \<and>
    fail_launch_process fb (Some k) cmd = Some (Inl AttributeError)"
proof
  have r: "fb_reader fb enc" using assms(1) by (rule flatbuffers_pkg.axioms(1))
  note reads = fb_reader.execveterminated_reads [OF r]
  have is_exec: "want_event_user (MExecveTerminated pid name ok) = EXECVE_TERMINATED" by simp
  note found = flatbuffers_pkg.reply_found [OF assms(1-5) is_exec]
  show "execve_executed fb (Some k) cmd = Some (Inl AttributeError)"
    unfolding execve_executed_def
    using found [of "\<lambda>res sz. bindE (not_none (receive_execveterminated fb res sz)) (\<lambda>data.
        pass_if (ei_success data \<and> ei_pid data > 0))" "Some (-1)"] assms(6)
    by (auto simp: reads text_or_def not_none_def except_socket_error_def)
  show "fail_launch_process fb (Some k) cmd = Some (Inl AttributeError)"
    unfolding fail_launch_process_def
    using found [of "\<lambda>res sz. bindE (not_none (receive_execveterminated fb res sz)) (\<lambda>data.
        if \<not> ei_success data \<and> ei_pid data > 0 then Inr None else Inr (Some (-1)))" "Some (-1)"] assms(6)
    by (auto simp: reads text_or_def not_none_def except_socket_error_def)
qed

lemma not_utf8: "utf8_decode [255] = Inl UnicodeError"
  by code_simp

text \<open>\<^verbatim>\<open>execve_executed\<close> and \<^verbatim>\<open>fail_launch_process\<close> end when the daemon
  reports an exec.  With a readable command name the first returns 1 for a success with a positive pid and
  -1 otherwise, the second \<^verbatim>\<open>None\<close> (never 1) for a failure with a positive pid and -1 otherwise.  When
  the name is not UTF-8 both die of an \<^verbatim>\<open>AttributeError\<close>: the receiver's \<^verbatim>\<open>None\<close> is used as an
  object.\<close>

theorem execve_replies:
  assumes "flatbuffers_pkg fb enc valid store phase used" and "command_message cmd = Some c"
    and "command_cost c \<le> 2147483647" and "serves fb enc k (pre @ MExecveTerminated pid name ok # post)"
    and "\<forall>m \<in> set pre. want_event_user m \<noteq> EXECVE_TERMINATED"
  shows "case utf8_decode name of
      Inr s \<Rightarrow>
        (\<exists>k'. execve_executed fb (Some k) cmd = Some (Inr (Some k', Some (if ok \<and> pid > 0 then 1 else -1))) \<and>
          served fb enc k [MRunCommand c] k') \<and>
        (\<exists>k'. fail_launch_process fb (Some k) cmd = Some (Inr (Some k', if \<not> ok \<and> pid > 0 then None else Some (-1))) \<and>
          served fb enc k [MRunCommand c] k')
    | Inl e \<Rightarrow> execve_executed fb (Some k) cmd = Some (Inl AttributeError) \<and>
        fail_launch_process fb (Some k) cmd = Some (Inl AttributeError)"
proof (cases "utf8_decode name")
  case (Inl e)
  with unreadable_name_run [OF assms Inl] show ?thesis by simp
next
  case (Inr s)
  with execve_run [OF assms Inr] show ?thesis by simp
qed

theorem execve_replies_witness:
  "(\<exists>k k'. execve_executed wire_fb (Some k) sample_command = Some (Inr (Some k', Some 1))) \<and>
   (\<exists>k. execve_executed wire_fb (Some k) sample_command = Some (Inl AttributeError))"
proof
  note replies = execve_replies [OF wire_package sample_command_message sample_command_cost]
  obtain k where "serves wire_fb wire_encodes k sample_talk" using wire_talk by blast
  then have "serves wire_fb wire_encodes k ([MTCPSocketListening 9090, MProcessLaunched 42] @
      MExecveTerminated 42 [115, 104] True # [MProcessTerminated 42 9])" by simp
  from replies [OF this] show "\<exists>k k'. execve_executed wire_fb (Some k) sample_command = Some (Inr (Some k', Some 1))"
    by (auto simp: sh_decoded)
  have "\<exists>buf. carries wire_fb wire_encodes buf (MExecveTerminated 42 [255] True) \<and> buf \<noteq> [] \<and> length buf < 2 ^ 32"
    using wire_raw_name sent_frame [OF wire_reader] by fastforce
  then have "\<exists>k. serves wire_fb wire_encodes k ([] @ MExecveTerminated 42 [255] True # [])"
    by (intro serves_exist) simp
  then obtain k where "serves wire_fb wire_encodes k ([] @ MExecveTerminated 42 [255] True # [])" by blast
  from replies [OF this] show "\<exists>k. execve_executed wire_fb (Some k) sample_command = Some (Inl AttributeError)"
    by (auto simp: not_utf8)
qed

section \<open>Frames\<close>

lemma whole_frame_read:
  assumes "conn_can_send c" and "conn_out c = []" and "bi_size bi = int (length (bi_buffer bi))"
    and "0 < bi_size bi" and "bi_size bi \<le> 2147483647"
  shows "\<exists>c'. send_frame c bi = Inr c' \<and>
    read_frame (d\<lparr>conn_in := [Seg (conn_out c')]\<rparr>) = Inr (d\<lparr>conn_in := []\<rparr>, bi_buffer bi, bi_size bi)"
proof -
  let ?buf = "bi_buffer bi"
  have "frame_segments ?buf [Seg (header_of ?buf @ ?buf)]"
    using assms(3-5) by (auto simp: frame_segments_def)
  from read_frame_segments [OF this, where c = d and rest = "[]"] send_frame_ok [OF assms(1,3,5)] assms(2,3) show ?thesis by simp
qed

lemma le_bytes_4:
  "le_bytes 4 n = [byte_of (n mod 256), byte_of (n div 256 mod 256), byte_of (n div 256 div 256 mod 256),
     byte_of (n div 256 div 256 div 256 mod 256)]"
proof -
  have "(4 :: nat) = Suc (Suc (Suc (Suc 0)))" by simp
  then show ?thesis by (simp only: le_bytes.simps)
qed

lemma split_header_read:
  assumes "3 < length buf" and "length buf < 256"
    and "conn_in c = Seg [byte_of (length buf)] # Seg ([0, 0, 0] @ buf) # rest"
  shows "header_of buf = [byte_of (length buf), 0, 0, 0] \<and>
    (\<exists>c'. read_frame c = Inr (c', [0, 0, 0] @ take (length buf - 3) buf, int (length buf)))"
proof
  show "header_of buf = [byte_of (length buf), 0, 0, 0]"
    using assms(2) by (simp add: header_of_def le_bytes_4 byte_of_def)
  have "int_from_bytes [byte_of (length buf)] = int (length buf)"
    using assms(2) by (simp add: int_from_bytes_def)
  moreover have "take (length buf) ([0, 0, 0] @ buf) = [0, 0, 0] @ take (length buf - 3) buf"
    using assms(1) by (simp only: take_append) (simp add: numeral_eq_Suc)
  ultimately show "\<exists>c'. read_frame c = Inr (c', [0, 0, 0] @ take (length buf - 3) buf, int (length buf))"
    using assms by (auto simp: read_frame_def recv_def)
qed

text \<open>C39 (roundtrip).  A frame that \<^verbatim>\<open>sendall(header + buffer)\<close> puts on a fresh connection is read at
  the other end, by the same protocol, as the buffer and its size, if it arrives in one piece.  But
  \<^verbatim>\<open>recv\<close> may return less than it was asked for, and the clients do not ask again: when the first byte
  of the header arrives alone, the frame of a message shorter than 256 bytes is read as the rest of the header
  followed by a message that lacks its last three bytes.\<close>

theorem frame_roundtrip:
  assumes "conn_can_send c" and "conn_out c = []" and "bi_size bi = int (length (bi_buffer bi))"
    and "3 < bi_size bi" and "bi_size bi \<le> 2147483647"
  shows "\<exists>c'. send_frame c bi = Inr c' \<and>
    read_frame (d\<lparr>conn_in := [Seg (conn_out c')]\<rparr>) = Inr (d\<lparr>conn_in := []\<rparr>, bi_buffer bi, bi_size bi) \<and>
    (bi_size bi < 256 \<longrightarrow> (\<exists>d'. read_frame (d\<lparr>conn_in := [Seg (take 1 (conn_out c')), Seg (drop 1 (conn_out c'))]\<rparr>) =
      Inr (d', [0, 0, 0] @ take (length (bi_buffer bi) - 3) (bi_buffer bi), bi_size bi)))"
proof -
  let ?buf = "bi_buffer bi"
  from assms(4) have "0 < bi_size bi" by simp
  from whole_frame_read [OF assms(1-3) this assms(5), of d] obtain c' where
    c': "send_frame c bi = Inr c'" "read_frame (d\<lparr>conn_in := [Seg (conn_out c')]\<rparr>) = Inr (d\<lparr>conn_in := []\<rparr>, ?buf, bi_size bi)" by blast
  have out: "conn_out c' = header_of ?buf @ ?buf" using c'(1) send_frame_ok [OF assms(1,3,5)] assms(2) by auto
  have "\<exists>d'. read_frame (d\<lparr>conn_in := [Seg (take 1 (conn_out c')), Seg (drop 1 (conn_out c'))]\<rparr>) =
      Inr (d', [0, 0, 0] @ take (length ?buf - 3) ?buf, bi_size bi)" if "bi_size bi < 256"
  proof -
    have len: "3 < length ?buf" "length ?buf < 256" using assms(3,4) that by auto
    from split_header_read [OF len, of "d\<lparr>conn_in := Seg [byte_of (length ?buf)] # Seg ([0, 0, 0] @ ?buf) # []\<rparr>" "[]"]
    show ?thesis unfolding out using assms(3) by auto
  qed
  with c' show ?thesis by blast
qed

theorem frame_roundtrip_witness:
  "\<exists>c' d'. send_frame \<lparr>conn_in = [], conn_out = [], conn_can_send = True, conn_open = True\<rparr> \<lparr>bi_buffer = [1, 2, 3, 4], bi_size = 4\<rparr> = Inr c' \<and>
     read_frame \<lparr>conn_in = [Seg (take 1 (conn_out c')), Seg (drop 1 (conn_out c'))], conn_out = [], conn_can_send = True, conn_open = True\<rparr>
       = Inr (d', [0, 0, 0, 1], 4)"
  using frame_roundtrip [of "\<lparr>conn_in = [], conn_out = [], conn_can_send = True, conn_open = True\<rparr>"
      "\<lparr>bi_buffer = [1, 2, 3, 4], bi_size = 4\<rparr>" "\<lparr>conn_in = [], conn_out = [], conn_can_send = True, conn_open = True\<rparr>"]
  by auto

end
