(* ===== verification/Daemon_Requests.thy ===== *)
theory Daemon_Requests
  imports Message_Spec
begin

text \<open>
  What the FlatBuffers libraries of the daemons find in a buffer that their verifier accepts
  (\<^verbatim>\<open>VerifyMessageBuffer\<close> in C++, \<^verbatim>\<open>root_as_message\<close> in Rust).  The schema declares no field as
  required, so a string, a vector, the table of a union or its tag may be absent; a number that is absent is
  0.  A message with all of its fields is \<open>whole\<close>.
\<close>

section \<open>Requests\<close>

record raw_inotify =
  ri_root_paths :: "bytes option"
  ri_mask :: int
  ri_size :: int

text \<open>\<open>RawOther\<close> is a surveillance without tag or with one that the schema does not know.\<close>

datatype raw_watch = RawInotify "raw_inotify option" | RawSocket "int option" | RawOther

record raw_command =
  raw_path :: "bytes option"
  raw_args :: "bytes list option"
  raw_envp :: "bytes list option"
  raw_flags :: int
  raw_stack_size :: int
  raw_to_watch :: "raw_watch list option"

datatype request = RunRequest "raw_command option" | KillRequest "int option" | OtherRequest

type_synonym decoder = "bytes \<Rightarrow> request option"

section \<open>Complete messages\<close>

fun whole_watch :: "watch \<Rightarrow> raw_watch" where
  "whole_watch (WatchInotify path events sz) = RawInotify (Some \<lparr>ri_root_paths = Some path, ri_mask = events, ri_size = sz\<rparr>)"
| "whole_watch (WatchSocket port) = RawSocket (Some port)"

definition whole_command :: "run_command \<Rightarrow> raw_command" where
  "whole_command c = \<lparr>raw_path = Some (rc_path c), raw_args = Some (rc_args c), raw_envp = Some (rc_envp c),
     raw_flags = rc_flags c, raw_stack_size = rc_stack_size c, raw_to_watch = Some (map whole_watch (rc_to_watch c))\<rparr>"

fun whole :: "message \<Rightarrow> request" where
  "whole (MRunCommand c) = RunRequest (Some (whole_command c))"
| "whole (MKillProcess pid) = KillRequest (Some pid)"
| "whole _ = OtherRequest"

lemma whole_command_sel [simp]:
  "raw_path (whole_command c) = Some (rc_path c)" "raw_args (whole_command c) = Some (rc_args c)"
  "raw_envp (whole_command c) = Some (rc_envp c)" "raw_flags (whole_command c) = rc_flags c"
  "raw_stack_size (whole_command c) = rc_stack_size c" "raw_to_watch (whole_command c) = Some (map whole_watch (rc_to_watch c))"
  by (simp_all add: whole_command_def)

text \<open>What the C daemon relies on in a request without a check: that nothing is absent but the vector of surveillances, that
  there is an argument, and that every surveillance has a known tag.\<close>

fun complete_watch :: "raw_watch \<Rightarrow> bool" where
  "complete_watch (RawInotify i) = (case i of None \<Rightarrow> False | Some i \<Rightarrow> ri_root_paths i \<noteq> None)"
| "complete_watch (RawSocket p) = (p \<noteq> None)"
| "complete_watch RawOther = False"

definition complete_command :: "raw_command \<Rightarrow> bool" where
  "complete_command c \<longleftrightarrow> raw_path c \<noteq> None \<and> raw_args c \<noteq> None \<and> raw_args c \<noteq> Some [] \<and> raw_envp c \<noteq> None \<and>
     (\<forall>ws. raw_to_watch c = Some ws \<longrightarrow> (\<forall>w \<in> set ws. complete_watch w))"

fun complete_request :: "request \<Rightarrow> bool" where
  "complete_request (RunRequest c) = (case c of None \<Rightarrow> False | Some c \<Rightarrow> complete_command c)"
| "complete_request (KillRequest pid) = (pid \<noteq> None)"
| "complete_request OtherRequest = True"

lemma whole_watch_complete: "complete_watch (whole_watch w)"
  by (cases w) simp_all

lemma whole_complete: "rc_args c \<noteq> [] \<Longrightarrow> complete_request (whole (MRunCommand c))"
  by (auto simp: complete_command_def whole_watch_complete)

end
