(* ===== verification/Process_Table.thy ===== *)
theory Process_Table
  imports Prelude
begin

text \<open>
  The daemon's table of children, \<^verbatim>\<open>src/c/daemon-features/process_manager.c\<close>: an array of
  \<^verbatim>\<open>MAX_PROCESS\<close> slots.  A slot is free when its \<^verbatim>\<open>stack_p\<close> is \<^verbatim>\<open>NULL\<close>; the two
  other fields of a new slot are not initialised.  A C function that can go wrong returns a value of
  \<open>c_halt + 'a\<close>: reading outside of the array, reading a field that was never written and using a
  null pointer end the run.  What a function frees and closes is part of its result.

  The locale \<open>child_table\<close> is what the daemon relies on: a finite set of entries under an
  invariant, with an initialised prefix.  Its lemmas show which entries survive a sequence of launches and
  exits; it is interpreted on the array.
\<close>

section \<open>Slots and what is released\<close>

datatype c_halt = OutOfBounds | Uninitialised | NullPointer | Exit int | Killed

type_synonym 'a c = "c_halt + 'a"

definition MAX_PROCESS :: nat where
  "MAX_PROCESS = 256"

definition STDOUT_FILENO :: int where
  "STDOUT_FILENO = 1"

record process_info =
  stack_p :: "nat option"
  child_id :: "int option"
  err_file :: "int option"

text \<open>\<^verbatim>\<open>free\<close> of a stack, of slot \<open>i\<close> and of the array, and \<^verbatim>\<open>close\<close>.\<close>

datatype release = FreeStack nat | FreeSlot nat | FreeTable | CloseFile int

definition read_field :: "'a option \<Rightarrow> 'a c" where
  "read_field f = (case f of None \<Rightarrow> Inl Uninitialised | Some x \<Rightarrow> Inr x)"

text \<open>\<^verbatim>\<open>free(NULL)\<close> does nothing.\<close>

definition free_stack :: "nat option \<Rightarrow> release list" where
  "free_stack p = (case p of None \<Rightarrow> [] | Some s \<Rightarrow> [FreeStack s])"

section \<open>Operations\<close>

definition release_slot :: "process_info \<Rightarrow> release list c" where
  "release_slot p = (case stack_p p of None \<Rightarrow> Inr []
     | Some s \<Rightarrow> bindE (read_field (err_file p)) (\<lambda>f. Inr [FreeStack s, CloseFile f]))"

text \<open>\<open>free_slots i n ps\<close>: the loop with \<open>n\<close> rounds to go; \<open>ps\<close> is the array from slot
  \<open>i\<close> on.\<close>

fun free_slots :: "nat \<Rightarrow> nat \<Rightarrow> process_info list \<Rightarrow> release list c" where
  "free_slots i 0 ps = Inr []"
| "free_slots i (Suc n) [] = Inl OutOfBounds"
| "free_slots i (Suc n) (p # ps) = bindE (release_slot p) (\<lambda>r.
     bindE (free_slots (Suc i) n ps) (\<lambda>rs. Inr (r @ FreeSlot i # rs)))"

definition free_manager :: "process_info list \<Rightarrow> int \<Rightarrow> release list c" where
  "free_manager manager size_v = bindE (free_slots 0 (nat size_v) manager) (\<lambda>rs. Inr (rs @ [FreeTable]))"

definition new_slot :: process_info where
  "new_slot = \<lparr>stack_p = None, child_id = None, err_file = None\<rparr>"

text \<open>\<open>slot_malloc i\<close> says whether the allocation of slot \<open>i\<close> succeeds.\<close>

fun alloc_slots :: "(nat \<Rightarrow> bool) \<Rightarrow> nat \<Rightarrow> process_info list \<Rightarrow> (release list \<times> process_info list option) c" where
  "alloc_slots slot_malloc 0 slots = Inr ([], Some slots)"
| "alloc_slots slot_malloc (Suc n) slots =
     (if slot_malloc (length slots) then alloc_slots slot_malloc n (slots @ [new_slot])
      else bindE (free_manager slots (int (length slots))) (\<lambda>rs. Inr (rs, None)))"

definition create_process_manager ::
    "bool \<Rightarrow> (nat \<Rightarrow> bool) \<Rightarrow> int \<Rightarrow> (release list \<times> process_info list option) c" where
  "create_process_manager group_malloc slot_malloc size_v =
     (if group_malloc then alloc_slots slot_malloc (nat size_v) [] else Inr ([], None))"

fun search_from :: "int \<Rightarrow> int \<Rightarrow> nat \<Rightarrow> process_info list \<Rightarrow> int c" where
  "search_from pid i 0 ps = Inr (-1)"
| "search_from pid i (Suc n) [] = Inl OutOfBounds"
| "search_from pid i (Suc n) (p # ps) = bindE (read_field (child_id p)) (\<lambda>c.
     if c = pid then Inr i else search_from pid (i + 1) n ps)"

definition search_process :: "int \<Rightarrow> int \<Rightarrow> process_info list \<Rightarrow> int c" where
  "search_process pid size_v slots = search_from pid 0 (nat size_v) slots"

text \<open>The slot of an ended child: its stack is freed, its file closed, its pid left as it is.\<close>

definition clear_slot :: "process_info \<Rightarrow> (process_info \<times> release list) c" where
  "clear_slot p = bindE (read_field (err_file p)) (\<lambda>f.
     Inr (p\<lparr>stack_p := None\<rparr>, free_stack (stack_p p) @ (if f \<noteq> STDOUT_FILENO then [CloseFile f] else [])))"

fun remove_from :: "int \<Rightarrow> nat \<Rightarrow> process_info list \<Rightarrow> (int \<times> process_info list \<times> release list) c" where
  "remove_from pid 0 ps = Inr (-1, ps, [])"
| "remove_from pid (Suc n) [] = Inl OutOfBounds"
| "remove_from pid (Suc n) (p # ps) = bindE (read_field (child_id p)) (\<lambda>c.
     if c = pid then bindE (clear_slot p) (\<lambda>(p', rs). Inr (0, p' # ps, rs))
     else bindE (remove_from pid n ps) (\<lambda>(r, ps', rs). Inr (r, p # ps', rs)))"

definition manager_remove_process ::
    "int \<Rightarrow> process_info list \<Rightarrow> int \<Rightarrow> (int \<times> process_info list \<times> release list) c" where
  "manager_remove_process pid manager size_v = remove_from pid (nat size_v) manager"

fun add_from :: "process_info \<Rightarrow> nat \<Rightarrow> process_info list \<Rightarrow> (int \<times> process_info list) c" where
  "add_from q 0 ps = Inr (-1, ps)"
| "add_from q (Suc n) [] = Inl OutOfBounds"
| "add_from q (Suc n) (p # ps) = (if stack_p p = None then Inr (1, q # ps)
     else bindE (add_from q n ps) (\<lambda>(r, ps'). Inr (r, p # ps')))"

definition manager_add_process ::
    "int \<Rightarrow> process_info list \<Rightarrow> int \<Rightarrow> nat \<Rightarrow> int \<Rightarrow> (int \<times> process_info list) c" where
  "manager_add_process pid manager file stack nb_process =
     (if nb_process < int MAX_PROCESS
      then add_from \<lparr>stack_p = Some stack, child_id = Some pid, err_file = Some file\<rparr> MAX_PROCESS manager
      else Inr (-1, manager))"

section \<open>The invariant of the array\<close>

definition initialised :: "process_info \<Rightarrow> bool" where
  "initialised p \<longleftrightarrow> child_id p \<noteq> None \<and> err_file p \<noteq> None"

definition occupied :: "process_info \<Rightarrow> bool" where
  "occupied p \<longleftrightarrow> stack_p p \<noteq> None"

text \<open>The slots that were ever used come first; the others are as they were created.\<close>

fun used_first :: "process_info list \<Rightarrow> bool" where
  "used_first [] = True"
| "used_first (p # ps) = (if initialised p then used_first ps else \<forall>q \<in> set (p # ps). q = new_slot)"

fun used_slots :: "process_info list \<Rightarrow> nat" where
  "used_slots [] = 0"
| "used_slots (p # ps) = (if initialised p then Suc (used_slots ps) else 0)"

type_synonym entry = "int \<times> nat \<times> int"

definition entry_of :: "process_info \<Rightarrow> entry" where
  "entry_of p = (the (child_id p), the (stack_p p), the (err_file p))"

definition entry_list :: "process_info list \<Rightarrow> entry list" where
  "entry_list ps = map entry_of (filter occupied ps)"

definition table_ok :: "process_info list \<Rightarrow> bool" where
  "table_ok ps \<longleftrightarrow> length ps = MAX_PROCESS \<and> used_first ps \<and> distinct (map (fst \<circ> snd) (entry_list ps))"

definition entries :: "process_info list \<Rightarrow> entry set" where
  "entries ps = set (entry_list ps)"


section \<open>The loops on the array\<close>

lemma read_field_simps [simp]: "read_field (Some x) = Inr x" "read_field None = Inl Uninitialised"
  by (simp_all add: read_field_def)

lemma new_slot_unused [simp]: "\<not> initialised new_slot" "\<not> occupied new_slot" "stack_p new_slot = None"
  by (simp_all add: new_slot_def initialised_def occupied_def)

lemma initialisedE:
  assumes "initialised p"
  obtains c f where "child_id p = Some c" and "err_file p = Some f"
  using assms by (auto simp: initialised_def)

lemma used_slots_le: "used_slots ps \<le> length ps"
  by (induction ps) auto

lemma occupied_initialised: "used_first ps \<Longrightarrow> p \<in> set ps \<Longrightarrow> occupied p \<Longrightarrow> initialised p"
  by (induction ps) (auto split: if_splits)

lemma entry_list_Nil [simp]: "entry_list [] = []"
  by (simp add: entry_list_def)

lemma entry_list_Cons [simp]: "entry_list (p # ps) = (if occupied p then entry_of p # entry_list ps else entry_list ps)"
  by (simp add: entry_list_def)

lemma entries_used: "used_first ps \<Longrightarrow> length (entry_list ps) \<le> used_slots ps"
proof (induction ps)
  case Nil
  then show ?case by simp
next
  case (Cons p ps)
  show ?case
  proof (cases "initialised p")
    case True
    with Cons show ?thesis by simp
  next
    case False
    with Cons.prems have "\<forall>q \<in> set (p # ps). \<not> occupied q" by auto
    then show ?thesis by (simp add: entry_list_def)
  qed
qed

text \<open>What a scan for \<open>pid\<close> may have done: nothing to the entries, or removed one of \<open>pid\<close>,
  whose stack is then the one that was freed.\<close>

fun stacks_freed :: "release list \<Rightarrow> nat list" where
  "stacks_freed [] = []"
| "stacks_freed (FreeStack s # rs) = s # stacks_freed rs"
| "stacks_freed (_ # rs) = stacks_freed rs"

definition drops :: "int \<Rightarrow> entry set \<Rightarrow> entry set \<Rightarrow> release list \<Rightarrow> bool" where
  "drops pid E E' rs \<longleftrightarrow> E' = E \<and> stacks_freed rs = [] \<or>
     (\<exists>s f. (pid, s, f) \<in> E \<and> E' = E - {(pid, s, f)} \<and> stacks_freed rs = [s])"

definition drops_list :: "int \<Rightarrow> entry list \<Rightarrow> entry list \<Rightarrow> release list \<Rightarrow> bool" where
  "drops_list pid es es' rs \<longleftrightarrow> es' = es \<and> stacks_freed rs = [] \<or>
     (\<exists>s f xs ys. es = xs @ (pid, s, f) # ys \<and> es' = xs @ ys \<and> stacks_freed rs = [s])"

lemma drops_list_Cons: "drops_list pid es es' rs \<Longrightarrow> drops_list pid (e # es) (e # es') rs"
  unfolding drops_list_def by (metis append_Cons)

lemma stacks_freed_append [simp]: "stacks_freed (rs @ rs') = stacks_freed rs @ stacks_freed rs'"
  by (induction rs rule: stacks_freed.induct) auto

lemma clear_slot_drops:
  assumes "initialised p" and "child_id p = Some pid"
  shows "\<exists>p' rs. clear_slot p = Inr (p', rs) \<and> initialised p' \<and>
    drops_list pid (entry_list (p # ps)) (entry_list (p' # ps)) rs"
proof -
  from assms obtain f where "err_file p = Some f" by (auto elim: initialisedE)
  with assms show ?thesis
    by (cases "stack_p p") (force simp: clear_slot_def free_stack_def drops_list_def occupied_def entry_of_def initialised_def)+
qed

lemma remove_from_total: "used_first ps \<Longrightarrow> n \<le> used_slots ps \<Longrightarrow> \<exists>y. remove_from pid n ps = Inr y"
proof (induction pid n ps rule: remove_from.induct)
  case (3 pid n p ps)
  then have p: "initialised p" and ps: "used_first ps" "n \<le> used_slots ps" by (auto split: if_splits)
  then obtain c f where "child_id p = Some c" "err_file p = Some f" by (auto elim: initialisedE)
  with 3(1) ps show ?case by (fastforce simp: clear_slot_def)
qed auto

lemma remove_from_result:
  assumes "used_first ps" and "remove_from pid n ps = Inr (r, ps', rs)"
  shows "used_first ps' \<and> used_slots ps' = used_slots ps \<and> length ps' = length ps \<and>
    drops_list pid (entry_list ps) (entry_list ps') rs"
  using assms
proof (induction pid n ps arbitrary: ps' rule: remove_from.induct)
  case (1 pid ps)
  then show ?case by (auto simp: drops_list_def)
next
  case (2 pid n)
  then show ?case by simp
next
  case (3 pid n p ps)
  from 3(3) obtain c where c: "child_id p = Some c" by (cases "child_id p") auto
  then have p: "initialised p" and ps: "used_first ps" using 3(2) by (auto simp: new_slot_def split: if_splits)
  show ?case
  proof (cases "c = pid")
    case True
    with clear_slot_drops [OF p, of pid ps] c ps p 3(3) show ?thesis by auto
  next
    case False
    with 3(3) c obtain qs where qs: "remove_from pid n ps = Inr (r, qs, rs)" "ps' = p # qs" by (auto simp: bindE_eq_Inr)
    with 3(1) [of c qs] c ps False p show ?thesis by (auto intro: drops_list_Cons)
  qed
qed

lemma add_from_full: "length ps = n \<Longrightarrow> \<forall>p \<in> set ps. occupied p \<Longrightarrow> add_from q n ps = Inr (-1, ps)"
  by (induction q n ps rule: add_from.induct) (auto simp: occupied_def)

lemma add_from_room:
  assumes "length ps = n" and "used_first ps" and "\<exists>p \<in> set ps. \<not> occupied p" and "initialised q" and "occupied q"
  shows "\<exists>ps' xs ys. add_from q n ps = Inr (1, ps') \<and> used_first ps' \<and> length ps' = n \<and> used_slots ps \<le> used_slots ps' \<and>
    entry_list ps = xs @ ys \<and> entry_list ps' = xs @ entry_of q # ys"
  using assms
proof (induction q n ps rule: add_from.induct)
  case (3 q n p ps)
  show ?case
  proof (cases "stack_p p = None")
    case True
    have "used_first (q # ps) \<and> used_slots (p # ps) \<le> used_slots (q # ps)"
      using 3(3,5) by (cases "initialised p"; cases ps) auto
    moreover have "\<not> occupied p" using True by (simp add: occupied_def)
    ultimately show ?thesis using True 3 by (intro exI [of _ "q # ps"] exI [of _ "[]"] exI [of _ "entry_list ps"]) auto
  next
    case False
    then have occ: "occupied p" by (simp add: occupied_def)
    have p: "initialised p" by (rule occupied_initialised [OF 3(3) _ occ]) simp
    with occ 3(2-4) have "used_first ps" "\<exists>p \<in> set ps. \<not> occupied p" "length ps = n" by auto
    with 3(1) [OF False] 3(5,6) obtain ps' xs ys where "add_from q n ps = Inr (1, ps')" "used_first ps'" "length ps' = n"
        "used_slots ps \<le> used_slots ps'" "entry_list ps = xs @ ys" "entry_list ps' = xs @ entry_of q # ys"
      by auto
    with occ p False show ?thesis
      by (intro exI [of _ "p # ps'"] exI [of _ "entry_of p # xs"] exI [of _ ys]) auto
  qed
qed auto


section \<open>The table as a set of entries\<close>

definition stacks :: "entry set \<Rightarrow> nat set" where
  "stacks E = (fst \<circ> snd) ` E"

locale child_table =
  fixes ok :: "'t \<Rightarrow> bool" and ents :: "'t \<Rightarrow> entry set" and used :: "'t \<Rightarrow> nat" and cap :: nat
    and add :: "int \<Rightarrow> 't \<Rightarrow> int \<Rightarrow> nat \<Rightarrow> int \<Rightarrow> (int \<times> 't) c"
    and remove :: "int \<Rightarrow> 't \<Rightarrow> int \<Rightarrow> (int \<times> 't \<times> release list) c"
  assumes finite_ents: "ok t \<Longrightarrow> finite (ents t)"
    and inj_stacks: "ok t \<Longrightarrow> inj_on (fst \<circ> snd) (ents t)"
    and card_used: "ok t \<Longrightarrow> card (ents t) \<le> used t"
    and used_cap: "ok t \<Longrightarrow> used t \<le> cap"
    and add_room: "ok t \<Longrightarrow> s \<notin> stacks (ents t) \<Longrightarrow> nb < int cap \<Longrightarrow> card (ents t) < cap \<Longrightarrow>
      \<exists>t'. add pid t f s nb = Inr (1, t') \<and> ok t' \<and> used t \<le> used t' \<and> ents t' = insert (pid, s, f) (ents t)"
    and add_refused: "ok t \<Longrightarrow> \<not> (nb < int cap \<and> card (ents t) < cap) \<Longrightarrow> add pid t f s nb = Inr (-1, t)"
    and remove_total: "ok t \<Longrightarrow> n \<le> int (used t) \<Longrightarrow> \<exists>y. remove pid t n = Inr y"
    and remove_result: "ok t \<Longrightarrow> remove pid t n = Inr (r, t', rs) \<Longrightarrow> ok t' \<and> used t' = used t \<and>
      drops pid (ents t) (ents t') rs"
begin

text \<open>A counter of the children that have not been waited for, the children themselves and the heap of
  stacks.  Every such child has an entry, unless the table has been full.\<close>

definition tracks :: "'t \<Rightarrow> int \<Rightarrow> int set \<Rightarrow> nat set \<Rightarrow> bool" where
  "tracks t nb live heap \<longleftrightarrow> ok t \<and> finite live \<and> nb = int (card live) \<and> stacks (ents t) \<subseteq> heap \<and>
     (used t = cap \<or> live \<subseteq> fst ` ents t)"

lemma tracks_used:
  assumes "tracks t nb live heap" and "nb \<le> int cap"
  shows "nb \<le> int (used t)"
proof (cases "used t = cap")
  case True
  with assms show ?thesis by simp
next
  case False
  with assms(1) have "live \<subseteq> fst ` ents t" and t: "ok t" and nb: "nb = int (card live)"
    by (auto simp: tracks_def)
  then have "card live \<le> card (ents t)"
    by (meson card_image_le card_mono finite_ents finite_imageI order_trans)
  with card_used [OF t] nb show ?thesis by simp
qed

lemma tracks_launch:
  assumes t: "tracks t nb live heap" and pid: "pid \<notin> live" and s: "s \<notin> heap"
  shows "\<exists>r t'. add pid t f s nb = Inr (r, t') \<and> r \<noteq> 0 \<and> tracks t' (nb + 1) (insert pid live) (insert s heap) \<and>
    ents t \<subseteq> ents t'"
proof (cases "nb < int cap \<and> card (ents t) < cap")
  case True
  have "ok t" and fresh: "s \<notin> stacks (ents t)" using t s by (auto simp: tracks_def)
  from add_room [OF this] True obtain t' where t': "add pid t f s nb = Inr (1, t')" "ok t'" "used t \<le> used t'"
      "ents t' = insert (pid, s, f) (ents t)" by blast
  moreover from t'(2,3) used_cap [of t'] have "used t = cap \<Longrightarrow> used t' = cap" by simp
  ultimately have "tracks t' (nb + 1) (insert pid live) (insert s heap)"
    using t pid by (auto simp: tracks_def stacks_def)
  with t' show ?thesis by auto
next
  case False
  have ok: "ok t" and nb: "nb = int (card live)" using t by (auto simp: tracks_def)
  have "used t = cap"
  proof (rule ccontr)
    assume "used t \<noteq> cap"
    with used_cap [OF ok] have "used t < cap" by simp
    with card_used [OF ok] False have "\<not> nb < int cap" by simp
    moreover have "nb \<le> int (used t)" if "nb \<le> int cap" using tracks_used [OF t that] .
    moreover from t \<open>used t \<noteq> cap\<close> have "live \<subseteq> fst ` ents t" by (auto simp: tracks_def)
    then have "card live \<le> card (ents t)" by (meson card_image_le card_mono finite_ents finite_imageI ok order_trans)
    ultimately show False using nb \<open>used t < cap\<close> card_used [OF ok] by simp
  qed
  then have "tracks t (nb + 1) (insert pid live) (insert s heap)"
    using t pid by (auto simp: tracks_def)
  with add_refused [OF ok False] show ?thesis by auto
qed

lemma tracks_exit_total: "tracks t nb live heap \<Longrightarrow> nb \<le> int cap \<Longrightarrow> \<exists>y. remove pid t nb = Inr y"
  by (rule remove_total, simp add: tracks_def, erule (1) tracks_used)

lemma tracks_exit:
  assumes t: "tracks t nb live heap" and pid: "pid \<in> live" and rem: "remove pid t nb = Inr (r, t', rs)"
  shows "tracks t' (nb - 1) (live - {pid}) (heap - set (stacks_freed rs))" and "distinct (stacks_freed rs)" and "set (stacks_freed rs) \<subseteq> heap"
    and "drops pid (ents t) (ents t') rs"
proof -
  have ok: "ok t" using t by (simp add: tracks_def)
  from remove_result [OF ok rem] have t': "ok t'" "used t' = used t" and d: "drops pid (ents t) (ents t') rs" by auto
  show "drops pid (ents t) (ents t') rs" by (rule d)
  have "stacks_freed rs = [] \<or> (\<exists>s f. (pid, s, f) \<in> ents t \<and> stacks_freed rs = [s])"
    using d unfolding drops_def by blast
  then show "distinct (stacks_freed rs)" and "set (stacks_freed rs) \<subseteq> heap"
    using t by (force simp: tracks_def stacks_def)+
  have nb': "nb - 1 = int (card (live - {pid}))"
    using t card.remove [OF _ pid] by (auto simp: tracks_def)
  have heap: "stacks (ents t') \<subseteq> heap - set (stacks_freed rs)"
  proof (cases "ents t' = ents t \<and> stacks_freed rs = []")
    case True
    with t show ?thesis by (simp add: tracks_def)
  next
    case False
    with d obtain s f where d: "(pid, s, f) \<in> ents t" "ents t' = ents t - {(pid, s, f)}" "stacks_freed rs = [s]"
      by (auto simp: drops_def)
    have "s \<notin> stacks (ents t')"
      using inj_onD [OF inj_stacks [OF ok] _ d(1)] d(2) by (force simp: stacks_def)
    moreover have "stacks (ents t') \<subseteq> stacks (ents t)" by (auto simp: stacks_def d(2))
    ultimately show ?thesis using t d(3) by (auto simp: tracks_def)
  qed
  have "live - {pid} \<subseteq> fst ` ents t'" if "live \<subseteq> fst ` ents t"
    using that d by (force simp: drops_def image_iff)
  then show "tracks t' (nb - 1) (live - {pid}) (heap - set (stacks_freed rs))"
    using t t' nb' heap by (auto simp: tracks_def)
qed

end


lemma table_ok_card: "table_ok ps \<Longrightarrow> card (entries ps) = length (entry_list ps)"
  by (metis table_ok_def entries_def distinct_card distinct_map)

lemma entries_occupied: "length (entry_list ps) = length ps \<longleftrightarrow> (\<forall>p \<in> set ps. occupied p)"
proof -
  have "length (filter occupied ps) = length ps \<longleftrightarrow> (\<forall>p \<in> set ps. occupied p)"
    by (metis filter_True length_filter_less less_irrefl)
  then show ?thesis by (simp add: entry_list_def)
qed

lemma length_entry_list: "length (entry_list ps) \<le> length ps"
  by (simp add: entry_list_def)

lemma drops_list_set:
  assumes "drops_list pid es es' rs" and "distinct (map (fst \<circ> snd) es)"
  shows "drops pid (set es) (set es') rs" and "distinct (map (fst \<circ> snd) es')"
proof -
  show "drops pid (set es) (set es') rs"
  proof (cases "es' = es \<and> stacks_freed rs = []")
    case True
    then show ?thesis by (simp add: drops_def)
  next
    case False
    with assms(1) obtain s f xs ys where e: "es = xs @ (pid, s, f) # ys" "es' = xs @ ys" "stacks_freed rs = [s]"
      by (auto simp: drops_list_def)
    with assms(2) have "(pid, s, f) \<notin> set xs \<union> set ys" by force
    with e have "set es' = set es - {(pid, s, f)}" by auto
    with e show ?thesis by (auto simp: drops_def)
  qed
  show "distinct (map (fst \<circ> snd) es')" using assms by (auto simp: drops_list_def)
qed

lemma add_process_room:
  assumes "table_ok ps" and "s \<notin> stacks (entries ps)" and "nb < int MAX_PROCESS" and "card (entries ps) < MAX_PROCESS"
  shows "\<exists>ps'. manager_add_process pid ps f s nb = Inr (1, ps') \<and> table_ok ps' \<and> used_slots ps \<le> used_slots ps' \<and>
    entries ps' = insert (pid, s, f) (entries ps)"
proof -
  let ?q = "\<lparr>stack_p = Some s, child_id = Some pid, err_file = Some f\<rparr>"
  have len: "length ps = MAX_PROCESS" and used: "used_first ps" using assms(1) by (auto simp: table_ok_def)
  have "\<exists>p \<in> set ps. \<not> occupied p"
    using assms(4) len entries_occupied [of ps] by (auto simp: table_ok_card [OF assms(1)])
  from add_from_room [OF len used this, of ?q] obtain ps' xs ys where
    ps': "add_from ?q MAX_PROCESS ps = Inr (1, ps')" "used_first ps'" "length ps' = MAX_PROCESS" "used_slots ps \<le> used_slots ps'"
      "entry_list ps = xs @ ys" "entry_list ps' = xs @ entry_of ?q # ys" by (auto simp: initialised_def occupied_def)
  with assms(1,2) have "table_ok ps'" "entries ps' = insert (pid, s, f) (entries ps)"
    by (auto simp: table_ok_def entries_def stacks_def entry_of_def)
  with ps' assms(3) show ?thesis by (simp add: manager_add_process_def)
qed

lemma add_process_refused:
  assumes "table_ok ps" and "\<not> (nb < int MAX_PROCESS \<and> card (entries ps) < MAX_PROCESS)"
  shows "manager_add_process pid ps f s nb = Inr (-1, ps)"
proof (cases "nb < int MAX_PROCESS")
  case True
  have len: "length ps = MAX_PROCESS" using assms(1) by (simp add: table_ok_def)
  with True assms(2) length_entry_list [of ps] have "length (entry_list ps) = length ps"
    by (simp add: table_ok_card [OF assms(1)])
  then have "\<forall>p \<in> set ps. occupied p" by (simp add: entries_occupied)
  with len True show ?thesis by (simp add: manager_add_process_def add_from_full)
next
  case False
  then show ?thesis by (simp add: manager_add_process_def)
qed

lemma remove_process_result:
  assumes "table_ok ps" and "manager_remove_process pid ps n = Inr (r, ps', rs)"
  shows "table_ok ps' \<and> used_slots ps' = used_slots ps \<and> drops pid (entries ps) (entries ps') rs"
proof -
  have ps: "used_first ps" "length ps = MAX_PROCESS" "distinct (map (fst \<circ> snd) (entry_list ps))"
    using assms(1) by (auto simp: table_ok_def)
  from remove_from_result [OF ps(1)] assms(2) have
    ps': "used_first ps'" "used_slots ps' = used_slots ps" "length ps' = length ps"
      "drops_list pid (entry_list ps) (entry_list ps') rs" by (auto simp: manager_remove_process_def)
  from drops_list_set [OF this(4) ps(3)] ps' ps(2) show ?thesis by (auto simp: table_ok_def entries_def)
qed

lemma remove_process_total: "table_ok ps \<Longrightarrow> n \<le> int (used_slots ps) \<Longrightarrow> \<exists>y. manager_remove_process pid ps n = Inr y"
  unfolding manager_remove_process_def by (intro remove_from_total) (auto simp: table_ok_def)

interpretation array: child_table table_ok entries used_slots MAX_PROCESS manager_add_process manager_remove_process
proof
  fix ps :: "process_info list"
  assume ok: "table_ok ps"
  show "finite (entries ps)" by (simp add: entries_def)
  show "inj_on (fst \<circ> snd) (entries ps)" using ok by (simp add: table_ok_def entries_def distinct_map)
  show "card (entries ps) \<le> used_slots ps"
    using ok entries_used [of ps] by (simp add: table_ok_card) (simp add: table_ok_def)
  show "used_slots ps \<le> MAX_PROCESS" using ok used_slots_le [of ps] by (simp add: table_ok_def)
qed (erule (3) add_process_room, erule (1) add_process_refused, erule (1) remove_process_total, erule (1) remove_process_result)


section \<open>What the operations do\<close>

lemma alloc_slots_all:
  "\<forall>i. length ps \<le> i \<longrightarrow> i < length ps + n \<longrightarrow> m i \<Longrightarrow> alloc_slots m n ps = Inr ([], Some (ps @ replicate n new_slot))"
  by (induction m n ps rule: alloc_slots.induct) (auto simp: replicate_append_same)

lemma free_slots_new: "n \<le> k \<Longrightarrow> free_slots i n (replicate k new_slot) = Inr (map FreeSlot [i..<i + n])"
proof (induction n arbitrary: i k)
  case 0
  then show ?case by simp
next
  case (Suc n)
  then obtain k' where "k = Suc k'" "n \<le> k'" by (cases k) auto
  with Suc.IH [of k' "Suc i"] show ?case by (simp add: release_slot_def upt_rec [of i])
qed

lemma alloc_slots_fails:
  assumes "j < k + n" and "k \<le> j" and "\<not> m j" and "\<forall>i < j. m i"
  shows "alloc_slots m n (replicate k new_slot) = Inr (map FreeSlot [0..<j] @ [FreeTable], None)"
  using assms
proof (induction n arbitrary: k)
  case 0
  then show ?case by simp
next
  case (Suc n)
  show ?case
  proof (cases "k = j")
    case True
    with Suc.prems show ?thesis by (simp add: free_manager_def free_slots_new)
  next
    case False
    with Suc.prems Suc.IH [of "Suc k"] show ?thesis by (simp add: replicate_append_same)
  qed
qed

lemma new_table_ok:
  "table_ok (replicate MAX_PROCESS new_slot)" "entries (replicate n new_slot) = {}"
proof -
  have e: "entry_list (replicate n new_slot) = []" for n by (induction n) auto
  have "used_first (replicate n new_slot)" for n by (induction n) auto
  with e show "table_ok (replicate MAX_PROCESS new_slot)" by (simp add: table_ok_def)
  from e show "entries (replicate n new_slot) = {}" by (simp add: entries_def)
qed

text \<open>\<^verbatim>\<open>create_process_manager\<close> returns a table of free slots when every allocation
  succeeds.  When one fails it returns \<^verbatim>\<open>NULL\<close> after having freed exactly the slots it had
  allocated, in order, and the array, and it closes no file.\<close>

theorem create_process_manager_cases:
  "create_process_manager array_malloc slot_malloc (int n) =
     (if \<not> array_malloc then Inr ([], None)
      else if \<forall>i < n. slot_malloc i then Inr ([], Some (replicate n new_slot))
      else Inr (map FreeSlot [0..<LEAST i. \<not> slot_malloc i] @ [FreeTable], None))"
proof (cases "array_malloc \<and> (\<exists>i < n. \<not> slot_malloc i)")
  case True
  then obtain i where i: "i < n" "\<not> slot_malloc i" by blast
  let ?j = "LEAST i. \<not> slot_malloc i"
  have j: "\<not> slot_malloc ?j" "?j \<le> i" using i(2) by (rule LeastI, rule Least_le)
  have before: "\<forall>k < ?j. slot_malloc k" using not_less_Least by blast
  have "?j < 0 + n" using j(2) i(1) by simp
  from alloc_slots_fails [OF this _ j(1) before]
  have "alloc_slots slot_malloc n (replicate 0 new_slot) = Inr (map FreeSlot [0..<?j] @ [FreeTable], None)" by simp
  moreover have "\<not> (\<forall>i < n. slot_malloc i)" using i by blast
  ultimately show ?thesis using True by (simp add: create_process_manager_def del: map_append)
next
  case False
  with alloc_slots_all [of "[]" n slot_malloc] show ?thesis by (auto simp: create_process_manager_def)
qed

text \<open>\<^verbatim>\<open>manager_remove_process\<close> in terms of \<^verbatim>\<open>search_process\<close>: clear the slot found.\<close>

definition remove_found :: "int \<Rightarrow> process_info list \<Rightarrow> int \<Rightarrow> (int \<times> process_info list \<times> release list) c" where
  "remove_found pid manager n = bindE (search_process pid n manager) (\<lambda>k.
     if k = -1 then Inr (-1, manager, [])
     else bindE (clear_slot (manager ! nat k)) (\<lambda>(p, rs). Inr (0, manager[nat k := p], rs)))"

lemma search_from_shift:
  "0 \<le> i \<Longrightarrow> search_from pid (i + 1) n ps = bindE (search_from pid i n ps) (\<lambda>k. Inr (if k = -1 then -1 else k + 1))"
proof (induction n arbitrary: i ps)
  case 0
  then show ?case by simp
next
  case (Suc n)
  show ?case
  proof (cases ps)
    case Nil
    then show ?thesis by simp
  next
    case (Cons p qs)
    with Suc.IH [of "i + 1" qs] Suc.prems show ?thesis by (cases "child_id p") auto
  qed
qed

lemma search_from_bounds: "search_from pid i n ps = Inr k \<Longrightarrow> 0 \<le> i \<Longrightarrow> k = -1 \<or> i \<le> k \<and> k < i + int (length ps)"
proof (induction n arbitrary: i ps)
  case 0
  then show ?case by simp
next
  case (Suc n)
  then obtain p qs where ps: "ps = p # qs" by (cases ps) auto
  with Suc.prems obtain c where "child_id p = Some c" by (cases "child_id p") auto
  with Suc.prems Suc.IH [of "i + 1" qs] ps show ?case by (auto split: if_splits)
qed

text \<open>\<^verbatim>\<open>manager_remove_process\<close> repeats the loop of \<^verbatim>\<open>search_process\<close>: it
  goes wrong exactly where the search does, returns -1 and changes nothing exactly when the search returns
  -1, and otherwise clears the slot the search finds and no other.\<close>

theorem remove_is_search_and_clear:
  "manager_remove_process pid manager n = remove_found pid manager n"
proof -
  have "remove_from pid m ps = bindE (search_from pid 0 m ps) (\<lambda>k. if k = -1 then Inr (-1, ps, [])
      else bindE (clear_slot (ps ! nat k)) (\<lambda>(p, rs). Inr (0, ps[nat k := p], rs)))" for m ps
  proof (induction pid m ps rule: remove_from.induct)
    case (3 pid m p ps)
    show ?case
    proof (cases "child_id p = None \<or> child_id p = Some pid")
      case True
      then show ?thesis by auto
    next
      case False
      then obtain c where c: "child_id p = Some c" "c \<noteq> pid" by auto
      have IH: "remove_from pid m ps = bindE (search_from pid 0 m ps) (\<lambda>k. if k = -1 then Inr (-1, ps, [])
          else bindE (clear_slot (ps ! nat k)) (\<lambda>(p, rs). Inr (0, ps[nat k := p], rs)))" using 3 c by simp
      show ?thesis
      proof (cases "search_from pid 0 m ps")
        case (Inl e)
        with c IH search_from_shift [of 0 pid m ps] show ?thesis by simp
      next
        case (Inr k)
        with search_from_bounds [of pid 0 m ps k] have "k = -1 \<or> 0 \<le> k" by auto
        then have "k = -1 \<or> nat (k + 1) = Suc (nat k)" by auto
        with Inr c IH search_from_shift [of 0 pid m ps] show ?thesis
          by (auto simp: bindE_assoc split: prod.splits intro!: arg_cong2 [of _ _ _ _ bindE])
      qed
    qed
  qed auto
  then show ?thesis by (simp add: manager_remove_process_def remove_found_def search_process_def)
qed


lemma cleared_iff: "p\<lparr>stack_p := None\<rparr> = p \<longleftrightarrow> stack_p p = None"
  by (cases p) auto

definition files_closed :: "release list \<Rightarrow> release list" where
  "files_closed rs = filter (\<lambda>r. case r of CloseFile f \<Rightarrow> True | _ \<Rightarrow> False) rs"

text \<open>A cleared slot keeps its pid.  When \<^verbatim>\<open>manager_remove_process\<close> has removed a child,
  a second call with the same pid also reports success: it frees nothing and changes nothing, but it closes
  the same file descriptor once more.\<close>

theorem second_removal_closes_again:
  assumes "manager_remove_process pid manager n = Inr (0, manager', rs)"
  shows "manager_remove_process pid manager' n = Inr (0, manager', files_closed rs)"
proof -
  have "remove_from pid m ps = Inr (0, ps', rs) \<Longrightarrow> remove_from pid m ps' = Inr (0, ps', files_closed rs)" for m ps ps'
  proof (induction pid m ps arbitrary: ps' rule: remove_from.induct)
    case (3 pid m p ps)
    then show ?case
      by (auto simp: bindE_eq_Inr read_field_def clear_slot_def free_stack_def files_closed_def cleared_iff split: if_splits option.splits)
  qed auto
  with assms show ?thesis by (simp add: manager_remove_process_def)
qed

theorem second_removal_closes_again_witness:
  "manager_remove_process 42 [\<lparr>stack_p = None, child_id = Some 42, err_file = Some 7\<rparr>] 1 =
     Inr (0, [\<lparr>stack_p = None, child_id = Some 42, err_file = Some 7\<rparr>], [CloseFile 7])"
  using second_removal_closes_again [of 42 "[\<lparr>stack_p = Some 1000, child_id = Some 42, err_file = Some 7\<rparr>]" 1
      "[\<lparr>stack_p = None, child_id = Some 42, err_file = Some 7\<rparr>]" "[FreeStack 1000, CloseFile 7]"]
  by (simp add: manager_remove_process_def clear_slot_def free_stack_def files_closed_def STDOUT_FILENO_def numeral_eq_Suc)

end
