(* ===== verification/C_Daemon.thy ===== *)
theory C_Daemon
  imports Serialization Daemon_Requests Process_Table
begin

text \<open>
  The daemon in C, \<^verbatim>\<open>src/c/daemon-core.c\<close> with \<^verbatim>\<open>daemon-features/events.c\<close>,
  \<^verbatim>\<open>clone.c\<close>, \<^verbatim>\<open>Network.c\<close> and the C++ layer \<^verbatim>\<open>serialize.cpp\<close>.  A handler takes the
  daemon's state and the results of the system calls it makes, and returns the new state and the calls it
  made, in order, or a \<open>c_halt\<close>.  The FlatBuffers library of C++ is the parameter \<open>decode\<close>:
  the request that the accessors find in a buffer, with the fields it may lack, if the verifier accepts it.  Messages to the
  user are kept as values of \<open>message\<close>; \<open>send_message\<close> puts their encoding on the wire.  The handlers
  record what they send; the signal raised by sending to a peer that has gone is left to \<open>send_message\<close>.
  Console output is left out.
\<close>

section \<open>State and calls\<close>

text \<open>\<^verbatim>\<open>event_data_t\<close> and its variants, as registered with epoll.\<close>

datatype event_data =
    Ed_SIGNALFD int
  | Ed_INOTIFYFD int int
  | Ed_SOCK_CONNEXION int
  | Ed_SOCK_MESSAGE int
  | Ed_EXECVE int int bytes

datatype call =
    Release release
  | AllocStack nat
  | Cloned int
  | Waited int
  | SendMessage int message
  | Kill int
  | KillGroup
  | EpollAdd event_data
  | EpollDel int
  | CloseFd int
  | AddWatch int bytes int
  | DetectSocket int int

record daemon =
  process_manager :: "process_info list"
  nb_process :: int
  communication_socket :: "int option"
  interest :: "event_data list"
  running :: bool

text \<open>Conversions of C: to \<^verbatim>\<open>uint16_t\<close>, \<^verbatim>\<open>uint32_t\<close> and \<^verbatim>\<open>int32_t\<close>, and a C string.\<close>

definition u16 :: "int \<Rightarrow> int" where
  "u16 x = x mod 65536"

definition u32 :: "int \<Rightarrow> int" where
  "u32 x = x mod 4294967296"

definition s32 :: "int \<Rightarrow> int" where
  "s32 x = (x + 2147483648) mod 4294967296 - 2147483648"

definition c_str :: "bytes \<Rightarrow> bytes" where
  "c_str bs = takeWhile (\<lambda>b. b \<noteq> 0) bs"

section \<open>The C++ layer\<close>

text \<open>An entry of \<^verbatim>\<open>to_watch\<close> is \<open>None\<close> when its fields were never assigned.\<close>

record c_command =
  com_path :: bytes
  com_args :: "bytes list option"
  com_envp :: "bytes list"
  com_flags :: int
  com_stack_size :: int
  com_to_watch :: "watch option list"

text \<open>Access through a pointer that may be null.\<close>

definition deref :: "'a option \<Rightarrow> 'a c" where
  "deref p = (case p of None \<Rightarrow> Inl NullPointer | Some x \<Rightarrow> Inr x)"

fun c_watch :: "raw_watch \<Rightarrow> watch option c" where
  "c_watch (RawInotify p) = bindE (deref p) (\<lambda>i. bindE (deref (ri_root_paths i)) (\<lambda>path.
     Inr (Some (WatchInotify (c_str path) (ri_mask i) (ri_size i)))))"
| "c_watch (RawSocket p) = bindE (deref p) (\<lambda>port. Inr (Some (WatchSocket port)))"
| "c_watch RawOther = Inr None"

definition receive_message_from_user_c :: "decoder \<Rightarrow> bytes \<Rightarrow> int \<Rightarrow> Event" where
  "receive_message_from_user_c decode buf sz = (if sz \<le> 0 then NONE
     else (case decode buf of Some (RunRequest c) \<Rightarrow> RUN_COMMAND | Some (KillRequest pid) \<Rightarrow> KILL_PROCESS | _ \<Rightarrow> NONE))"

definition receive_kill_c :: "decoder \<Rightarrow> bytes \<Rightarrow> int \<Rightarrow> int c" where
  "receive_kill_c decode buf sz = (if sz \<le> 0 then Inr (-1)
     else (case decode buf of Some (KillRequest pid) \<Rightarrow> deref pid | _ \<Rightarrow> Inr (-1)))"

text \<open>The arrays are allocated whatever their length, so \<^verbatim>\<open>args\<close> is never \<^verbatim>\<open>NULL\<close> in what is returned.\<close>

definition receive_command_c :: "decoder \<Rightarrow> bytes \<Rightarrow> int \<Rightarrow> c_command option c" where
  "receive_command_c decode buf sz = (if sz \<le> 0 then Inr None
     else (case decode buf of Some (RunRequest r) \<Rightarrow>
         bindE (deref r) (\<lambda>c.
         bindE (deref (raw_path c)) (\<lambda>path.
         bindE (deref (raw_args c)) (\<lambda>args.
         bindE (deref (raw_envp c)) (\<lambda>envp.
         bindE (case raw_to_watch c of None \<Rightarrow> Inr [] | Some ws \<Rightarrow> mapE c_watch ws) (\<lambda>to_watch.
         Inr (Some \<lparr>com_path = c_str path, com_args = Some (map c_str args), com_envp = map c_str envp,
           com_flags = raw_flags c, com_stack_size = raw_stack_size c, com_to_watch = to_watch\<rparr>))))))
       | _ \<Rightarrow> Inr None))"

section \<open>Network.c\<close>

text \<open>The results of the calls that open the listening socket.\<close>

record connection_os =
  co_malloc :: bool
  co_socket :: int
  co_setsockopt :: int
  co_bind :: int
  co_getsockname :: int
  co_listen :: int

definition establish_connection :: "connection_os \<Rightarrow> int c" where
  "establish_connection os =
     (if \<not> co_malloc os then Inl (Exit 1)
      else if co_socket os < 0 then Inl (Exit 1)
      else if co_setsockopt os = -1 then Inl (Exit 1)
      else if co_bind os < 0 then Inl (Exit 1)
      else if co_getsockname os = -1 then Inl (Exit 1)
      else if co_listen os < 0 then Inl (Exit 1)
      else Inr (co_socket os))"

text \<open>What two calls of \<^verbatim>\<open>read\<close> returned, and whether the two allocations succeed.\<close>

record sock_read =
  sr_info_malloc :: bool
  sr_head :: bytes
  sr_buffer_malloc :: bool
  sr_body :: bytes

definition read_socket_message :: "sock_read \<Rightarrow> (bytes \<times> int) option" where
  "read_socket_message os =
     (if \<not> sr_info_malloc os then None
      else if length (sr_head os) \<noteq> 4 then None
      else let sz = s32 (int (le_nat (sr_head os))) in
        if \<not> sr_buffer_malloc os then None
        else if int (length (sr_body os)) \<noteq> sz then None
        else Some (sr_body os, sz))"

text \<open>\<open>accepted\<close> bytes are taken by \<^verbatim>\<open>send\<close> (-1 for an error); the result is the bytes on the
  wire and the value returned.  Sending to a peer that has closed the connection raises \<^verbatim>\<open>SIGPIPE\<close>, which
  nothing catches.\<close>

definition send_message :: "bytes \<Rightarrow> bool \<Rightarrow> bool \<Rightarrow> int \<Rightarrow> (bytes \<times> int) c" where
  "send_message buf malloc_ok peer_closed accepted =
     (if \<not> malloc_ok then Inr ([], -1)
      else if peer_closed then Inl Killed
      else let frame = le_bytes 4 (length buf) @ buf in
        Inr (take (nat accepted) frame, if accepted \<noteq> int (4 + length buf) then -1 else accepted))"

section \<open>clone.c\<close>

text \<open>The child.  \<open>exec\<close> is the errno of a failed \<^verbatim>\<open>execve\<close>; a successful one does not return, and
  closes the writing end of the pipe.  The result is what has been written into the pipe and, if the child
  ends here, its exit code, of which the kernel keeps eight bits.\<close>

definition child_function :: "int option \<Rightarrow> bytes \<times> int option" where
  "child_function exec = (case exec of
       None \<Rightarrow> ([], None)
     | Some err \<Rightarrow> (le_bytes 4 (nat (err mod 4294967296)), Some (err mod 256)))"

text \<open>The results of the calls that start a child: allocations, the opened error file, the pipe, the clone,
  the errno after a failure, and the registration of the pipe.\<close>

record launch_os =
  lo_param_malloc :: bool
  lo_err_file :: int
  lo_exec_malloc :: bool
  lo_info_malloc :: bool
  lo_stack :: "nat option"
  lo_pipe :: "(int \<times> int) option"
  lo_clone :: int
  lo_errno :: int
  lo_event_malloc :: bool
  lo_epoll_ok :: bool

record info_child =
  ic_child_id :: int
  ic_stack_p :: nat
  ic_pipe :: int

definition launch_process_c :: "launch_os \<Rightarrow> (info_child option \<times> call list) c" where
  "launch_process_c os =
     (if \<not> lo_info_malloc os then Inr (None, [])
      else case lo_stack os of None \<Rightarrow> Inr (None, [])
      | Some stack \<Rightarrow> (case lo_pipe os of None \<Rightarrow> Inl (Exit 1)
        | Some (r, w) \<Rightarrow>
            if lo_clone os = -1 then Inr (None, [AllocStack stack, Release (FreeStack stack)])
            else Inr (Some \<lparr>ic_child_id = lo_clone os, ic_stack_p = stack, ic_pipe = r\<rparr>,
                   [AllocStack stack, Cloned (lo_clone os), CloseFd w])))"

section \<open>events.c\<close>

definition handle_clone_event :: "launch_os \<Rightarrow> (info_child option \<times> call list) c" where
  "handle_clone_event os = (if \<not> lo_exec_malloc os then Inr (None, []) else launch_process_c os)"

record clone_parameters =
  cp_stack_size :: int
  cp_pathname :: bytes
  cp_flags :: int
  cp_args :: "bytes list"
  cp_envp :: "bytes list"

definition extract_clone_parameters :: "launch_os \<Rightarrow> c_command \<Rightarrow> clone_parameters option" where
  "extract_clone_parameters os com = (case com_args com of None \<Rightarrow> None
     | Some args \<Rightarrow> if \<not> lo_param_malloc os then None
         else Some \<lparr>cp_stack_size = s32 (com_stack_size com), cp_pathname = com_path com,
           cp_flags = s32 (com_flags com), cp_args = args, cp_envp = com_envp com\<rparr>)"

text \<open>The three functions that register a descriptor return the calls they make.\<close>

definition add_event_pipeExecve :: "bool \<Rightarrow> bool \<Rightarrow> int \<Rightarrow> int \<Rightarrow> bytes \<Rightarrow> call list" where
  "add_event_pipeExecve malloc_ok epoll_ok fd pid path =
     (if malloc_ok \<and> epoll_ok then [EpollAdd (Ed_EXECVE fd pid path)] else [CloseFd fd])"

definition add_event_signalFd :: "bool \<Rightarrow> bool \<Rightarrow> int \<Rightarrow> call list" where
  "add_event_signalFd malloc_ok epoll_ok fd =
     (if malloc_ok \<and> epoll_ok then [EpollAdd (Ed_SIGNALFD fd)] else [CloseFd fd])"

definition add_event_inotifyFd :: "bool \<Rightarrow> bool \<Rightarrow> int \<Rightarrow> int \<Rightarrow> call list" where
  "add_event_inotifyFd malloc_ok epoll_ok fd sz =
     (if \<not> malloc_ok then [CloseFd fd] else if epoll_ok then [EpollAdd (Ed_INOTIFYFD fd sz)] else [])"

text \<open>The name of the error file reads \<^verbatim>\<open>args[0]\<close>.  Reading beyond the array is undefined; nothing is said
  of what follows it.\<close>

definition first_arg :: "bytes list \<Rightarrow> bytes c" where
  "first_arg args = (case args of [] \<Rightarrow> Inl OutOfBounds | a # _ \<Rightarrow> Inr a)"

definition process_command_request :: "launch_os \<Rightarrow> int \<Rightarrow> c_command \<Rightarrow> daemon \<Rightarrow> (daemon \<times> call list) c" where
  "process_command_request os com_sock com d =
     (case extract_clone_parameters os com of
        None \<Rightarrow> Inr (d, [SendMessage com_sock (MChildCreationError (u32 (lo_errno os)))])
      | Some param \<Rightarrow>
          bindE (first_arg (cp_args param)) (\<lambda>_.
          let file = (if lo_err_file os = -1 then STDOUT_FILENO else lo_err_file os) in
          bindE (handle_clone_event os) (\<lambda>(res, calls).
          case res of
            None \<Rightarrow> Inr (d, calls @ [SendMessage com_sock (MChildCreationError (u32 (lo_errno os)))])
          | Some i \<Rightarrow>
              bindE (manager_add_process (ic_child_id i) (process_manager d) file (ic_stack_p i) (nb_process d)) (\<lambda>(added, manager).
              Inr (d\<lparr>process_manager := manager, nb_process := (if added \<noteq> 0 then nb_process d + 1 else nb_process d)\<rparr>,
                calls @ SendMessage com_sock (MProcessLaunched (s32 (ic_child_id i))) #
                add_event_pipeExecve (lo_event_malloc os) (lo_epoll_ok os) (ic_pipe i) (ic_child_id i) (com_path com))))))"

text \<open>Per surveillance: the descriptor of \<^verbatim>\<open>inotify_init\<close> and the registration.\<close>

record watch_os =
  wo_inotify_init :: int
  wo_malloc :: bool
  wo_epoll_ok :: bool

fun surveillance_request :: "int \<Rightarrow> int \<Rightarrow> watch_os \<Rightarrow> watch \<Rightarrow> call list" where
  "surveillance_request inotifyFd sock os (WatchInotify path events sz) =
     (if sz > 0
      then AddWatch (wo_inotify_init os) path events # add_event_inotifyFd (wo_malloc os) (wo_epoll_ok os) (wo_inotify_init os) (s32 sz)
      else [AddWatch inotifyFd path events]) @ [SendMessage sock (MInotifyWatchListUpdated path)]"
| "surveillance_request inotifyFd sock os (WatchSocket port) =
     [SendMessage sock (MSocketWatched (s32 port)), DetectSocket (s32 port) sock]"

text \<open>The loop reads the field \<^verbatim>\<open>event\<close> of each entry.\<close>

fun surveillance_requests :: "int \<Rightarrow> int \<Rightarrow> (nat \<Rightarrow> watch_os) \<Rightarrow> nat \<Rightarrow> watch option list \<Rightarrow> call list c" where
  "surveillance_requests inotifyFd sock os i [] = Inr []"
| "surveillance_requests inotifyFd sock os i (e # es) =
     bindE (read_field e) (\<lambda>w.
     bindE (surveillance_requests inotifyFd sock os (Suc i) es) (\<lambda>calls.
     Inr (surveillance_request inotifyFd sock (os i) w @ calls)))"

definition process_surveillance_requests :: "int \<Rightarrow> int \<Rightarrow> (nat \<Rightarrow> watch_os) \<Rightarrow> c_command \<Rightarrow> call list c" where
  "process_surveillance_requests inotifyFd sock os com = surveillance_requests inotifyFd sock os 0 (com_to_watch com)"

text \<open>A record of the inotify descriptor: its mask, the name, and what \<^verbatim>\<open>findSize\<close> returns for
  it (-1 when there is no such file).  \<open>ev\<close> is the field \<^verbatim>\<open>event\<close> of a structure that is not
  reset between records.\<close>

record inotify_record =
  ir_mask :: "32 word"
  ir_name :: bytes
  ir_file_size :: int

definition process_Event :: "inotify_record \<Rightarrow> int \<Rightarrow> InotifyEvent option \<Rightarrow> InotifyEvent option \<times> int" where
  "process_Event r sz ev =
     (let ev = (if bit (ir_mask r) 0 then Some ACCESSED else ev);
          ev = (if bit (ir_mask r) 8 then Some CREATED else ev);
          ev = (if bit (ir_mask r) 9 then Some DELETED else ev)
      in if bit (ir_mask r) 1 then
           (if u32 (ir_file_size r) > u32 sz then Some SIZE_REACHED else Some MODIFIED, u32 (ir_file_size r))
         else (ev, u32 sz))"

fun handle_inotify_records :: "int \<Rightarrow> int \<Rightarrow> InotifyEvent option \<Rightarrow> inotify_record list \<Rightarrow> call list c" where
  "handle_inotify_records sz com_sock ev [] = Inr []"
| "handle_inotify_records sz com_sock ev (r # rs) =
     (let (ev', file_size) = process_Event r sz ev in
      bindE (read_field ev') (\<lambda>e.
      bindE (handle_inotify_records sz com_sock ev' rs) (\<lambda>calls.
      Inr (SendMessage com_sock (MInotifyPathUpdated (ir_name r) (InotifyEvent_value e) file_size (u32 sz)) # calls))))"

definition handle_inotify_event :: "int \<Rightarrow> int \<Rightarrow> inotify_record list \<Rightarrow> call list c" where
  "handle_inotify_event sz com_sock rs = handle_inotify_records sz com_sock None rs"

datatype wait_status = WExited int | WSignaled int | WFailed

definition exit_status :: "wait_status \<Rightarrow> int option" where
  "exit_status st = (case st of WExited n \<Rightarrow> Some n | WSignaled n \<Rightarrow> Some n | WFailed \<Rightarrow> None)"

definition handle_SIGCHLD :: "int \<Rightarrow> wait_status \<Rightarrow> daemon \<Rightarrow> (daemon \<times> call list \<times> message) c" where
  "handle_SIGCHLD pid st d =
     bindE (read_field (exit_status st)) (\<lambda>status.
     bindE (manager_remove_process pid (process_manager d) (nb_process d)) (\<lambda>(_, manager, rs).
     Inr (d\<lparr>process_manager := manager, nb_process := nb_process d - 1\<rparr>, Waited pid # map Release rs,
       MProcessTerminated (s32 pid) (u32 status))))"

definition SIGCHLD :: int where
  "SIGCHLD = 17"

datatype signal_read = ShortRead | SigInfo int int wait_status

definition handle_signalfd_event :: "signal_read \<Rightarrow> daemon \<Rightarrow> (daemon \<times> call list \<times> message option) c" where
  "handle_signalfd_event s d = (case s of
       ShortRead \<Rightarrow> Inr (d, [], None)
     | SigInfo signo pid st \<Rightarrow>
         if signo = SIGCHLD then bindE (handle_SIGCHLD pid st d) (\<lambda>(d, calls, m). Inr (d, calls, Some m))
         else Inr (d, [], None))"

section \<open>daemon-core.c\<close>

text \<open>What epoll reports and what the calls of its handler return.  \<open>HangUp\<close> is a report without
  \<^verbatim>\<open>EPOLLIN\<close>; the descriptor it closes is read from the wrong member of a union.\<close>

datatype pipe_read = PipeData | PipeEof | PipeError

datatype notification =
    OnInotify int int "inotify_record list"
  | OnSignal int signal_read
  | OnMessage int sock_read launch_os "nat \<Rightarrow> watch_os"
  | OnConnexion int int bool bool bool
  | OnExecve int int bytes pipe_read
  | OnHangUp event_data pipe_read int

definition on_inotify :: "int \<Rightarrow> inotify_record list \<Rightarrow> daemon \<Rightarrow> (daemon \<times> call list) c" where
  "on_inotify sz rs d = bindE (read_field (communication_socket d)) (\<lambda>sock.
     bindE (handle_inotify_event sz sock rs) (\<lambda>calls. Inr (d, calls)))"

definition on_signal :: "signal_read \<Rightarrow> daemon \<Rightarrow> (daemon \<times> call list) c" where
  "on_signal s d = bindE (handle_signalfd_event s d) (\<lambda>(d, calls, res). case res of
       None \<Rightarrow> Inr (d, calls)
     | Some m \<Rightarrow> bindE (read_field (communication_socket d)) (\<lambda>sock. Inr (d, calls @ [SendMessage sock m])))"

definition execve_success :: "pipe_read \<Rightarrow> bool c" where
  "execve_success n = (case n of PipeData \<Rightarrow> Inr False | PipeEof \<Rightarrow> Inr True | PipeError \<Rightarrow> Inl Uninitialised)"

definition on_execve :: "int \<Rightarrow> int \<Rightarrow> bytes \<Rightarrow> pipe_read \<Rightarrow> daemon \<Rightarrow> (daemon \<times> call list) c" where
  "on_execve fd pid path n d =
     bindE (execve_success n) (\<lambda>success.
     bindE (read_field (communication_socket d)) (\<lambda>sock.
     Inr (d, [SendMessage sock (MExecveTerminated (s32 pid) path success), EpollDel fd, CloseFd fd])))"

definition run_command_request ::
    "decoder \<Rightarrow> int \<Rightarrow> int \<Rightarrow> bytes \<Rightarrow> int \<Rightarrow> launch_os \<Rightarrow> (nat \<Rightarrow> watch_os) \<Rightarrow> daemon \<Rightarrow> (daemon \<times> call list) c" where
  "run_command_request decode inotifyFd fd buf sz los wos d =
     bindE (receive_command_c decode buf sz) (\<lambda>com.
     bindE (deref com) (\<lambda>com.
     bindE (process_command_request los fd com d) (\<lambda>(d, calls).
     bindE (process_surveillance_requests inotifyFd fd wos com) (\<lambda>calls'.
     Inr (d, calls @ calls')))))"

definition kill_request :: "int \<Rightarrow> daemon \<Rightarrow> (daemon \<times> call list) c" where
  "kill_request pid d =
     (if pid > 0 then Inr (d, [Kill pid])
      else if pid = 0 then bindE (free_manager (process_manager d) (nb_process d)) (\<lambda>rs.
        Inr (d\<lparr>running := False\<rparr>, map Release rs @ [KillGroup]))
      else Inr (d, []))"

definition on_message ::
    "decoder \<Rightarrow> int \<Rightarrow> int \<Rightarrow> sock_read \<Rightarrow> launch_os \<Rightarrow> (nat \<Rightarrow> watch_os) \<Rightarrow> daemon \<Rightarrow> (daemon \<times> call list) c" where
  "on_message decode inotifyFd fd sr los wos d = (case read_socket_message sr of
       None \<Rightarrow> Inl NullPointer
     | Some (buf, sz) \<Rightarrow>
         if sz = 0 then Inr (d, [EpollDel fd, CloseFd fd])
         else (case receive_message_from_user_c decode buf sz of
             RUN_COMMAND \<Rightarrow> run_command_request decode inotifyFd fd buf sz los wos d
           | KILL_PROCESS \<Rightarrow> bindE (receive_kill_c decode buf sz) (\<lambda>pid. kill_request pid d)
           | _ \<Rightarrow> Inr (d, [])))"

text \<open>\<open>new_connexion\<close> is what \<^verbatim>\<open>accept\<close> returns; the other arguments say whether the two allocations and the
  registration succeed.\<close>

definition on_connexion :: "int \<Rightarrow> int \<Rightarrow> bool \<Rightarrow> bool \<Rightarrow> bool \<Rightarrow> daemon \<Rightarrow> (daemon \<times> call list) c" where
  "on_connexion destPort new_connexion ev_malloc edata_malloc epoll_ok d =
     (if new_connexion < 0 then Inl (Exit 1)
      else if \<not> (ev_malloc \<and> edata_malloc) then Inl NullPointer
      else if \<not> epoll_ok then Inl (Exit (-1))
      else Inr (d\<lparr>communication_socket := Some new_connexion\<rparr>,
        [EpollAdd (Ed_SOCK_MESSAGE new_connexion), SendMessage new_connexion (MTCPSocketListening (u16 destPort))]))"

definition on_hang_up :: "event_data \<Rightarrow> pipe_read \<Rightarrow> int \<Rightarrow> daemon \<Rightarrow> (daemon \<times> call list) c" where
  "on_hang_up e n data_fd d = (case e of Ed_EXECVE fd pid path \<Rightarrow> on_execve fd pid path n d | _ \<Rightarrow> Inr (d, [CloseFd data_fd]))"

text \<open>The interest list after the calls: closing a descriptor also removes it.\<close>

fun ed_fd :: "event_data \<Rightarrow> int" where
  "ed_fd (Ed_SIGNALFD fd) = fd"
| "ed_fd (Ed_INOTIFYFD fd sz) = fd"
| "ed_fd (Ed_SOCK_CONNEXION fd) = fd"
| "ed_fd (Ed_SOCK_MESSAGE fd) = fd"
| "ed_fd (Ed_EXECVE fd pid path) = fd"

fun epoll_after :: "event_data list \<Rightarrow> call list \<Rightarrow> event_data list" where
  "epoll_after es [] = es"
| "epoll_after es (EpollAdd e # cs) = epoll_after (es @ [e]) cs"
| "epoll_after es (EpollDel fd # cs) = epoll_after (filter (\<lambda>e. ed_fd e \<noteq> fd) es) cs"
| "epoll_after es (CloseFd fd # cs) = epoll_after (filter (\<lambda>e. ed_fd e \<noteq> fd) es) cs"
| "epoll_after es (Release (CloseFile fd) # cs) = epoll_after (filter (\<lambda>e. ed_fd e \<noteq> fd) es) cs"
| "epoll_after es (_ # cs) = epoll_after es cs"

text \<open>One round of the inner loop of \<^verbatim>\<open>main\<close>.\<close>

fun dispatch :: "decoder \<Rightarrow> int \<Rightarrow> int \<Rightarrow> notification \<Rightarrow> daemon \<Rightarrow> (daemon \<times> call list) c" where
  "dispatch decode destPort inotifyFd (OnInotify fd sz rs) d = on_inotify sz rs d"
| "dispatch decode destPort inotifyFd (OnSignal fd s) d = on_signal s d"
| "dispatch decode destPort inotifyFd (OnMessage fd sr los wos) d = on_message decode inotifyFd fd sr los wos d"
| "dispatch decode destPort inotifyFd (OnConnexion fd conn m1 m2 e) d = on_connexion destPort conn m1 m2 e d"
| "dispatch decode destPort inotifyFd (OnExecve fd pid path n) d = on_execve fd pid path n d"
| "dispatch decode destPort inotifyFd (OnHangUp e n data_fd) d = on_hang_up e n data_fd d"

definition handle_event :: "decoder \<Rightarrow> int \<Rightarrow> int \<Rightarrow> notification \<Rightarrow> daemon \<Rightarrow> (daemon \<times> call list) c" where
  "handle_event decode destPort inotifyFd n d = bindE (dispatch decode destPort inotifyFd n d) (\<lambda>(d, calls).
     Inr (d\<lparr>interest := epoll_after (interest d) calls\<rparr>, calls))"


text \<open>The beginning of \<^verbatim>\<open>main\<close>, after the port has been read.  A \<^verbatim>\<open>NULL\<close> table is not
  noticed: it is the empty array, on which every access fails.\<close>

record start_os =
  so_array_malloc :: bool
  so_slot_malloc :: "nat \<Rightarrow> bool"
  so_connection :: connection_os
  so_edata_malloc :: bool
  so_server_epoll :: bool
  so_inotify_fd :: int
  so_inotify_malloc :: bool
  so_inotify_epoll :: bool
  so_sigprocmask :: bool
  so_signalfd :: int
  so_signal_malloc :: bool
  so_signal_epoll :: bool

definition start_daemon :: "start_os \<Rightarrow> daemon c" where
  "start_daemon os =
     bindE (create_process_manager (so_array_malloc os) (so_slot_malloc os) (int MAX_PROCESS)) (\<lambda>(_, manager).
     bindE (establish_connection (so_connection os)) (\<lambda>server_fd.
       if \<not> so_edata_malloc os \<or> \<not> so_server_epoll os then Inl (Exit (-1))
       else if \<not> so_sigprocmask os then Inl (Exit 1)
       else if so_signalfd os = -1 then Inl (Exit 3)
       else Inr \<lparr>process_manager = (case manager of None \<Rightarrow> [] | Some slots \<Rightarrow> slots), nb_process = 0,
         communication_socket = None,
         interest = epoll_after [Ed_SOCK_CONNEXION server_fd]
           (add_event_inotifyFd (so_inotify_malloc os) (so_inotify_epoll os) (so_inotify_fd os) 0 @
            add_event_signalFd (so_signal_malloc os) (so_signal_epoll os) (so_signalfd os)),
         running = True\<rparr>))"

section \<open>Complete requests\<close>

text \<open>A surveillance as stored, and the calls made for a list of stored ones.\<close>

fun stored_watch :: "watch \<Rightarrow> watch" where
  "stored_watch (WatchInotify path events sz) = WatchInotify (c_str path) events sz"
| "stored_watch (WatchSocket port) = WatchSocket port"

fun watch_calls :: "int \<Rightarrow> int \<Rightarrow> (nat \<Rightarrow> watch_os) \<Rightarrow> nat \<Rightarrow> watch list \<Rightarrow> call list" where
  "watch_calls inotifyFd sock os i [] = []"
| "watch_calls inotifyFd sock os i (w # ws) = surveillance_request inotifyFd sock (os i) w @ watch_calls inotifyFd sock os (Suc i) ws"

lemma deref_simps [simp]: "deref (Some x) = Inr x" "deref None = Inl NullPointer" "deref p = Inr x \<longleftrightarrow> p = Some x"
  by (auto simp: deref_def split: option.splits)

lemma read_field_Inr: "read_field p = Inr x \<longleftrightarrow> p = Some x"
  by (auto simp: read_field_def split: option.splits)

lemma c_watch_whole [simp]: "c_watch (whole_watch w) = Inr (Some (stored_watch w))"
  by (cases w) simp_all

lemma c_watches_whole [simp]: "mapE c_watch (map whole_watch ws) = Inr (map (\<lambda>w. Some (stored_watch w)) ws)"
  by (induction ws) simp_all

lemma receive_command_whole:
  assumes "decode buf = Some (whole (MRunCommand c))" and "0 < sz"
  shows "receive_command_c decode buf sz = Inr (Some \<lparr>com_path = c_str (rc_path c), com_args = Some (map c_str (rc_args c)),
    com_envp = map c_str (rc_envp c), com_flags = rc_flags c, com_stack_size = rc_stack_size c,
    com_to_watch = map Some (map stored_watch (rc_to_watch c))\<rparr>)"
  using assms by (simp add: receive_command_c_def comp_def)

lemma surveillance_stored [simp]: "surveillance_requests ifd sock os i (map Some ws) = Inr (watch_calls ifd sock os i ws)"
  by (induction ws arbitrary: i) (simp_all add: read_field_def)

lemma surveillance_mapped [simp]:
  "surveillance_requests ifd sock os i (map (Some \<circ> f) ws) = Inr (watch_calls ifd sock os i (map f ws))"
  using surveillance_stored [of ifd sock os i "map f ws"] by (simp add: comp_def)

lemma surveillance_Inr:
  "surveillance_requests ifd sock os i es = Inr calls \<Longrightarrow> \<exists>ws. es = map Some ws \<and> calls = watch_calls ifd sock os i ws"
proof (induction es arbitrary: i calls)
  case (Cons e es)
  then obtain w rest where e: "e = Some w" "surveillance_requests ifd sock os (Suc i) es = Inr rest"
    "calls = surveillance_request ifd sock (os i) w @ rest" by (auto simp: bindE_eq_Inr read_field_Inr)
  from Cons.IH [OF e(2)] obtain ws where "es = map Some ws" "rest = watch_calls ifd sock os (Suc i) ws" by blast
  with e show ?case by (intro exI [of _ "w # ws"]) simp
qed simp

lemma run_command_InrE:
  assumes "run_command_request decode ifd fd buf sz los wos d = Inr (d', calls)"
  obtains com cs ws where "receive_command_c decode buf sz = Inr (Some com)" "process_command_request los fd com d = Inr (d', cs)"
    "com_to_watch com = map Some ws" "calls = cs @ watch_calls ifd fd wos 0 ws"
  using assms by (auto simp: run_command_request_def bindE_eq_Inr process_surveillance_requests_def dest!: surveillance_Inr)

end
