(* ===== verification/C_Daemon_Runs.thy ===== *)
theory C_Daemon_Runs
  imports C_Daemon
begin

text \<open>
  The C daemon with its operating system: the children that run or wait to be reaped, the stacks that are
  allocated, the inotify descriptors that watch something, the messages sent so far.  \<open>possible\<close> says what the kernel may
  report and return; \<open>reach\<close> is the set of worlds the daemon gets into.  The invariant relates the
  process table and its counter to the children; from it follow the runs that cannot go wrong and the ones
  that do.
\<close>

section \<open>The world after a list of calls\<close>

fun live_after :: "int set \<Rightarrow> call list \<Rightarrow> int set" where
  "live_after L [] = L"
| "live_after L (Cloned pid # cs) = live_after (insert pid L) cs"
| "live_after L (Waited pid # cs) = live_after (L - {pid}) cs"
| "live_after L (_ # cs) = live_after L cs"

fun heap_after :: "nat set \<Rightarrow> call list \<Rightarrow> nat set" where
  "heap_after H [] = H"
| "heap_after H (AllocStack s # cs) = heap_after (insert s H) cs"
| "heap_after H (Release (FreeStack s) # cs) = heap_after (H - {s}) cs"
| "heap_after H (_ # cs) = heap_after H cs"

text \<open>Every stack that is freed is allocated at that moment.\<close>

fun frees_allocated :: "nat set \<Rightarrow> call list \<Rightarrow> bool" where
  "frees_allocated H [] = True"
| "frees_allocated H (AllocStack s # cs) = frees_allocated (insert s H) cs"
| "frees_allocated H (Release (FreeStack s) # cs) = (s \<in> H \<and> frees_allocated (H - {s}) cs)"
| "frees_allocated H (_ # cs) = frees_allocated H cs"

fun watched_after :: "int set \<Rightarrow> call list \<Rightarrow> int set" where
  "watched_after W [] = W"
| "watched_after W (AddWatch fd path m # cs) = watched_after (insert fd W) cs"
| "watched_after W (_ # cs) = watched_after W cs"

text \<open>The messages sent to the user.\<close>

fun messages_of :: "call list \<Rightarrow> message list" where
  "messages_of [] = []"
| "messages_of (SendMessage sock m # cs) = m # messages_of cs"
| "messages_of (_ # cs) = messages_of cs"

record world =
  w_daemon :: daemon
  w_live :: "int set"
  w_heap :: "nat set"
  w_watched :: "int set"
  w_sent :: "message list"

definition world_after :: "world \<Rightarrow> daemon \<Rightarrow> call list \<Rightarrow> world" where
  "world_after w d calls = \<lparr>w_daemon = d, w_live = live_after (w_live w) calls, w_heap = heap_after (w_heap w) calls,
     w_watched = watched_after (w_watched w) calls, w_sent = w_sent w @ messages_of calls\<rparr>"

definition first_world :: "daemon \<Rightarrow> world" where
  "first_world d = \<lparr>w_daemon = d, w_live = {}, w_heap = {}, w_watched = {}, w_sent = []\<rparr>"

section \<open>What the kernel may report\<close>

text \<open>A report is for a registered descriptor; a SIGCHLD is for a child that has not been waited for;
  \<^verbatim>\<open>clone\<close> returns -1 or a pid that is not in use, \<^verbatim>\<open>malloc\<close> a block that is not allocated.\<close>

definition launch_possible :: "world \<Rightarrow> launch_os \<Rightarrow> bool" where
  "launch_possible w os \<longleftrightarrow>
     (case lo_stack os of None \<Rightarrow> True | Some s \<Rightarrow> s \<notin> w_heap w) \<and>
     (lo_clone os = -1 \<or> 0 < lo_clone os \<and> lo_clone os \<le> 2147483647 \<and> lo_clone os \<notin> w_live w)"

definition signal_possible :: "world \<Rightarrow> signal_read \<Rightarrow> bool" where
  "signal_possible w s \<longleftrightarrow> (case s of ShortRead \<Rightarrow> True
     | SigInfo signo pid st \<Rightarrow> signo = SIGCHLD \<longrightarrow> pid \<in> w_live w \<and> st \<noteq> WFailed)"

fun possible :: "world \<Rightarrow> notification \<Rightarrow> bool" where
  "possible w (OnInotify fd sz rs) = (Ed_INOTIFYFD fd sz \<in> set (interest (w_daemon w)) \<and> fd \<in> w_watched w)"
| "possible w (OnSignal fd s) = (Ed_SIGNALFD fd \<in> set (interest (w_daemon w)) \<and> signal_possible w s)"
| "possible w (OnMessage fd sr los wos) = (Ed_SOCK_MESSAGE fd \<in> set (interest (w_daemon w)) \<and> launch_possible w los)"
| "possible w (OnConnexion fd con m1 m2 e) = (Ed_SOCK_CONNEXION fd \<in> set (interest (w_daemon w)))"
| "possible w (OnExecve fd pid path n) = (Ed_EXECVE fd pid path \<in> set (interest (w_daemon w)))"
| "possible w (OnHangUp e n data_fd) = (e \<in> set (interest (w_daemon w)))"

inductive reach :: "decoder \<Rightarrow> int \<Rightarrow> int \<Rightarrow> start_os \<Rightarrow> world \<Rightarrow> bool" for decode port ifd os where
  reach_start: "start_daemon os = Inr d \<Longrightarrow> so_array_malloc os \<Longrightarrow> \<forall>i < MAX_PROCESS. so_slot_malloc os i \<Longrightarrow>
    reach decode port ifd os (first_world d)"
| reach_step: "reach decode port ifd os w \<Longrightarrow> running (w_daemon w) \<Longrightarrow> possible w n \<Longrightarrow>
    handle_event decode port ifd n (w_daemon w) = Inr (d, calls) \<Longrightarrow>
    reach decode port ifd os (world_after w d calls)"

section \<open>The invariant\<close>

text \<open>Nothing that needs the communication socket can happen before there is one.\<close>

fun needs_socket :: "event_data \<Rightarrow> bool" where
  "needs_socket (Ed_SOCK_MESSAGE fd) = True"
| "needs_socket (Ed_EXECVE fd pid path) = True"
| "needs_socket _ = False"

definition connected :: "world \<Rightarrow> bool" where
  "connected w \<longleftrightarrow> communication_socket (w_daemon w) \<noteq> None \<or>
     w_live w = {} \<and> w_watched w = {} \<and> (\<forall>e \<in> set (interest (w_daemon w)). \<not> needs_socket e)"

definition daemon_inv :: "world \<Rightarrow> bool" where
  "daemon_inv w \<longleftrightarrow> connected w \<and>
     array.tracks (process_manager (w_daemon w)) (nb_process (w_daemon w)) (w_live w) (w_heap w)"


section \<open>Effects of lists of calls\<close>

lemma live_after_append [simp]: "live_after L (xs @ ys) = live_after (live_after L xs) ys"
  by (induction L xs rule: live_after.induct) auto

lemma heap_after_append [simp]: "heap_after H (xs @ ys) = heap_after (heap_after H xs) ys"
  by (induction H xs rule: heap_after.induct) auto

lemma frees_allocated_append [simp]:
  "frees_allocated H (xs @ ys) \<longleftrightarrow> frees_allocated H xs \<and> frees_allocated (heap_after H xs) ys"
  by (induction H xs rule: frees_allocated.induct) auto

lemma live_after_release [simp]: "live_after L (map Release rs) = L"
  by (induction rs) auto

lemma heap_after_release [simp]: "heap_after H (map Release rs) = H - set (stacks_freed rs)"
  by (induction rs arbitrary: H rule: stacks_freed.induct) auto

lemma frees_allocated_release [simp]:
  "frees_allocated H (map Release rs) \<longleftrightarrow> distinct (stacks_freed rs) \<and> set (stacks_freed rs) \<subseteq> H"
  by (induction rs arbitrary: H rule: stacks_freed.induct) auto

text \<open>Calls that concern neither children nor stacks.\<close>

fun quiet :: "call \<Rightarrow> bool" where
  "quiet (Release r) = False"
| "quiet (AllocStack s) = False"
| "quiet (Cloned pid) = False"
| "quiet (Waited pid) = False"
| "quiet _ = True"

lemma quiet_effects:
  assumes "\<forall>c \<in> set calls. quiet c"
  shows "live_after L calls = L" and "heap_after H calls = H" and "frees_allocated H calls"
proof -
  show "live_after L calls = L" using assms by (induction L calls rule: live_after.induct) auto
  show "heap_after H calls = H" using assms by (induction H calls rule: heap_after.induct) auto
  show "frees_allocated H calls" using assms by (induction H calls rule: frees_allocated.induct) auto
qed

lemma quiet_surveillance: "c \<in> set (watch_calls ifd sock wos i ws) \<Longrightarrow> quiet c"
proof (induction ws arbitrary: i)
  case Nil
  then show ?case by simp
next
  case (Cons w ws)
  then show ?case by (cases w) (auto simp: add_event_inotifyFd_def split: if_splits)
qed

lemma quiet_inotify: "handle_inotify_records sz sock ev rs = Inr calls \<Longrightarrow> c \<in> set calls \<Longrightarrow> quiet c"
proof (induction rs arbitrary: ev calls)
  case Nil
  then show ?case by simp
next
  case (Cons r rs)
  then show ?case by (auto simp: bindE_eq_Inr Let_def split: prod.splits)
qed

lemma quiet_execve: "on_execve fd pid path n d = Inr (d', calls) \<Longrightarrow> d' = d \<and> (\<forall>c \<in> set calls. quiet c)"
  by (auto simp: on_execve_def bindE_eq_Inr)

lemma epoll_after_subset:
  "e \<in> set (epoll_after es calls) \<Longrightarrow> e \<in> set es \<or> EpollAdd e \<in> set calls"
  by (induction es calls rule: epoll_after.induct) auto

section \<open>Every handler keeps the invariant\<close>

text \<open>The table, the counter, the children and the heap before and after a handler.\<close>

abbreviation tracked :: "daemon \<Rightarrow> int set \<Rightarrow> nat set \<Rightarrow> bool" where
  "tracked d L H \<equiv> array.tracks (process_manager d) (nb_process d) L H"

definition keeps :: "daemon \<Rightarrow> int set \<Rightarrow> nat set \<Rightarrow> daemon \<Rightarrow> call list \<Rightarrow> bool" where
  "keeps d L H d' calls \<longleftrightarrow> frees_allocated H calls \<and>
     (running d' \<longrightarrow> tracked d' (live_after L calls) (heap_after H calls))"

lemma keeps_quiet:
  "tracked d L H \<Longrightarrow> process_manager d' = process_manager d \<Longrightarrow> nb_process d' = nb_process d \<Longrightarrow>
   \<forall>c \<in> set calls. quiet c \<Longrightarrow> keeps d L H d' calls"
  by (simp add: keeps_def quiet_effects)

lemma keeps_append_quiet: "keeps d L H d' calls \<Longrightarrow> \<forall>c \<in> set cs. quiet c \<Longrightarrow> keeps d L H d' (calls @ cs)"
  by (simp add: keeps_def quiet_effects)

lemma sigchld_keeps:
  assumes "tracked d L H" and "pid \<in> L" and "handle_SIGCHLD pid st d = Inr (d', calls, m)"
  shows "keeps d L H d' calls" and "communication_socket d' = communication_socket d"
proof -
  from assms(3) obtain r manager rs where
    rem: "manager_remove_process pid (process_manager d) (nb_process d) = Inr (r, manager, rs)"
    and d': "d' = d\<lparr>process_manager := manager, nb_process := nb_process d - 1\<rparr>" "calls = Waited pid # map Release rs"
    by (auto simp: handle_SIGCHLD_def bindE_eq_Inr)
  from array.tracks_exit [OF assms(1,2) rem] d' show "keeps d L H d' calls" by (simp add: keeps_def)
  show "communication_socket d' = communication_socket d" using d' by simp
qed

lemma launch_calls:
  assumes "launch_process_c os = Inr (res, calls)"
  shows "(case res of
      None \<Rightarrow> calls = [] \<or> (\<exists>s. lo_stack os = Some s \<and> calls = [AllocStack s, Release (FreeStack s)])
    | Some i \<Rightarrow> lo_stack os = Some (ic_stack_p i) \<and> ic_child_id i = lo_clone os \<and> lo_clone os \<noteq> -1 \<and>
        (\<exists>fd. calls = [AllocStack (ic_stack_p i), Cloned (lo_clone os), CloseFd fd]))"
  using assms by (auto simp: launch_process_c_def split: if_splits option.splits)

lemma clone_calls:
  assumes "handle_clone_event os = Inr (res, calls)"
  shows "(case res of
      None \<Rightarrow> calls = [] \<or> (\<exists>s. lo_stack os = Some s \<and> calls = [AllocStack s, Release (FreeStack s)])
    | Some i \<Rightarrow> lo_stack os = Some (ic_stack_p i) \<and> ic_child_id i = lo_clone os \<and> lo_clone os \<noteq> -1 \<and>
        (\<exists>fd. calls = [AllocStack (ic_stack_p i), Cloned (lo_clone os), CloseFd fd]))"
  using assms launch_calls by (auto simp: handle_clone_event_def split: if_splits)

lemma command_request_keeps:
  assumes t: "tracked d L H" and os: "\<And>s. lo_stack os = Some s \<Longrightarrow> s \<notin> H" "lo_clone os \<noteq> -1 \<Longrightarrow> lo_clone os \<notin> L"
    and req: "process_command_request os sock com d = Inr (d', calls)"
  shows "keeps d L H d' calls" and "communication_socket d' = communication_socket d" and "running d' = running d"
proof -
  have "keeps d L H d' calls \<and> communication_socket d' = communication_socket d \<and> running d' = running d"
  proof (cases "extract_clone_parameters os com")
    case None
    with req t show ?thesis by (auto simp: process_command_request_def intro!: keeps_quiet)
  next
    case (Some param)
    with req obtain res cs where clone: "handle_clone_event os = Inr (res, cs)"
      by (auto simp: process_command_request_def bindE_eq_Inr Let_def)
    show ?thesis
    proof (cases res)
      case None
      then have "keeps d L H d cs" using clone_calls [OF clone] t os(1) by (auto simp: keeps_def)
      with Some clone None req show ?thesis
        by (auto simp: process_command_request_def bindE_eq_Inr Let_def intro: keeps_append_quiet)
    next
      case (Some i)
      then obtain fd where i: "lo_stack os = Some (ic_stack_p i)" "ic_child_id i = lo_clone os" "lo_clone os \<noteq> -1"
          "cs = [AllocStack (ic_stack_p i), Cloned (lo_clone os), CloseFd fd]" using clone_calls [OF clone] by auto
      let ?file = "if lo_err_file os = -1 then STDOUT_FILENO else lo_err_file os"
      from array.tracks_launch [OF t os(2) [OF i(3)] os(1) [OF i(1)], of ?file] obtain r manager where
        add: "manager_add_process (lo_clone os) (process_manager d) ?file (ic_stack_p i) (nb_process d) = Inr (r, manager)"
          "r \<noteq> 0" "array.tracks manager (nb_process d + 1) (insert (lo_clone os) L) (insert (ic_stack_p i) H)" by blast
      let ?d = "d\<lparr>process_manager := manager, nb_process := nb_process d + 1\<rparr>"
      have "keeps d L H ?d cs" using add(3) i(4) by (simp add: keeps_def)
      moreover have "d' = ?d" "\<exists>rest. calls = cs @ rest \<and> (\<forall>c \<in> set rest. quiet c)"
        using req \<open>extract_clone_parameters os com = Some param\<close> clone Some i(2) add(1,2)
        by (auto simp: process_command_request_def bindE_eq_Inr add_event_pipeExecve_def)
      ultimately show ?thesis by (auto intro: keeps_append_quiet)
    qed
  qed
  then show "keeps d L H d' calls" and "communication_socket d' = communication_socket d" and "running d' = running d"
    by auto
qed


lemma stacks_freed_slots:
  assumes "free_slots i n ps = Inr rs" and "used_first ps" and "distinct (map (fst \<circ> snd) (entry_list ps))"
  shows "distinct (stacks_freed rs) \<and> set (stacks_freed rs) \<subseteq> stacks (entries ps)"
  using assms
proof (induction i n ps arbitrary: rs rule: free_slots.induct)
  case (3 i n p ps)
  from 3(2) obtain r rs' where r: "release_slot p = Inr r" "free_slots (Suc i) n ps = Inr rs'" "rs = r @ FreeSlot i # rs'"
    by (auto simp: bindE_eq_Inr)
  have "used_first ps"
    using 3(3) by (cases ps) (auto split: if_splits)
  with 3(1) [OF r(2)] 3(4) have IH: "distinct (stacks_freed rs')" "set (stacks_freed rs') \<subseteq> stacks (entries ps)"
    by (auto split: if_splits)
  show ?case
  proof (cases "stack_p p")
    case None
    with r(1,3) IH show ?thesis
      by (auto simp: release_slot_def occupied_def entries_def stacks_def)
  next
    case (Some s)
    then have occ: "occupied p" "fst (snd (entry_of p)) = s" by (auto simp: occupied_def entry_of_def)
    with 3(4) have "s \<notin> stacks (entries ps)" by (force simp: entries_def stacks_def)
    moreover have "stacks_freed r = [s]" using r(1) Some by (auto simp: release_slot_def bindE_eq_Inr)
    ultimately show ?thesis using r(3) IH occ by (auto simp: entries_def stacks_def)
  qed
qed auto

lemma kill_request_keeps:
  assumes "tracked d L H" and "kill_request pid d = Inr (d', calls)"
  shows "keeps d L H d' calls" and "communication_socket d' = communication_socket d"
proof -
  show "communication_socket d' = communication_socket d"
    using assms(2) by (auto simp: kill_request_def bindE_eq_Inr split: if_splits)
  show "keeps d L H d' calls"
  proof (cases "pid = 0")
    case False
    with assms show ?thesis by (auto simp: kill_request_def intro!: keeps_quiet split: if_splits)
  next
    case True
    with assms(2) obtain rs where rs: "free_slots 0 (nat (nb_process d)) (process_manager d) = Inr rs"
        "d' = d\<lparr>running := False\<rparr>" "calls = map Release (rs @ [FreeTable]) @ [KillGroup]"
      by (auto simp: kill_request_def free_manager_def bindE_eq_Inr)
    have "table_ok (process_manager d)" "stacks (entries (process_manager d)) \<subseteq> H"
      using assms(1) by (auto simp: array.tracks_def)
    with stacks_freed_slots [OF rs(1)] have "distinct (stacks_freed rs)" "set (stacks_freed rs) \<subseteq> H"
      by (auto simp: table_ok_def)
    then have "frees_allocated H (map Release (rs @ [FreeTable]))" by (simp only: frees_allocated_release) simp
    then show ?thesis using rs(2,3) by (simp add: keeps_def)
  qed
qed

lemma on_message_keeps:
  assumes t: "tracked d L H" and os: "\<And>s. lo_stack los = Some s \<Longrightarrow> s \<notin> H" "lo_clone los \<noteq> -1 \<Longrightarrow> lo_clone los \<notin> L"
    and res: "on_message decode ifd fd sr los wos d = Inr (d', calls)"
  shows "keeps d L H d' calls \<and> communication_socket d' = communication_socket d"
proof -
  from res obtain buf sz where buf: "read_socket_message sr = Some (buf, sz)"
    by (auto simp: on_message_def split: option.splits)
  consider (closed) "sz = 0" | (run) "sz \<noteq> 0" "receive_message_from_user_c decode buf sz = RUN_COMMAND"
    | (kill) "sz \<noteq> 0" "receive_message_from_user_c decode buf sz = KILL_PROCESS"
    | (other) "sz \<noteq> 0" "receive_message_from_user_c decode buf sz \<notin> {RUN_COMMAND, KILL_PROCESS}" by blast
  then show ?thesis
  proof cases
    case closed
    with res buf t show ?thesis by (auto simp: on_message_def intro!: keeps_quiet)
  next
    case run
    with res buf have "run_command_request decode ifd fd buf sz los wos d = Inr (d', calls)" by (simp add: on_message_def)
    then obtain com cs ws where com: "process_command_request los fd com d = Inr (d', cs)" "calls = cs @ watch_calls ifd fd wos 0 ws"
      by (rule run_command_InrE)
    have "\<forall>c \<in> set (watch_calls ifd fd wos 0 ws). quiet c" by (auto intro: quiet_surveillance)
    with com command_request_keeps [OF t os com(1)] show ?thesis by (auto intro: keeps_append_quiet)
  next
    case kill
    with res buf obtain pid where "kill_request pid d = Inr (d', calls)" by (auto simp: on_message_def bindE_eq_Inr)
    with kill_request_keeps [OF t] show ?thesis by simp
  next
    case other
    with res buf have "d' = d" "calls = []" by (auto simp: on_message_def split: Event.splits)
    with t show ?thesis by (auto intro!: keeps_quiet)
  qed
qed

lemma on_signal_keeps:
  assumes t: "tracked (w_daemon w) (w_live w) (w_heap w)" and s: "signal_possible w s"
    and res: "on_signal s (w_daemon w) = Inr (d', calls)"
  shows "keeps (w_daemon w) (w_live w) (w_heap w) d' calls \<and>
    communication_socket d' = communication_socket (w_daemon w) \<and> (calls = [] \<or> w_live w \<noteq> {})"
proof (cases "\<exists>pid st. s = SigInfo SIGCHLD pid st")
  case True
  then obtain pid st where s': "s = SigInfo SIGCHLD pid st" by blast
  with s have pid: "pid \<in> w_live w" by (simp add: signal_possible_def)
  from res s' obtain d1 cs m sock where "handle_SIGCHLD pid st (w_daemon w) = Inr (d1, cs, m)" "d' = d1"
      "calls = cs @ [SendMessage sock m]"
    by (auto simp: on_signal_def handle_signalfd_event_def bindE_eq_Inr split: option.splits)
  with sigchld_keeps [OF t pid] pid show ?thesis by (auto intro!: keeps_append_quiet)
next
  case False
  then have "d' = w_daemon w" "calls = []"
    using res by (auto simp: on_signal_def handle_signalfd_event_def split: signal_read.splits if_splits)
  with t show ?thesis by (auto intro: keeps_quiet)
qed


lemma dispatch_interest:
  assumes "dispatch decode port ifd n d = Inr (d', calls)"
  shows "interest d' = interest d"
proof -
  have cmd: "interest d' = interest d" if "process_command_request os sock com d = Inr (d', cs)" for os sock com d d' cs
    using that by (auto simp: process_command_request_def bindE_eq_Inr Let_def split: option.splits)
  have exe: "interest d' = interest d" if "on_execve fd pid path r d = Inr (d', cs)" for fd pid path r d d' cs
    using that by (auto simp: on_execve_def bindE_eq_Inr)
  have "interest d' = interest d" if "run_command_request decode ifd fd buf sz los wos d = Inr (d', cs)" for fd buf sz los wos cs
    using that by (rule run_command_InrE) (blast intro: cmd)
  moreover have "interest d' = interest d" if "kill_request pid d = Inr (d', cs)" for pid cs
    using that by (auto simp: kill_request_def bindE_eq_Inr split: if_splits)
  ultimately have msg: "interest d' = interest d" if "on_message decode ifd fd sr los wos d = Inr (d', cs)" for fd sr los wos cs
    using that by (auto simp: on_message_def bindE_eq_Inr split: option.splits if_splits Event.splits)
  show ?thesis
    using assms msg exe
    by (cases n) (auto simp: on_inotify_def on_signal_def handle_signalfd_event_def handle_SIGCHLD_def on_connexion_def
        on_hang_up_def bindE_eq_Inr split: signal_read.splits if_splits option.splits event_data.splits)
qed

lemma dispatch_keeps:
  assumes inv: "daemon_inv w" and n: "possible w n"
    and res: "dispatch decode port ifd n (w_daemon w) = Inr (d, calls)"
  shows "keeps (w_daemon w) (w_live w) (w_heap w) d calls \<and>
    (communication_socket d \<noteq> None \<or> communication_socket (w_daemon w) = None \<and> live_after (w_live w) calls = {} \<and>
       watched_after (w_watched w) calls = {} \<and> (\<forall>e. EpollAdd e \<notin> set calls))"
proof (cases n)
  case (OnInotify fd sz rs)
  with inv n have "communication_socket (w_daemon w) \<noteq> None" by (auto simp: daemon_inv_def connected_def)
  with OnInotify res inv show ?thesis
    by (auto simp: on_inotify_def handle_inotify_event_def bindE_eq_Inr daemon_inv_def intro!: keeps_quiet
        dest: quiet_inotify)
next
  case (OnSignal fd sg)
  with inv n res on_signal_keeps [of w sg d calls] show ?thesis by (auto simp: daemon_inv_def connected_def)
next
  case (OnMessage fd sr los wos)
  with inv n have "communication_socket (w_daemon w) \<noteq> None" by (auto simp: daemon_inv_def connected_def)
  moreover have "\<And>s. lo_stack los = Some s \<Longrightarrow> s \<notin> w_heap w" "lo_clone los \<noteq> -1 \<Longrightarrow> lo_clone los \<notin> w_live w"
    using OnMessage n by (auto simp: launch_possible_def)
  note on_message_keeps [OF _ this]
  with OnMessage inv res have "keeps (w_daemon w) (w_live w) (w_heap w) d calls \<and>
      communication_socket d = communication_socket (w_daemon w)" by (simp add: daemon_inv_def)
  ultimately show ?thesis by auto
next
  case (OnConnexion fd con m1 m2 e)
  with res inv show ?thesis by (auto simp: on_connexion_def daemon_inv_def intro!: keeps_quiet split: if_splits)
next
  case (OnExecve fd pid path r)
  with inv n have "communication_socket (w_daemon w) \<noteq> None" by (auto simp: daemon_inv_def connected_def)
  with OnExecve res inv quiet_execve [of fd pid path r "w_daemon w" d calls] show ?thesis
    by (auto simp: daemon_inv_def intro!: keeps_quiet)
next
  case (OnHangUp e r data_fd)
  show ?thesis
  proof (cases "needs_socket e")
    case True
    with OnHangUp inv n have "communication_socket (w_daemon w) \<noteq> None" by (auto simp: daemon_inv_def connected_def)
    with OnHangUp res inv show ?thesis
      by (cases e) (auto simp: on_hang_up_def daemon_inv_def intro!: keeps_quiet dest: quiet_execve)
  next
    case False
    with OnHangUp res inv show ?thesis
      by (cases e) (auto simp: on_hang_up_def daemon_inv_def connected_def intro!: keeps_quiet)
  qed
qed

lemma step_keeps:
  assumes inv: "daemon_inv w" and n: "possible w n"
    and res: "handle_event decode port ifd n (w_daemon w) = Inr (d, calls)"
  shows "frees_allocated (w_heap w) calls" and "running d \<Longrightarrow> daemon_inv (world_after w d calls)"
proof -
  from res obtain d1 where d1: "dispatch decode port ifd n (w_daemon w) = Inr (d1, calls)"
      "d = d1\<lparr>interest := epoll_after (interest d1) calls\<rparr>" by (auto simp: handle_event_def bindE_eq_Inr)
  note keep = dispatch_keeps [OF inv n d1(1)]
  then show "frees_allocated (w_heap w) calls" by (simp add: keeps_def)
  assume run: "running d"
  have same: "interest d1 = interest (w_daemon w)" using d1(1) by (rule dispatch_interest)
  have "connected (world_after w d calls)"
  proof (cases "communication_socket d1")
    case None
    with keep inv have old: "\<forall>e \<in> set (interest (w_daemon w)). \<not> needs_socket e"
      and new: "live_after (w_live w) calls = {}" "watched_after (w_watched w) calls = {}" "\<forall>e. EpollAdd e \<notin> set calls"
      by (auto simp: daemon_inv_def connected_def)
    have "\<not> needs_socket e" if "e \<in> set (epoll_after (interest d1) calls)" for e
      using epoll_after_subset [OF that] old new(3) same by auto
    with new d1(2) show ?thesis by (auto simp: connected_def world_after_def)
  next
    case (Some sock)
    with d1(2) show ?thesis by (simp add: connected_def world_after_def)
  qed
  with keep d1(2) run show "daemon_inv (world_after w d calls)" by (simp add: daemon_inv_def keeps_def world_after_def)
qed


lemma start_inv:
  assumes "start_daemon os = Inr d" and "so_array_malloc os" and "\<forall>i < MAX_PROCESS. so_slot_malloc os i"
  shows "daemon_inv (first_world d)"
proof -
  have "create_process_manager True (so_slot_malloc os) (int MAX_PROCESS) = Inr ([], Some (replicate MAX_PROCESS new_slot))"
    using alloc_slots_all [of "[]" MAX_PROCESS "so_slot_malloc os"] assms(3) by (simp add: create_process_manager_def)
  with assms(1,2) obtain fd where d: "process_manager d = replicate MAX_PROCESS new_slot" "nb_process d = 0"
      "interest d = epoll_after [Ed_SOCK_CONNEXION fd]
         (add_event_inotifyFd (so_inotify_malloc os) (so_inotify_epoll os) (so_inotify_fd os) 0 @
          add_event_signalFd (so_signal_malloc os) (so_signal_epoll os) (so_signalfd os))"
    by (auto simp: start_daemon_def elim!: bindE_InrE split: if_splits)
  have "\<not> needs_socket e" if "e \<in> set (interest d)" for e
    using that epoll_after_subset [of e] unfolding d(3)
    by (fastforce simp: add_event_inotifyFd_def add_event_signalFd_def split: if_splits)
  moreover have "tracked d {} {}" using new_table_ok by (simp add: array.tracks_def d stacks_def)
  ultimately show ?thesis by (simp add: daemon_inv_def connected_def first_world_def)
qed

lemma reach_inv: "reach decode port ifd os w \<Longrightarrow> running (w_daemon w) \<Longrightarrow> daemon_inv w"
proof (induction rule: reach.induct)
  case (reach_start d)
  then show ?case by (blast intro: start_inv)
next
  case (reach_step w n d calls)
  then show ?case using step_keeps(2) [of w n decode port ifd d calls] by (simp add: world_after_def)
qed

end
