(* ===== verification/C_Daemon_Launches.thy ===== *)
theory C_Daemon_Launches
  imports C_Daemon_Runs
begin

text \<open>
  A concrete run of the C daemon: it starts, a client connects, and the client sends the same command again
  and again, each starting one more child.  The children get the pids 100, 101, \<open>\<dots>\<close> and the stacks
  0, 1, \<open>\<dots>\<close>.  The worlds of this run are the ones at which the properties are evaluated, and they
  reach the size at which the process table overflows.
\<close>

section \<open>Frames\<close>

lemma s32_id: "- 2147483648 \<le> x \<Longrightarrow> x < 2147483648 \<Longrightarrow> s32 x = x"
  by (simp add: s32_def)

text \<open>A frame that arrives whole.\<close>

definition whole_frame :: "bytes \<Rightarrow> sock_read" where
  "whole_frame buf = \<lparr>sr_info_malloc = True, sr_head = le_bytes 4 (length buf), sr_buffer_malloc = True, sr_body = buf\<rparr>"

lemma read_whole_frame:
  assumes "length buf < 2 ^ 31"
  shows "read_socket_message (whole_frame buf) = Some (buf, int (length buf))"
proof -
  have "le_nat (le_bytes 4 (length buf)) = length buf" using assms by (intro le_nat_roundtrip) simp
  moreover have "s32 (int (length buf)) = int (length buf)" using assms by (intro s32_id) simp_all
  ultimately show ?thesis by (simp add: whole_frame_def read_socket_message_def)
qed

section \<open>The run\<close>

definition good_start :: start_os where
  "good_start = \<lparr>so_array_malloc = True, so_slot_malloc = \<lambda>_. True, so_connection = \<lparr>co_malloc = True, co_socket = 3,
     co_setsockopt = 0, co_bind = 0, co_getsockname = 0, co_listen = 0\<rparr>, so_edata_malloc = True,
     so_server_epoll = True, so_inotify_fd = 4, so_inotify_malloc = True, so_inotify_epoll = True,
     so_sigprocmask = True, so_signalfd = 5, so_signal_malloc = True, so_signal_epoll = True\<rparr>"

definition listening :: "event_data list" where
  "listening = [Ed_SOCK_CONNEXION 3, Ed_INOTIFYFD 4 0, Ed_SIGNALFD 5]"

definition child_slot :: "nat \<Rightarrow> process_info" where
  "child_slot i = \<lparr>stack_p = Some i, child_id = Some (int i + 100), err_file = Some STDOUT_FILENO\<rparr>"

definition filled :: "nat \<Rightarrow> process_info list" where
  "filled n = map child_slot [0..<min n MAX_PROCESS] @ replicate (MAX_PROCESS - n) new_slot"

definition launched :: "nat \<Rightarrow> daemon" where
  "launched n = \<lparr>process_manager = filled n, nb_process = int n, communication_socket = Some 6,
     interest = listening @ [Ed_SOCK_MESSAGE 6], running = True\<rparr>"

definition launched_world :: "int \<Rightarrow> nat \<Rightarrow> world" where
  "launched_world port n = \<lparr>w_daemon = launched n, w_live = (\<lambda>i. int i + 100) ` {0..<n}, w_heap = {0..<n}, w_watched = {},
     w_sent = MTCPSocketListening (u16 port) # map (\<lambda>i. MProcessLaunched (s32 (int i + 100))) [0..<n]\<rparr>"

definition nth_launch :: "nat \<Rightarrow> launch_os" where
  "nth_launch n = \<lparr>lo_param_malloc = True, lo_err_file = -1, lo_exec_malloc = True, lo_info_malloc = True,
     lo_stack = Some n, lo_pipe = Some (50, 51), lo_clone = int n + 100, lo_errno = 0, lo_event_malloc = False,
     lo_epoll_ok = False\<rparr>"

definition idle_watch :: "nat \<Rightarrow> watch_os" where
  "idle_watch = (\<lambda>_. \<lparr>wo_inotify_init = -1, wo_malloc = False, wo_epoll_ok = False\<rparr>)"

text \<open>A command with arguments and no surveillance.\<close>

definition plain_command :: "message \<Rightarrow> bool" where
  "plain_command m = (case m of MRunCommand c \<Rightarrow> rc_args c \<noteq> [] \<and> rc_to_watch c = [] | _ \<Rightarrow> False)"

lemma add_from_append:
  "\<forall>p \<in> set ps. occupied p \<Longrightarrow> add_from q (length ps + n) (ps @ qs) = bindE (add_from q n qs) (\<lambda>(r, qs'). Inr (r, ps @ qs'))"
  by (induction ps) (auto simp: occupied_def bindE_assoc split: prod.splits intro!: arg_cong2 [of _ _ _ _ bindE])

lemma child_slot_occupied [simp]: "occupied (child_slot i)"
  by (simp add: child_slot_def occupied_def)

lemma length_filled [simp]: "length (filled n) = MAX_PROCESS"
  by (simp add: filled_def)

lemma add_filled:
  "\<exists>r. r \<noteq> 0 \<and> manager_add_process (int n + 100) (filled n) STDOUT_FILENO n (int n) = Inr (r, filled (Suc n))"
proof (cases "n < MAX_PROCESS")
  case True
  then obtain k where k: "MAX_PROCESS - n = Suc k" by (metis Suc_diff_Suc)
  with True have len: "MAX_PROCESS = n + Suc k" "MAX_PROCESS - Suc n = k" by simp_all
  let ?ps = "map child_slot [0..<n]"
  have filled: "filled n = ?ps @ new_slot # replicate k new_slot" "filled (Suc n) = ?ps @ child_slot n # replicate k new_slot"
    using True k len(2) by (simp_all add: filled_def min_def)
  have "add_from (child_slot n) (length ?ps + Suc k) (?ps @ new_slot # replicate k new_slot) =
      Inr (1, ?ps @ child_slot n # replicate k new_slot)"
    by (subst add_from_append) auto
  moreover have "length ?ps + Suc k = MAX_PROCESS" using len(1) by simp
  ultimately show ?thesis using True by (simp only: manager_add_process_def filled) (simp add: child_slot_def)
next
  case False
  then have "filled (Suc n) = filled n" by (simp add: filled_def min_def)
  with False show ?thesis by (simp add: manager_add_process_def)
qed

lemma next_launch:
  assumes "decode buf = Some (whole (MRunCommand c))" and "plain_command (MRunCommand c)" and "buf \<noteq> []" and "length buf < 2 ^ 31"
  shows "\<exists>calls. handle_event decode port ifd (OnMessage 6 (whole_frame buf) (nth_launch n) wos) (launched n) =
      Inr (launched (Suc n), calls) \<and>
    world_after (launched_world port n) (launched (Suc n)) calls = launched_world port (Suc n)"
proof -
  let ?msg = "SendMessage 6 (MProcessLaunched (s32 (int n + 100)))"
  let ?calls = "[AllocStack n, Cloned (int n + 100), CloseFd 51, ?msg, CloseFd 50]"
  obtain a as where args: "rc_args c = a # as" using assms(2) by (cases "rc_args c") (auto simp: plain_command_def)
  have w: "rc_to_watch c = []" using assms(2) by (simp add: plain_command_def)
  obtain r where "r \<noteq> 0" "manager_add_process (int n + 100) (filled n) STDOUT_FILENO n (int n) = Inr (r, filled (Suc n))"
    using add_filled by blast
  then have "dispatch decode port ifd (OnMessage 6 (whole_frame buf) (nth_launch n) wos) (launched n) =
      Inr (launched (Suc n), ?calls)"
    using assms args w
    by (simp add: on_message_def read_whole_frame receive_message_from_user_c_def run_command_request_def receive_command_whole
        process_command_request_def extract_clone_parameters_def nth_launch_def first_arg_def handle_clone_event_def
        launch_process_c_def add_event_pipeExecve_def process_surveillance_requests_def launched_def)
  moreover have "interest (launched (Suc n)) = epoll_after (interest (launched (Suc n))) ?calls"
    by (simp add: launched_def listening_def)
  ultimately have "handle_event decode port ifd (OnMessage 6 (whole_frame buf) (nth_launch n) wos) (launched n) =
      Inr (launched (Suc n), ?calls)"
    by (simp add: handle_event_def launched_def)
  moreover have "world_after (launched_world port n) (launched (Suc n)) ?calls = launched_world port (Suc n)"
    by (auto simp: world_after_def launched_world_def)
  ultimately show ?thesis by blast
qed

lemma good_start_starts:
  "start_daemon good_start = Inr \<lparr>process_manager = filled 0, nb_process = 0, communication_socket = None,
     interest = listening, running = True\<rparr>"
proof -
  have "create_process_manager True (\<lambda>_. True) (int MAX_PROCESS) = Inr ([], Some (replicate MAX_PROCESS new_slot))"
    using alloc_slots_all [of "[]" MAX_PROCESS "\<lambda>_. True"] by (simp add: create_process_manager_def)
  then show ?thesis
    by (simp add: start_daemon_def establish_connection_def good_start_def add_event_inotifyFd_def add_event_signalFd_def listening_def filled_def)
qed

lemma reach_launched_0: "reach decode port ifd good_start (launched_world port 0)"
proof -
  let ?d = "\<lparr>process_manager = filled 0, nb_process = 0, communication_socket = None, interest = listening, running = True\<rparr>"
  have r: "reach decode port ifd good_start (first_world ?d)"
    by (rule reach_start [OF good_start_starts]) (simp_all add: good_start_def)
  let ?calls = "[EpollAdd (Ed_SOCK_MESSAGE 6), SendMessage 6 (MTCPSocketListening (u16 port))]"
  have "handle_event decode port ifd (OnConnexion 3 6 True True True) ?d = Inr (launched 0, ?calls)"
    by (simp add: handle_event_def on_connexion_def launched_def)
  with reach_step [OF r, of "OnConnexion 3 6 True True True" "launched 0" ?calls] show ?thesis
    by (simp add: first_world_def listening_def world_after_def launched_world_def)
qed

lemma launches_reach:
  assumes "decode buf = Some (whole (MRunCommand c))" and "plain_command (MRunCommand c)" and "buf \<noteq> []" and "length buf < 2 ^ 31"
    and "n \<le> 1000"
  shows "reach decode port ifd good_start (launched_world port n)"
  using assms(5)
proof (induction n)
  case 0
  show ?case by (rule reach_launched_0)
next
  case (Suc n)
  from next_launch [where decode = decode and buf = buf and n = n and wos = idle_watch, OF assms(1-4)] obtain calls where
    calls: "handle_event decode port ifd (OnMessage 6 (whole_frame buf) (nth_launch n) idle_watch) (launched n) =
      Inr (launched (Suc n), calls)"
      "world_after (launched_world port n) (launched (Suc n)) calls = launched_world port (Suc n)" by blast
  have "possible (launched_world port n) (OnMessage 6 (whole_frame buf) (nth_launch n) idle_watch)"
    using Suc.prems by (auto simp: launched_world_def launched_def launch_possible_def nth_launch_def)
  moreover have "reach decode port ifd good_start (launched_world port n)" using Suc by simp
  ultimately show ?case
    using reach_step [of decode port ifd good_start "launched_world port n"
        "OnMessage 6 (whole_frame buf) (nth_launch n) idle_watch" "launched (Suc n)" calls] calls
    by (simp add: launched_world_def launched_def)
qed

text \<open>A decoder that knows one command, for evaluation.\<close>

definition echo_run :: run_command where
  "echo_run = \<lparr>rc_path = [47, 101], rc_args = [[101]], rc_envp = [], rc_flags = 0, rc_stack_size = 4096, rc_to_watch = []\<rparr>"

definition echo_decoder :: decoder where
  "echo_decoder buf = (if buf = [1] then Some (whole (MRunCommand echo_run)) else None)"

lemma echo_reach: "n \<le> 1000 \<Longrightarrow> reach echo_decoder port ifd good_start (launched_world port n)"
  by (rule launches_reach [of _ "[1]" echo_run]) (simp_all add: echo_decoder_def plain_command_def echo_run_def)

lemma launched_world_simps [simp]:
  "w_daemon (launched_world port n) = launched n" "w_live (launched_world port n) = (\<lambda>i. int i + 100) ` {0..<n}"
  "w_heap (launched_world port n) = {0..<n}"
  "running (launched n)" "nb_process (launched n) = int n" "process_manager (launched n) = filled n"
  "interest (launched n) = listening @ [Ed_SOCK_MESSAGE 6]" "communication_socket (launched n) = Some 6"
  by (simp_all add: launched_world_def launched_def)

lemma card_launched: "card ((\<lambda>i. int i + 100) ` {0..<n}) = n"
  by (simp add: card_image inj_on_def)

end
