(* ===== verification/C_Daemon_Safety.thy ===== *)
theory C_Daemon_Safety
  imports C_Daemon_Launches
begin

text \<open>
  Properties of the C daemon: what holds in every world it reaches, when its handlers cannot go wrong, and
  the runs in which they do.
\<close>

section \<open>Children and stacks\<close>

text \<open>C6 (invariant).  In every world the C daemon reaches, \<^verbatim>\<open>nb_process\<close> is the number of children
  that have not been waited for; the table has 256 slots, the slots ever used come first, no stack is in two
  slots and every stack in the table is allocated; and every such child has an entry, unless all 256 slots
  have been in use.\<close>

theorem children_tracked:
  assumes "reach decode port ifd os w" and "running (w_daemon w)"
  shows "finite (w_live w) \<and> nb_process (w_daemon w) = int (card (w_live w)) \<and>
    table_ok (process_manager (w_daemon w)) \<and> stacks (entries (process_manager (w_daemon w))) \<subseteq> w_heap w \<and>
    (used_slots (process_manager (w_daemon w)) = MAX_PROCESS \<or> w_live w \<subseteq> fst ` entries (process_manager (w_daemon w)))"
  using reach_inv [OF assms] by (simp add: daemon_inv_def array.tracks_def)

theorem children_tracked_witness:
  "nb_process (w_daemon (launched_world 9090 2)) = int (card (w_live (launched_world 9090 2))) \<and>
     table_ok (process_manager (w_daemon (launched_world 9090 2)))"
  using children_tracked [OF echo_reach, of 2 9090] by simp

text \<open>C7 (safety).  Whatever the kernel reports next, a stack that the C daemon frees is allocated at that
  moment: no stack is freed twice.\<close>

theorem no_double_free:
  assumes "reach decode port ifd os w" and "running (w_daemon w)" and "possible w n"
    and "handle_event decode port ifd n (w_daemon w) = Inr (d, calls)"
  shows "frees_allocated (w_heap w) calls"
  using step_keeps(1) [OF reach_inv [OF assms(1,2)] assms(3,4)] .

theorem no_double_free_witness:
  "\<exists>d calls. handle_event echo_decoder 9090 4 (OnMessage 6 (whole_frame [1]) (nth_launch 2) idle_watch) (launched 2) =
     Inr (d, calls) \<and> frees_allocated {0..<2} calls"
proof -
  obtain calls where calls: "handle_event echo_decoder 9090 4 (OnMessage 6 (whole_frame [1]) (nth_launch 2) idle_watch) (launched 2) =
      Inr (launched (Suc 2), calls)"
    using next_launch [of echo_decoder "[1]" echo_run 9090 4 2 idle_watch]
    by (auto simp: echo_decoder_def plain_command_def echo_run_def)
  moreover have "possible (launched_world 9090 2) (OnMessage 6 (whole_frame [1]) (nth_launch 2) idle_watch)"
    by (auto simp: launch_possible_def nth_launch_def)
  ultimately show ?thesis
    using no_double_free [OF echo_reach, of 2 9090] by fastforce
qed

section \<open>When the handlers cannot go wrong\<close>

text \<open>The results the code relies on without a check: a complete frame, in it a request without absent fields
  whose command has an argument and whose surveillances have a known type, the allocations, pipes and registrations it
  does not test, an inotify mask with one of the four events.\<close>

definition plain_mask :: "inotify_record \<Rightarrow> bool" where
  "plain_mask r \<longleftrightarrow> bit (ir_mask r) 0 \<or> bit (ir_mask r) 1 \<or> bit (ir_mask r) 8 \<or> bit (ir_mask r) 9"

fun orderly :: "decoder \<Rightarrow> notification \<Rightarrow> bool" where
  "orderly decode (OnInotify fd sz rs) = (\<forall>r \<in> set rs. plain_mask r)"
| "orderly decode (OnSignal fd s) = True"
| "orderly decode (OnMessage fd sr los wos) = (read_socket_message sr \<noteq> None \<and> lo_pipe los \<noteq> None \<and>
     (\<forall>r. decode (sr_body sr) = Some r \<longrightarrow> complete_request r))"
| "orderly decode (OnConnexion fd con m1 m2 e) = (0 \<le> con \<and> m1 \<and> m2 \<and> e)"
| "orderly decode (OnExecve fd pid path n) = (n \<noteq> PipeError)"
| "orderly decode (OnHangUp e n data_fd) = (n \<noteq> PipeError)"

lemma plain_event: "plain_mask r \<Longrightarrow> \<exists>e fs. process_Event r sz ev = (Some e, fs)"
  by (auto simp: process_Event_def plain_mask_def Let_def)

lemma inotify_records_total: "\<forall>r \<in> set rs. plain_mask r \<Longrightarrow> \<exists>calls. handle_inotify_records sz sock ev rs = Inr calls"
proof (induction rs arbitrary: ev)
  case Nil
  then show ?case by simp
next
  case (Cons r rs)
  then obtain e fs where "process_Event r sz ev = (Some e, fs)" using plain_event [of r sz ev] by auto
  with Cons.IH [of "Some e"] Cons.prems show ?case by auto
qed

lemma free_slots_total:
  "used_first ps \<Longrightarrow> n \<le> used_slots ps \<Longrightarrow> \<exists>rs. free_slots i n ps = Inr rs"
proof (induction i n ps rule: free_slots.induct)
  case (3 i n p ps)
  then have p: "initialised p" and "used_first ps" "n \<le> used_slots ps" by (auto split: if_splits)
  with 3(1) obtain rs where "free_slots (Suc i) n ps = Inr rs" by auto
  with p show ?case by (auto simp: release_slot_def split: option.splits elim: initialisedE)
qed auto

lemma command_request_total:
  assumes t: "tracked d L H" and os: "\<And>s. lo_stack os = Some s \<Longrightarrow> s \<notin> H" "lo_clone os \<noteq> -1 \<Longrightarrow> lo_clone os \<notin> L"
    and pipe: "lo_pipe os \<noteq> None" and args: "com_args com \<noteq> Some []"
  shows "\<exists>y. process_command_request os sock com d = Inr y"
proof (cases "extract_clone_parameters os com")
  case None
  then show ?thesis by (simp add: process_command_request_def)
next
  case (Some param)
  with args obtain a as where a: "cp_args param = a # as"
    by (cases "cp_args param") (auto simp: extract_clone_parameters_def split: option.splits if_splits)
  obtain res cs where clone: "handle_clone_event os = Inr (res, cs)"
    using pipe by (cases "handle_clone_event os")
      (auto simp: handle_clone_event_def launch_process_c_def split: if_splits option.splits)
  show ?thesis
  proof (cases res)
    case None
    with Some a clone show ?thesis by (simp add: process_command_request_def first_arg_def Let_def)
  next
    case (Some i)
    with clone_calls [OF clone] have i: "lo_stack os = Some (ic_stack_p i)" "ic_child_id i = lo_clone os" "lo_clone os \<noteq> -1"
      by auto
    let ?file = "if lo_err_file os = -1 then STDOUT_FILENO else lo_err_file os"
    from array.tracks_launch [OF t os(2) [OF i(3)] os(1) [OF i(1)], of ?file] obtain r manager where
      "manager_add_process (lo_clone os) (process_manager d) ?file (ic_stack_p i) (nb_process d) = Inr (r, manager)" by blast
    with Some \<open>extract_clone_parameters os com = Some param\<close> a clone i(2) show ?thesis
      by (simp add: process_command_request_def first_arg_def)
  qed
qed

lemma kill_request_total: "tracked d L H \<Longrightarrow> nb_process d \<le> int MAX_PROCESS \<Longrightarrow> \<exists>y. kill_request pid d = Inr y"
proof -
  assume t: "tracked d L H" and "nb_process d \<le> int MAX_PROCESS"
  then have "nat (nb_process d) \<le> used_slots (process_manager d)" "used_first (process_manager d)"
    using array.tracks_used [OF t] by (auto simp: array.tracks_def table_ok_def)
  from free_slots_total [OF this(2,1), of 0] show ?thesis by (auto simp: kill_request_def free_manager_def)
qed


lemma complete_watches:
  "\<forall>w \<in> set ws. complete_watch w \<Longrightarrow> \<exists>vs. mapE c_watch ws = Inr (map Some vs)"
proof (induction ws)
  case (Cons w ws)
  then obtain vs where vs: "mapE c_watch ws = Inr (map Some vs)" by auto
  obtain v where "c_watch w = Inr (Some v)" using Cons.prems by (cases w) (auto split: option.splits)
  with vs show ?case by (intro exI [of _ "v # vs"]) simp
qed simp

lemma complete_received:
  assumes "receive_message_from_user_c decode buf sz = RUN_COMMAND" and "\<forall>r. decode buf = Some r \<longrightarrow> complete_request r"
  shows "\<exists>com ws. receive_command_c decode buf sz = Inr (Some com) \<and> com_args com \<noteq> Some [] \<and> com_to_watch com = map Some ws"
proof -
  from assms obtain c where c: "decode buf = Some (RunRequest (Some c))" "0 < sz" "complete_command c"
    by (auto simp: receive_message_from_user_c_def split: if_splits option.splits request.splits)
  obtain ws where "(case raw_to_watch c of None \<Rightarrow> Inr [] | Some ws \<Rightarrow> mapE c_watch ws) = Inr (map Some ws)"
  proof (cases "raw_to_watch c")
    case None
    then show ?thesis by (intro that [of "[]"]) simp
  next
    case (Some ws)
    with c(3) complete_watches [of ws] that show ?thesis by (auto simp: complete_command_def)
  qed
  with c show ?thesis by (auto simp: receive_command_c_def complete_command_def)
qed

lemma on_message_total:
  assumes t: "tracked d L H" and nb: "nb_process d \<le> int MAX_PROCESS"
    and los: "\<And>s. lo_stack los = Some s \<Longrightarrow> s \<notin> H" "lo_clone los \<noteq> -1 \<Longrightarrow> lo_clone los \<notin> L"
    and ok: "orderly decode (OnMessage fd sr los wos)"
  shows "\<exists>y. on_message decode ifd fd sr los wos d = Inr y"
proof -
  from ok obtain sz where sr: "read_socket_message sr = Some (sr_body sr, sz)" and pipe: "lo_pipe los \<noteq> None"
    by (auto simp: read_socket_message_def Let_def split: if_splits)
  show ?thesis
  proof (cases "receive_message_from_user_c decode (sr_body sr) sz = RUN_COMMAND")
    case True
    with ok obtain com ws where com: "receive_command_c decode (sr_body sr) sz = Inr (Some com)" "com_args com \<noteq> Some []"
        "com_to_watch com = map Some ws" using complete_received by fastforce
    from command_request_total [OF t los pipe com(2), of fd] sr True com(1,3) show ?thesis
      by (auto simp: on_message_def run_command_request_def process_surveillance_requests_def)
  next
    case False
    have "\<exists>y. bindE (receive_kill_c decode (sr_body sr) sz) (\<lambda>pid. kill_request pid d) = Inr y"
      using kill_request_total [OF t nb] ok by (auto simp: receive_kill_c_def deref_def split: option.splits request.splits)
    with False sr show ?thesis by (auto simp: on_message_def split: Event.splits)
  qed
qed

lemma on_signal_total:
  assumes t: "tracked (w_daemon w) (w_live w) (w_heap w)" and nb: "nb_process (w_daemon w) \<le> int MAX_PROCESS"
    and s: "signal_possible w s" and con: "w_live w = {} \<or> communication_socket (w_daemon w) \<noteq> None"
  shows "\<exists>y. on_signal s (w_daemon w) = Inr y"
proof (cases "\<exists>pid st. s = SigInfo SIGCHLD pid st")
  case True
  then obtain pid st where s': "s = SigInfo SIGCHLD pid st" by blast
  with s con obtain sock where st: "st \<noteq> WFailed" "communication_socket (w_daemon w) = Some sock"
    by (auto simp: signal_possible_def)
  then obtain e where e: "exit_status st = Some e" by (cases st) (auto simp: exit_status_def)
  obtain r m rs where "manager_remove_process pid (process_manager (w_daemon w)) (nb_process (w_daemon w)) = Inr (r, m, rs)"
    using array.tracks_exit_total [OF t nb, of pid] by auto
  with s' st e show ?thesis by (simp add: on_signal_def handle_signalfd_event_def handle_SIGCHLD_def)
next
  case False
  then show ?thesis by (auto simp: on_signal_def handle_signalfd_event_def split: signal_read.splits)
qed




section \<open>When they do\<close>

lemma empty_args_fault:
  assumes "decode buf = Some (whole (MRunCommand c))" and "rc_args c = []" and "buf \<noteq> []" and "length buf < 2147483648" and "lo_param_malloc los"
  shows "handle_event decode port ifd (OnMessage fd (whole_frame buf) los wos) d = Inl OutOfBounds"
  using assms
  by (simp add: handle_event_def on_message_def read_whole_frame receive_message_from_user_c_def run_command_request_def
      receive_command_whole process_command_request_def extract_clone_parameters_def first_arg_def)

lemma absent_fields_fault:
  assumes "decode buf = Some (RunRequest r)" and "\<forall>c. r = Some c \<longrightarrow> raw_path c = None \<or> raw_args c = None \<or> raw_envp c = None"
    and "buf \<noteq> []" and "length buf < 2147483648"
  shows "handle_event decode port ifd (OnMessage fd (whole_frame buf) los wos) d = Inl NullPointer"
proof -
  have "receive_command_c decode buf (int (length buf)) = Inl NullPointer"
    using assms(1-3) by (auto simp: receive_command_c_def bindE_def deref_def split: option.splits)
  with assms show ?thesis
    by (simp add: handle_event_def on_message_def read_whole_frame receive_message_from_user_c_def run_command_request_def)
qed

text \<open>C36 (error).  Requests with which the C daemon leaves what C defines, in every state.  When a client closes its connection,
  \<^verbatim>\<open>read\<close> returns fewer than four bytes, \<^verbatim>\<open>read_socket_message\<close> returns \<^verbatim>\<open>NULL\<close> and the daemon
  dereferences it; the same happens when a message arrives in two pieces or announces a negative size.  A
  command that the verifier accepts but that lacks its path, its arguments or its environment is
  dereferenced as well.  And a command with no arguments makes it read \<^verbatim>\<open>args[0]\<close> of an empty array,
  before anything is started.\<close>

theorem malformed_requests_fault:
  "(length (sr_head sr) < 4 \<or> int (length (sr_body sr)) \<noteq> s32 (int (le_nat (sr_head sr))) \<longrightarrow>
     handle_event decode port ifd (OnMessage fd sr los wos) d = Inl NullPointer) \<and>
   (decode buf = Some (whole (MRunCommand c)) \<and> rc_args c = [] \<and> buf \<noteq> [] \<and> length buf < 2147483648 \<and> lo_param_malloc los \<longrightarrow>
     handle_event decode port ifd (OnMessage fd (whole_frame buf) los wos) d = Inl OutOfBounds) \<and>
   (decode buf = Some (RunRequest r) \<and> (\<forall>c. r = Some c \<longrightarrow> raw_path c = None \<or> raw_args c = None \<or> raw_envp c = None) \<and>
      buf \<noteq> [] \<and> length buf < 2147483648 \<longrightarrow>
     handle_event decode port ifd (OnMessage fd (whole_frame buf) los wos) d = Inl NullPointer)"
proof (intro conjI impI)
  assume "length (sr_head sr) < 4 \<or> int (length (sr_body sr)) \<noteq> s32 (int (le_nat (sr_head sr)))"
  then show "handle_event decode port ifd (OnMessage fd sr los wos) d = Inl NullPointer"
    by (auto simp: handle_event_def on_message_def read_socket_message_def Let_def)
next
  assume "decode buf = Some (whole (MRunCommand c)) \<and> rc_args c = [] \<and> buf \<noteq> [] \<and> length buf < 2147483648 \<and> lo_param_malloc los"
  then show "handle_event decode port ifd (OnMessage fd (whole_frame buf) los wos) d = Inl OutOfBounds"
    by (blast intro: empty_args_fault)
next
  assume "decode buf = Some (RunRequest r) \<and> (\<forall>c. r = Some c \<longrightarrow> raw_path c = None \<or> raw_args c = None \<or> raw_envp c = None) \<and>
      buf \<noteq> [] \<and> length buf < 2147483648"
  then show "handle_event decode port ifd (OnMessage fd (whole_frame buf) los wos) d = Inl NullPointer"
    by (blast intro: absent_fields_fault)
qed

theorem malformed_requests_fault_witness:
  "handle_event echo_decoder 9090 4 (OnMessage 6 \<lparr>sr_info_malloc = True, sr_head = [], sr_buffer_malloc = True, sr_body = []\<rparr>
     (nth_launch 0) idle_watch) (launched 1) = Inl NullPointer \<and>
   handle_event (\<lambda>_. Some (whole (MRunCommand (echo_run\<lparr>rc_args := []\<rparr>)))) 9090 4
     (OnMessage 6 (whole_frame [1]) (nth_launch 0) idle_watch) (launched 0) = Inl OutOfBounds"
  using malformed_requests_fault [of "\<lparr>sr_info_malloc = True, sr_head = [], sr_buffer_malloc = True, sr_body = []\<rparr>" echo_decoder 9090 4 6
      "nth_launch 0" idle_watch "launched 1" "[1]"]
    malformed_requests_fault [of "\<lparr>sr_info_malloc = True, sr_head = [], sr_buffer_malloc = True, sr_body = []\<rparr>"
      "\<lambda>_. Some (whole (MRunCommand (echo_run\<lparr>rc_args := []\<rparr>)))" 9090 4 6 "nth_launch 0" idle_watch "launched 0" "[1]"]
  by (simp add: nth_launch_def)

lemma remove_from_beyond:
  "\<forall>p \<in> set ps. \<exists>c. child_id p = Some c \<and> c \<noteq> pid \<Longrightarrow> length ps < n \<Longrightarrow> remove_from pid n ps = Inl OutOfBounds"
proof (induction pid n ps rule: remove_from.induct)
  case (3 pid n p ps)
  then obtain c where "child_id p = Some c" "c \<noteq> pid" by auto
  with 3 show ?case by simp
qed auto

text \<open>C34 (bounds).  The table of the C daemon has 256 slots, but its counter is also incremented for a child
  that found no slot (\<^verbatim>\<open>manager_add_process\<close> reports the failure by -1, which is true in C).  A client that
  starts 257 children, with any command that has arguments, brings the daemon into a world where the exit of
  the last child makes it read beyond the table.\<close>

theorem child_257_overflows:
  assumes "decode buf = Some (whole (MRunCommand c))" and "rc_args c \<noteq> []" and "rc_to_watch c = []" and "buf \<noteq> []"
    and "length buf < 2147483648"
  shows "\<exists>w n. reach decode port ifd good_start w \<and> running (w_daemon w) \<and> card (w_live w) = 257 \<and> possible w n \<and>
    orderly decode n \<and> handle_event decode port ifd n (w_daemon w) = Inl OutOfBounds"
proof (intro exI conjI)
  let ?n = "OnSignal 5 (SigInfo SIGCHLD 356 (WExited 0))"
  let ?w = "launched_world port 257"
  show "reach decode port ifd good_start ?w"
    using assms by (intro launches_reach [of decode buf c]) (auto simp: plain_command_def)
  show "running (w_daemon ?w)" by simp
  show "card (w_live ?w) = 257" by (simp only: launched_world_simps card_launched)
  show "possible ?w ?n" by (auto simp: listening_def signal_possible_def image_iff intro!: bexI [of _ 256])
  show "orderly decode ?n" by simp
  have filled: "filled 257 = map child_slot [0..<256]" by (simp add: filled_def MAX_PROCESS_def)
  have "remove_from 356 257 (filled 257) = Inl OutOfBounds"
    by (rule remove_from_beyond) (auto simp: filled child_slot_def)
  then show "handle_event decode port ifd ?n (w_daemon ?w) = Inl OutOfBounds"
    by (simp add: handle_event_def on_signal_def handle_signalfd_event_def handle_SIGCHLD_def exit_status_def
        manager_remove_process_def)
qed

theorem child_257_overflows_witness:
  "\<exists>w n. reach echo_decoder 9090 4 good_start w \<and> card (w_live w) = 257 \<and>
     handle_event echo_decoder 9090 4 n (w_daemon w) = Inl OutOfBounds"
  using child_257_overflows [of echo_decoder "[1]" echo_run 9090 4] by (auto simp: echo_decoder_def echo_run_def)

text \<open>The scan for an ended child covers only the first \<^verbatim>\<open>nb_process\<close> slots.  When of two
  children the one in slot 0 ends first and then the other, the second is not found: its slot stays occupied,
  its stack is not freed and its file not closed although the counter is back at 0.\<close>

theorem second_exit_leaks:
  assumes "process_manager d = \<lparr>stack_p = Some s1, child_id = Some p, err_file = Some f1\<rparr> #
      \<lparr>stack_p = Some s2, child_id = Some q, err_file = Some f2\<rparr> # rest"
    and "nb_process d = 2" and "p \<noteq> q"
  shows "\<exists>d1 calls1 m1 d2 m2. handle_SIGCHLD p (WExited 0) d = Inr (d1, calls1, m1) \<and>
    Release (FreeStack s1) \<in> set calls1 \<and>
    handle_SIGCHLD q (WExited 0) d1 = Inr (d2, [Waited q], m2) \<and> nb_process d2 = 0 \<and>
    process_manager d2 ! 1 = \<lparr>stack_p = Some s2, child_id = Some q, err_file = Some f2\<rparr>"
  using assms
  by (simp add: handle_SIGCHLD_def exit_status_def manager_remove_process_def clear_slot_def free_stack_def numeral_eq_Suc)

theorem second_exit_leaks_witness:
  "\<exists>d1 calls1 m1 d2 m2. handle_SIGCHLD 100 (WExited 0) (launched 2) = Inr (d1, calls1, m1) \<and>
     handle_SIGCHLD 101 (WExited 0) d1 = Inr (d2, [Waited 101], m2) \<and> nb_process d2 = 0 \<and> occupied (process_manager d2 ! 1)"
proof -
  have "filled 2 = \<lparr>stack_p = Some 0, child_id = Some 100, err_file = Some 1\<rparr> #
      \<lparr>stack_p = Some 1, child_id = Some 101, err_file = Some 1\<rparr> # replicate 254 new_slot"
    by (simp add: filled_def MAX_PROCESS_def child_slot_def upt_rec STDOUT_FILENO_def)
  then have slots: "process_manager (launched 2) = \<lparr>stack_p = Some 0, child_id = Some 100, err_file = Some 1\<rparr> #
      \<lparr>stack_p = Some 1, child_id = Some 101, err_file = Some 1\<rparr> # replicate 254 new_slot" by simp
  have "nb_process (launched 2) = 2" "(100 :: int) \<noteq> 101" by simp_all
  from second_exit_leaks [OF slots this] show ?thesis by (fastforce simp: occupied_def)
qed


section \<open>Launch and exit\<close>

lemma remove_from_append:
  "\<forall>p \<in> set ps. \<exists>c. child_id p = Some c \<and> c \<noteq> pid \<Longrightarrow>
   remove_from pid (length ps + n) (ps @ qs) = bindE (remove_from pid n qs) (\<lambda>(r, qs', rs). Inr (r, ps @ qs', rs))"
  by (induction ps) (auto simp: bindE_assoc split: prod.splits intro!: arg_cong2 [of _ _ _ _ bindE] ext)

lemma entry_list_append [simp]: "entry_list (xs @ ys) = entry_list xs @ entry_list ys"
  by (simp add: entry_list_def)

text \<open>When the occupied slots are exactly the first \<^verbatim>\<open>nb_process\<close> ones, adding a child
  and removing it right after (with the counter incremented in between) succeeds, frees its stack, closes its
  error file unless that is the standard output, and leaves the entries of the table as they were.\<close>

theorem launch_exit_roundtrip:
  assumes "length (xs @ free # ys) = MAX_PROCESS"
    and "\<forall>p \<in> set xs. occupied p \<and> (\<exists>c. child_id p = Some c \<and> c \<noteq> pid)" and "\<not> occupied free"
  shows "\<exists>ps1 ps2. manager_add_process pid (xs @ free # ys) file stack (int (length xs)) = Inr (1, ps1) \<and>
    manager_remove_process pid ps1 (int (length xs) + 1) =
      Inr (0, ps2, FreeStack stack # (if file \<noteq> STDOUT_FILENO then [CloseFile file] else [])) \<and>
    entries ps1 = insert (pid, stack, file) (entries (xs @ free # ys)) \<and> entries ps2 = entries (xs @ free # ys)"
proof -
  let ?q = "\<lparr>stack_p = Some stack, child_id = Some pid, err_file = Some file\<rparr>"
  have len: "MAX_PROCESS = length xs + Suc (length ys)" using assms(1) by simp
  have "stack_p free = None" using assms(3) by (simp add: occupied_def)
  then have "manager_add_process pid (xs @ free # ys) file stack (int (length xs)) = Inr (1, xs @ ?q # ys)"
    using assms(2) unfolding manager_add_process_def len by (subst add_from_append) simp_all
  moreover have "remove_from pid (length xs + Suc 0) (xs @ ?q # ys) =
      Inr (0, xs @ ?q\<lparr>stack_p := None\<rparr> # ys, FreeStack stack # (if file \<noteq> STDOUT_FILENO then [CloseFile file] else []))"
    using assms(2) by (subst remove_from_append) (simp_all add: clear_slot_def free_stack_def)
  then have "manager_remove_process pid (xs @ ?q # ys) (int (length xs) + 1) =
      Inr (0, xs @ ?q\<lparr>stack_p := None\<rparr> # ys, FreeStack stack # (if file \<noteq> STDOUT_FILENO then [CloseFile file] else []))"
    by (simp add: manager_remove_process_def nat_add_distrib)
  moreover have "entries (xs @ ?q # ys) = insert (pid, stack, file) (entries (xs @ free # ys))"
    "entries (xs @ ?q\<lparr>stack_p := None\<rparr> # ys) = entries (xs @ free # ys)"
    using assms(3) by (auto simp: entries_def occupied_def entry_of_def)
  ultimately show ?thesis by blast
qed

theorem launch_exit_roundtrip_witness:
  "\<exists>ps1 ps2. manager_add_process 42 (replicate MAX_PROCESS new_slot) 7 1000 0 = Inr (1, ps1) \<and>
     manager_remove_process 42 ps1 1 = Inr (0, ps2, [FreeStack 1000, CloseFile 7]) \<and> entries ps2 = {}"
proof -
  have "replicate MAX_PROCESS new_slot = [] @ new_slot # replicate 255 new_slot"
    by (simp add: MAX_PROCESS_def numeral_eq_Suc)
  with launch_exit_roundtrip [of "[]" new_slot "replicate 255 new_slot" 42 7 1000] new_table_ok(2) [of MAX_PROCESS] show ?thesis
    by (auto simp: MAX_PROCESS_def STDOUT_FILENO_def)
qed

section \<open>Watched files\<close>

text \<open>A watch without size limit is registered with the limit 0, and a modification is compared
  with it: the C daemon reports the modification of a file that is not empty as \<open>SIZE_REACHED\<close>, never as
  \<open>MODIFIED\<close>.  The same holds for a file it cannot find, with the size 4294967295.\<close>

theorem modification_reported_as_size_reached:
  assumes "bit (ir_mask r) 1" and "ir_file_size r \<noteq> 0" and "-1 \<le> ir_file_size r" and "ir_file_size r \<le> 2147483647"
  shows "on_inotify 0 [r] (d\<lparr>communication_socket := Some sock\<rparr>) = Inr (d\<lparr>communication_socket := Some sock\<rparr>,
    [SendMessage sock (MInotifyPathUpdated (ir_name r) (InotifyEvent_value SIZE_REACHED)
       (if ir_file_size r = -1 then 4294967295 else ir_file_size r) 0)])"
proof -
  have "u32 (ir_file_size r) = (if ir_file_size r = -1 then 4294967295 else ir_file_size r)"
    using assms(3,4) by (auto simp: u32_def)
  with assms show ?thesis
    by (auto simp: on_inotify_def handle_inotify_event_def process_Event_def u32_def [of 0])
qed

theorem modification_reported_as_size_reached_witness:
  "on_inotify 0 [\<lparr>ir_mask = 2, ir_name = [97], ir_file_size = 12\<rparr>] (launched 0) =
     Inr (launched 0, [SendMessage 6 (MInotifyPathUpdated [97] 2 12 0)])"
proof -
  have "bit (2 :: 32 word) 1" by (simp add: bit_iff_odd)
  then have "on_inotify 0 [\<lparr>ir_mask = 2, ir_name = [97], ir_file_size = 12\<rparr>] ((launched 0)\<lparr>communication_socket := Some 6\<rparr>) =
      Inr ((launched 0)\<lparr>communication_socket := Some 6\<rparr>, [SendMessage 6 (MInotifyPathUpdated [97] 2 12 0)])"
    using modification_reported_as_size_reached [of "\<lparr>ir_mask = 2, ir_name = [97], ir_file_size = 12\<rparr>" 6 "launched 0"] by simp
  moreover have "(launched 0)\<lparr>communication_socket := Some 6\<rparr> = launched 0" by (simp add: launched_def)
  ultimately show ?thesis by (simp only:)
qed

end
