(* ===== verification/C_Daemon_Protocol.thy ===== *)
theory C_Daemon_Protocol
  imports C_Daemon_Safety
begin

text \<open>
  What the C daemon sends: which messages the handler of each report of the kernel can send, and that no report about
  a child precedes the report of its launch.
\<close>

section \<open>The messages of each handler\<close>

lemma conversions_range [simp]: "nf_range Uint16Flags (u16 x)" "nf_range Uint32Flags (u32 x)" "nf_range Int32Flags (s32 x)"
proof -
  have "x mod 65536 < 65536" "x mod 4294967296 < 4294967296" "(x + 2147483648) mod 4294967296 < 4294967296" by simp_all
  then show "nf_range Uint16Flags (u16 x)" "nf_range Uint32Flags (u32 x)" "nf_range Int32Flags (s32 x)"
    by (auto simp: u16_def u32_def s32_def)
qed

lemma messages_of_append [simp]: "messages_of (xs @ ys) = messages_of xs @ messages_of ys"
  by (induction xs rule: messages_of.induct) auto

lemma messages_of_release [simp]: "messages_of (map Release rs) = []"
  by (induction rs) auto

lemma messages_of_iff: "m \<in> set (messages_of calls) \<longleftrightarrow> (\<exists>sock. SendMessage sock m \<in> set calls)"
  by (induction calls rule: messages_of.induct) auto

lemma surveillance_messages:
  "m \<in> set (messages_of (watch_calls ifd sock wos i ws)) \<Longrightarrow>
     (\<exists>path. m = MInotifyWatchListUpdated path) \<or> (\<exists>port. m = MSocketWatched (s32 port))"
proof (induction ws arbitrary: i)
  case (Cons w ws)
  then show ?case by (cases w) (auto simp: add_event_inotifyFd_def split: if_splits)
qed simp

lemma process_Event_size: "process_Event r sz ev = (ev', fs) \<Longrightarrow> nf_range Uint32Flags fs"
  by (auto simp: process_Event_def Let_def simp del: nf_range.simps split: if_splits)

lemma inotify_messages:
  "handle_inotify_records sz sock ev rs = Inr calls \<Longrightarrow> m \<in> set (messages_of calls) \<Longrightarrow>
     \<exists>path e fs l. m = MInotifyPathUpdated path (InotifyEvent_value e) fs l \<and> nf_range Uint32Flags fs \<and> l = u32 sz"
proof (induction rs arbitrary: ev calls)
  case (Cons r rs)
  obtain ev' fs where ev': "process_Event r sz ev = (ev', fs)" by fastforce
  with Cons.prems(1) obtain e calls' where e: "ev' = Some e" "handle_inotify_records sz sock ev' rs = Inr calls'"
      "calls = SendMessage sock (MInotifyPathUpdated (ir_name r) (InotifyEvent_value e) fs (u32 sz)) # calls'"
    by (cases ev') (auto simp: bindE_eq_Inr)
  with Cons.prems(2) Cons.IH [OF e(2)] process_Event_size [OF ev'] show ?case by fastforce
qed simp

lemma launch_messages:
  assumes "process_command_request os sock com d = Inr (d', calls)" and "m \<in> set (messages_of calls)"
  shows "(\<exists>e. m = MChildCreationError (u32 e)) \<or> (\<exists>pid. m = MProcessLaunched (s32 pid))"
proof (cases "extract_clone_parameters os com")
  case None
  with assms show ?thesis by (auto simp: process_command_request_def)
next
  case (Some param)
  with assms obtain res cs where clone: "handle_clone_event os = Inr (res, cs)"
    by (auto simp: process_command_request_def bindE_eq_Inr Let_def)
  with clone_calls [OF this] Some assms show ?thesis
    by (auto simp: process_command_request_def bindE_eq_Inr Let_def add_event_pipeExecve_def split: option.splits if_splits)
qed

text \<open>The messages of a handler, by kind of report.\<close>

fun reports :: "notification \<Rightarrow> message \<Rightarrow> bool" where
  "reports (OnInotify fd sz rs) m = (\<exists>path e fs. m = MInotifyPathUpdated path (InotifyEvent_value e) fs (u32 sz) \<and> nf_range Uint32Flags fs)"
| "reports (OnSignal fd s) m = (\<exists>pid st e. s = SigInfo SIGCHLD pid st \<and> m = MProcessTerminated (s32 pid) (u32 e))"
| "reports (OnMessage fd sr los wos) m = ((\<exists>e. m = MChildCreationError (u32 e)) \<or> (\<exists>pid. m = MProcessLaunched (s32 pid)) \<or>
     (\<exists>path. m = MInotifyWatchListUpdated path) \<or> (\<exists>port. m = MSocketWatched (s32 port)))"
| "reports (OnConnexion fd con m1 m2 e) m = (\<exists>port. m = MTCPSocketListening (u16 port))"
| "reports (OnExecve fd pid path n) m = (\<exists>ok. m = MExecveTerminated (s32 pid) path ok)"
| "reports (OnHangUp ed n data_fd) m = (\<exists>fd pid path ok. ed = Ed_EXECVE fd pid path \<and> m = MExecveTerminated (s32 pid) path ok)"

lemma execve_messages:
  "on_execve fd pid path n d = Inr (d', calls) \<Longrightarrow> m \<in> set (messages_of calls) \<Longrightarrow> \<exists>ok. m = MExecveTerminated (s32 pid) path ok"
  by (auto simp: on_execve_def bindE_eq_Inr)

lemma message_messages:
  assumes "on_message decode ifd fd sr los wos d = Inr (d', calls)" and "m \<in> set (messages_of calls)"
  shows "reports (OnMessage fd sr los wos) m"
proof -
  from assms(1) obtain buf sz where buf: "read_socket_message sr = Some (buf, sz)"
    by (auto simp: on_message_def split: option.splits)
  show ?thesis
  proof (cases "sz \<noteq> 0 \<and> receive_message_from_user_c decode buf sz = RUN_COMMAND")
    case True
    with assms(1) buf have "run_command_request decode ifd fd buf sz los wos d = Inr (d', calls)" by (simp add: on_message_def)
    then obtain com cs ws where com: "process_command_request los fd com d = Inr (d', cs)" "calls = cs @ watch_calls ifd fd wos 0 ws"
      by (rule run_command_InrE)
    then show ?thesis
      using assms(2) launch_messages [OF com(1)] surveillance_messages
      by fastforce
  next
    case False
    with assms buf show ?thesis
      by (auto simp: on_message_def kill_request_def bindE_eq_Inr split: if_splits Event.splits)
  qed
qed

lemma dispatch_messages:
  assumes "dispatch decode port ifd n d = Inr (d', calls)" and "m \<in> set (messages_of calls)"
  shows "reports n m"
proof (cases n)
  case (OnInotify fd sz rs)
  with assms show ?thesis
    using inotify_messages by (fastforce simp: on_inotify_def handle_inotify_event_def bindE_eq_Inr simp del: nf_range.simps)
next
  case (OnSignal fd s)
  with assms show ?thesis
    by (auto simp: on_signal_def handle_signalfd_event_def handle_SIGCHLD_def bindE_eq_Inr
        split: signal_read.splits if_splits option.splits) blast
next
  case (OnMessage fd sr los wos)
  with assms show ?thesis using message_messages by simp
next
  case (OnConnexion fd con m1 m2 e)
  with assms show ?thesis by (auto simp: on_connexion_def split: if_splits)
next
  case (OnExecve fd pid path n)
  with assms show ?thesis using execve_messages by simp
next
  case (OnHangUp ed n data_fd)
  with assms show ?thesis using execve_messages by (fastforce simp: on_hang_up_def split: event_data.splits)
qed

section \<open>A child is announced before it is reported\<close>

definition announced :: "message list \<Rightarrow> int \<Rightarrow> bool" where
  "announced sent pid \<longleftrightarrow> 0 < pid \<and> pid \<le> 2147483647 \<and> MProcessLaunched pid \<in> set sent"

definition all_announced :: "world \<Rightarrow> bool" where
  "all_announced w \<longleftrightarrow> (\<forall>pid \<in> w_live w. announced (w_sent w) pid) \<and>
     (\<forall>fd pid path. Ed_EXECVE fd pid path \<in> set (interest (w_daemon w)) \<longrightarrow> announced (w_sent w) pid)"

lemma all_announcedD:
  "all_announced w \<Longrightarrow> pid \<in> w_live w \<Longrightarrow> announced (w_sent w) pid"
  "all_announced w \<Longrightarrow> Ed_EXECVE fd pid path \<in> set (interest (w_daemon w)) \<Longrightarrow> announced (w_sent w) pid"
  by (auto simp: all_announced_def)

lemma live_after_subset: "pid \<in> live_after L calls \<Longrightarrow> pid \<in> L \<or> Cloned pid \<in> set calls"
  by (induction L calls rule: live_after.induct) auto

text \<open>The calls that make a pid known.\<close>

definition introduces :: "call list \<Rightarrow> int \<Rightarrow> bool" where
  "introduces calls pid \<longleftrightarrow> Cloned pid \<in> set calls \<or> (\<exists>fd path. EpollAdd (Ed_EXECVE fd pid path) \<in> set calls)"

lemma surveillance_introduces: "\<not> introduces (watch_calls ifd sock wos i ws) pid"
proof (induction ws arbitrary: i)
  case (Cons w ws)
  then show ?case by (cases w) (auto simp: introduces_def add_event_inotifyFd_def split: if_splits)
qed (simp add: introduces_def)

lemma launch_introduces:
  assumes "process_command_request os sock com d = Inr (d', calls)" and "introduces calls pid"
  shows "pid = lo_clone os \<and> pid \<noteq> -1 \<and> MProcessLaunched (s32 pid) \<in> set (messages_of calls)"
proof (cases "extract_clone_parameters os com")
  case None
  with assms show ?thesis by (auto simp: process_command_request_def introduces_def)
next
  case (Some param)
  with assms(1) obtain res cs where clone: "handle_clone_event os = Inr (res, cs)"
    by (auto simp: process_command_request_def bindE_eq_Inr Let_def)
  with clone_calls [OF this] Some assms show ?thesis
    by (auto simp: process_command_request_def introduces_def bindE_eq_Inr Let_def add_event_pipeExecve_def
        split: option.splits if_splits)
qed

lemma message_introduces:
  assumes "on_message decode ifd fd sr los wos d = Inr (d', calls)" and "introduces calls pid"
  shows "pid = lo_clone los \<and> pid \<noteq> -1 \<and> MProcessLaunched (s32 pid) \<in> set (messages_of calls)"
proof -
  from assms(1) obtain buf sz where buf: "read_socket_message sr = Some (buf, sz)"
    by (auto simp: on_message_def split: option.splits)
  show ?thesis
  proof (cases "sz \<noteq> 0 \<and> receive_message_from_user_c decode buf sz = RUN_COMMAND")
    case True
    with assms(1) buf have "run_command_request decode ifd fd buf sz los wos d = Inr (d', calls)" by (simp add: on_message_def)
    then obtain com cs ws where com: "process_command_request los fd com d = Inr (d', cs)" "calls = cs @ watch_calls ifd fd wos 0 ws"
      by (rule run_command_InrE)
    moreover from assms(2) com(2) have "introduces cs pid"
      using surveillance_introduces [of ifd fd wos 0 ws pid] by (auto simp: introduces_def)
    ultimately show ?thesis using launch_introduces by fastforce
  next
    case False
    with assms buf show ?thesis
      by (auto simp: on_message_def kill_request_def introduces_def bindE_eq_Inr split: if_splits Event.splits)
  qed
qed

lemma inotify_only_sends:
  "handle_inotify_records sz sock ev rs = Inr calls \<Longrightarrow> c \<in> set calls \<Longrightarrow> \<exists>m. c = SendMessage sock m"
proof (induction rs arbitrary: ev calls)
  case (Cons r rs)
  then show ?case by (auto simp: bindE_eq_Inr split: prod.splits)
qed simp

lemma dispatch_introduces:
  assumes "dispatch decode port ifd n d = Inr (d', calls)" and "introduces calls pid"
  shows "\<exists>fd sr los wos. n = OnMessage fd sr los wos \<and> pid = lo_clone los \<and> pid \<noteq> -1 \<and>
    MProcessLaunched (s32 pid) \<in> set (messages_of calls)"
proof (cases n)
  case (OnInotify fd sz rs)
  with assms obtain sock where "handle_inotify_records sz sock None rs = Inr calls"
    by (auto simp: on_inotify_def handle_inotify_event_def bindE_eq_Inr)
  from inotify_only_sends [OF this] assms(2) show ?thesis by (force simp: introduces_def)
next
  case (OnSignal fd s)
  with assms show ?thesis
    by (auto simp: on_signal_def handle_signalfd_event_def handle_SIGCHLD_def introduces_def bindE_eq_Inr
        split: signal_read.splits if_splits option.splits)
next
  case (OnMessage fd sr los wos)
  with assms show ?thesis using message_introduces by simp
next
  case (OnConnexion fd con m1 m2 e)
  with assms show ?thesis by (auto simp: on_connexion_def introduces_def split: if_splits)
next
  case (OnExecve fd pid path n)
  with assms show ?thesis by (auto simp: on_execve_def introduces_def bindE_eq_Inr)
next
  case (OnHangUp ed n data_fd)
  with assms show ?thesis by (auto simp: on_hang_up_def on_execve_def introduces_def bindE_eq_Inr split: event_data.splits)
qed


lemma announced_more: "announced sent pid \<Longrightarrow> announced (sent @ ms) pid"
  by (simp add: announced_def)

lemma step_announces:
  assumes all: "all_announced w" and n: "possible w n"
    and res: "handle_event decode port ifd n (w_daemon w) = Inr (d, calls)"
  shows "all_announced (world_after w d calls)"
proof -
  from res obtain d1 where d1: "dispatch decode port ifd n (w_daemon w) = Inr (d1, calls)"
      "d = d1\<lparr>interest := epoll_after (interest d1) calls\<rparr>" by (auto simp: handle_event_def bindE_eq_Inr)
  have new: "announced (w_sent w @ messages_of calls) pid" if "introduces calls pid" for pid
  proof -
    from dispatch_introduces [OF d1(1) that] obtain fd sr los wos where
      m: "n = OnMessage fd sr los wos" "pid = lo_clone los" "pid \<noteq> -1" "MProcessLaunched (s32 pid) \<in> set (messages_of calls)"
      by blast
    with n have "0 < pid" "pid \<le> 2147483647" by (auto simp: launch_possible_def)
    with m(4) show ?thesis by (simp add: announced_def s32_id)
  qed
  have "announced (w_sent w @ messages_of calls) pid" if "pid \<in> live_after (w_live w) calls" for pid
    using live_after_subset [OF that] all new [of pid]
    by (auto simp: all_announced_def introduces_def intro: announced_more)
  moreover have "announced (w_sent w @ messages_of calls) pid"
    if "Ed_EXECVE fd pid path \<in> set (epoll_after (interest d1) calls)" for fd pid path
    using epoll_after_subset [OF that] dispatch_interest [OF d1(1)] all_announcedD(2) [OF all, of fd pid path] new [of pid]
    by (auto simp: introduces_def intro: announced_more)
  ultimately show ?thesis using d1(2) by (simp add: all_announced_def world_after_def)
qed

lemma reach_announced: "reach decode port ifd os w \<Longrightarrow> all_announced w"
proof (induction rule: reach.induct)
  case (reach_start d)
  then have "\<forall>e \<in> set (interest d). \<not> needs_socket e"
    using start_inv [of os d] by (auto simp: daemon_inv_def connected_def first_world_def start_daemon_def bindE_eq_Inr
        split: option.splits if_splits)
  then show ?case by (auto simp: all_announced_def first_world_def)
next
  case (reach_step w n d calls)
  then show ?case by (blast intro: step_announces)
qed

text \<open>In every run of the C daemon, a report that a child's exec is done or that a child has
  ended comes after the report that this child was launched.\<close>

theorem reports_follow_launch:
  assumes "reach decode port ifd os w" and "possible w n"
    and "handle_event decode port ifd n (w_daemon w) = Inr (d, calls)"
    and "MProcessTerminated pid e \<in> set (messages_of calls) \<or> MExecveTerminated pid path ok \<in> set (messages_of calls)"
  shows "MProcessLaunched pid \<in> set (w_sent w)"
proof -
  from assms(3) obtain d1 where d1: "dispatch decode port ifd n (w_daemon w) = Inr (d1, calls)"
    by (auto simp: handle_event_def bindE_eq_Inr)
  have all: "all_announced w" using assms(1) by (rule reach_announced)
  have "\<exists>pid'. pid = s32 pid' \<and> announced (w_sent w) pid'"
    using assms(4)
  proof
    assume "MProcessTerminated pid e \<in> set (messages_of calls)"
    from dispatch_messages [OF d1 this] assms(2) all show ?thesis
      by (cases n) (auto simp: signal_possible_def dest: all_announcedD)
  next
    assume "MExecveTerminated pid path ok \<in> set (messages_of calls)"
    from dispatch_messages [OF d1 this] assms(2) all show ?thesis
      by (cases n) (auto dest: all_announcedD)
  qed
  then show ?thesis by (auto simp: announced_def s32_id)
qed

theorem reports_follow_launch_witness:
  "\<exists>d calls. handle_event echo_decoder 9090 4 (OnSignal 5 (SigInfo SIGCHLD 100 (WExited 0))) (launched 1) = Inr (d, calls) \<and>
     MProcessTerminated 100 0 \<in> set (messages_of calls) \<and> MProcessLaunched 100 \<in> set (w_sent (launched_world 9090 1))"
proof -
  let ?n = "OnSignal 5 (SigInfo SIGCHLD 100 (WExited 0))"
  have "filled 1 = child_slot 0 # replicate 255 new_slot" by (simp add: filled_def MAX_PROCESS_def)
  then obtain d calls where res: "handle_event echo_decoder 9090 4 ?n (launched 1) = Inr (d, calls)"
      "MProcessTerminated 100 0 \<in> set (messages_of calls)"
    by (simp add: handle_event_def on_signal_def handle_signalfd_event_def handle_SIGCHLD_def exit_status_def
        manager_remove_process_def clear_slot_def child_slot_def s32_def u32_def)
  moreover have "possible (launched_world 9090 1) ?n" by (auto simp: listening_def signal_possible_def)
  ultimately show ?thesis using reports_follow_launch [OF echo_reach, of 1 9090 ?n 4 d calls 100 0] by fastforce
qed

end
