(* ===== verification/C_Session.thy ===== *)
theory C_Session
  imports Client_Runs C_Daemon_Protocol
begin

text \<open>
  The Python clients against the C daemon.  The daemon receives the bytes the client sent and the kernel
  reports that follow; the frames it writes are what the client reads.  The C++ side of FlatBuffers enters
  by \<open>decode\<close> and \<open>encode\<close>: they agree with the Python package on the messages exchanged.
\<close>

section \<open>A run of the daemon\<close>

fun run_daemon :: "decoder \<Rightarrow> int \<Rightarrow> int \<Rightarrow> notification list \<Rightarrow> daemon \<Rightarrow> (daemon \<times> call list) c" where
  "run_daemon decode port ifd [] d = Inr (d, [])"
| "run_daemon decode port ifd (n # ns) d = bindE (handle_event decode port ifd n d) (\<lambda>(d, calls).
     bindE (run_daemon decode port ifd ns d) (\<lambda>(d, calls'). Inr (d, calls @ calls')))"

text \<open>The frames of \<^verbatim>\<open>send_message\<close> when the socket takes them whole.\<close>

definition frames :: "(message \<Rightarrow> bytes) \<Rightarrow> message list \<Rightarrow> segment list" where
  "frames encode ms = map (\<lambda>m. Seg (fst (projr (send_message (encode m) True False (int (4 + length (encode m))))))) ms"

text \<open>The operating system starts a child.\<close>

definition starts_child :: "launch_os \<Rightarrow> int \<Rightarrow> nat \<Rightarrow> int \<Rightarrow> bool" where
  "starts_child os pid stack pipe \<longleftrightarrow> lo_param_malloc os \<and> lo_exec_malloc os \<and> lo_info_malloc os \<and> lo_stack os = Some stack \<and>
     (\<exists>w. lo_pipe os = Some (pipe, w)) \<and> lo_clone os = pid \<and> 0 < pid \<and> pid \<le> 2147483647 \<and> lo_event_malloc os \<and> lo_epoll_ok os"

definition watch_reply :: "watch \<Rightarrow> message" where
  "watch_reply w = (case w of WatchInotify path m sz \<Rightarrow> MInotifyWatchListUpdated (c_str path) | WatchSocket port \<Rightarrow> MSocketWatched (s32 port))"

text \<open>What the client hears of one command that ends with \<open>code\<close>.\<close>

definition c_talk :: "int \<Rightarrow> int \<Rightarrow> run_command \<Rightarrow> int \<Rightarrow> message list" where
  "c_talk port pid c code = [MTCPSocketListening (u16 port), MProcessLaunched pid] @ map watch_reply (rc_to_watch c) @
     [MExecveTerminated pid (rc_path c) True, MProcessTerminated pid code]"

definition command_reports :: "int \<Rightarrow> bytes \<Rightarrow> launch_os \<Rightarrow> (nat \<Rightarrow> watch_os) \<Rightarrow> int \<Rightarrow> int \<Rightarrow> bytes \<Rightarrow> int \<Rightarrow> notification list" where
  "command_reports sock buf los wos pipe pid path code =
     [OnConnexion 3 sock True True True, OnMessage sock (whole_frame buf) los wos, OnExecve pipe pid path PipeEof,
      OnSignal 5 (SigInfo SIGCHLD pid (WExited code))]"

lemma surveillance_replies: "messages_of (watch_calls ifd sock wos i (map stored_watch ws)) = map watch_reply ws"
proof (induction ws arbitrary: i)
  case (Cons w ws)
  then show ?case by (cases w) (auto simp: watch_reply_def add_event_inotifyFd_def)
qed simp

lemma c_str_id: "0 \<notin> set bs \<Longrightarrow> c_str bs = bs"
  by (auto simp: c_str_def intro: takeWhile_eq_all_conv [THEN iffD2])

lemma message_session:
  assumes t: "tracked d L H" and os: "starts_child los pid stack pipe" "stack \<notin> H" "pid \<notin> L"
    and buf: "decode buf = Some (whole (MRunCommand c))" "rc_args c \<noteq> []" "0 \<notin> set (rc_path c)" "buf \<noteq> []" "length buf < 2 ^ 31"
  shows "\<exists>d' calls. handle_event decode port ifd (OnMessage sock (whole_frame buf) los wos) d = Inr (d', calls) \<and>
    messages_of calls = MProcessLaunched pid # map watch_reply (rc_to_watch c) \<and>
    tracked d' (insert pid L) (insert stack H) \<and> communication_socket d' = communication_socket d"
proof -
  obtain w where los: "lo_param_malloc los" "lo_exec_malloc los" "lo_info_malloc los" "lo_stack los = Some stack"
      "lo_pipe los = Some (pipe, w)" "lo_clone los = pid" "0 < pid" "pid \<le> 2147483647" "lo_event_malloc los" "lo_epoll_ok los"
    using os(1) by (auto simp: starts_child_def)
  let ?file = "if lo_err_file los = -1 then STDOUT_FILENO else lo_err_file los"
  from array.tracks_launch [OF t os(3,2), of ?file] obtain r manager where
    add: "manager_add_process pid (process_manager d) ?file stack (nb_process d) = Inr (r, manager)" "r \<noteq> 0"
      "array.tracks manager (nb_process d + 1) (insert pid L) (insert stack H)" by blast
  obtain a as where args: "rc_args c = a # as" using buf(2) by (cases "rc_args c") auto
  have path: "c_str (rc_path c) = rc_path c" using buf(3) by (rule c_str_id)
  have s32: "s32 pid = pid" using los(7,8) by (simp add: s32_id)
  let ?d = "d\<lparr>process_manager := manager, nb_process := nb_process d + 1\<rparr>"
  let ?calls = "[AllocStack stack, Cloned pid, CloseFd w, SendMessage sock (MProcessLaunched pid),
      EpollAdd (Ed_EXECVE pipe pid (rc_path c))] @ watch_calls ifd sock wos 0 (map stored_watch (rc_to_watch c))"
  have "dispatch decode port ifd (OnMessage sock (whole_frame buf) los wos) d = Inr (?d, ?calls)"
    using buf(4,5) args los add(1,2) path s32
    by (simp add: buf(1) on_message_def read_whole_frame receive_message_from_user_c_def run_command_request_def receive_command_whole [where decode = decode and buf = buf, OF buf(1)]
        process_command_request_def extract_clone_parameters_def first_arg_def handle_clone_event_def
        launch_process_c_def add_event_pipeExecve_def process_surveillance_requests_def)
  with add(3) show ?thesis by (simp add: handle_event_def surveillance_replies)
qed

lemma exit_session:
  assumes t: "tracked d L H" and "pid \<in> L" and "card L \<le> MAX_PROCESS" and "communication_socket d = Some sock"
    and "0 < pid" and "pid \<le> 2147483647" and st: "exit_status st = Some code" and "0 \<le> code" and "code \<le> 255"
  shows "\<exists>d' calls. handle_event decode port ifd (OnSignal fd (SigInfo SIGCHLD pid st)) d = Inr (d', calls) \<and>
    messages_of calls = [MProcessTerminated pid code]"
proof -
  have "nb_process d \<le> int MAX_PROCESS" using t assms(3) by (simp add: array.tracks_def)
  from array.tracks_exit_total [OF t this, of pid] obtain r m rs where
    "manager_remove_process pid (process_manager d) (nb_process d) = Inr (r, m, rs)" by auto
  with assms(4-) show ?thesis
    by (simp add: handle_event_def on_signal_def handle_signalfd_event_def handle_SIGCHLD_def s32_id u32_def)
qed

lemma run_daemon_append:
  "run_daemon decode port ifd (ns @ ns') d = bindE (run_daemon decode port ifd ns d) (\<lambda>(d, calls).
     bindE (run_daemon decode port ifd ns' d) (\<lambda>(d, calls'). Inr (d, calls @ calls')))"
  by (induction ns arbitrary: d) (auto simp: bindE_def split: sum.splits)

text \<open>The notifications and the reports up to the exec; \<open>n\<close> is what arrives on the pipe.\<close>

definition start_reports :: "int \<Rightarrow> bytes \<Rightarrow> launch_os \<Rightarrow> (nat \<Rightarrow> watch_os) \<Rightarrow> int \<Rightarrow> int \<Rightarrow> bytes \<Rightarrow> pipe_read \<Rightarrow> notification list" where
  "start_reports sock buf los wos pipe pid path n =
     [OnConnexion 3 sock True True True, OnMessage sock (whole_frame buf) los wos, OnExecve pipe pid path n]"

definition start_talk :: "int \<Rightarrow> int \<Rightarrow> run_command \<Rightarrow> bool \<Rightarrow> message list" where
  "start_talk port pid c ok = [MTCPSocketListening (u16 port), MProcessLaunched pid] @ map watch_reply (rc_to_watch c) @
     [MExecveTerminated pid (rc_path c) ok]"

lemma start_session:
  assumes t: "tracked d L H" and os: "starts_child los pid stack pipe" "stack \<notin> H" "pid \<notin> L"
    and buf: "decode buf = Some (whole (MRunCommand c))" "rc_args c \<noteq> []" "0 \<notin> set (rc_path c)" "buf \<noteq> []" "length buf < 2 ^ 31"
    and sock: "0 \<le> sock" and n: "execve_success n = Inr ok"
  shows "\<exists>d' calls. run_daemon decode port ifd (start_reports sock buf los wos pipe pid (rc_path c) n) d = Inr (d', calls) \<and>
    messages_of calls = start_talk port pid c ok \<and> tracked d' (insert pid L) (insert stack H) \<and> communication_socket d' = Some sock"
proof -
  have pid: "s32 pid = pid" using os(1) by (auto simp: starts_child_def s32_id)
  obtain d1 c1 where d1: "handle_event decode port ifd (OnConnexion 3 sock True True True) d = Inr (d1, c1)"
      "messages_of c1 = [MTCPSocketListening (u16 port)]" "process_manager d1 = process_manager d" "nb_process d1 = nb_process d"
      "communication_socket d1 = Some sock"
    using sock by (simp add: handle_event_def on_connexion_def)
  then have "tracked d1 L H" using t by simp
  from message_session [where decode = decode and buf = buf and sock = sock and wos = wos and port = port and ifd = ifd, OF this os buf] obtain d2 c2 where
    d2: "handle_event decode port ifd (OnMessage sock (whole_frame buf) los wos) d1 = Inr (d2, c2)"
      "messages_of c2 = MProcessLaunched pid # map watch_reply (rc_to_watch c)"
      "tracked d2 (insert pid L) (insert stack H)" "communication_socket d2 = Some sock" using d1(5) by auto
  obtain d3 c3 where d3: "handle_event decode port ifd (OnExecve pipe pid (rc_path c) n) d2 = Inr (d3, c3)"
      "messages_of c3 = [MExecveTerminated pid (rc_path c) ok]" "process_manager d3 = process_manager d2"
      "nb_process d3 = nb_process d2" "communication_socket d3 = Some sock"
    using d2(4) pid n by (simp add: handle_event_def on_execve_def)
  with d1 d2 show ?thesis by (simp add: start_reports_def start_talk_def)
qed

lemma child_session:
  assumes "tracked d L H" and L: "finite L" "card L < MAX_PROCESS"
    and os: "starts_child los pid stack pipe" "stack \<notin> H" "pid \<notin> L"
    and buf: "decode buf = Some (whole (MRunCommand c))" "rc_args c \<noteq> []" "0 \<notin> set (rc_path c)" "buf \<noteq> []" "length buf < 2 ^ 31"
    and sock: "0 \<le> sock" and n: "execve_success n = Inr ok" and code: "exit_status st = Some code" "0 \<le> code" "code \<le> 255"
    and quiet: "\<forall>d. communication_socket d = Some sock \<longrightarrow> (\<exists>calls. run_daemon decode port ifd ns d = Inr (d, calls) \<and> messages_of calls = [] \<and> X \<subseteq> set calls)"
  shows "\<exists>d' calls. run_daemon decode port ifd (start_reports sock buf los wos pipe pid (rc_path c) n @ ns @
      [OnSignal 5 (SigInfo SIGCHLD pid st)]) d = Inr (d', calls) \<and> messages_of calls = start_talk port pid c ok @ [MProcessTerminated pid code] \<and> X \<subseteq> set calls"
proof -
  have pid: "0 < pid" "pid \<le> 2147483647" using os(1) by (auto simp: starts_child_def)
  from start_session [where decode = decode and buf = buf and sock = sock and wos = wos and port = port and ifd = ifd,
      OF assms(1) os buf sock n] obtain d1 c1 where
    d1: "run_daemon decode port ifd (start_reports sock buf los wos pipe pid (rc_path c) n) d = Inr (d1, c1)"
      "messages_of c1 = start_talk port pid c ok" "tracked d1 (insert pid L) (insert stack H)" "communication_socket d1 = Some sock" by blast
  from quiet d1(4) obtain c2 where c2: "run_daemon decode port ifd ns d1 = Inr (d1, c2)" "messages_of c2 = []" "X \<subseteq> set c2" by blast
  have "card (insert pid L) \<le> MAX_PROCESS" using L by (simp add: card_insert_if)
  from exit_session [OF d1(3) _ this d1(4) pid code, of decode port ifd 5] obtain d3 c3 where
    "handle_event decode port ifd (OnSignal 5 (SigInfo SIGCHLD pid st)) d1 = Inr (d3, c3)" "messages_of c3 = [MProcessTerminated pid code]"
    by auto
  with d1 c2 show ?thesis by (auto simp: run_daemon_append)
qed

lemma daemon_session:
  assumes t: "tracked d L H" and L: "finite L" "card L < MAX_PROCESS"
    and os: "starts_child los pid stack pipe" "stack \<notin> H" "pid \<notin> L"
    and buf: "decode buf = Some (whole (MRunCommand c))" "rc_args c \<noteq> []" "0 \<notin> set (rc_path c)" "buf \<noteq> []" "length buf < 2 ^ 31"
    and code: "0 \<le> code" "code \<le> 255" and sock: "0 \<le> sock"
  shows "\<exists>d' calls. run_daemon decode port ifd (command_reports sock buf los wos pipe pid (rc_path c) code) d = Inr (d', calls) \<and>
    messages_of calls = c_talk port pid c code"
  using child_session [where decode = decode and buf = buf and sock = sock and wos = wos and port = port and ifd = ifd and
      n = PipeEof and ok = True and ns = "[]" and X = "{}" and st = "WExited code" and code = code, OF t L os buf sock _ _ code]
  by (simp add: execve_success_def exit_status_def command_reports_def start_reports_def c_talk_def start_talk_def)

lemma reach_tracked:
  assumes "reach decode port ifd start w" and "running (w_daemon w)" and "card (w_live w) < 256"
  shows "tracked (w_daemon w) (w_live w) (w_heap w)" and "finite (w_live w)" and "card (w_live w) < MAX_PROCESS"
proof -
  show t: "tracked (w_daemon w) (w_live w) (w_heap w)" using reach_inv [OF assms(1,2)] by (simp add: daemon_inv_def)
  then show "finite (w_live w)" by (simp add: array.tracks_def)
  show "card (w_live w) < MAX_PROCESS" using assms(3) by (simp add: MAX_PROCESS_def)
qed

section \<open>The clients hear it\<close>

lemma frames_stream:
  assumes "\<forall>m \<in> set ms. carries fb enc (encode m) m \<and> encode m \<noteq> [] \<and> length (encode m) < 2 ^ 31"
  shows "streams fb enc (frames encode ms) ms"
  using assms
proof (induction ms)
  case Nil
  then show ?case by (simp add: frames_def streams_end)
next
  case (Cons m ms)
  have "frame_segments (encode m) [Seg (header_of (encode m) @ encode m)]" "carries fb enc (encode m) m"
    using Cons.prems by (auto simp: frame_segments_def)
  from streams_frame [OF this Cons.IH] Cons.prems show ?case
    by (simp add: frames_def send_message_def header_of_def)
qed

lemma talk_parts:
  "c_talk port pid c code = [MTCPSocketListening (u16 port)] @ MProcessLaunched pid #
     (map watch_reply (rc_to_watch c) @ [MExecveTerminated pid (rc_path c) True, MProcessTerminated pid code])"
  "c_talk port pid c code = ([MTCPSocketListening (u16 port), MProcessLaunched pid] @ map watch_reply (rc_to_watch c)) @
     MExecveTerminated pid (rc_path c) True # [MProcessTerminated pid code]"
  "c_talk port pid c code = ([MTCPSocketListening (u16 port), MProcessLaunched pid] @ map watch_reply (rc_to_watch c) @
     [MExecveTerminated pid (rc_path c) True]) @ MProcessTerminated pid code # []"
  by (simp_all add: c_talk_def)

lemma watch_reply_event [simp]:
  "want_event_user (watch_reply w) \<noteq> EXECVE_TERMINATED" "want_event_user (watch_reply w) \<noteq> PROCESS_TERMINATED"
  by (cases w; simp add: watch_reply_def)+

lemma command_path_text: "command_message cmd = Some c \<Longrightarrow> utf8_decode (rc_path c) = Inr (cmd_path cmd)"
  by (auto simp: command_message_def text_bytes_Some bind_eq_Some_conv split: if_splits dest: utf8_roundtrip)

text \<open>C1 (liveness).  A command sent by the Python client to the C daemon.  For every command with at least
  one argument, every C daemon with fewer than 256 children and an operating system that starts the child: the
  client's bytes are a frame the daemon reads; its reports are, in this order, the port, the launch, one
  confirmation per surveillance, the exec, and the end of the child; and on a connection that delivers the
  daemon's frames \<^verbatim>\<open>launch_process\<close> and \<^verbatim>\<open>execve_executed\<close> return 1 and
  \<^verbatim>\<open>process_terminated\<close> returns 1 exactly when the exit code is 0.\<close>

theorem session_with_c_daemon:
  assumes pkg: "flatbuffers_pkg fb enc valid store phase used" and cmd: "command_message cmd = Some c"
    "command_cost c \<le> 2147483647" and c: "rc_args c \<noteq> []" "0 \<notin> set (rc_path c)"
    and decode: "\<forall>buf. carries fb enc buf (MRunCommand c) \<longrightarrow> decode buf = Some (whole (MRunCommand c))"
    and encode: "\<forall>m \<in> set (c_talk port pid c code). carries fb enc (encode m) m \<and> encode m \<noteq> [] \<and> length (encode m) < 2147483648"
    and w: "reach decode port ifd start w" "running (w_daemon w)" "card (w_live w) < 256"
    and os: "starts_child los pid stack pipe" "stack \<notin> w_heap w" "pid \<notin> w_live w"
    and code: "0 \<le> code" "code \<le> 255" and sock: "0 \<le> sock"
  shows "\<exists>bi d' calls. send_command_to_demon fb cmd = Inr bi \<and>
    run_daemon decode port ifd (command_reports sock (bi_buffer bi) los wos pipe pid (rc_path c) code) (w_daemon w) = Inr (d', calls) \<and>
    messages_of calls = c_talk port pid c code \<and>
    (\<forall>k. conn_can_send k \<longrightarrow> conn_in k = frames encode (messages_of calls) \<longrightarrow>
      (\<exists>k'. launch_process fb (Some k) cmd = Some (Inr (Some k', Some 1))) \<and>
      (\<exists>k'. execve_executed fb (Some k) cmd = Some (Inr (Some k', Some 1))) \<and>
      (\<exists>k'. process_terminated fb (Some k) cmd = Some (Inr (Some k', Some (if code = 0 then 1 else -1)))))"
proof -
  from flatbuffers_pkg.command_sends [OF pkg cmd] obtain bi where bi: "send_command_to_demon fb cmd = Inr bi"
      "sent fb enc (MRunCommand c) (command_cost c) bi" by (auto simp: okE_def)
  have r: "fb_reader fb enc" using pkg by (rule flatbuffers_pkg.axioms(1))
  have carried: "carries fb enc (bi_buffer bi) (MRunCommand c)" using bi(2) by (simp add: sent_def)
  obtain root body S fs where "opened fb enc (bi_buffer bi) (MRunCommand c) root body S fs"
    using fb_reader.openE [OF r carried] by blast
  then have nonempty: "bi_buffer bi \<noteq> []" by (auto simp: opened_def)
  have len: "length (bi_buffer bi) < 2 ^ 31" using bi(2) cmd(2) by (auto simp: sent_def)
  have dec: "decode (bi_buffer bi) = Some (whole (MRunCommand c))" using decode carried by blast
  note t = reach_tracked(1) [OF w] and L = reach_tracked(2,3) [OF w]
  from daemon_session [where decode = decode and buf = "bi_buffer bi" and sock = sock and wos = wos
        and port = port and ifd = ifd, OF t L os dec c nonempty len code sock] obtain d' calls where
    run: "run_daemon decode port ifd (command_reports sock (bi_buffer bi) los wos pipe pid (rc_path c) code) (w_daemon w) = Inr (d', calls)"
      "messages_of calls = c_talk port pid c code" by blast
  have pid: "0 < pid" using os(1) by (simp add: starts_child_def)
  have "(\<exists>k'. launch_process fb (Some k) cmd = Some (Inr (Some k', Some 1))) \<and>
      (\<exists>k'. execve_executed fb (Some k) cmd = Some (Inr (Some k', Some 1))) \<and>
      (\<exists>k'. process_terminated fb (Some k) cmd = Some (Inr (Some k', Some (if code = 0 then 1 else -1))))"
    if k: "conn_can_send k" "conn_in k = frames encode (messages_of calls)" for k
  proof -
    have serves: "serves fb enc k (c_talk port pid c code)"
      using frames_stream [of "c_talk port pid c code" fb enc encode] encode k run(2) by (simp add: serves_def)
    have "\<exists>k'. launch_process fb (Some k) cmd = Some (Inr (Some k', Some 1))"
      using launch_process_run [OF pkg cmd serves [unfolded talk_parts(1)]] pid by auto
    moreover have "\<exists>k'. execve_executed fb (Some k) cmd = Some (Inr (Some k', Some 1))"
      using execve_run [OF pkg cmd serves [unfolded talk_parts(2)] _ command_path_text [OF cmd(1)]] pid by auto
    moreover have "\<exists>k'. process_terminated fb (Some k) cmd = Some (Inr (Some k', Some (if code = 0 then 1 else -1)))"
      using process_terminated_run [OF pkg cmd serves [unfolded talk_parts(3)]] pid by auto
    ultimately show ?thesis by blast
  qed
  with bi(1) run show ?thesis by blast
qed


lemma wire_frame:
  fixes r :: "BufferInfo py"
  assumes "okE r (sent wire_fb wire_encodes m u)" and "u \<le> 2147483647"
  shows "\<exists>buf. carries wire_fb wire_encodes buf m \<and> buf \<noteq> [] \<and> length buf < 2147483648"
proof -
  from assms(1) obtain bi where bi: "sent wire_fb wire_encodes m u bi" by (auto simp: okE_def)
  then have c: "carries wire_fb wire_encodes (bi_buffer bi) m" by (simp add: sent_def)
  obtain root body S fs where "opened wire_fb wire_encodes (bi_buffer bi) m root body S fs"
    using fb_reader.openE [OF wire_reader c] by blast
  with bi c assms(2) show ?thesis by (auto simp: sent_def opened_def)
qed

lemma wire_c_talk:
  "\<forall>m \<in> set (c_talk 9090 100 sample_message 0). \<exists>buf. carries wire_fb wire_encodes buf m \<and> buf \<noteq> [] \<and> length buf < 2147483648"
proof -
  have path: "utf8_encode (pystr_of ''/bin/sh'') = Inr [47, 98, 105, 110, 47, 115, 104]"
    and tmp: "utf8_encode (pystr_of ''/tmp'') = Inr [47, 116, 109, 112]" by code_simp+
  have "c_talk 9090 100 sample_message 0 = [MTCPSocketListening 9090, MProcessLaunched 100, MSocketWatched 8080,
      MInotifyWatchListUpdated [47, 116, 109, 112], MExecveTerminated 100 [47, 98, 105, 110, 47, 115, 104] True,
      MProcessTerminated 100 0]"
    by (simp add: c_talk_def sample_message_def watch_reply_def u16_def s32_def c_str_def)
  moreover note some = okE_some
  note wire_frame [OF some [OF wire.tcpsocketlistening_sends [of 9090]]] wire_frame [OF some [OF wire.processlaunched_sends [of 100]]]
    wire_frame [OF some [OF wire.socketwatched_sends [of 8080]]] wire_frame [OF some [OF wire.inotifywatchlistupdated_sends [OF tmp]]]
    wire_frame [OF wire.execveterminated_builds [OF _ path, of 100]] wire_frame [OF some [OF wire.processterminated_sends [of 100 0]]]
  ultimately show ?thesis by simp
qed

theorem session_with_c_daemon_witness:
  "\<exists>bi d' calls k k'. send_command_to_demon wire_fb sample_command = Inr bi \<and>
     run_daemon (\<lambda>_. Some (whole (MRunCommand sample_message))) 9090 4 (command_reports 6 (bi_buffer bi)
       \<lparr>lo_param_malloc = True, lo_err_file = 9, lo_exec_malloc = True, lo_info_malloc = True, lo_stack = Some 7,
          lo_pipe = Some (10, 11), lo_clone = 100, lo_errno = 0, lo_event_malloc = True, lo_epoll_ok = True\<rparr>
       idle_watch 10 100 (rc_path sample_message) 0) (launched 0) = Inr (d', calls) \<and>
     launch_process wire_fb (Some k) sample_command = Some (Inr (Some k', Some 1))"
proof -
  let ?decode = "\<lambda>_ :: bytes. Some (whole (MRunCommand sample_message))"
  let ?los = "\<lparr>lo_param_malloc = True, lo_err_file = 9, lo_exec_malloc = True, lo_info_malloc = True, lo_stack = Some 7,
    lo_pipe = Some (10, 11), lo_clone = 100, lo_errno = 0, lo_event_malloc = True, lo_epoll_ok = True\<rparr>"
  from bchoice [OF wire_c_talk] obtain encode where encode: "\<forall>m \<in> set (c_talk 9090 100 sample_message 0).
      carries wire_fb wire_encodes (encode m) m \<and> encode m \<noteq> [] \<and> length (encode m) < 2147483648" by blast
  have args: "rc_args sample_message \<noteq> []" "0 \<notin> set (rc_path sample_message)" by (simp_all add: sample_message_def)
  have "reach ?decode 9090 4 good_start (launched_world 9090 0)"
    by (rule reach_launched_0)
  from session_with_c_daemon [OF wire_package sample_command_message sample_command_cost args _ encode this, of ?los 7 10 6]
  obtain bi d' calls where run: "send_command_to_demon wire_fb sample_command = Inr bi"
      "run_daemon ?decode 9090 4 (command_reports 6 (bi_buffer bi) ?los idle_watch 10 100 (rc_path sample_message) 0) (launched 0) =
        Inr (d', calls)"
      "\<And>k. conn_can_send k \<Longrightarrow> conn_in k = frames encode (messages_of calls) \<Longrightarrow>
        \<exists>k'. launch_process wire_fb (Some k) sample_command = Some (Inr (Some k', Some 1))"
    by (fastforce simp: starts_child_def)
  from run(3) [of "\<lparr>conn_in = frames encode (messages_of calls), conn_out = [], conn_can_send = True, conn_open = True\<rparr>"]
    run(1,2) show ?thesis by fastforce
qed

end
