(* ===== verification/Rust_Daemon.thy ===== *)
theory Rust_Daemon
  imports Client C_Daemon
begin

text \<open>
  The daemon in Rust, \<^verbatim>\<open>src/rust/src/bin/main.rs\<close> with
  \<^verbatim>\<open>monitoring_tools/command.rs\<close>.  One task serves one connection: it reads a frame, handles it to
  the end, and reads the next.  A handler returns the list of what it does, in order; a panic ends the task.
  The results of the system calls (spawn, wait, kill, and the two blocking watches) are arguments, and so is
  the decoder of the FlatBuffers library.
\<close>

section \<open>command.rs\<close>

fun split_on :: "byte \<Rightarrow> bytes \<Rightarrow> bytes list" where
  "split_on b [] = [[]]"
| "split_on b (x # xs) = (if x = b then [] # split_on b xs
     else (case split_on b xs of [] \<Rightarrow> [[x]] | y # ys \<Rightarrow> (x # y) # ys))"

text \<open>\<^verbatim>\<open>Path::file_name\<close>, or the empty string: the last component that is not empty and not a dot,
  unless it is a double dot.\<close>

definition path_basename :: "bytes \<Rightarrow> bytes" where
  "path_basename path = (let cs = filter (\<lambda>x. x \<noteq> [] \<and> x \<noteq> [46]) (split_on 47 path) in
     if cs = [] \<or> last cs = [46, 46] then [] else last cs)"

record rust_command =
  rust_program :: bytes
  rust_args :: "bytes list"
  rust_envs :: "(bytes \<times> bytes) list"

text \<open>The key and the value of a pair with an equals sign.\<close>

fun env_pair :: "bytes \<Rightarrow> (bytes \<times> bytes) option" where
  "env_pair [] = None"
| "env_pair (x # xs) = (if x = 61 then Some ([], xs) else map_option (\<lambda>(k, v). (x # k, v)) (env_pair xs))"

definition or_default :: "'a list option \<Rightarrow> 'a list" where
  "or_default xs = (case xs of None \<Rightarrow> [] | Some ys \<Rightarrow> ys)"

text \<open>\<open>None\<close> is the panic on a command without path.\<close>

definition exec_command :: "raw_command \<Rightarrow> rust_command option" where
  "exec_command c = (case raw_path c of None \<Rightarrow> None
     | Some path \<Rightarrow> Some \<lparr>rust_program = path,
         rust_args = (case or_default (raw_args c) of [] \<Rightarrow> []
           | a # as \<Rightarrow> if a = path \<or> a = path_basename path then as else a # as),
         rust_envs = List.map_filter env_pair (or_default (raw_envp c))\<rparr>)"

section \<open>Reading frames\<close>

text \<open>\<^verbatim>\<open>read_exact\<close> waits until it has all the bytes.\<close>

fun read_exact :: "nat \<Rightarrow> segment list \<Rightarrow> (bytes \<times> segment list) option" where
  "read_exact n [] = (if n = 0 then Some ([], []) else None)"
| "read_exact n (Reset # segs) = (if n = 0 then Some ([], Reset # segs) else None)"
| "read_exact n (Seg bs # segs) =
     (if n \<le> length bs then Some (take n bs, Seg (drop n bs) # segs)
      else map_option (\<lambda>(cs, rest). (bs @ cs, rest)) (read_exact (n - length bs) segs))"

definition read_message :: "segment list \<Rightarrow> (bytes \<times> segment list) option" where
  "read_message segs = Option.bind (read_exact 4 segs) (\<lambda>(len_buf, segs). read_exact (le_nat len_buf) segs)"

text \<open>\<^verbatim>\<open>send_on_socket\<close>: the bytes handed to \<^verbatim>\<open>write\<close>.\<close>

definition send_on_socket :: "bytes \<Rightarrow> bytes" where
  "send_on_socket retour = le_bytes 4 (length retour) @ retour"

section \<open>main.rs\<close>

datatype port_state = Listen | Established | Other

text \<open>How a blocking watch ends.\<close>

datatype file_result = FileEvent | FileError int | FilePanic

datatype port_result = PortEvent port_state | PortError int

datatype wait_result = WaitOk "int option" | WaitErr "int option"

datatype spawn_result = Spawned int wait_result | NotFound | SpawnError "int option"

record rust_os =
  ro_spawn :: spawn_result
  ro_file :: "nat \<Rightarrow> file_result"
  ro_port :: "nat \<Rightarrow> port_result"
  ro_kill :: "int option"

datatype r_call =
    RSend message
  | RSpawn rust_command
  | RWait int
  | RKill int
  | RWatch watch
  | RPanic

definition or_one :: "int option \<Rightarrow> int" where
  "or_one e = (case e of None \<Rightarrow> 1 | Some n \<Rightarrow> n)"

text \<open>The trigger announced for a mask: later tests win.\<close>

definition watch_trigger :: "int \<Rightarrow> int" where
  "watch_trigger events =
     (let t = InotifyEvent_accessed;
          t = (if bit events 8 then InotifyEvent_created else t);
          t = (if bit events 9 then InotifyEvent_deleted else t);
          t = (if bit events 1 then InotifyEvent_modified else t)
      in if bit events 3 \<or> bit events 4 then InotifyEvent_size_reached else t)"

definition port_state_code :: "port_state \<Rightarrow> int" where
  "port_state_code s = (case s of Listen \<Rightarrow> SocketState_listeing | Established \<Rightarrow> SocketState_created | Other \<Rightarrow> SocketState_unknown)"

text \<open>\<open>me\<close> is the pid of the daemon.  A file watch that ends reports it as an ended process.\<close>

fun handle_surveillance_event :: "int \<Rightarrow> raw_watch \<Rightarrow> file_result \<Rightarrow> port_result \<Rightarrow> r_call list" where
  "handle_surveillance_event me (RawInotify (Some i)) f p =
     (let path = or_default (ri_root_paths i) in
      [RSend (MInotifyPathUpdated path (watch_trigger (ri_mask i)) 0 (ri_size i)), RWatch (WatchInotify path (ri_mask i) (ri_size i)),
       (case f of FileEvent \<Rightarrow> RSend (MProcessTerminated (s32 me) 0)
        | FileError e \<Rightarrow> RSend (MProcessTerminated (s32 me) (u32 e)) | FilePanic \<Rightarrow> RPanic)])"
| "handle_surveillance_event me (RawSocket (Some port)) f p =
     [RSend (MSocketWatched (s32 port)), RWatch (WatchSocket port),
      (case p of PortEvent s \<Rightarrow> RSend (MSocketWatchTerminated (s32 port) (port_state_code s))
       | PortError e \<Rightarrow> RSend (MProcessTerminated (s32 me) (u32 e)))]"
| "handle_surveillance_event me _ f p = [RPanic]"

text \<open>After a panic nothing follows.\<close>

definition then_r :: "r_call list \<Rightarrow> r_call list \<Rightarrow> r_call list" where
  "then_r cs ds = (if RPanic \<in> set cs then cs else cs @ ds)"

fun handle_surveillances :: "int \<Rightarrow> rust_os \<Rightarrow> nat \<Rightarrow> raw_watch list \<Rightarrow> r_call list" where
  "handle_surveillances me os i [] = []"
| "handle_surveillances me os i (w # ws) =
     then_r (handle_surveillance_event me w (ro_file os i) (ro_port os i)) (handle_surveillances me os (Suc i) ws)"

text \<open>Spawn, report, wait; the pid and error code reported at the end.\<close>

definition run_child :: "int \<Rightarrow> rust_command \<Rightarrow> bytes \<Rightarrow> spawn_result \<Rightarrow> r_call list \<times> int \<times> int" where
  "run_child me command path s = (case s of
       Spawned pid w \<Rightarrow>
         ([RSpawn command, RSend (MProcessLaunched (s32 pid)), RSend (MExecveTerminated (s32 pid) path True), RWait pid],
          s32 pid, u32 (case w of WaitOk code \<Rightarrow> or_one code | WaitErr e \<Rightarrow> or_one e))
     | NotFound \<Rightarrow>
         ([RSpawn command, RSend (MProcessLaunched (s32 me)), RSend (MExecveTerminated (s32 me) path False)], 0, 1)
     | SpawnError e \<Rightarrow>
         ([RSpawn command, RSend (MProcessLaunched (s32 me)), RSend (MChildCreationError (u32 (or_one e)))], 0, u32 (or_one e)))"

definition ENODATA :: int where
  "ENODATA = 61"

definition run_request :: "int \<Rightarrow> rust_os \<Rightarrow> raw_command \<Rightarrow> r_call list" where
  "run_request me os c = (case exec_command c of None \<Rightarrow> [RPanic]
     | Some command \<Rightarrow> (case raw_path c of None \<Rightarrow> [RPanic]
     | Some path \<Rightarrow> (case raw_to_watch c of None \<Rightarrow> [RPanic]
     | Some to_watch \<Rightarrow> (let (calls, pid, code) = run_child me command path (ro_spawn os) in
         then_r calls (then_r (handle_surveillances me os 0 to_watch) [RSend (MProcessTerminated pid code)])))))"

definition handle_message :: "decoder \<Rightarrow> int \<Rightarrow> rust_os \<Rightarrow> bytes \<Rightarrow> r_call list" where
  "handle_message decode me os buf = (case decode buf of
       None \<Rightarrow> [RPanic]
     | Some (KillRequest p) \<Rightarrow> (case p of None \<Rightarrow> [RPanic]
         | Some pid \<Rightarrow> RKill pid # (case ro_kill os of
             None \<Rightarrow> [RSend (MProcessLaunched (s32 me))] | Some e \<Rightarrow> [RSend (MProcessTerminated (s32 me) (u32 e))]))
     | Some (RunRequest r) \<Rightarrow> (case r of None \<Rightarrow> [RPanic] | Some c \<Rightarrow> run_request me os c)
     | Some OtherRequest \<Rightarrow> [RSend (MChildCreationError ENODATA)])"

text \<open>The task of one connection: \<open>oss\<close> are the results of the system calls, frame by frame; the list
  ends where the last frame that arrived has been handled.\<close>

fun serve :: "decoder \<Rightarrow> int \<Rightarrow> rust_os list \<Rightarrow> segment list \<Rightarrow> r_call list" where
  "serve decode me [] segs = []"
| "serve decode me (os # oss) segs = (case read_message segs of None \<Rightarrow> []
     | Some (buf, rest) \<Rightarrow> then_r (handle_message decode me os buf) (serve decode me oss rest))"

definition connection_task :: "decoder \<Rightarrow> int \<Rightarrow> int \<Rightarrow> rust_os list \<Rightarrow> segment list \<Rightarrow> r_call list" where
  "connection_task decode me port oss segs = RSend (MTCPSocketListening (u16 port)) # serve decode me oss segs"

fun r_messages :: "r_call list \<Rightarrow> message list" where
  "r_messages [] = []"
| "r_messages (RSend m # cs) = m # r_messages cs"
| "r_messages (_ # cs) = r_messages cs"

section \<open>Complete requests\<close>

lemma or_default_simps [simp]: "or_default (Some xs) = xs" "or_default None = []"
  by (simp_all add: or_default_def)

text \<open>The command prepared for a complete request.\<close>

definition prepared :: "run_command \<Rightarrow> rust_command" where
  "prepared c = \<lparr>rust_program = rc_path c,
     rust_args = (case rc_args c of [] \<Rightarrow> []
       | a # as \<Rightarrow> if a = rc_path c \<or> a = path_basename (rc_path c) then as else a # as),
     rust_envs = List.map_filter env_pair (rc_envp c)\<rparr>"

lemma exec_command_whole [simp]: "exec_command (whole_command c) = Some (prepared c)"
  by (simp add: exec_command_def prepared_def)

lemma run_request_whole:
  "run_request me os (whole_command c) = (let (calls, pid, code) = run_child me (prepared c) (rc_path c) (ro_spawn os) in
     then_r calls (then_r (handle_surveillances me os 0 (map whole_watch (rc_to_watch c))) [RSend (MProcessTerminated pid code)]))"
  by (simp add: run_request_def)

lemma handle_message_whole:
  assumes "decode buf = Some (whole (MRunCommand c))"
  shows "handle_message decode me os buf = (let (calls, pid, code) = run_child me (prepared c) (rc_path c) (ro_spawn os) in
     then_r calls (then_r (handle_surveillances me os 0 (map whole_watch (rc_to_watch c))) [RSend (MProcessTerminated pid code)]))"
  using assms by (simp add: handle_message_def run_request_whole)

end
