(* ===== verification/Rust_Session.thy ===== *)
theory Rust_Session
  imports C_Session Rust_Daemon
begin

text \<open>
  Properties of the Rust daemon: how it reads frames and prepares a command, what its reports are, how they
  compare with those of the C daemon, and what the Python clients make of them.
\<close>

section \<open>Reading\<close>

definition seg_bytes :: "segment list \<Rightarrow> bytes" where
  "seg_bytes segs = concat (map (\<lambda>s. case s of Seg bs \<Rightarrow> bs | Reset \<Rightarrow> []) segs)"

lemma read_exact_takes:
  assumes "Reset \<notin> set segs" and "n \<le> length (seg_bytes segs)"
  shows "\<exists>rest. read_exact n segs = Some (take n (seg_bytes segs), rest) \<and> seg_bytes rest = drop n (seg_bytes segs) \<and> Reset \<notin> set rest"
  using assms
proof (induction n segs rule: read_exact.induct)
  case (3 n bs segs)
  show ?case
  proof (cases "n \<le> length bs")
    case True
    with 3(2) show ?thesis by (auto simp: seg_bytes_def)
  next
    case False
    have "Reset \<notin> set segs" "n - length bs \<le> length (seg_bytes segs)" using 3(2,3) False by (auto simp: seg_bytes_def)
    from 3(1) [OF False this] False show ?thesis by (auto simp: seg_bytes_def)
  qed
qed (auto simp: seg_bytes_def)

lemma read_message_split:
  assumes "Reset \<notin> set segs" and "seg_bytes segs = send_on_socket buf @ after" and "length buf < 4294967296"
  shows "\<exists>rest. read_message segs = Some (buf, rest) \<and> seg_bytes rest = after"
proof -
  have len: "length (le_bytes 4 (length buf)) = 4" by simp
  from assms(2) have bytes: "seg_bytes segs = le_bytes 4 (length buf) @ buf @ after" by (simp add: send_on_socket_def)
  have "4 \<le> length (seg_bytes segs)" unfolding bytes by simp
  from read_exact_takes [OF assms(1) this] obtain rest where
    rest: "read_exact 4 segs = Some (le_bytes 4 (length buf), rest)" "seg_bytes rest = buf @ after" "Reset \<notin> set rest"
    unfolding bytes by auto
  have size: "le_nat (le_bytes 4 (length buf)) = length buf" using assms(3) by (intro le_nat_roundtrip) simp
  from read_exact_takes [OF rest(3), of "length buf"] rest(2) obtain rest' where
    "read_exact (length buf) rest = Some (buf, rest')" "seg_bytes rest' = after" by auto
  with rest(1) size show ?thesis by (simp add: read_message_def)
qed

text \<open>C33 (roundtrip).  However the network cuts the bytes of a frame and of what follows it, the Rust daemon
  reads the message of the frame and leaves what follows.\<close>

theorem rust_reads_any_split:
  assumes "Reset \<notin> set segs" and "seg_bytes segs = send_on_socket buf @ after" and "length buf < 4294967296"
  shows "\<exists>rest. read_message segs = Some (buf, rest) \<and> seg_bytes rest = after"
  using assms by (rule read_message_split)

theorem rust_reads_any_split_witness:
  "\<exists>rest. read_message [Seg [4], Seg [0, 0], Seg [0, 1, 2, 3], Seg [4, 9]] = Some ([1, 2, 3, 4], rest) \<and> seg_bytes rest = [9]"
proof -
  have "send_on_socket [1, 2, 3, 4] = [4, 0, 0, 0, 1, 2, 3, 4]" by (simp add: send_on_socket_def le_bytes_4 byte_of_def)
  then show ?thesis
    using rust_reads_any_split [of "[Seg [4], Seg [0, 0], Seg [0, 1, 2, 3], Seg [4, 9]]" "[1, 2, 3, 4]" "[9]"]
    by (simp add: seg_bytes_def)
qed

section \<open>Preparing a command\<close>

lemma split_on_none: "b \<notin> set xs \<Longrightarrow> split_on b xs = [xs]"
  by (induction xs) auto

lemma split_on_last: "b \<notin> set zs \<Longrightarrow> \<exists>y ys. split_on b (xs @ b # zs) = y # ys @ [zs]"
proof (induction xs)
  case Nil
  then show ?case by (simp add: split_on_none)
next
  case (Cons x xs)
  then obtain y ys where "split_on b (xs @ b # zs) = y # ys @ [zs]" by blast
  then show ?case by (cases "x = b") (auto intro: exI [of _ "y # ys"])
qed

lemma basename_of:
  assumes "47 \<notin> set name" and "name \<notin> {[], [46], [46, 46]}"
  shows "path_basename (dir @ 47 # name) = name"
proof -
  from split_on_last [OF assms(1), of dir] obtain y ys where "split_on 47 (dir @ 47 # name) = y # ys @ [name]" by blast
  with assms(2) show ?thesis by (simp add: path_basename_def)
qed

lemma env_pair_of: "61 \<notin> set k \<Longrightarrow> env_pair (k @ 61 # v) = Some (k, v)"
  by (induction k) auto

lemma env_pairs: "\<forall>(k, v) \<in> set env. 61 \<notin> set k \<Longrightarrow> List.map_filter env_pair (map (\<lambda>(k, v). k @ 61 # v) env) = env"
  by (induction env) (auto simp: List.map_filter_def env_pair_of)

text \<open>\<^verbatim>\<open>exec_command\<close> of the Rust daemon, for a path with a directory: the first
  argument is dropped exactly when it is the path or its last component, since the program gets its path as
  argument 0 anyway; the other arguments are kept in order, and every environment entry with an equals sign
  becomes its key and its value.\<close>

theorem exec_command_prepares:
  assumes "rc_path c = dir @ 47 # name" and "47 \<notin> set name" and "name \<notin> {[], [46], [46, 46]}" and "rc_args c = a # as"
    and "rc_envp c = map (\<lambda>(k, v). k @ 61 # v) env" and "\<forall>(k, v) \<in> set env. 61 \<notin> set k"
  shows "exec_command (whole_command c) =
    Some \<lparr>rust_program = rc_path c, rust_args = (if a = rc_path c \<or> a = name then as else a # as), rust_envs = env\<rparr>"
  using assms basename_of [OF assms(2,3)] env_pairs [OF assms(6)] by (simp add: prepared_def)

theorem exec_command_prepares_witness:
  "exec_command (whole_command \<lparr>rc_path = [47, 98, 47, 115, 104], rc_args = [[115, 104], [45, 99]], rc_envp = [[65, 61, 66]], rc_flags = 0,
     rc_stack_size = 0, rc_to_watch = []\<rparr>) = Some \<lparr>rust_program = [47, 98, 47, 115, 104], rust_args = [[45, 99]], rust_envs = [([65], [66])]\<rparr>"
  using exec_command_prepares [of "\<lparr>rc_path = [47, 98, 47, 115, 104], rc_args = [[115, 104], [45, 99]], rc_envp = [[65, 61, 66]],
      rc_flags = 0, rc_stack_size = 0, rc_to_watch = []\<rparr>" "[47, 98]" "[115, 104]" "[115, 104]" "[[45, 99]]" "[([65], [66])]"]
  by simp

section \<open>Kill requests\<close>

text \<open>What one message does, a kill request apart, contains the wait for every child it reports as running.\<close>

definition waits_for :: "r_call list \<Rightarrow> bool" where
  "waits_for cs \<longleftrightarrow> (\<forall>pid path. RSend (MExecveTerminated pid path True) \<in> set cs \<longrightarrow> (\<exists>p. s32 p = pid \<and> RWait p \<in> set cs))"

lemma surveillance_quiet:
  "c \<in> set (handle_surveillances me os i ws) \<Longrightarrow> (\<forall>pid path. c \<noteq> RSend (MExecveTerminated pid path True)) \<and> (\<forall>p. c \<noteq> RKill p)"
proof (induction ws arbitrary: i)
  case (Cons w ws)
  then show ?case
    by (cases "(me, w, ro_file os i, ro_port os i)" rule: handle_surveillance_event.cases)
      (auto simp: then_r_def Let_def split: if_splits file_result.splits port_result.splits)
qed simp

lemma run_child_quiet: "RKill p \<notin> set (fst (run_child me command path s))" "RPanic \<notin> set (fst (run_child me command path s))"
  by (auto simp: run_child_def split: spawn_result.splits)

lemma run_child_waits: "waits_for (fst (run_child me command path s))"
  by (auto simp: waits_for_def run_child_def split: spawn_result.splits)

lemma waits_for_append: "waits_for cs \<Longrightarrow> waits_for ds \<Longrightarrow> waits_for (cs @ ds)"
  by (auto simp: waits_for_def)

lemma waits_for_quiet: "\<forall>c \<in> set cs. \<forall>pid path. c \<noteq> RSend (MExecveTerminated pid path True) \<Longrightarrow> waits_for cs"
  by (auto simp: waits_for_def)

text \<open>A message is handled by a panic or by a child with its surveillances, or starts no child.\<close>

lemma run_request_cases:
  obtains "run_request me os c = [RPanic]"
  | command path ws calls pid code where "run_child me command path (ro_spawn os) = (calls, pid, code)"
    "run_request me os c = calls @ then_r (handle_surveillances me os 0 ws) [RSend (MProcessTerminated pid code)]"
proof (cases "exec_command c = None \<or> raw_path c = None \<or> raw_to_watch c = None")
  case True
  then have "run_request me os c = [RPanic]" by (auto simp: run_request_def split: option.splits)
  then show thesis by (rule that(1))
next
  case False
  then obtain command path ws where c: "exec_command c = Some command" "raw_path c = Some path" "raw_to_watch c = Some ws" by auto
  obtain calls pid code where rc: "run_child me command path (ro_spawn os) = (calls, pid, code)"
    by (cases "run_child me command path (ro_spawn os)")
  then have "RPanic \<notin> set calls" using run_child_quiet(2) [of me command path "ro_spawn os"] by simp
  with c rc show thesis by (intro that(2)) (simp_all add: run_request_def then_r_def [of calls])
qed

lemma handle_message_cases:
  obtains (run) c where "handle_message decode me os buf = run_request me os c"
  | (other) "\<forall>x \<in> set (handle_message decode me os buf). \<forall>pid path. x \<noteq> RSend (MExecveTerminated pid path True)"
    "\<And>pre p post. handle_message decode me os buf = pre @ RKill p # post \<Longrightarrow> pre = []"
    "\<And>path. RSend (MInotifyWatchListUpdated path) \<notin> set (handle_message decode me os buf)"
proof (cases "\<exists>c. decode buf = Some (RunRequest (Some c))")
  case True
  then obtain c where "decode buf = Some (RunRequest (Some c))" by blast
  then show thesis by (intro run [of c]) (simp add: handle_message_def)
next
  case False
  then show thesis
    by (intro other) (auto simp: handle_message_def Cons_eq_append_conv split: option.splits request.splits)
qed

lemma handle_message_waits: "waits_for (handle_message decode me os buf)"
proof (rule handle_message_cases [of decode me os buf])
  fix c
  assume run: "handle_message decode me os buf = run_request me os c"
  show ?thesis
  proof (rule run_request_cases [of me os c])
    assume "run_request me os c = [RPanic]"
    with run show ?thesis by (simp add: waits_for_def)
  next
    fix command path ws calls pid code
    assume rc: "run_child me command path (ro_spawn os) = (calls, pid, code)"
      "run_request me os c = calls @ then_r (handle_surveillances me os 0 ws) [RSend (MProcessTerminated pid code)]"
    have "waits_for calls" using run_child_waits [of me command path "ro_spawn os"] rc(1) by simp
    moreover have "waits_for (then_r (handle_surveillances me os 0 ws) [RSend (MProcessTerminated pid code)])"
      by (rule waits_for_quiet) (auto simp: then_r_def dest: surveillance_quiet)
    ultimately show ?thesis unfolding run rc(2) by (rule waits_for_append)
  qed
qed (rule waits_for_quiet)

lemma handle_message_kill:
  assumes "handle_message decode me os buf = pre @ RKill p # post"
  shows "pre = []"
proof (rule handle_message_cases [of decode me os buf])
  fix c
  assume run: "handle_message decode me os buf = run_request me os c"
  then have "run_request me os c = pre @ RKill p # post" using assms by simp
  then have kill: "RKill p \<in> set (run_request me os c)" by simp
  show ?thesis
  proof (rule run_request_cases [of me os c])
    assume "run_request me os c = [RPanic]"
    with kill show ?thesis by simp
  next
    fix command path ws calls pid code
    assume rc: "run_child me command path (ro_spawn os) = (calls, pid, code)"
      "run_request me os c = calls @ then_r (handle_surveillances me os 0 ws) [RSend (MProcessTerminated pid code)]"
    with kill show ?thesis using run_child_quiet(1) [of p me command path "ro_spawn os"]
      by (auto simp: then_r_def split: if_splits dest: surveillance_quiet)
  qed
qed (use assms in blast)

lemma serve_kill_waits: "serve decode me oss segs = pre @ RKill p # post \<Longrightarrow> waits_for pre"
proof (induction oss arbitrary: segs pre)
  case Nil
  then show ?case by simp
next
  case (Cons os oss)
  from Cons.prems obtain buf rest where buf: "read_message segs = Some (buf, rest)" by (auto split: option.splits)
  let ?h = "handle_message decode me os buf"
  show ?case
  proof (cases "\<exists>post'. ?h = pre @ RKill p # post'")
    case True
    then have "pre = []" by (auto dest: handle_message_kill)
    then show ?thesis by (simp add: waits_for_def)
  next
    case False
    with Cons.prems buf have no: "RPanic \<notin> set ?h" by (auto simp: then_r_def split: if_splits)
    with Cons.prems buf have "?h @ serve decode me oss rest = pre @ RKill p # post" by (simp add: then_r_def)
    with False obtain pre' where pre': "pre = ?h @ pre'" "serve decode me oss rest = pre' @ RKill p # post"
      by (auto simp: append_eq_append_conv2 append_eq_Cons_conv Cons_eq_append_conv)
    from Cons.IH [OF pre'(2)] handle_message_waits pre'(1) show ?thesis by (simp add: waits_for_append)
  qed
qed

text \<open>C32 (safety).  The Rust daemon handles the messages of a connection one after the other: when it sends
  the kill signal a client asked for, it has already waited for the end of every child it reported as started
  on that connection.  A kill request for a child of the same connection comes too late.\<close>

theorem rust_kill_after_wait:
  assumes "connection_task decode me port oss segs = pre @ RKill p # post"
    and "RSend (MExecveTerminated pid path True) \<in> set pre"
  shows "\<exists>p'. s32 p' = pid \<and> RWait p' \<in> set pre"
proof -
  from assms(1) obtain pre' where "pre = RSend (MTCPSocketListening (u16 port)) # pre'" "serve decode me oss segs = pre' @ RKill p # post"
    by (cases pre) (auto simp: connection_task_def)
  with serve_kill_waits [OF this(2)] assms(2) show ?thesis by (auto simp: waits_for_def)
qed


text \<open>A client that starts a command and then asks to kill its process.\<close>

definition kill_decoder :: decoder where
  "kill_decoder buf = (if buf = [1] then Some (whole (MRunCommand echo_run)) else if buf = [2] then Some (whole (MKillProcess 100)) else None)"

definition kill_os :: rust_os where
  "kill_os = \<lparr>ro_spawn = Spawned 100 (WaitOk (Some 0)), ro_file = \<lambda>_. FileEvent, ro_port = \<lambda>_. PortEvent Listen, ro_kill = Some 3\<rparr>"

lemma kill_conversation:
  "connection_task kill_decoder 7 8080 [kill_os, kill_os] [Seg [1, 0, 0, 0, 1], Seg [1, 0, 0, 0, 2]] =
     [RSend (MTCPSocketListening 8080), RSpawn (prepared echo_run), RSend (MProcessLaunched 100),
      RSend (MExecveTerminated 100 (rc_path echo_run) True), RWait 100, RSend (MProcessTerminated 100 0)] @
     RKill 100 # [RSend (MProcessTerminated 7 3)]"
proof -
  have "le_nat [1, 0, 0, 0] = 1" by simp
  then show ?thesis
    by (simp add: connection_task_def read_message_def handle_message_def run_request_whole kill_decoder_def run_child_def kill_os_def then_r_def
        echo_run_def u16_def s32_def u32_def or_one_def)
qed

theorem rust_kill_after_wait_witness:
  "\<exists>p'. s32 p' = 100 \<and> RWait p' \<in> set [RSend (MTCPSocketListening 8080), RSpawn (prepared echo_run), RSend (MProcessLaunched 100),
      RSend (MExecveTerminated 100 (rc_path echo_run) True), RWait 100, RSend (MProcessTerminated 100 0)]"
  by (rule rust_kill_after_wait [OF kill_conversation, of 100 "rc_path echo_run"]) simp

section \<open>Reports\<close>

text \<open>C13 (equivalence).  For a command without surveillance whose child starts and exits by itself, the Rust
  daemon sends the messages the C daemon sends (\<open>c_talk\<close>), in the same order, whatever the bytes of
  the frame are cut into.\<close>

theorem daemons_agree:
  assumes "decode buf = Some (whole (MRunCommand c))" and "rc_to_watch c = []" and "Reset \<notin> set segs"
    and "seg_bytes segs = send_on_socket buf" and "length buf < 4294967296"
    and "ro_spawn os = Spawned pid (WaitOk (Some code))" and "0 < pid" and "pid \<le> 2147483647" and "0 \<le> code" and "code \<le> 255"
  shows "r_messages (connection_task decode me port [os] segs) = c_talk port pid c code"
proof -
  from read_message_split [of segs buf "[]"] assms(3-5) obtain rest where "read_message segs = Some (buf, rest)" by auto
  with assms show ?thesis
    by (simp add: connection_task_def handle_message_def run_request_whole run_child_def then_r_def c_talk_def s32_id u32_def or_one_def)
qed

theorem daemons_agree_witness:
  "r_messages (connection_task echo_decoder 7 8080 [kill_os] [Seg [1, 0], Seg [0, 0, 1]]) = c_talk 8080 100 echo_run 0"
proof -
  have "send_on_socket [1] = [1, 0, 0, 0, 1]" by (simp add: send_on_socket_def le_bytes_4 byte_of_def)
  then show ?thesis
    using daemons_agree [of echo_decoder "[1]" echo_run "[Seg [1, 0], Seg [0, 0, 1]]" kill_os 100 0 7 8080]
    by (simp add: echo_decoder_def echo_run_def seg_bytes_def kill_os_def)
qed

text \<open>When a child is ended by a signal, the C daemon reports the number of the signal as error
  code and the Rust daemon reports 1.\<close>

theorem signalled_child_reported_differently:
  assumes "handle_SIGCHLD pid (WSignaled sig) d = Inr (d', calls, m)" and "0 < pid" and "pid \<le> 2147483647" and "0 \<le> sig" and "sig \<le> 127"
    and "decode buf = Some (whole (MRunCommand c))" and "rc_to_watch c = []" and "ro_spawn os = Spawned pid (WaitOk None)"
  shows "m = MProcessTerminated pid sig \<and>
    RSend (MProcessTerminated pid 1) \<in> set (handle_message decode me os buf) \<and>
    (\<forall>e. RSend (MProcessTerminated pid e) \<in> set (handle_message decode me os buf) \<longrightarrow> e = 1)"
proof
  show "m = MProcessTerminated pid sig"
    using assms(1-5) by (auto simp: handle_SIGCHLD_def exit_status_def bindE_eq_Inr s32_id u32_def)
  show "RSend (MProcessTerminated pid 1) \<in> set (handle_message decode me os buf) \<and>
    (\<forall>e. RSend (MProcessTerminated pid e) \<in> set (handle_message decode me os buf) \<longrightarrow> e = 1)"
    using assms by (simp add: handle_message_def run_request_whole run_child_def then_r_def s32_id u32_def or_one_def)
qed

theorem signalled_child_reported_differently_witness:
  "\<exists>d' calls. handle_SIGCHLD 100 (WSignaled 9) (launched 1) = Inr (d', calls, MProcessTerminated 100 9) \<and>
     RSend (MProcessTerminated 100 1) \<in> set (handle_message echo_decoder 7 (kill_os\<lparr>ro_spawn := Spawned 100 (WaitOk None)\<rparr>) [1])"
proof -
  have "filled 1 = child_slot 0 # replicate 255 new_slot" by (simp add: filled_def MAX_PROCESS_def)
  then obtain d' calls m where "handle_SIGCHLD 100 (WSignaled 9) (launched 1) = Inr (d', calls, m)"
    by (simp add: handle_SIGCHLD_def exit_status_def manager_remove_process_def clear_slot_def child_slot_def)
  with signalled_child_reported_differently [OF this, of echo_decoder "[1]" echo_run "kill_os\<lparr>ro_spawn := Spawned 100 (WaitOk None)\<rparr>" 7]
  show ?thesis by (auto simp: echo_decoder_def echo_run_def)
qed


section \<open>File watches\<close>

lemma r_messages_iff: "m \<in> set (r_messages calls) \<longleftrightarrow> RSend m \<in> set calls"
  by (induction calls rule: r_messages.induct) auto

lemma surveillance_no_watchlist: "RSend (MInotifyWatchListUpdated path) \<notin> set (handle_surveillances me os i ws)"
proof (induction ws arbitrary: i)
  case (Cons w ws)
  then show ?case
    by (cases "(me, w, ro_file os i, ro_port os i)" rule: handle_surveillance_event.cases)
      (auto simp: then_r_def Let_def split: file_result.splits port_result.splits)
qed simp

lemma handle_no_watchlist: "RSend (MInotifyWatchListUpdated path) \<notin> set (handle_message decode me os buf)"
proof (rule handle_message_cases [of decode me os buf])
  fix c
  assume run: "handle_message decode me os buf = run_request me os c"
  show ?thesis unfolding run
  proof (rule run_request_cases [of me os c])
    fix command path' ws calls pid code
    assume "run_child me command path' (ro_spawn os) = (calls, pid, code)"
      "run_request me os c = calls @ then_r (handle_surveillances me os 0 ws) [RSend (MProcessTerminated pid code)]"
    then show "RSend (MInotifyWatchListUpdated path) \<notin> set (run_request me os c)" using surveillance_no_watchlist
      by (auto simp: run_child_def then_r_def split: spawn_result.splits)
  qed simp
qed blast

lemma serve_no_watchlist: "RSend (MInotifyWatchListUpdated path) \<notin> set (serve decode me oss segs)"
  by (induction oss arbitrary: segs) (auto simp: then_r_def handle_no_watchlist split: option.splits)

lemma watchlist_only: "want_event_user m = INOTIFY_WATCH_LIST_UPDATED \<Longrightarrow> \<exists>path. m = MInotifyWatchListUpdated path"
  by (cases m) auto

text \<open>The Rust daemon confirms a file watch with an \<^verbatim>\<open>InotifyPathUpdated\<close> and never
  sends an \<^verbatim>\<open>InotifyWatchListUpdated\<close>.  The Python client \<^verbatim>\<open>inotify_watchlist_updated\<close>, which
  waits for the latter, does not return, whatever commands the Rust daemon is given.\<close>

theorem watchlist_client_hangs_on_rust:
  assumes "flatbuffers_pkg fb enc valid store phase used" and "command_message cmd = Some c"
    and "command_cost c \<le> 2147483647" and "serves fb enc k (r_messages (connection_task decode me port oss segs))"
  shows "inotify_watchlist_updated fb (Some k) cmd = None"
proof -
  have "\<forall>m \<in> set (r_messages (connection_task decode me port oss segs)). want_event_user m \<noteq> INOTIFY_WATCH_LIST_UPDATED"
    using serve_no_watchlist by (auto simp: connection_task_def r_messages_iff dest!: watchlist_only)
  from flatbuffers_pkg.reply_lost [OF assms this] show ?thesis by (simp add: inotify_watchlist_updated_def)
qed

lemma echo_conversation:
  "r_messages (connection_task echo_decoder 7 8080 [kill_os] [Seg [1, 0, 0, 0, 1]]) =
     [MTCPSocketListening 8080, MProcessLaunched 100, MExecveTerminated 100 [47, 101] True, MProcessTerminated 100 0]"
proof -
  have "le_nat [1, 0, 0, 0] = 1" by simp
  then show ?thesis
    by (simp add: connection_task_def read_message_def handle_message_def run_request_whole echo_decoder_def run_child_def kill_os_def then_r_def
        echo_run_def u16_def s32_def u32_def or_one_def)
qed

lemma wire_echo_conversation:
  "\<exists>k. serves wire_fb wire_encodes k (r_messages (connection_task echo_decoder 7 8080 [kill_os] [Seg [1, 0, 0, 0, 1]]))"
proof -
  have name: "utf8_encode (pystr_of ''/e'') = Inr [47, 101]" by code_simp
  have "\<forall>m \<in> set [MTCPSocketListening 8080, MProcessLaunched 100, MExecveTerminated 100 [47, 101] True, MProcessTerminated 100 0].
      \<exists>buf. carries wire_fb wire_encodes buf m \<and> buf \<noteq> [] \<and> length buf < 2147483648"
    using wire_frame [OF okE_some [OF wire.tcpsocketlistening_sends [of 8080]]]
      wire_frame [OF okE_some [OF wire.processlaunched_sends [of 100]]]
      wire_frame [OF wire.execveterminated_builds [OF _ name, of 100]]
      wire_frame [OF okE_some [OF wire.processterminated_sends [of 100 0]]] by simp
  then show ?thesis unfolding echo_conversation by (intro serves_exist) fastforce
qed

theorem watchlist_client_hangs_on_rust_witness:
  "\<exists>k. inotify_watchlist_updated wire_fb (Some k) sample_command = None"
proof -
  obtain k where "serves wire_fb wire_encodes k (r_messages (connection_task echo_decoder 7 8080 [kill_os] [Seg [1, 0, 0, 0, 1]]))"
    using wire_echo_conversation by blast
  from watchlist_client_hangs_on_rust [OF wire_package sample_command_message sample_command_cost this] show ?thesis by blast
qed

end
