(* ===== verification/Rust_Watch.thy ===== *)
theory Rust_Watch
  imports Rust_Session
begin

text \<open>
  The two watches of the Rust daemon: \<^verbatim>\<open>read_events_inotify\<close> of
  \<^verbatim>\<open>monitoring_tools/inotify_tool.rs\<close> and \<^verbatim>\<open>read_events_port_tokio\<close> of
  \<^verbatim>\<open>monitoring_tools/network.rs\<close>.  What the kernel reports, the sizes of files and the tables of sockets
  are arguments.  A panic inside of the spawned task makes the caller panic (files) or is an error (ports).
\<close>

section \<open>inotify\_tool.rs\<close>

type_synonym event_mask = "32 word"

definition IN_ACCESS :: event_mask where "IN_ACCESS = 1"
definition IN_MODIFY :: event_mask where "IN_MODIFY = 2"
definition IN_CLOSE_WRITE :: event_mask where "IN_CLOSE_WRITE = 8"
definition IN_CLOSE_NOWRITE :: event_mask where "IN_CLOSE_NOWRITE = 16"
definition IN_CREATE :: event_mask where "IN_CREATE = 256"
definition IN_DELETE :: event_mask where "IN_DELETE = 512"
definition IN_ISDIR :: event_mask where "IN_ISDIR = 1073741824"

unbundle bit_operations_syntax

definition contains :: "event_mask \<Rightarrow> event_mask \<Rightarrow> bool" where
  "contains m bits \<longleftrightarrow> m AND bits = bits"

text \<open>The events asked for, computed from the mask of the request in \<^verbatim>\<open>handle_surveillance_event\<close>.\<close>

definition trig_events :: "event_mask \<Rightarrow> event_mask list" where
  "trig_events events =
     (if events AND IN_ACCESS \<noteq> 0 then [IN_ACCESS] else []) @
     (if events AND IN_CREATE \<noteq> 0 then [IN_CREATE, IN_ISDIR] else []) @
     (if events AND IN_DELETE \<noteq> 0 then [IN_DELETE] else []) @
     (if events AND IN_MODIFY \<noteq> 0 then [IN_MODIFY] else []) @
     (if events AND (IN_CLOSE_NOWRITE OR IN_CLOSE_WRITE) \<noteq> 0 then [IN_CLOSE_NOWRITE, IN_CLOSE_WRITE] else [])"

text \<open>One event: its mask and its name, if it has one; \<open>Some None\<close> is a name that is not UTF-8.\<close>

record file_event =
  fe_mask :: event_mask
  fe_name :: "bytes option option"

text \<open>The file system when an event is handled: whether the watched path is a directory, and the sizes.\<close>

record file_system =
  fs_is_dir :: "bytes \<Rightarrow> bool"
  fs_size :: "bytes \<Rightarrow> nat option"

datatype event_step = Break | Continue | Panic

definition handle_file_event :: "file_system \<Rightarrow> bytes \<Rightarrow> event_mask list \<Rightarrow> int \<Rightarrow> file_event \<Rightarrow> event_step" where
  "handle_file_event fs path vec reach_size e =
     (case (case fe_name e of None \<Rightarrow> Some path | Some name \<Rightarrow> name) of
        None \<Rightarrow> Panic
      | Some name_file \<Rightarrow>
          (case fs_size fs (if fs_is_dir fs path then path @ [47] @ name_file else name_file) of
             None \<Rightarrow> Panic
           | Some len \<Rightarrow>
               (let file_size = u32 (int len); m = fe_mask e in
                if \<not> list_ex (\<lambda>x. contains m x) vec then Continue
                else if (contains m IN_CLOSE_WRITE \<or> contains m IN_CLOSE_NOWRITE) \<and> file_size > reach_size then Break
                else if contains m IN_CREATE \<and> name_file \<noteq> [] then Break
                else if contains m IN_ACCESS \<and> name_file \<noteq> [] then Break
                else if contains m IN_DELETE \<and> name_file \<noteq> [] then Break
                else if contains m IN_MODIFY \<and> name_file \<noteq> [] then Break
                else Continue)))"

text \<open>The loop over the events of one read; the result says whether the task survives it.\<close>

fun handle_file_events :: "file_system \<Rightarrow> bytes \<Rightarrow> event_mask list \<Rightarrow> int \<Rightarrow> file_event list \<Rightarrow> bool" where
  "handle_file_events fs path vec reach_size [] = True"
| "handle_file_events fs path vec reach_size (e # es) = (case handle_file_event fs path vec reach_size e of
       Break \<Rightarrow> True | Continue \<Rightarrow> handle_file_events fs path vec reach_size es | Panic \<Rightarrow> False)"

text \<open>The results of the calls: setting up (\<^verbatim>\<open>create_epoll\<close>, \<^verbatim>\<open>create_inotify_watch_file\<close> and the
  two that follow, all with \<^verbatim>\<open>expect\<close>), \<^verbatim>\<open>epoll_wait\<close>, and the read, which gives events or an errno.\<close>

record inotify_os =
  io_setup :: bool
  io_epoll_wait :: int
  io_read :: "(int option) + file_event list"
  io_files :: file_system

definition UnknownErrno :: int where
  "UnknownErrno = 0"

definition read_events_inotify :: "inotify_os \<Rightarrow> bytes \<Rightarrow> event_mask list \<Rightarrow> int \<Rightarrow> file_result" where
  "read_events_inotify os path vec reach_size =
     (if \<not> io_setup os then FilePanic
      else if io_epoll_wait os < 0 then FileError UnknownErrno
      else (case io_read os of
          Inl errno \<Rightarrow> FileError (case errno of None \<Rightarrow> 0 | Some e \<Rightarrow> e)
        | Inr es \<Rightarrow> if handle_file_events (io_files os) path vec reach_size es then FileEvent else FilePanic))"

section \<open>network.rs\<close>

datatype tcp_state = Tcp_Listen | Tcp_Unknown | Tcp_Established | Tcp_Other

text \<open>A snapshot of the TCP sockets; \<open>None\<close> when \<^verbatim>\<open>get_sockets_info\<close> fails, which panics.\<close>

type_synonym socket_table = "(int \<times> tcp_state) list option"

definition is_port_event :: "socket_table \<Rightarrow> int \<Rightarrow> tcp_state \<Rightarrow> bool option" where
  "is_port_event table port st = map_option (\<lambda>sockets. (port, st) \<in> set sockets) table"

text \<open>The polling loop; every call of \<^verbatim>\<open>is_port_event\<close> sees a snapshot of its own.  The value \<open>None\<close> is
  a loop that never ends.\<close>

partial_function (option) poll_port :: "(nat \<Rightarrow> socket_table) \<Rightarrow> int \<Rightarrow> nat \<Rightarrow> port_result option" where
  "poll_port tables port i =
     (case is_port_event (tables (3 * i)) port Tcp_Listen of
        None \<Rightarrow> Some (PortError UnknownErrno)
      | Some listen \<Rightarrow> if listen then Some (PortEvent Listen)
          else (case is_port_event (tables (3 * i + 1)) port Tcp_Unknown of
              None \<Rightarrow> Some (PortError UnknownErrno)
            | Some unknown \<Rightarrow> if unknown then Some (PortEvent Other)
                else (case is_port_event (tables (3 * i + 2)) port Tcp_Established of
                    None \<Rightarrow> Some (PortError UnknownErrno)
                  | Some established \<Rightarrow> if established then Some (PortEvent Established) else poll_port tables port (Suc i))))"

definition read_events_port_tokio :: "(nat \<Rightarrow> socket_table) \<Rightarrow> int \<Rightarrow> port_result option" where
  "read_events_port_tokio tables port = poll_port tables port 0"

section \<open>Watching a file\<close>

text \<open>An event whose file can be looked up.\<close>

definition readable :: "file_system \<Rightarrow> bytes \<Rightarrow> file_event \<Rightarrow> bool" where
  "readable fs path e \<longleftrightarrow> (case (case fe_name e of None \<Rightarrow> Some path | Some name \<Rightarrow> name) of
     None \<Rightarrow> False | Some name_file \<Rightarrow> fs_size fs (if fs_is_dir fs path then path @ [47] @ name_file else name_file) \<noteq> None)"

lemma panic_iff: "handle_file_event fs path vec reach_size e = Panic \<longleftrightarrow> \<not> readable fs path e"
  by (auto simp: handle_file_event_def readable_def Let_def split: option.splits)

text \<open>The events a read gives before the first that ends the loop, this one included.\<close>

fun handled :: "file_system \<Rightarrow> bytes \<Rightarrow> event_mask list \<Rightarrow> int \<Rightarrow> file_event list \<Rightarrow> file_event list" where
  "handled fs path vec reach_size [] = []"
| "handled fs path vec reach_size (e # es) =
     e # (if handle_file_event fs path vec reach_size e = Break then [] else handled fs path vec reach_size es)"

lemma handle_file_events_iff:
  "handle_file_events fs path vec reach_size es \<longleftrightarrow> (\<forall>e \<in> set (handled fs path vec reach_size es). readable fs path e)"
proof (induction es)
  case (Cons e es)
  show ?case
    using Cons panic_iff [of fs path vec reach_size e] by (cases "handle_file_event fs path vec reach_size e") auto
qed simp

lemma handled_subset: "set (handled fs path vec reach_size es) \<subseteq> set es"
  by (induction es) auto

text \<open>The watch the daemon starts for a request: what the kernel does is an argument.\<close>

definition watches_file :: "rust_os \<Rightarrow> inotify_os \<Rightarrow> bytes \<Rightarrow> int \<Rightarrow> int \<Rightarrow> bool" where
  "watches_file os ios path events reach_size \<longleftrightarrow>
     ro_file os 0 = read_events_inotify ios path (trig_events (word_of_int events)) reach_size"

text \<open>The kernel delivers a batch of events.\<close>

definition delivers :: "inotify_os \<Rightarrow> file_event list \<Rightarrow> bool" where
  "delivers ios es \<longleftrightarrow> io_setup ios \<and> 0 \<le> io_epoll_wait ios \<and> io_read ios = Inr es"

lemma read_events_delivered:
  "delivers ios es \<Longrightarrow> read_events_inotify ios path vec reach_size =
     (if \<forall>e \<in> set (handled (io_files ios) path vec reach_size es). readable (io_files ios) path e then FileEvent else FilePanic)"
  by (auto simp: delivers_def read_events_inotify_def handle_file_events_iff)

text \<open>What the client hears of a command with one file watch before the watch ends.\<close>

definition watch_talk :: "int \<Rightarrow> int \<Rightarrow> run_command \<Rightarrow> bytes \<Rightarrow> int \<Rightarrow> int \<Rightarrow> message list" where
  "watch_talk port pid c path events reach_size = [MTCPSocketListening (u16 port), MProcessLaunched pid,
     MExecveTerminated pid (rc_path c) True, MInotifyPathUpdated path (watch_trigger events) 0 reach_size]"

lemma watch_conversation:
  assumes "decode buf = Some (whole (MRunCommand c))" and "rc_to_watch c = [WatchInotify path events reach_size]"
    and "read_message segs = Some (buf, rest)" and "ro_spawn os = Spawned pid (WaitOk (Some code))"
    and "0 < pid" and "pid \<le> 2147483647" and "0 \<le> code" and "code \<le> 255"
  shows "r_messages (connection_task decode me port (os # oss) segs) = watch_talk port pid c path events reach_size @
     (case ro_file os 0 of FilePanic \<Rightarrow> []
      | FileEvent \<Rightarrow> [MProcessTerminated (s32 me) 0, MProcessTerminated pid code] @ r_messages (serve decode me oss rest)
      | FileError e \<Rightarrow> [MProcessTerminated (s32 me) (u32 e), MProcessTerminated pid code] @ r_messages (serve decode me oss rest))"
  using assms
  by (auto simp: connection_task_def handle_message_def run_request_whole run_child_def then_r_def watch_talk_def s32_id u32_def or_one_def
      split: file_result.splits)

text \<open>C29 (functional).  A file watch of the Rust daemon ends with the first batch of events the kernel delivers,
  whatever was asked for: when every event names a file whose size can be read, the daemon reports the end of
  the watch and of the child, for every mask and every size of the request, even if none of the events is
  one of those asked for.\<close>

theorem any_event_ends_watch:
  assumes "decode buf = Some (whole (MRunCommand c))" and "rc_to_watch c = [WatchInotify path events reach_size]"
    and "Reset \<notin> set segs" and "seg_bytes segs = send_on_socket buf" and "length buf < 4294967296"
    and "ro_spawn os = Spawned pid (WaitOk (Some code))" and "0 < pid" and "pid \<le> 2147483647" and "0 \<le> code" and "code \<le> 255"
    and "watches_file os ios path events reach_size" and "delivers ios es" and "\<forall>e \<in> set es. readable (io_files ios) path e"
  shows "r_messages (connection_task decode me port [os] segs) =
    watch_talk port pid c path events reach_size @ [MProcessTerminated (s32 me) 0, MProcessTerminated pid code]"
proof -
  from read_message_split [of segs buf "[]"] assms(3-5) obtain rest where rest: "read_message segs = Some (buf, rest)" by auto
  have "ro_file os 0 = FileEvent"
    using assms(11,12,13) handled_subset by (fastforce simp: watches_file_def read_events_delivered)
  with watch_conversation [where decode = decode and buf = buf and oss = "[]" and me = me and port = port, OF assms(1,2) rest assms(6-10)] show ?thesis by simp
qed

text \<open>C30 (error).  The size of the file is read before the event is looked at.  When the file of an event is
  gone, as for every \<^verbatim>\<open>DELETE\<close> event, the watch panics and with it the task of the connection: the end of
  the child is never reported, and no later message of the client is handled.\<close>

theorem vanished_file_ends_connection:
  assumes "decode buf = Some (whole (MRunCommand c))" and "rc_to_watch c = [WatchInotify path events reach_size]"
    and "Reset \<notin> set segs" and "seg_bytes segs = send_on_socket buf @ later" and "length buf < 4294967296"
    and "ro_spawn os = Spawned pid (WaitOk (Some code))" and "0 < pid" and "pid \<le> 2147483647" and "0 \<le> code" and "code \<le> 255"
    and "watches_file os ios path events reach_size" and "delivers ios es"
    and "e \<in> set (handled (io_files ios) path (trig_events (word_of_int events)) reach_size es)" and "\<not> readable (io_files ios) path e"
  shows "r_messages (connection_task decode me port (os # oss) segs) = watch_talk port pid c path events reach_size"
proof -
  from read_message_split [OF assms(3-5)] obtain rest where rest: "read_message segs = Some (buf, rest)" by auto
  have "ro_file os 0 = FilePanic"
    using assms(11-14) by (auto simp: watches_file_def read_events_delivered)
  with watch_conversation [where decode = decode and buf = buf and oss = oss and me = me and port = port, OF assms(1,2) rest assms(6-10)] show ?thesis by simp
qed


text \<open>A command with a watch for changes of a directory, a directory with one file, and what the kernel delivers:
  an access, or the end of a file.\<close>

definition watched_run :: run_command where
  "watched_run = echo_run\<lparr>rc_to_watch := [WatchInotify [47, 100] 2 128]\<rparr>"

definition one_file :: file_system where
  "one_file = \<lparr>fs_is_dir = \<lambda>p. p = [47, 100], fs_size = \<lambda>p. if p = [47, 100, 47, 102] then Some 3 else None\<rparr>"

definition one_batch :: "file_event \<Rightarrow> inotify_os" where
  "one_batch e = \<lparr>io_setup = True, io_epoll_wait = 1, io_read = Inr [e], io_files = one_file\<rparr>"

definition batch_os :: "file_event \<Rightarrow> rust_os" where
  "batch_os e = kill_os\<lparr>ro_file := \<lambda>_. read_events_inotify (one_batch e) [47, 100] (trig_events 2) 128\<rparr>"

lemma watched_frame: "send_on_socket [1] = [1, 0, 0, 0, 1]"
  by (simp add: send_on_socket_def le_bytes_4 byte_of_def)

theorem any_event_ends_watch_witness:
  "r_messages (connection_task (\<lambda>_. Some (whole (MRunCommand watched_run))) 7 8080 [batch_os \<lparr>fe_mask = IN_ACCESS, fe_name = Some (Some [102])\<rparr>]
       [Seg [1, 0, 0, 0, 1]]) =
     watch_talk 8080 100 watched_run [47, 100] 2 128 @ [MProcessTerminated 7 0, MProcessTerminated 100 0]"
  by (rule any_event_ends_watch [where buf = "[1]" and ios = "one_batch \<lparr>fe_mask = IN_ACCESS, fe_name = Some (Some [102])\<rparr>" and
        es = "[\<lparr>fe_mask = IN_ACCESS, fe_name = Some (Some [102])\<rparr>]" and me = 7, simplified s32_def, simplified])
    (simp_all add: watched_run_def watched_frame seg_bytes_def batch_os_def kill_os_def watches_file_def delivers_def one_batch_def
      readable_def one_file_def)

theorem vanished_file_ends_connection_witness:
  "r_messages (connection_task (\<lambda>_. Some (whole (MRunCommand watched_run))) 7 8080
       [batch_os \<lparr>fe_mask = IN_DELETE, fe_name = Some (Some [103])\<rparr>, kill_os] [Seg [1, 0, 0, 0, 1, 1, 0, 0, 0, 2]]) =
     watch_talk 8080 100 watched_run [47, 100] 2 128"
  by (rule vanished_file_ends_connection [where buf = "[1]" and later = "[1, 0, 0, 0, 2]" and
        ios = "one_batch \<lparr>fe_mask = IN_DELETE, fe_name = Some (Some [103])\<rparr>" and
        es = "[\<lparr>fe_mask = IN_DELETE, fe_name = Some (Some [103])\<rparr>]" and e = "\<lparr>fe_mask = IN_DELETE, fe_name = Some (Some [103])\<rparr>" and
        pid = 100 and code = 0])
    (simp_all add: watched_run_def watched_frame seg_bytes_def batch_os_def kill_os_def watches_file_def delivers_def one_batch_def
      readable_def one_file_def)

section \<open>Watching a port\<close>

text \<open>One round of the loop, if it ends it: the states are tried in the order of the code.\<close>

definition try_state :: "socket_table \<Rightarrow> int \<Rightarrow> tcp_state \<Rightarrow> port_result \<Rightarrow> port_result option \<Rightarrow> port_result option" where
  "try_state table port st r rest = (case is_port_event table port st of
     None \<Rightarrow> Some (PortError UnknownErrno) | Some seen \<Rightarrow> if seen then Some r else rest)"

definition port_round :: "(nat \<Rightarrow> socket_table) \<Rightarrow> int \<Rightarrow> nat \<Rightarrow> port_result option" where
  "port_round tables port i = try_state (tables (3 * i)) port Tcp_Listen (PortEvent Listen)
     (try_state (tables (3 * i + 1)) port Tcp_Unknown (PortEvent Other)
       (try_state (tables (3 * i + 2)) port Tcp_Established (PortEvent Established) None))"

lemma poll_port_round:
  "poll_port tables port i = (case port_round tables port i of None \<Rightarrow> poll_port tables port (Suc i) | Some r \<Rightarrow> Some r)"
  by (subst poll_port.simps) (simp add: port_round_def try_state_def split: option.splits)

lemma poll_port_ends:
  assumes "poll_port tables port i = Some r"
  shows "\<exists>n \<ge> i. port_round tables port n \<noteq> None"
proof (rule poll_port.raw_induct [OF _ assms])
  fix f :: "(nat \<Rightarrow> socket_table) \<Rightarrow> int \<Rightarrow> nat \<Rightarrow> port_result option" and tables :: "nat \<Rightarrow> socket_table" and port i r
  assume IH: "\<And>tables port i r. f tables port i = Some r \<Longrightarrow> \<exists>n \<ge> i. port_round tables port n \<noteq> None"
    and body: "(case is_port_event (tables (3 * i)) port Tcp_Listen of
        None \<Rightarrow> Some (PortError UnknownErrno)
      | Some listen \<Rightarrow> if listen then Some (PortEvent Listen)
          else (case is_port_event (tables (3 * i + 1)) port Tcp_Unknown of
              None \<Rightarrow> Some (PortError UnknownErrno)
            | Some unknown \<Rightarrow> if unknown then Some (PortEvent Other)
                else (case is_port_event (tables (3 * i + 2)) port Tcp_Established of
                    None \<Rightarrow> Some (PortError UnknownErrno)
                  | Some established \<Rightarrow> if established then Some (PortEvent Established) else f tables port (Suc i)))) = Some r"
  show "\<exists>n \<ge> i. port_round tables port n \<noteq> None"
  proof (cases "port_round tables port i")
    case None
    with body have "f tables port (Suc i) = Some r"
      by (auto simp: port_round_def try_state_def split: option.splits if_splits)
    from IH [OF this] show ?thesis using Suc_leD by blast
  qed blast
qed

lemma poll_port_first:
  assumes "port_round tables port n = Some r" and "\<forall>j < n. port_round tables port j = None" and "i \<le> n"
  shows "poll_port tables port i = Some r"
  using assms(3,2)
proof (induction i rule: inc_induct)
  case base
  from assms(1) show ?case by (subst poll_port_round) simp
next
  case (step i)
  then show ?case by (subst poll_port_round) simp
qed

text \<open>C31 (termination).  The port watch of the Rust daemon has no time limit: it ends exactly when some round sees
  the port listening, in an unknown state or established (or cannot read the table of sockets), and the result is
  that of the first such round, in this order of the states.  A port no socket ever uses, or one that is only
  seen in other states such as closing, keeps it polling forever.\<close>

theorem port_watch_ends:
  "read_events_port_tokio tables port =
     (if \<exists>n. port_round tables port n \<noteq> None then port_round tables port (LEAST n. port_round tables port n \<noteq> None) else None) \<and>
   ((\<forall>i. \<exists>sockets. tables i = Some sockets \<and> (\<forall>st. (port, st) \<in> set sockets \<longrightarrow> st = Tcp_Other)) \<longrightarrow>
     read_events_port_tokio tables port = None)"
proof
  show first: "read_events_port_tokio tables port =
     (if \<exists>n. port_round tables port n \<noteq> None then port_round tables port (LEAST n. port_round tables port n \<noteq> None) else None)"
  proof (cases "\<exists>n. port_round tables port n \<noteq> None")
    case True
    let ?n = "LEAST n. port_round tables port n \<noteq> None"
    from True have "port_round tables port ?n \<noteq> None" by (rule LeastI_ex)
    then obtain r where r: "port_round tables port ?n = Some r" by blast
    have "\<forall>j < ?n. port_round tables port j = None" using not_less_Least by blast
    then have "read_events_port_tokio tables port = Some r" unfolding read_events_port_tokio_def by (rule poll_port_first [OF r _ le0])
    then show ?thesis unfolding r using True by (simp only: if_True)
  next
    case False
    then have "read_events_port_tokio tables port = None"
      using poll_port_ends [of tables port 0] unfolding read_events_port_tokio_def by (metis option.exhaust)
    then show ?thesis using False by (simp only: if_False)
  qed
  show "(\<forall>i. \<exists>sockets. tables i = Some sockets \<and> (\<forall>st. (port, st) \<in> set sockets \<longrightarrow> st = Tcp_Other)) \<longrightarrow>
     read_events_port_tokio tables port = None"
  proof
    assume quiet: "\<forall>i. \<exists>sockets. tables i = Some sockets \<and> (\<forall>st. (port, st) \<in> set sockets \<longrightarrow> st = Tcp_Other)"
    have "is_port_event (tables i) port st = Some False" if "st \<noteq> Tcp_Other" for i st
      using quiet [rule_format, of i] that by (auto simp: is_port_event_def)
    then have "port_round tables port n = None" for n by (simp add: port_round_def try_state_def)
    then show "read_events_port_tokio tables port = None" by (simp add: first)
  qed
qed

theorem port_watch_ends_witness:
  "read_events_port_tokio (\<lambda>i. Some (if i < 7 then [(8080, Tcp_Other)] else [(8080, Tcp_Established), (8080, Tcp_Unknown)])) 8080 = Some (PortEvent Other) \<and>
   read_events_port_tokio (\<lambda>i. Some [(8080, Tcp_Other)]) 8080 = None"
proof
  let ?t = "\<lambda>i :: nat. Some (if i < 7 then [(8080 :: int, Tcp_Other)] else [(8080, Tcp_Established), (8080, Tcp_Unknown)])"
  have two: "port_round ?t 8080 2 = Some (PortEvent Other)" by (simp add: port_round_def try_state_def is_port_event_def)
  have "port_round ?t 8080 j = None" if "j < 2" for j
    using that by (simp add: port_round_def try_state_def is_port_event_def)
  then have "(LEAST n. port_round ?t 8080 n \<noteq> None) = 2" using two
    by (intro Least_equality) (auto simp: not_less [symmetric])
  with two show "read_events_port_tokio ?t 8080 = Some (PortEvent Other)"
    using port_watch_ends [of ?t 8080] by auto
  show "read_events_port_tokio (\<lambda>i. Some [(8080, Tcp_Other)]) 8080 = None"
    by (rule port_watch_ends [of "\<lambda>i. Some [(8080, Tcp_Other)]" 8080, THEN conjunct2, rule_format]) simp
qed

end
