(* ===== verification/Test_Verdicts.thy ===== *)
theory Test_Verdicts
  imports Test_Cases Rust_Watch
begin

text \<open>
  The verdicts of the tests of \<^verbatim>\<open>test_demon.py\<close> on the two daemons.  The relation \<open>hears\<close> gives the
  messages a daemon sends a client for one command, by a run of the model of either daemon; the tests are then
  evaluated on a connection that carries them.
\<close>

section \<open>The commands of the tests as messages\<close>

definition ascii :: "string \<Rightarrow> bytes" where
  "ascii s = map of_char s"

definition test_run :: "string \<Rightarrow> string list \<Rightarrow> string list \<Rightarrow> watch list \<Rightarrow> run_command" where
  "test_run path args envp ws = \<lparr>rc_path = ascii path, rc_args = map ascii args, rc_envp = map ascii envp,
     rc_flags = 0, rc_stack_size = 1048576, rc_to_watch = ws\<rparr>"

definition ls_run :: run_command where
  "ls_run = test_run ''/bin/ls'' [''ls'', ''-l''] [] []"

definition bad_run :: run_command where
  "bad_run = test_run ''/bin/OIHDOEJ'' [''lss'', ''-la''] [''badenvp''] []"

definition bonjour_run :: "watch list \<Rightarrow> run_command" where
  "bonjour_run ws = test_run ''/bin/echo'' [''echo'', ''bonjour''] [] ws"

definition sleep_run :: "string \<Rightarrow> run_command" where
  "sleep_run seconds = test_run ''/bin/sleep'' [''sleep'', seconds] [] []"

definition port_run :: "int \<Rightarrow> run_command" where
  "port_run port = test_run [] [] [] [WatchSocket port]"

definition watchlist_run :: run_command where
  "watchlist_run = bonjour_run [WatchInotify (ascii ''./test.txt'') 258 4096]"

definition event_run :: run_command where
  "event_run = bonjour_run [WatchInotify (ascii ''/bin/'') 259 128]"

lemma test_messages:
  "command_message ls_command = Some ls_run" "command_message bad_command = Some bad_run"
  "command_message echo_command = Some (bonjour_run [])" "command_message (sleep_command ''3'') = Some (sleep_run ''3'')"
  "command_message (sleep_command ''10'') = Some (sleep_run ''10'')"
  "command_message (socket_command (DAEMON_PORTS t)) = Some (port_run (DAEMON_PORTS t))"
  "command_message watchlist_command = Some watchlist_run" "command_message event_command = Some event_run"
proof -
  show "command_message (socket_command (DAEMON_PORTS t)) = Some (port_run (DAEMON_PORTS t))"
    by (cases t) (simp_all, code_simp+)
qed code_simp+

lemma test_costs:
  "command_cost ls_run \<le> 2147483647" "command_cost bad_run \<le> 2147483647" "command_cost (bonjour_run []) \<le> 2147483647"
  "command_cost (sleep_run ''3'') \<le> 2147483647" "command_cost (sleep_run ''10'') \<le> 2147483647"
  "command_cost (port_run (DAEMON_PORTS t)) \<le> 2147483647" "command_cost watchlist_run \<le> 2147483647"
  "command_cost event_run \<le> 2147483647"
proof -
  show "command_cost (port_run (DAEMON_PORTS t)) \<le> 2147483647" by (cases t) (simp_all, code_simp+)
qed code_simp+

text \<open>A command the C daemon can start.\<close>

definition startable :: "run_command \<Rightarrow> bool" where
  "startable c \<longleftrightarrow> rc_args c \<noteq> [] \<and> 0 \<notin> set (rc_path c)"

lemma test_startable:
  "startable ls_run" "startable bad_run" "startable (bonjour_run ws)" "startable (sleep_run s)" "startable watchlist_run" "startable event_run"
  by (simp_all add: startable_def ls_run_def bad_run_def bonjour_run_def sleep_run_def watchlist_run_def event_run_def test_run_def ascii_def
      of_char_def)

lemma test_watches [simp]:
  "rc_to_watch ls_run = []" "rc_to_watch bad_run = []" "rc_to_watch (bonjour_run ws) = ws" "rc_to_watch (sleep_run s) = []"
  "rc_to_watch (port_run p) = [WatchSocket p]"
  by (simp_all add: ls_run_def bad_run_def bonjour_run_def sleep_run_def port_run_def test_run_def)

section \<open>What a client hears\<close>

text \<open>How the child of a command ends: by an exit code, or because \<^verbatim>\<open>execve\<close> has failed with an errno.\<close>

datatype child_end = Exits int | ExecFails int

fun exec_of :: "child_end \<Rightarrow> int option" where
  "exec_of (Exits code) = None"
| "exec_of (ExecFails e) = Some e"

text \<open>For the C daemon: what arrives on the pipe, and the exit code, as \<^verbatim>\<open>child_function\<close> leaves them.\<close>

definition pipe_of :: "child_end \<Rightarrow> pipe_read" where
  "pipe_of fate = (if fst (child_function (exec_of fate)) = [] then PipeEof else PipeData)"

fun status_of :: "child_end \<Rightarrow> int" where
  "status_of (Exits code) = code"
| "status_of (ExecFails e) = or_one (snd (child_function (Some e)))"

text \<open>For the Rust daemon: the standard library reports a failed exec as an error of \<^verbatim>\<open>spawn\<close>, of its own kind
  for \<^verbatim>\<open>ENOENT\<close>.\<close>

definition ENOENT :: int where
  "ENOENT = 2"

fun spawn_of :: "child_end \<Rightarrow> int \<Rightarrow> spawn_result" where
  "spawn_of (Exits code) pid = Spawned pid (WaitOk (Some code))"
| "spawn_of (ExecFails e) pid = (if e = ENOENT then NotFound else SpawnError (Some e))"

text \<open>The messages of one connection on which the command \<open>c\<close> has been sent, its frame cut in any way.\<close>

inductive hears :: "daemon_type \<Rightarrow> run_command \<Rightarrow> child_end \<Rightarrow> message list \<Rightarrow> bool" where
  hears_c: "hears CDaemon c fate (messages_of calls)"
    if "reach decode (DAEMON_PORTS CDaemon) ifd start w" "running (w_daemon w)" "card (w_live w) < 256"
      "starts_child los pid stack pipe" "stack \<notin> w_heap w" "pid \<notin> w_live w"
      "decode buf = Some (whole (MRunCommand c))" "buf \<noteq> []" "length buf < 2147483648" "0 \<le> sock"
      "run_daemon decode (DAEMON_PORTS CDaemon) ifd (start_reports sock buf los wos pipe pid (rc_path c) (pipe_of fate) @
         [OnSignal 5 (SigInfo SIGCHLD pid (WExited (status_of fate)))]) (w_daemon w) = Inr (d', calls)"
| hears_rust: "hears RustDaemon c fate (r_messages (connection_task decode me (DAEMON_PORTS RustDaemon) [os] segs))"
    if "decode buf = Some (whole (MRunCommand c))" "Reset \<notin> set segs" "seg_bytes segs = send_on_socket buf" "length buf < 4294967296"
      "ro_spawn os = spawn_of fate pid" "0 < pid" "pid \<le> 2147483647" "0 < me" "me \<le> 2147483647"

inductive_cases hears_cE: "hears CDaemon c fate ms"
inductive_cases hears_rustE: "hears RustDaemon c fate ms"

definition hearing :: "'b flatbuffers \<Rightarrow> (bytes \<Rightarrow> store \<Rightarrow> bool) \<Rightarrow> daemon_type \<Rightarrow> run_command \<Rightarrow> child_end \<Rightarrow> conn \<Rightarrow> bool" where
  "hearing fb enc t c fate k \<longleftrightarrow> (\<exists>ms. hears t c fate ms \<and> serves fb enc k ms)"

lemma fate_facts:
  "execve_success (pipe_of fate) = Inr (exec_of fate = None)" "exit_status (WExited (status_of fate)) = Some (status_of fate)"
  by (cases fate) (simp_all add: pipe_of_def child_function_def execve_success_def exit_status_def le_bytes_4)

lemma failed_status [simp]: "status_of (ExecFails e) = e mod 256"
  by (simp add: child_function_def or_one_def)

declare status_of.simps(2) [simp del]

lemma hears_c_talk:
  assumes "hears CDaemon c fate ms" and c: "startable c" and code: "0 \<le> status_of fate" "status_of fate \<le> 255"
  shows "\<exists>pid > 0. ms = start_talk 9090 pid c (exec_of fate = None) @ [MProcessTerminated pid (status_of fate)]"
  using assms(1)
proof (rule hears_cE)
  fix calls decode ifd start w los pid stack pipe buf sock wos d'
  assume ms: "ms = messages_of calls" and w: "reach decode (DAEMON_PORTS CDaemon) ifd start w" "running (w_daemon w)"
    "card (w_live w) < 256" and os: "starts_child los pid stack pipe" "stack \<notin> w_heap w" "pid \<notin> w_live w"
    and buf: "decode buf = Some (RunRequest (Some (whole_command c)))" "buf \<noteq> []" "length buf < 2147483648" and sock: "0 \<le> sock"
    and run: "run_daemon decode (DAEMON_PORTS CDaemon) ifd (start_reports sock buf los wos pipe pid (rc_path c) (pipe_of fate) @
         [OnSignal 5 (SigInfo SIGCHLD pid (WExited (status_of fate)))]) (w_daemon w) = Inr (d', calls)"
  note t = reach_tracked(1) [OF w] and L = reach_tracked(2,3) [OF w]
  have c': "rc_args c \<noteq> []" "0 \<notin> set (rc_path c)" using c by (auto simp: startable_def)
  have buf': "decode buf = Some (whole (MRunCommand c))" using buf(1) by simp
  have len: "length buf < 2 ^ 31" using buf(3) by simp
  from child_session [where decode = decode and buf = buf and sock = sock and wos = wos and port = "DAEMON_PORTS CDaemon" and
      ifd = ifd and ns = "[]" and X = "{}", OF t L os buf' c' buf(2) len sock fate_facts [of fate] code] run ms
  have "ms = start_talk 9090 pid c (exec_of fate = None) @ [MProcessTerminated pid (status_of fate)]"
    by (simp add: DAEMON_PORTS_def)
  moreover have "0 < pid" using os(1) by (simp add: starts_child_def)
  ultimately show ?thesis by blast
qed

text \<open>The Rust daemon, whatever becomes of its watches.\<close>

definition rust_start :: "run_command \<Rightarrow> child_end \<Rightarrow> int \<Rightarrow> int \<Rightarrow> message list" where
  "rust_start c fate me pid = MTCPSocketListening 8080 # (case fate of
       Exits code \<Rightarrow> [MProcessLaunched pid, MExecveTerminated pid (rc_path c) True]
     | ExecFails e \<Rightarrow> [MProcessLaunched me, if e = ENOENT then MExecveTerminated me (rc_path c) False else MChildCreationError e])"

definition rust_end :: "child_end \<Rightarrow> int \<Rightarrow> message" where
  "rust_end fate pid = (case fate of Exits code \<Rightarrow> MProcessTerminated pid code
     | ExecFails e \<Rightarrow> MProcessTerminated 0 (if e = ENOENT then 1 else e))"

lemma r_messages_append: "r_messages (xs @ ys) = r_messages xs @ r_messages ys"
  by (induction xs rule: r_messages.induct) auto

lemma hears_rust_talk:
  assumes "hears RustDaemon c fate ms" and code: "0 \<le> status_of fate" "status_of fate \<le> 255" and "\<forall>e. fate = ExecFails e \<longrightarrow> 0 \<le> e \<and> e \<le> 255"
  shows "\<exists>me pid os. 0 < me \<and> me \<le> 2147483647 \<and> 0 < pid \<and> ms = rust_start c fate me pid @
      r_messages (then_r (handle_surveillances me os 0 (map whole_watch (rc_to_watch c))) [RSend (rust_end fate pid)])"
  using assms(1)
proof (rule hears_rustE)
  fix decode me os segs buf pid
  assume ms: "ms = r_messages (connection_task decode me (DAEMON_PORTS RustDaemon) [os] segs)"
    and buf: "decode buf = Some (RunRequest (Some (whole_command c)))" and segs: "Reset \<notin> set segs" "seg_bytes segs = send_on_socket buf" "length buf < 4294967296"
    and os: "ro_spawn os = spawn_of fate pid" and pid: "0 < pid" "pid \<le> 2147483647" "0 < me" "me \<le> 2147483647"
  from read_message_split [of segs buf "[]"] segs obtain rest where rest: "read_message segs = Some (buf, rest)" by auto
  have "ms = rust_start c fate me pid @ r_messages (then_r (handle_surveillances me os 0 (map whole_watch (rc_to_watch c))) [RSend (rust_end fate pid)])"
    using ms buf rest os pid assms(2-4)
    by (cases fate) (auto simp: connection_task_def handle_message_def run_request_whole run_child_def then_r_def [of "_ # _"] then_r_def [of _ "[]"]
        s32_id u32_def u16_def or_one_def DAEMON_PORTS_def rust_start_def rust_end_def)
  with pid show ?thesis by blast
qed

lemma hears_both:
  assumes "hears t c (Exits code) ms" and "startable c" and "rc_to_watch c = []" and "0 \<le> code" and "code \<le> 255"
  shows "\<exists>pid > 0. ms = c_talk (DAEMON_PORTS t) pid c code"
proof (cases t)
  case CDaemon
  with hears_c_talk [of c "Exits code" ms] assms show ?thesis
    by (auto simp: c_talk_def start_talk_def DAEMON_PORTS_def)
next
  case RustDaemon
  with hears_rust_talk [of c "Exits code" ms] assms show ?thesis
    by (auto simp: c_talk_def rust_start_def rust_end_def DAEMON_PORTS_def then_r_def u16_def)
qed

section \<open>The clients that read the greeting\<close>

lemma connect_run:
  assumes "fb_reader fb enc" and "serves fb enc k (MTCPSocketListening p # ms)"
  shows "\<exists>k'. connect_to_daemon fb (Some k) port = Some (Inr (Some k', Some (if p = port then 1 else -1)))"
proof -
  have "streams fb enc (conn_in k) (MTCPSocketListening p # ms)" using assms(2) by (simp add: serves_def)
  then obtain buf segs where buf: "carries fb enc buf (MTCPSocketListening p)"
      "read_frame (k\<lparr>conn_in := conn_in k\<rparr>) = Inr (k\<lparr>conn_in := segs\<rparr>, buf, int (length buf))"
    by (rule fb_reader.await_streams [OF assms(1), where c = k])
  obtain root body S fs where "opened fb enc buf (MTCPSocketListening p) root body S fs"
    using fb_reader.openE [OF assms(1) buf(1)] by blast
  then have "0 < int (length buf)" by (simp add: opened_def)
  from fb_reader.tcpsocketlistening_reads [OF assms(1) buf(1) this] buf(2) show ?thesis
    by (simp add: connect_to_daemon_def connect_def judged_def pass_if_def except_socket_error_def)
qed

lemma response_time_run:
  assumes pkg: "flatbuffers_pkg fb enc valid store phase used" and cmd: "command_message cmd = Some c" "command_cost c \<le> 2147483647"
    and k: "serves fb enc k (m # pre @ MProcessTerminated pid e # post)" and pre: "\<forall>m \<in> set pre. want_event_user m \<noteq> PROCESS_TERMINATED"
  shows "\<exists>k'. response_time fb (Some k) cmd in_time = Some (Inr (Some k', Some (if pid > 0 \<and> e = 0 \<and> in_time then 1 else -1)))"
proof -
  have r: "fb_reader fb enc" using pkg by (rule flatbuffers_pkg.axioms(1))
  have "streams fb enc (conn_in k) (m # pre @ MProcessTerminated pid e # post)" using k by (simp add: serves_def)
  then obtain greeting segs where greeting: "streams fb enc segs (pre @ MProcessTerminated pid e # post)"
      "read_frame (k\<lparr>conn_in := conn_in k\<rparr>) = Inr (k\<lparr>conn_in := segs\<rparr>, greeting, int (length greeting))"
    by (rule fb_reader.await_streams [OF r, where c = k])
  let ?k = "k\<lparr>conn_in := segs\<rparr>"
  have "conn_can_send ?k" using k by (simp add: serves_def)
  from flatbuffers_pkg.start_command_ok [OF pkg cmd this] obtain out where
    out: "start_command fb (Some ?k) cmd = Inr (?k\<lparr>conn_out := conn_out ?k @ header_of out @ out\<rparr>)" by blast
  let ?k' = "k\<lparr>conn_out := conn_out k @ header_of out @ out\<rparr>"
  have same: "?k\<lparr>conn_out := conn_out ?k @ header_of out @ out\<rparr> = ?k'\<lparr>conn_in := segs\<rparr>" by simp
  have is_end: "want_event_user (MProcessTerminated pid e) = PROCESS_TERMINATED" by simp
  from fb_reader.await_found [OF r greeting(1) pre is_end, of ?k'] obtain buf segs' where
    buf: "carries fb enc buf (MProcessTerminated pid e)"
      "await fb PROCESS_TERMINATED (?k'\<lparr>conn_in := segs\<rparr>) = Some (Inr (?k'\<lparr>conn_in := segs'\<rparr>, buf, int (length buf)))" by blast
  obtain root body S fs where "opened fb enc buf (MProcessTerminated pid e) root body S fs"
    using fb_reader.openE [OF r buf(1)] by blast
  then have "0 < int (length buf)" by (simp add: opened_def)
  from fb_reader.processterminated_reads [OF r buf(1) this]
  have info: "receive_processterminated fb buf (int (length buf)) = PtInfo \<lparr>pti_pid = pid, pti_error_code = e\<rparr>" by simp
  have sends: "bindE (send_command_to_demon fb cmd) (\<lambda>b. send_frame ?k b) = Inr (?k'\<lparr>conn_in := segs\<rparr>)"
    using out unfolding same by (simp add: start_command_def connect_def)
  then show ?thesis using greeting(2) buf(2)
    by (simp add: response_time_def connect_def judged_def info terminated_info_def pass_if_def except_socket_error_def)
qed

section \<open>Verdicts\<close>

text \<open>What the clients rely on: a daemon that answers a command without surveillance, whose child starts and
  exits by itself, with the port, the launch, the exec and the end, in this order.\<close>

locale process_daemon =
  fixes talks :: "run_command \<Rightarrow> child_end \<Rightarrow> message list \<Rightarrow> bool" and dport :: int
  assumes reports: "talks c (Exits code) ms \<Longrightarrow> startable c \<Longrightarrow> rc_to_watch c = [] \<Longrightarrow> 0 \<le> code \<Longrightarrow> code \<le> 255 \<Longrightarrow>
      \<exists>pid > 0. ms = c_talk dport pid c code"
    and port_range: "u16 dport = dport"
begin

lemma clients_return:
  assumes pkg: "flatbuffers_pkg fb enc valid store phase used" and cmd: "command_message cmd = Some c" "command_cost c \<le> 2147483647"
    and c: "startable c" "rc_to_watch c = []" and k: "talks c (Exits code) ms" "serves fb enc k ms" and code: "0 \<le> code" "code \<le> 255"
  shows "\<exists>k'. connect_to_daemon fb (Some k) dport = Some (Inr (Some k', Some 1))"
    and "\<exists>k'. launch_process fb (Some k) cmd = Some (Inr (Some k', Some 1))"
    and "\<exists>k'. execve_executed fb (Some k) cmd = Some (Inr (Some k', Some 1))"
    and "\<exists>k'. process_terminated fb (Some k) cmd = Some (Inr (Some k', Some (if code = 0 then 1 else -1)))"
    and "\<exists>k'. response_time fb (Some k) cmd in_time = Some (Inr (Some k', Some (if code = 0 \<and> in_time then 1 else -1)))"
proof -
  have r: "fb_reader fb enc" using pkg by (rule flatbuffers_pkg.axioms(1))
  from reports [OF k(1) c code] k(2) obtain pid where pid: "0 < pid" and s: "serves fb enc k (c_talk dport pid c code)" by auto
  have parts: "serves fb enc k (MTCPSocketListening dport # [MProcessLaunched pid, MExecveTerminated pid (rc_path c) True] @
      MProcessTerminated pid code # [])" using s c(2) by (simp add: c_talk_def port_range)
  show "\<exists>k'. connect_to_daemon fb (Some k) dport = Some (Inr (Some k', Some 1))"
    using connect_run [OF r parts, of dport] by simp
  show "\<exists>k'. launch_process fb (Some k) cmd = Some (Inr (Some k', Some 1))"
    using launch_process_run [OF pkg cmd s [unfolded talk_parts(1)]] pid by auto
  show "\<exists>k'. execve_executed fb (Some k) cmd = Some (Inr (Some k', Some 1))"
    using execve_run [OF pkg cmd s [unfolded talk_parts(2)] _ command_path_text [OF cmd(1)]] pid by auto
  show "\<exists>k'. process_terminated fb (Some k) cmd = Some (Inr (Some k', Some (if code = 0 then 1 else -1)))"
    using process_terminated_run [OF pkg cmd s [unfolded talk_parts(3)]] pid by auto
  show "\<exists>k'. response_time fb (Some k) cmd in_time = Some (Inr (Some k', Some (if code = 0 \<and> in_time then 1 else -1)))"
    using response_time_run [OF pkg cmd parts, of in_time] pid by auto
qed

end

interpretation both: process_daemon "hears t" "DAEMON_PORTS t" for t
proof
  show "\<exists>pid > 0. ms = c_talk (DAEMON_PORTS t) pid c code"
    if "hears t c (Exits code) ms" "startable c" "rc_to_watch c = []" "0 \<le> code" "code \<le> 255" for t c code ms
    using that by (rule hears_both)
  show "u16 (DAEMON_PORTS t) = DAEMON_PORTS t" for t
    by (cases t) (simp_all add: DAEMON_PORTS_def u16_def)
qed

declare both.port_range [simp]

text \<open>C2 (liveness).  The six tests on the life of a process pass on both daemons: on a connection that carries
  what either daemon, in any state with room for a child, sends for the command of the test when its child
  exits with 0, the client connects with the right port, hears of the launch, of the exec and of the end, and
  the test ends with a pass (the test on the response time when it was short enough, and only then).\<close>

theorem basic_tests_pass:
  assumes "flatbuffers_pkg fb enc valid store phase used"
  shows "(hearing fb enc t ls_run (Exits 0) k \<longrightarrow> test_daemon_connection fb (Some k) t = Passed \<and>
      test_receiving_launch_process fb (Some k) = Passed \<and> test_receiving_process_terminated fb (Some k) = Passed) \<and>
    (hearing fb enc t (bonjour_run []) (Exits 0) k \<longrightarrow> test_echo fb (Some k) = Passed \<and> test_execve_terminated fb (Some k) = Passed) \<and>
    (hearing fb enc t (sleep_run ''3'') (Exits 0) k \<longrightarrow> test_response_time fb (Some k) in_time = (if in_time then Passed else Failed))"
proof (intro conjI impI; unfold hearing_def, elim exE conjE)
  note returns = both.clients_return [OF assms, where code = 0 and t = t]
  {
    fix ms assume ms: "hears t ls_run (Exits 0) ms" "serves fb enc k ms"
    note runs = returns [OF test_messages(1) test_costs(1) test_startable(1) test_watches(1) ms]
    show "test_daemon_connection fb (Some k) t = Passed" using runs(1) by (auto simp: test_daemon_connection_def)
    show "test_receiving_launch_process fb (Some k) = Passed" using runs(2) by (auto simp: test_receiving_launch_process_def)
    show "test_receiving_process_terminated fb (Some k) = Passed" using runs(4) by (auto simp: test_receiving_process_terminated_def)
  next
    fix ms assume ms: "hears t (bonjour_run []) (Exits 0) ms" "serves fb enc k ms"
    note runs = returns [OF test_messages(3) test_costs(3) test_startable(3) test_watches(3) ms]
    show "test_echo fb (Some k) = Passed" using runs(4) by (auto simp: test_echo_def)
    show "test_execve_terminated fb (Some k) = Passed" using runs(3) by (auto simp: test_execve_terminated_def)
  next
    fix ms assume ms: "hears t (sleep_run ''3'') (Exits 0) ms" "serves fb enc k ms"
    show "test_response_time fb (Some k) in_time = (if in_time then Passed else Failed)"
      using returns(5) [OF test_messages(4) test_costs(4) test_startable(4) test_watches(4) ms, of in_time]
      by (auto simp: test_response_time_def)
  }
qed

text \<open>C22 (error).  The test of a command that cannot be executed.  The C daemon reports every failing
  \<^verbatim>\<open>execve\<close> (its child writes the errno into the pipe), so the test passes whatever the errno is.  The Rust
  daemon reports a failed exec only for \<^verbatim>\<open>ENOENT\<close>; for any other errno, such as a file without the right to
  execute it, it reports that no child was created, and the client waits for ever.\<close>

theorem failed_launch_test:
  assumes "flatbuffers_pkg fb enc valid store phase used" and "hearing fb enc t bad_run (ExecFails e) k" and "0 < e" and "e \<le> 255"
  shows "test_receiving_failed_launch_process fb (Some k) = (if t = CDaemon \<or> e = ENOENT then Passed else TimedOut)"
proof -
  from assms(2) obtain ms where ms: "hears t bad_run (ExecFails e) ms" "serves fb enc k ms" by (auto simp: hearing_def)
  have small: "e mod 256 = e" using assms(3,4) by simp
  note run = execve_run [OF assms(1) test_messages(2) test_costs(2) _ _ command_path_text [OF test_messages(2)]]
  have pass: "test_receiving_failed_launch_process fb (Some k) = Passed"
    if "ms = [MTCPSocketListening p, MProcessLaunched pid] @ MExecveTerminated pid (rc_path bad_run) False # post" "0 < pid" for p pid post
    using run [OF ms(2) [unfolded that(1)]] that(2) by (auto simp: test_receiving_failed_launch_process_def)
  show ?thesis
  proof (cases t)
    case CDaemon
    from hears_c_talk [OF ms(1) [unfolded CDaemon] test_startable(2)] small assms(3,4) obtain pid where
      "0 < pid" "ms = start_talk 9090 pid bad_run False @ [MProcessTerminated pid e]" by (auto simp: failed_status)
    with CDaemon show ?thesis using pass [of "u16 9090" pid "[MProcessTerminated pid e]"] by (simp add: start_talk_def)
  next
    case RustDaemon
    from hears_rust_talk [OF ms(1) [unfolded RustDaemon]] small assms(3,4) obtain me pid os where
      me: "0 < me" "ms = rust_start bad_run (ExecFails e) me pid @
        r_messages (then_r (handle_surveillances me os 0 (map whole_watch (rc_to_watch bad_run))) [RSend (rust_end (ExecFails e) pid)])" by (auto simp: failed_status)
    show ?thesis
    proof (cases "e = ENOENT")
      case True
      with me RustDaemon show ?thesis using pass [of 8080 me "[rust_end (ExecFails e) pid]"] by (simp add: rust_start_def then_r_def)
    next
      case False
      with me(2) have "\<forall>m \<in> set ms. want_event_user m \<noteq> EXECVE_TERMINATED" by (auto simp: rust_start_def rust_end_def then_r_def)
      from flatbuffers_pkg.reply_lost [OF assms(1) test_messages(2) test_costs(2) ms(2) this] RustDaemon False show ?thesis
        by (simp add: test_receiving_failed_launch_process_def fail_launch_process_def)
    qed
  qed
qed

section \<open>The kill test\<close>

lemma kill_notification:
  assumes "decode kbuf = Some (whole (MKillProcess pid))" and "kbuf \<noteq> []" and "length kbuf < 2147483648" and "0 < pid"
  shows "run_daemon decode port ifd [OnMessage sock (whole_frame kbuf) los wos] d = Inr (d, [Kill pid])"
  using assms
  by (simp add: handle_event_def on_message_def read_whole_frame receive_message_from_user_c_def receive_kill_c_def kill_request_def)

lemma kill_verdict:
  assumes "flatbuffers_pkg fb enc valid store phase used" and "0 < pid" and "pid \<le> 2147483647"
    and "serves fb enc k (start_talk port pid (sleep_run ''10'') True @ MProcessTerminated pid e # post)"
  shows "test_kill_process fb (Some k) in_time = (if e > 0 \<and> in_time then Passed else Failed)"
proof -
  have range: "nf_range Int32Flags pid" using assms(2,3) by simp
  have "serves fb enc k ([MTCPSocketListening (u16 port), MProcessLaunched pid] @
      MExecveTerminated pid (rc_path (sleep_run ''10'')) True # [] @ MProcessTerminated pid e # post)"
    using assms(4) by (simp add: start_talk_def)
  from flatbuffers_pkg.kill_process_run [OF assms(1) test_messages(5) test_costs(5) this _ command_path_text [OF test_messages(5)] range, of in_time]
    assms(2) show ?thesis by (auto simp: test_kill_process_def)
qed

text \<open>C21 (liveness).  The kill test on the C daemon.  The client asks to kill the process it has just heard of;
  the daemon, in any state with room for a child, sends the signal, reports the end of the child with the
  number of the signal as error code, and the test passes if it was fast enough.\<close>

theorem kill_test_passes_on_c:
  assumes pkg: "flatbuffers_pkg fb enc valid store phase used"
    and w: "reach decode (DAEMON_PORTS CDaemon) ifd start w" "running (w_daemon w)" "card (w_live w) < 256"
    and os: "starts_child los pid stack pipe" "stack \<notin> w_heap w" "pid \<notin> w_live w"
    and buf: "decode buf = Some (whole (MRunCommand (sleep_run ''10'')))" "buf \<noteq> []" "length buf < 2147483648"
    and kbuf: "decode kbuf = Some (whole (MKillProcess pid))" "kbuf \<noteq> []" "length kbuf < 2147483648" and sock: "0 \<le> sock"
  shows "\<exists>d' calls. run_daemon decode (DAEMON_PORTS CDaemon) ifd (start_reports sock buf los wos pipe pid (rc_path (sleep_run ''10'')) PipeEof @
        [OnMessage sock (whole_frame kbuf) los' wos'] @ [OnSignal 5 (SigInfo SIGCHLD pid (WSignaled 9))]) (w_daemon w) = Inr (d', calls) \<and>
    Kill pid \<in> set calls \<and>
    (\<forall>k. serves fb enc k (messages_of calls) \<longrightarrow> test_kill_process fb (Some k) True = Passed)"
proof -
  note t = reach_tracked(1) [OF w] and L = reach_tracked(2,3) [OF w]
  have c: "rc_args (sleep_run ''10'') \<noteq> []" "0 \<notin> set (rc_path (sleep_run ''10''))"
    using test_startable(4) [of "''10''"] by (auto simp: startable_def)
  have len: "length buf < 2 ^ 31" using buf(3) by simp
  have pid: "0 < pid" "pid \<le> 2147483647" using os(1) by (auto simp: starts_child_def)
  have status: "execve_success PipeEof = Inr True" "exit_status (WSignaled 9) = Some 9"
    by (simp_all add: execve_success_def exit_status_def)
  from child_session [where decode = decode and buf = buf and sock = sock and wos = wos and port = "DAEMON_PORTS CDaemon" and ifd = ifd and
      ns = "[OnMessage sock (whole_frame kbuf) los' wos']" and X = "{Kill pid}", OF t L os buf(1) c buf(2) len sock status]
    kill_notification [where decode = decode and port = "DAEMON_PORTS CDaemon" and ifd = ifd and sock = sock and los = los' and wos = wos',
      OF kbuf pid(1)]
  obtain d' calls where run: "run_daemon decode (DAEMON_PORTS CDaemon) ifd (start_reports sock buf los wos pipe pid (rc_path (sleep_run ''10'')) PipeEof @
        [OnMessage sock (whole_frame kbuf) los' wos'] @ [OnSignal 5 (SigInfo SIGCHLD pid (WSignaled 9))]) (w_daemon w) = Inr (d', calls)"
      "messages_of calls = start_talk (DAEMON_PORTS CDaemon) pid (sleep_run ''10'') True @ [MProcessTerminated pid 9]" "Kill pid \<in> set calls"
    by auto
  with kill_verdict [OF pkg pid, where in_time = True and e = 9 and post = "[]"] show ?thesis by auto
qed

text \<open>The same test cannot pass on the Rust daemon.  It waits for the child before it reads the
  kill request, so the child has ended by itself, with exit code 0; whatever \<^verbatim>\<open>kill\<close> then answers, the
  test fails.\<close>

theorem kill_test_fails_on_rust:
  assumes "flatbuffers_pkg fb enc valid store phase used" and "decode buf = Some (whole (MRunCommand (sleep_run ''10'')))"
    and "Reset \<notin> set segs" and "seg_bytes segs = send_on_socket buf @ send_on_socket kbuf" and "length buf < 4294967296"
    and "ro_spawn os = Spawned pid (WaitOk (Some 0))" and "0 < pid" and "pid \<le> 2147483647"
    and "serves fb enc k (r_messages (connection_task decode me (DAEMON_PORTS RustDaemon) [os, os'] segs))"
  shows "test_kill_process fb (Some k) in_time = Failed"
proof -
  from read_message_split [OF assms(3-5)] obtain rest where "read_message segs = Some (buf, rest)" by auto
  then have "r_messages (connection_task decode me (DAEMON_PORTS RustDaemon) [os, os'] segs) =
      start_talk (DAEMON_PORTS RustDaemon) pid (sleep_run ''10'') True @ MProcessTerminated pid 0 # r_messages (serve decode me [os'] rest)"
    using assms(2,6-8)
    by (simp add: connection_task_def handle_message_def run_request_whole run_child_def then_r_def start_talk_def s32_id u32_def or_one_def del: serve.simps(2))
      (simp add: handle_message_def run_request_whole run_child_def then_r_def s32_id u32_def or_one_def)
  with kill_verdict [OF assms(1,7,8), where e = 0 and in_time = in_time] assms(9) show ?thesis by simp
qed

section \<open>The socket tests\<close>

text \<open>The command of the socket tests as the C daemon would have it with the argument \<open>a\<close>.\<close>

definition port_run_with :: "bytes \<Rightarrow> run_command" where
  "port_run_with a = (port_run (DAEMON_PORTS CDaemon))\<lparr>rc_args := [a]\<rparr>"

lemma hears_port_run:
  assumes "hears CDaemon (port_run_with a) fate ms" and "0 \<le> status_of fate" and "status_of fate \<le> 255"
  obtains pre post where "ms = pre @ MSocketWatched 9090 # post"
    "\<forall>m \<in> set pre \<union> set post. want_event_user m \<notin> {SOCKET_WATCHED, SOCKET_WATCH_TERMINATED}"
proof -
  have "startable (port_run_with a)" by (simp add: startable_def port_run_with_def port_run_def test_run_def ascii_def)
  from hears_c_talk [OF assms(1) this assms(2,3)] obtain pid where
    "ms = start_talk 9090 pid (port_run_with a) (exec_of fate = None) @ [MProcessTerminated pid (status_of fate)]" by blast
  then show thesis
    by (intro that [of "[MTCPSocketListening 9090, MProcessLaunched pid]"
          "[MExecveTerminated pid (rc_path (port_run_with a)) (exec_of fate = None), MProcessTerminated pid (status_of fate)]"])
      (simp_all add: start_talk_def port_run_with_def port_run_def test_run_def watch_reply_def DAEMON_PORTS_def u16_def s32_def)
qed

text \<open>C23 (error).  The two socket tests.  They send a command without path and arguments.  The C daemon, in any
  state, then reads the first of no arguments, before it has answered: C does not define what follows.  If the daemon
  stops there, both tests run into their time limit; if it finds some string there and goes on, as with that
  argument, and its detector reports, whatever the state, both pass.  The Rust daemon reports that there is
  nothing to execute, watches its own port, which is listening, and both tests pass.\<close>

theorem socket_tests_differ:
  assumes pkg: "flatbuffers_pkg fb enc valid store phase used"
  shows "(decode buf = Some (whole (MRunCommand (port_run (DAEMON_PORTS CDaemon)))) \<and> buf \<noteq> [] \<and> length buf < 2147483648 \<and> lo_param_malloc los \<and> 0 \<le> sock \<longrightarrow>
      (\<exists>d' calls. run_daemon decode (DAEMON_PORTS CDaemon) ifd [OnConnexion 3 sock True True True] d = Inr (d', calls) \<and>
        handle_event decode (DAEMON_PORTS CDaemon) ifd (OnMessage sock (whole_frame buf) los wos) d' = Inl OutOfBounds \<and>
        (serves fb enc k (messages_of calls) \<longrightarrow>
          test_socket_listening fb (Some k) CDaemon = TimedOut \<and> test_watching_socket fb (Some k) CDaemon = TimedOut))) \<and>
    (hears CDaemon (port_run_with a) fate ms \<and> 0 \<le> status_of fate \<and> status_of fate \<le> 255 \<and>
      serves fb enc k (ms @ [MSocketWatchTerminated (DAEMON_PORTS CDaemon) (SocketState_value st)]) \<longrightarrow>
      test_socket_listening fb (Some k) CDaemon = Passed \<and> test_watching_socket fb (Some k) CDaemon = Passed) \<and>
    (decode buf = Some (whole (MRunCommand (port_run (DAEMON_PORTS RustDaemon)))) \<and> Reset \<notin> set segs \<and> seg_bytes segs = send_on_socket buf \<and>
      length buf < 4294967296 \<and> ro_spawn os = NotFound \<and> 0 < me \<and> me \<le> 2147483647 \<and>
      tables 0 = Some sockets \<and> (DAEMON_PORTS RustDaemon, Tcp_Listen) \<in> set sockets \<and>
      read_events_port_tokio tables (DAEMON_PORTS RustDaemon) = Some (ro_port os 0) \<and>
      serves fb enc k (r_messages (connection_task decode me (DAEMON_PORTS RustDaemon) [os] segs)) \<longrightarrow>
      test_socket_listening fb (Some k) RustDaemon = Passed \<and> test_watching_socket fb (Some k) RustDaemon = Passed)"
proof (intro conjI [of "_ \<longrightarrow> _"] impI; elim conjE)
  assume buf: "decode buf = Some (whole (MRunCommand (port_run (DAEMON_PORTS CDaemon))))" "buf \<noteq> []" "length buf < 2147483648" "lo_param_malloc los" "0 \<le> sock"
  obtain d' calls where run: "run_daemon decode (DAEMON_PORTS CDaemon) ifd [OnConnexion 3 sock True True True] d = Inr (d', calls)"
      "messages_of calls = [MTCPSocketListening (DAEMON_PORTS CDaemon)]" using buf(5) by (simp add: handle_event_def on_connexion_def)
  moreover have "handle_event decode (DAEMON_PORTS CDaemon) ifd (OnMessage sock (whole_frame buf) los wos) d' = Inl OutOfBounds"
    by (rule empty_args_fault [where c = "port_run (DAEMON_PORTS CDaemon)", OF _ _ buf(2-4)])
      (use buf(1) in \<open>simp_all add: port_run_def test_run_def\<close>)
  moreover have "test_socket_listening fb (Some k) CDaemon = TimedOut" "test_watching_socket fb (Some k) CDaemon = TimedOut"
    if "serves fb enc k [MTCPSocketListening (DAEMON_PORTS CDaemon)]"
    using flatbuffers_pkg.reply_lost [OF pkg test_messages(6) test_costs(6) that]
    by (simp_all add: test_socket_listening_def test_watching_socket_def client_functions)
  ultimately show "\<exists>d' calls. run_daemon decode (DAEMON_PORTS CDaemon) ifd [OnConnexion 3 sock True True True] d = Inr (d', calls) \<and>
        handle_event decode (DAEMON_PORTS CDaemon) ifd (OnMessage sock (whole_frame buf) los wos) d' = Inl OutOfBounds \<and>
        (serves fb enc k (messages_of calls) \<longrightarrow>
          test_socket_listening fb (Some k) CDaemon = TimedOut \<and> test_watching_socket fb (Some k) CDaemon = TimedOut)" by auto
next
  assume ms: "hears CDaemon (port_run_with a) fate ms" "0 \<le> status_of fate" "status_of fate \<le> 255"
    and k: "serves fb enc k (ms @ [MSocketWatchTerminated (DAEMON_PORTS CDaemon) (SocketState_value st)])"
  from ms obtain pre post where talk: "ms = pre @ MSocketWatched 9090 # post"
      "\<forall>m \<in> set pre \<union> set post. want_event_user m \<notin> {SOCKET_WATCHED, SOCKET_WATCH_TERMINATED}" by (rule hears_port_run)
  have "serves fb enc k (pre @ MSocketWatched 9090 # post @ MSocketWatchTerminated 9090 (SocketState_value st) # [])"
    using k unfolding talk(1) by (simp add: DAEMON_PORTS_def)
  note run = socket_run [OF pkg test_messages(6) test_costs(6) this talk(2), of CDaemon]
  show "test_socket_listening fb (Some k) CDaemon = Passed \<and> test_watching_socket fb (Some k) CDaemon = Passed"
    using run by (auto simp: test_socket_listening_def test_watching_socket_def)
next
  assume buf: "decode buf = Some (whole (MRunCommand (port_run (DAEMON_PORTS RustDaemon))))" "Reset \<notin> set segs" "seg_bytes segs = send_on_socket buf"
    "length buf < 4294967296" and os: "ro_spawn os = NotFound" "0 < me" "me \<le> 2147483647" and
    watch: "tables 0 = Some sockets" "(DAEMON_PORTS RustDaemon, Tcp_Listen) \<in> set sockets"
      "read_events_port_tokio tables (DAEMON_PORTS RustDaemon) = Some (ro_port os 0)" and
    k: "serves fb enc k (r_messages (connection_task decode me (DAEMON_PORTS RustDaemon) [os] segs))"
  from read_message_split [of segs buf "[]"] buf obtain rest where rest: "read_message segs = Some (buf, rest)" by auto
  have "port_round tables (DAEMON_PORTS RustDaemon) 0 = Some (PortEvent Listen)"
    using watch(1,2) by (simp add: port_round_def try_state_def is_port_event_def)
  from poll_port_first [OF this] watch(3) have port: "ro_port os 0 = PortEvent Listen" by (simp add: read_events_port_tokio_def)
  let ?pre = "[MTCPSocketListening 8080, MProcessLaunched me, MExecveTerminated me [] False]"
  have "r_messages (connection_task decode me (DAEMON_PORTS RustDaemon) [os] segs) =
      ?pre @ MSocketWatched 8080 # [] @ MSocketWatchTerminated 8080 (SocketState_value SOCKET_CREATED) # [MProcessTerminated 0 1]"
    using buf(1) rest os port
    by (simp add: connection_task_def handle_message_def run_request_whole run_child_def then_r_def port_run_def test_run_def ascii_def
        DAEMON_PORTS_def port_state_code_def enums s32_id u32_def u16_def)
  with k have "serves fb enc k (?pre @ MSocketWatched 8080 # [] @ MSocketWatchTerminated 8080 (SocketState_value SOCKET_CREATED) # [MProcessTerminated 0 1])"
    by simp
  note run = socket_run [OF pkg test_messages(6) test_costs(6) this]
  show "test_socket_listening fb (Some k) RustDaemon = Passed \<and> test_watching_socket fb (Some k) RustDaemon = Passed"
    using run [of RustDaemon] by (auto simp: test_socket_listening_def test_watching_socket_def)
qed

section \<open>The inotify tests\<close>

lemma inotify_run:
  assumes pkg: "flatbuffers_pkg fb enc valid store phase used" and cmd: "command_message cmd = Some c" "command_cost c \<le> 2147483647"
    and path: "utf8_decode path = Inr s"
  shows "serves fb enc k (pre @ MInotifyWatchListUpdated path # post) \<Longrightarrow> \<forall>m \<in> set pre. want_event_user m \<noteq> INOTIFY_WATCH_LIST_UPDATED \<Longrightarrow>
      assert_res (inotify_watchlist_updated fb (Some k) cmd) = Passed"
    and "serves fb enc k (pre @ MInotifyPathUpdated path (InotifyEvent_value e) sz lim # post) \<Longrightarrow>
      \<forall>m \<in> set pre. want_event_user m \<noteq> INOTIFY_PATH_UPDATED \<Longrightarrow> assert_res (inotify_event fb (Some k) cmd) = Passed"
proof -
  have r: "fb_reader fb enc" using pkg by (rule flatbuffers_pkg.axioms(1))
  have ev: "map_of schema_InotifyEvent (InotifyEvent_value e) = Some e" by (cases e) (simp_all add: schema_InotifyEvent_def)
  note found = flatbuffers_pkg.reply_found [OF pkg cmd]
  show "assert_res (inotify_watchlist_updated fb (Some k) cmd) = Passed"
    if k: "serves fb enc k (pre @ MInotifyWatchListUpdated path # post)" "\<forall>m \<in> set pre. want_event_user m \<noteq> INOTIFY_WATCH_LIST_UPDATED"
    unfolding inotify_watchlist_updated_def
    using found [OF k, of "\<lambda>res sz. pass_if (receive_inotifywatchlistupdated fb res sz \<noteq> None)" "Some (-1)"] path
    by (auto simp: fb_reader.inotifywatchlistupdated_reads [OF r] text_or_def pass_if_def except_socket_error_def)
  show "assert_res (inotify_event fb (Some k) cmd) = Passed"
    if k: "serves fb enc k (pre @ MInotifyPathUpdated path (InotifyEvent_value e) sz lim # post)" "\<forall>m \<in> set pre. want_event_user m \<noteq> INOTIFY_PATH_UPDATED"
    unfolding inotify_event_def
    using found [OF k, of "\<lambda>res sz. bindE (not_none (receive_inotifypathupdated fb res sz)) (\<lambda>info. pass_if True)" "Some (-1)"] path
    by (auto simp: fb_reader.inotifypathupdated_reads [OF r] text_or_def ev not_none_def pass_if_def except_socket_error_def)
qed

lemma ascii_paths:
  "utf8_decode (ascii ''./test.txt'') = Inr (pystr_of ''./test.txt'')" "utf8_decode (ascii ''/bin/'') = Inr (pystr_of ''/bin/'')"
  "c_str (ascii ''./test.txt'') = ascii ''./test.txt''"
proof -
  have "utf8_encode (pystr_of ''./test.txt'') = Inr (ascii ''./test.txt'')" by code_simp
  then show "utf8_decode (ascii ''./test.txt'') = Inr (pystr_of ''./test.txt'')" by (rule utf8_roundtrip)
  have "utf8_encode (pystr_of ''/bin/'') = Inr (ascii ''/bin/'')" by code_simp
  then show "utf8_decode (ascii ''/bin/'') = Inr (pystr_of ''/bin/'')" by (rule utf8_roundtrip)
qed code_simp

lemma rust_quiet_watchlist: "MInotifyWatchListUpdated path \<notin> set (r_messages (then_r (handle_surveillances me os 0 ws) [RSend (rust_end fate pid)]))"
  by (auto simp: r_messages_iff then_r_def surveillance_no_watchlist rust_end_def split: child_end.splits)

text \<open>C24 (error).  The two inotify tests.  The C daemon confirms a watch with the message the first test waits
  for and reports only events that happen, so the second test passes only if an event arrives.  The Rust daemon confirms a
  watch with the message of an event: the first test never ends, and the second passes before anything has
  happened to the watched directory, however the watch goes on.\<close>

theorem inotify_tests_differ:
  assumes pkg: "flatbuffers_pkg fb enc valid store phase used"
  shows "(hearing fb enc CDaemon watchlist_run (Exits 0) k \<longrightarrow> test_inotify_result fb (Some k) = Passed) \<and>
    (hearing fb enc RustDaemon watchlist_run (Exits 0) k \<longrightarrow> test_inotify_result fb (Some k) = TimedOut) \<and>
    (hearing fb enc CDaemon event_run (Exits 0) k \<longrightarrow> test_inotify_event fb (Some k) = TimedOut) \<and>
    (hearing fb enc RustDaemon event_run (Exits 0) k \<longrightarrow> test_inotify_event fb (Some k) = Passed)"
proof (intro conjI impI; unfold hearing_def, elim exE conjE)
  fix ms assume ms: "hears CDaemon watchlist_run (Exits 0) ms" "serves fb enc k ms"
  from hears_c_talk [OF ms(1) test_startable(5)] obtain pid where
    talk: "ms = [MTCPSocketListening (u16 9090), MProcessLaunched pid] @ MInotifyWatchListUpdated (ascii ''./test.txt'') #
      [MExecveTerminated pid (rc_path watchlist_run) True, MProcessTerminated pid 0]"
    by (auto simp: start_talk_def watchlist_run_def watch_reply_def ascii_paths)
  show "test_inotify_result fb (Some k) = Passed"
    unfolding test_inotify_result_def
    by (rule inotify_run(1) [OF pkg test_messages(7) test_costs(7) ascii_paths(1) ms(2) [unfolded talk]]) simp
next
  fix ms assume ms: "hears RustDaemon watchlist_run (Exits 0) ms" "serves fb enc k ms"
  from hears_rust_talk [OF ms(1)] obtain me pid os where "ms = rust_start watchlist_run (Exits 0) me pid @
      r_messages (then_r (handle_surveillances me os 0 (map whole_watch (rc_to_watch watchlist_run))) [RSend (rust_end (Exits 0) pid)])" by auto
  then have "MInotifyWatchListUpdated path \<notin> set ms" for path using rust_quiet_watchlist by (auto simp: rust_start_def)
  then have "\<forall>m \<in> set ms. want_event_user m \<noteq> INOTIFY_WATCH_LIST_UPDATED" by (auto dest!: watchlist_only)
  from flatbuffers_pkg.reply_lost [OF pkg test_messages(7) test_costs(7) ms(2) this] show "test_inotify_result fb (Some k) = TimedOut"
    by (simp add: test_inotify_result_def inotify_watchlist_updated_def)
next
  fix ms assume ms: "hears CDaemon event_run (Exits 0) ms" "serves fb enc k ms"
  from hears_c_talk [OF ms(1) test_startable(6)] have "\<forall>m \<in> set ms. want_event_user m \<noteq> INOTIFY_PATH_UPDATED"
    by (auto simp: start_talk_def event_run_def watch_reply_def)
  from flatbuffers_pkg.reply_lost [OF pkg test_messages(8) test_costs(8) ms(2) this] show "test_inotify_event fb (Some k) = TimedOut"
    by (simp add: test_inotify_event_def inotify_event_def)
next
  fix ms assume ms: "hears RustDaemon event_run (Exits 0) ms" "serves fb enc k ms"
  have trigger: "watch_trigger 259 = InotifyEvent_value MODIFIED" by code_simp
  from hears_rust_talk [OF ms(1)] obtain me pid post where talk: "ms = [MTCPSocketListening 8080, MProcessLaunched pid,
      MExecveTerminated pid (rc_path event_run) True] @ MInotifyPathUpdated (ascii ''/bin/'') (InotifyEvent_value MODIFIED) 0 128 # post"
    by (fastforce simp: rust_start_def event_run_def then_r_def trigger Let_def)
  show "test_inotify_event fb (Some k) = Passed"
    unfolding test_inotify_event_def
    by (rule inotify_run(2) [OF pkg test_messages(8) test_costs(8) ascii_paths(2) ms(2) [unfolded talk]]) simp
qed

section \<open>Sample sessions\<close>

lemma hears_c_exists:
  assumes "startable c" and "0 \<le> status_of fate" and "status_of fate \<le> 255"
  shows "hears CDaemon c fate (start_talk 9090 100 c (exec_of fate = None) @ [MProcessTerminated 100 (status_of fate)])"
proof -
  let ?decode = "\<lambda>_ :: bytes. Some (whole (MRunCommand c))"
  let ?los = "\<lparr>lo_param_malloc = True, lo_err_file = 9, lo_exec_malloc = True, lo_info_malloc = True, lo_stack = Some 7,
    lo_pipe = Some (10, 11), lo_clone = 100, lo_errno = 0, lo_event_malloc = True, lo_epoll_ok = True\<rparr>"
  have w: "reach ?decode 9090 4 good_start (launched_world 9090 0)" by (rule reach_launched_0)
  have running: "running (w_daemon (launched_world 9090 0))" "card (w_live (launched_world 9090 0)) < 256" by simp_all
  have os: "starts_child ?los 100 7 10" "7 \<notin> w_heap (launched_world 9090 0)" "100 \<notin> w_live (launched_world 9090 0)"
    by (simp_all add: starts_child_def)
  have c: "rc_args c \<noteq> []" "0 \<notin> set (rc_path c)" using assms(1) by (auto simp: startable_def)
  from child_session [where decode = ?decode and buf = "[1]" and sock = 6 and wos = idle_watch and port = 9090 and ifd = 4 and ns = "[]" and
      X = "{}" and c = c, OF reach_tracked [OF w running] os _ c _ _ _ fate_facts [of fate] assms(2,3)]
  obtain d' calls where run: "run_daemon ?decode 9090 4 (start_reports 6 [1] ?los idle_watch 10 100 (rc_path c) (pipe_of fate) @
         [OnSignal 5 (SigInfo SIGCHLD 100 (WExited (status_of fate)))]) (w_daemon (launched_world 9090 0)) = Inr (d', calls)"
      "messages_of calls = start_talk 9090 100 c (exec_of fate = None) @ [MProcessTerminated 100 (status_of fate)]" by auto
  from hears_c [where decode = ?decode and buf = "[1]" and sock = 6 and wos = idle_watch and ifd = 4 and c = c and fate = fate and
      start = good_start and w = "launched_world 9090 0" and pid = 100] w running os run show ?thesis
    by (fastforce simp: DAEMON_PORTS_def)
qed

lemma hears_rust_exists:
  "hears RustDaemon c fate (r_messages (connection_task (\<lambda>_. Some (whole (MRunCommand c))) 7 8080 [kill_os\<lparr>ro_spawn := spawn_of fate 100\<rparr>] [Seg [1, 0, 0, 0, 1]]))"
  using hears_rust [of "\<lambda>_. Some (whole (MRunCommand c))" "[1]" c "[Seg [1, 0, 0, 0, 1]]" "kill_os\<lparr>ro_spawn := spawn_of fate 100\<rparr>" fate 100 7]
  by (simp add: watched_frame seg_bytes_def DAEMON_PORTS_def)

text \<open>Every message of these sessions has a frame in the concrete instance of the package.\<close>

definition framed :: "message \<Rightarrow> bool" where
  "framed m \<longleftrightarrow> (\<exists>buf. carries wire_fb wire_encodes buf m \<and> buf \<noteq> [] \<and> length buf < 2147483648)"

lemma framed_serves: "\<forall>m \<in> set ms. framed m \<Longrightarrow> \<exists>k. serves wire_fb wire_encodes k ms"
  by (rule serves_exist) (fastforce simp: framed_def)

lemma framed_numbers:
  "nf_range Uint16Flags p \<Longrightarrow> framed (MTCPSocketListening p)" "nf_range Int32Flags pid \<Longrightarrow> framed (MProcessLaunched pid)"
  "nf_range Int32Flags pid \<Longrightarrow> nf_range Uint32Flags e \<Longrightarrow> framed (MProcessTerminated pid e)"
  "nf_range Uint32Flags e \<Longrightarrow> framed (MChildCreationError e)" "nf_range Int32Flags q \<Longrightarrow> framed (MSocketWatched q)"
  "nf_range Int32Flags q \<Longrightarrow> nf_range Int8Flags st \<Longrightarrow> framed (MSocketWatchTerminated q st)"
  unfolding framed_def
  using wire_frame [OF okE_some [OF wire.tcpsocketlistening_sends [of p]]] wire_frame [OF okE_some [OF wire.processlaunched_sends [of pid]]]
    wire_frame [OF okE_some [OF wire.processterminated_sends [of pid e]]] wire_frame [OF okE_some [OF wire.childcreationerror_sends [of e]]]
    wire_frame [OF okE_some [OF wire.socketwatched_sends [of q]]] wire_frame [OF wire.socketwatchterminated_builds [of q st]]
  by (simp_all del: nf_range.simps)

lemma framed_paths:
  assumes "command_message cmd = Some c" and "length (rc_path c) < 1000"
  shows "nf_range Int32Flags pid \<Longrightarrow> framed (MExecveTerminated pid (rc_path c) ok)"
    and "utf8_encode s = Inr bs \<Longrightarrow> length bs < 1000 \<Longrightarrow> framed (MInotifyWatchListUpdated bs)"
proof -
  have "utf8_encode (cmd_path cmd) = Inr (rc_path c)"
    using assms(1) by (auto simp: command_message_def text_bytes_Some bind_eq_Some_conv split: if_splits)
  from wire_frame [OF wire.execveterminated_builds [OF _ this, of pid ok]] assms(2)
  show "nf_range Int32Flags pid \<Longrightarrow> framed (MExecveTerminated pid (rc_path c) ok)" by (simp add: framed_def)
  from wire_frame [OF okE_some [OF wire.inotifywatchlistupdated_sends]]
  show "utf8_encode s = Inr bs \<Longrightarrow> length bs < 1000 \<Longrightarrow> framed (MInotifyWatchListUpdated bs)" by (simp add: framed_def)
qed

lemmas framed = framed_numbers framed_paths(1) [OF test_messages(1)] framed_paths(1) [OF test_messages(2)]
  framed_paths(1) [OF test_messages(5)] framed_paths(1) [OF test_messages(7)]

lemma test_path_lengths:
  "length (rc_path ls_run) < 1000" "length (rc_path bad_run) < 1000" "length (rc_path (sleep_run ''10'')) < 1000"
  "length (rc_path watchlist_run) < 1000"
  by (simp_all add: ls_run_def bad_run_def sleep_run_def watchlist_run_def bonjour_run_def test_run_def ascii_def)

lemma hearing_c_exists:
  assumes "startable c" and "0 \<le> status_of fate" and "status_of fate \<le> 255" and "\<forall>w \<in> set (rc_to_watch c). framed (watch_reply w)"
    and "framed (MExecveTerminated 100 (rc_path c) (exec_of fate = None))"
  shows "\<exists>k. hearing wire_fb wire_encodes CDaemon c fate k"
proof -
  let ?ms = "start_talk 9090 100 c (exec_of fate = None) @ [MProcessTerminated 100 (status_of fate)]"
  have "\<forall>m \<in> set ?ms. framed m" using assms(2-) by (auto simp: start_talk_def u16_def framed_numbers)
  from framed_serves [OF this] hears_c_exists [OF assms(1-3)] show ?thesis by (auto simp: hearing_def)
qed

theorem basic_tests_pass_witness:
  "\<exists>k. test_daemon_connection wire_fb (Some k) CDaemon = Passed \<and> test_receiving_launch_process wire_fb (Some k) = Passed \<and>
     test_receiving_process_terminated wire_fb (Some k) = Passed"
proof -
  from hearing_c_exists [OF test_startable(1), of "Exits 0"] obtain k where "hearing wire_fb wire_encodes CDaemon ls_run (Exits 0) k"
    by (auto simp: framed test_path_lengths)
  with basic_tests_pass [OF wire_package, of CDaemon k] show ?thesis by blast
qed

theorem failed_launch_test_witness: "\<exists>k. test_receiving_failed_launch_process wire_fb (Some k) = Passed"
proof -
  from hearing_c_exists [OF test_startable(2), of "ExecFails 13"] obtain k where "hearing wire_fb wire_encodes CDaemon bad_run (ExecFails 13) k"
    by (auto simp: framed test_path_lengths)
  with failed_launch_test [OF wire_package this] show ?thesis by auto
qed

theorem inotify_tests_differ_witness: "\<exists>k. test_inotify_result wire_fb (Some k) = Passed"
proof -
  have path: "utf8_encode (pystr_of ''./test.txt'') = Inr (ascii ''./test.txt'')" by code_simp
  have "framed (MInotifyWatchListUpdated (ascii ''./test.txt''))"
    by (rule framed_paths(2) [OF test_messages(7) test_path_lengths(4) path]) (simp add: ascii_def)
  then have "\<forall>w \<in> set (rc_to_watch watchlist_run). framed (watch_reply w)" by (simp add: watchlist_run_def watch_reply_def ascii_paths)
  from hearing_c_exists [OF test_startable(5) _ _ this, of "Exits 0"] obtain k where
    "hearing wire_fb wire_encodes CDaemon watchlist_run (Exits 0) k" by (auto simp: framed test_path_lengths)
  with inotify_tests_differ [OF wire_package, of k] show ?thesis by blast
qed

text \<open>A decoder for a connection on which the client starts a sleeping process and asks to kill it.\<close>

definition sleep_decoder :: decoder where
  "sleep_decoder buf = (if buf = [1] then Some (whole (MRunCommand (sleep_run ''10''))) else if buf = [2] then Some (whole (MKillProcess 100)) else None)"

definition sleep_launch :: launch_os where
  "sleep_launch = \<lparr>lo_param_malloc = True, lo_err_file = 9, lo_exec_malloc = True, lo_info_malloc = True, lo_stack = Some 7,
    lo_pipe = Some (10, 11), lo_clone = 100, lo_errno = 0, lo_event_malloc = True, lo_epoll_ok = True\<rparr>"

theorem kill_test_passes_on_c_witness:
  "\<exists>d' calls. run_daemon sleep_decoder 9090 4 (start_reports 6 [1] sleep_launch idle_watch 10 100 (rc_path (sleep_run ''10'')) PipeEof @
      [OnMessage 6 (whole_frame [2]) sleep_launch idle_watch] @ [OnSignal 5 (SigInfo SIGCHLD 100 (WSignaled 9))]) (launched 0) = Inr (d', calls) \<and>
    Kill 100 \<in> set calls"
proof -
  have "reach sleep_decoder 9090 4 good_start (launched_world 9090 0)" by (rule reach_launched_0)
  then show ?thesis
    using kill_test_passes_on_c [OF wire_package, of sleep_decoder 4 good_start "launched_world 9090 0" sleep_launch 100 7 10 "[1]" "[2]" 6
        idle_watch sleep_launch idle_watch]
    by (auto simp: DAEMON_PORTS_def starts_child_def sleep_launch_def sleep_decoder_def)
qed

lemma sleep_conversation:
  "r_messages (connection_task sleep_decoder 7 8080 [kill_os, kill_os] [Seg [1, 0, 0, 0, 1], Seg [1, 0, 0, 0, 2]]) =
     [MTCPSocketListening 8080, MProcessLaunched 100, MExecveTerminated 100 (rc_path (sleep_run ''10'')) True, MProcessTerminated 100 0,
      MProcessTerminated 7 3]"
proof -
  have "le_nat [1, 0, 0, 0] = 1" by simp
  then show ?thesis
    by (simp add: connection_task_def read_message_def handle_message_def run_request_whole sleep_decoder_def run_child_def kill_os_def then_r_def
        u16_def s32_def u32_def or_one_def)
qed

theorem kill_test_fails_on_rust_witness: "\<exists>k. test_kill_process wire_fb (Some k) True = Failed"
proof -
  have "\<forall>m \<in> set (r_messages (connection_task sleep_decoder 7 8080 [kill_os, kill_os] [Seg [1, 0, 0, 0, 1], Seg [1, 0, 0, 0, 2]])). framed m"
    unfolding sleep_conversation by (simp add: framed test_path_lengths)
  from framed_serves [OF this] obtain k where
    k: "serves wire_fb wire_encodes k (r_messages (connection_task sleep_decoder 7 8080 [kill_os, kill_os] [Seg [1, 0, 0, 0, 1], Seg [1, 0, 0, 0, 2]]))"
    by blast
  have "send_on_socket [2] = [1, 0, 0, 0, 2]" by (simp add: send_on_socket_def le_bytes_4 byte_of_def)
  with k kill_test_fails_on_rust [OF wire_package, of sleep_decoder "[1]" "[Seg [1, 0, 0, 0, 1], Seg [1, 0, 0, 0, 2]]" "[2]" kill_os 100 k 7 kill_os True]
  show ?thesis by (auto simp: sleep_decoder_def watched_frame seg_bytes_def kill_os_def DAEMON_PORTS_def)
qed

lemma port_session:
  "\<exists>k. hears CDaemon (port_run_with [97]) (ExecFails 2) (start_talk 9090 100 (port_run_with [97]) False @ [MProcessTerminated 100 2]) \<and>
     serves wire_fb wire_encodes k (start_talk 9090 100 (port_run_with [97]) False @ [MProcessTerminated 100 2] @ [MSocketWatchTerminated 9090 1])"
proof -
  have "startable (port_run_with [97])" by (simp add: startable_def port_run_with_def port_run_def test_run_def ascii_def)
  from hears_c_exists [OF this, of "ExecFails 2"]
  have "hears CDaemon (port_run_with [97]) (ExecFails 2) (start_talk 9090 100 (port_run_with [97]) False @ [MProcessTerminated 100 2])" by simp
  moreover have "framed (MExecveTerminated 100 [] False)"
    using framed_paths(1) [where pid = 100 and ok = False, OF test_messages(6)] by (simp add: port_run_def test_run_def ascii_def)
  then have "\<forall>m \<in> set (start_talk 9090 100 (port_run_with [97]) False @ [MProcessTerminated 100 2] @ [MSocketWatchTerminated 9090 1]). framed m"
    by (simp add: start_talk_def port_run_with_def port_run_def test_run_def watch_reply_def DAEMON_PORTS_def ascii_def u16_def s32_def framed_numbers)
  from framed_serves [OF this] have "\<exists>k. serves wire_fb wire_encodes k
    (start_talk 9090 100 (port_run_with [97]) False @ [MProcessTerminated 100 2] @ [MSocketWatchTerminated 9090 1])" .
  ultimately show ?thesis by blast
qed

theorem socket_tests_differ_witness:
  "handle_event (\<lambda>_. Some (whole (MRunCommand (port_run 9090)))) 9090 4 (OnMessage 6 (whole_frame [1]) sleep_launch idle_watch)
     (fst (projr (run_daemon (\<lambda>_. Some (whole (MRunCommand (port_run 9090)))) 9090 4 [OnConnexion 3 6 True True True] (launched 0)))) = Inl OutOfBounds \<and>
   (\<exists>k. test_socket_listening wire_fb (Some k) CDaemon = TimedOut \<and> test_watching_socket wire_fb (Some k) CDaemon = TimedOut) \<and>
   (\<exists>k. test_socket_listening wire_fb (Some k) CDaemon = Passed \<and> test_watching_socket wire_fb (Some k) CDaemon = Passed)"
proof -
  let ?decode = "\<lambda>_ :: bytes. Some (whole (MRunCommand (port_run 9090)))"
  obtain d' calls where run: "run_daemon ?decode 9090 4 [OnConnexion 3 6 True True True] (launched 0) = Inr (d', calls)"
      "messages_of calls = [MTCPSocketListening 9090]" by (simp add: handle_event_def on_connexion_def u16_def)
  have "\<forall>m \<in> set [MTCPSocketListening 9090]. framed m" by (simp add: framed)
  from framed_serves [OF this] obtain k where k: "serves wire_fb wire_encodes k [MTCPSocketListening 9090]" by blast
  have stops: "handle_event ?decode 9090 4 (OnMessage 6 (whole_frame [1]) sleep_launch idle_watch) d' = Inl OutOfBounds \<and>
      test_socket_listening wire_fb (Some k) CDaemon = TimedOut \<and> test_watching_socket wire_fb (Some k) CDaemon = TimedOut"
    using socket_tests_differ [where decode = ?decode and buf = "[1]" and los = sleep_launch and sock = 6 and
        ifd = 4 and d = "launched 0" and wos = idle_watch and k = k, OF wire_package, THEN conjunct1] run k
    by (auto simp: DAEMON_PORTS_def sleep_launch_def)
  from port_session obtain k' where k': "hears CDaemon (port_run_with [97]) (ExecFails 2) (start_talk 9090 100 (port_run_with [97]) False @ [MProcessTerminated 100 2])"
      "serves wire_fb wire_encodes k' ((start_talk 9090 100 (port_run_with [97]) False @ [MProcessTerminated 100 2]) @
        [MSocketWatchTerminated (DAEMON_PORTS CDaemon) (SocketState_value SOCKET_LISTENING)])" by (auto simp: DAEMON_PORTS_def)
  have "test_socket_listening wire_fb (Some k') CDaemon = Passed \<and> test_watching_socket wire_fb (Some k') CDaemon = Passed"
    using socket_tests_differ [where a = "[97]" and fate = "ExecFails 2" and st = SOCKET_LISTENING and k = k' and
        ms = "start_talk 9090 100 (port_run_with [97]) False @ [MProcessTerminated 100 2]", OF wire_package, THEN conjunct2, THEN conjunct1] k' by simp
  with stops run show ?thesis by (simp only: sum.sel prod.sel) blast
qed

end
