(* ===== verification/Fixture.thy ===== *)
theory Fixture
  imports Test_Cases C_Daemon
begin

text \<open>
  The pytest fixture \<^verbatim>\<open>daemon\<close> of \<^verbatim>\<open>test_demon.py\<close> and \<^verbatim>\<open>test_overhead.py\<close>, with what
  the two daemons do of their arguments, their process and their port: \<^verbatim>\<open>main\<close> of
  \<^verbatim>\<open>src/c/daemon-core.c\<close> up to the listening socket and \<^verbatim>\<open>main\<close> of
  \<^verbatim>\<open>src/rust/src/bin/main.rs\<close> up to the loop.  Processes have a group, may listen on a port, and stay
  behind when they end until they are waited for.  One second is taken to be enough for a start.
\<close>

section \<open>Port numbers as arguments\<close>

definition digit_char :: "nat \<Rightarrow> char" where
  "digit_char n = char_of (48 + n)"

fun decimal :: "nat \<Rightarrow> string" where
  "decimal n = (if n < 10 then [digit_char n] else decimal (n div 10) @ [digit_char (n mod 10)])"

declare decimal.simps [simp del]

text \<open>Python's \<^verbatim>\<open>str\<close> of an integer.\<close>

definition py_str :: "int \<Rightarrow> string" where
  "py_str i = (if i < 0 then CHR ''-'' # decimal (nat (- i)) else decimal (nat i))"

definition is_digit_char :: "char \<Rightarrow> bool" where
  "is_digit_char c \<longleftrightarrow> 48 \<le> (of_char c :: nat) \<and> (of_char c :: nat) \<le> 57"

fun digits_value :: "nat \<Rightarrow> string \<Rightarrow> nat" where
  "digits_value acc [] = acc"
| "digits_value acc (c # cs) = (if is_digit_char c then digits_value (10 * acc + (of_char c - 48)) cs else acc)"

definition is_space_char :: "char \<Rightarrow> bool" where
  "is_space_char c \<longleftrightarrow> (of_char c :: nat) = 32 \<or> 9 \<le> (of_char c :: nat) \<and> (of_char c :: nat) \<le> 13"

text \<open>\<^verbatim>\<open>atoi\<close> is \<^verbatim>\<open>strtol\<close>, which saturates, cut to an \<^verbatim>\<open>int\<close>.\<close>

definition atoi :: "string \<Rightarrow> int" where
  "atoi s = (let s = dropWhile is_space_char s;
       v = (case s of [] \<Rightarrow> 0
            | c # cs \<Rightarrow> if c = CHR ''-'' then - int (digits_value 0 cs)
                else if c = CHR ''+'' then int (digits_value 0 cs) else int (digits_value 0 s))
     in s32 (max (-9223372036854775808) (min 9223372036854775807 v)))"

text \<open>\<^verbatim>\<open>parse::<u16>\<close>: \<open>None\<close> is an error.\<close>

definition parse_u16 :: "string \<Rightarrow> int option" where
  "parse_u16 s = (let ds = (case s of [] \<Rightarrow> [] | c # cs \<Rightarrow> if c = CHR ''+'' then cs else s)
     in if ds = [] \<or> \<not> list_all is_digit_char ds \<or> 65535 < digits_value 0 ds then None else Some (int (digits_value 0 ds)))"

text \<open>What each \<^verbatim>\<open>main\<close> takes from its arguments: the port it listens on.  The C daemon hands the number
  to \<^verbatim>\<open>htons\<close>.\<close>

definition c_listening_port :: "string list \<Rightarrow> int c" where
  "c_listening_port argv = (if length argv < 2 then Inl (Exit 0) else Inr (u16 (atoi (argv ! 1))))"

definition rust_listening_port :: "string list \<Rightarrow> int c" where
  "rust_listening_port args = (if length args \<noteq> 2 then Inl (Exit 1)
     else (case parse_u16 (args ! 1) of None \<Rightarrow> Inl (Exit 101) | Some port \<Rightarrow> Inr port))"

section \<open>Processes\<close>

record proc =
  pr_pid :: nat
  pr_pgid :: nat
  pr_alive :: bool
  pr_listens :: "int option"

record processes =
  os_next :: nat
  os_procs :: "proc list"

definition listener :: "int \<Rightarrow> processes \<Rightarrow> nat option" where
  "listener port os = map_option pr_pid (find (\<lambda>p. pr_alive p \<and> pr_listens p = Some port) (os_procs os))"

text \<open>A process that ends closes its socket.\<close>

definition ended :: "proc \<Rightarrow> proc" where
  "ended p = p\<lparr>pr_alive := False, pr_listens := None\<rparr>"

definition change_proc :: "nat \<Rightarrow> (proc \<Rightarrow> proc) \<Rightarrow> processes \<Rightarrow> processes" where
  "change_proc pid f os = os\<lparr>os_procs := map (\<lambda>p. if pr_pid p = pid then f p else p) (os_procs os)\<rparr>"

text \<open>\<^verbatim>\<open>Popen\<close> with \<^verbatim>\<open>preexec_fn=os.setsid\<close>: a process that leads a group of its own.\<close>

definition popen_setsid :: "processes \<Rightarrow> nat \<times> processes" where
  "popen_setsid os = (os_next os, os\<lparr>os_next := Suc (os_next os),
     os_procs := os_procs os @ [\<lparr>pr_pid = os_next os, pr_pgid = os_next os, pr_alive = True, pr_listens = None\<rparr>]\<rparr>)"

text \<open>\<^verbatim>\<open>daemon(3)\<close>: the parent ends, the child starts a session and so a group of its own.  When it fails
  the daemon goes on in the same process.\<close>

definition daemonize :: "bool \<Rightarrow> nat \<Rightarrow> processes \<Rightarrow> nat \<times> processes" where
  "daemonize fork_ok pid os = (if fork_ok then let (child, os) = popen_setsid os in (child, change_proc pid ended os) else (pid, os))"

text \<open>Binding a port on which somebody listens fails, and both daemons end then.\<close>

definition bind_port :: "nat \<Rightarrow> int \<Rightarrow> processes \<Rightarrow> processes" where
  "bind_port pid port os = (if listener port os \<noteq> None then change_proc pid ended os
     else change_proc pid (\<lambda>p. p\<lparr>pr_listens := Some port\<rparr>) os)"

definition c_main :: "bool \<Rightarrow> string list \<Rightarrow> nat \<Rightarrow> processes \<Rightarrow> processes" where
  "c_main fork_ok argv pid os = (case c_listening_port argv of
       Inl _ \<Rightarrow> change_proc pid ended os
     | Inr port \<Rightarrow> let (pid, os) = daemonize fork_ok pid os in bind_port pid port os)"

definition rust_main :: "string list \<Rightarrow> nat \<Rightarrow> processes \<Rightarrow> processes" where
  "rust_main args pid os = (case rust_listening_port args of
       Inl _ \<Rightarrow> change_proc pid ended os
     | Inr port \<Rightarrow> bind_port pid port os)"

section \<open>The fixture\<close>

text \<open>What \<^verbatim>\<open>Popen\<close> is called with; the directories are relative to the one of the tests.  The two
  fixtures differ in what they do with the output of the daemon.\<close>

datatype stdio = PIPE | DEVNULL

record popen =
  po_args :: "string list"
  po_cwd :: string
  po_stdout :: stdio
  po_stderr :: stdio

definition RUST_PROJECT_DIR :: string where "RUST_PROJECT_DIR = ''../rust''"
definition C_PROJECT_DIR :: string where "C_PROJECT_DIR = ''../c/builddir''"

definition daemon_popen :: "daemon_type \<Rightarrow> int \<Rightarrow> popen" where
  "daemon_popen t port = (case t of
       RustDaemon \<Rightarrow> \<lparr>po_args = [''cargo'', ''run'', ''--bin'', ''run_demon'', ''--'', py_str port],
         po_cwd = RUST_PROJECT_DIR, po_stdout = PIPE, po_stderr = PIPE\<rparr>
     | CDaemon \<Rightarrow> \<lparr>po_args = [''./daemon'', py_str port], po_cwd = C_PROJECT_DIR, po_stdout = PIPE, po_stderr = PIPE\<rparr>)"

definition overhead_popen :: "daemon_type \<Rightarrow> int \<Rightarrow> popen" where
  "overhead_popen t port = (case t of
       RustDaemon \<Rightarrow> \<lparr>po_args = [''cargo'', ''run'', ''--bin'', ''run_demon'', ''--'', py_str port],
         po_cwd = RUST_PROJECT_DIR, po_stdout = DEVNULL, po_stderr = DEVNULL\<rparr>
     | CDaemon \<Rightarrow> \<lparr>po_args = [''./daemon'', py_str port], po_cwd = C_PROJECT_DIR, po_stdout = DEVNULL, po_stderr = DEVNULL\<rparr>)"

text \<open>The arguments the daemon sees; \<^verbatim>\<open>cargo run\<close> passes on what follows the dashes.\<close>

definition daemon_argv :: "daemon_type \<Rightarrow> string list \<Rightarrow> string list" where
  "daemon_argv t command = (case t of
       RustDaemon \<Rightarrow> ''run_demon'' # tl (dropWhile (\<lambda>a. a \<noteq> ''--'') command)
     | CDaemon \<Rightarrow> command)"

definition fixture_setup :: "(daemon_type \<Rightarrow> int \<Rightarrow> popen) \<Rightarrow> daemon_type \<Rightarrow> bool \<Rightarrow> processes \<Rightarrow> nat \<times> int \<times> processes" where
  "fixture_setup popen t fork_ok os =
     (let port = DAEMON_PORTS t; (pid, os) = popen_setsid os; argv = daemon_argv t (po_args (popen t port))
      in (pid, port, case t of RustDaemon \<Rightarrow> rust_main argv pid os | CDaemon \<Rightarrow> c_main fork_ok argv pid os))"

definition getpgid :: "nat \<Rightarrow> processes \<Rightarrow> nat option" where
  "getpgid pid os = map_option pr_pgid (find (\<lambda>p. pr_pid p = pid) (os_procs os))"

definition killpg :: "nat \<Rightarrow> processes \<Rightarrow> processes" where
  "killpg pgid os = os\<lparr>os_procs := map (\<lambda>p. if pr_pgid p = pgid then ended p else p) (os_procs os)\<rparr>"

text \<open>\<^verbatim>\<open>process.wait\<close> removes the process that has ended.\<close>

definition wait_proc :: "nat \<Rightarrow> processes \<Rightarrow> processes" where
  "wait_proc pid os = os\<lparr>os_procs := filter (\<lambda>p. pr_pid p \<noteq> pid) (os_procs os)\<rparr>"

definition fixture_teardown :: "nat \<Rightarrow> processes \<Rightarrow> processes" where
  "fixture_teardown pid os = (case getpgid pid os of None \<Rightarrow> os | Some pgid \<Rightarrow> wait_proc pid (killpg pgid os))"

text \<open>A test: which daemon it is run on, whether the fork of the C daemon succeeds, and whether the daemon
  that serves it ends during the test.  The result is the process that serves it.\<close>

record test_run =
  tr_type :: daemon_type
  tr_fork_ok :: bool
  tr_ends :: bool

definition run_test :: "(daemon_type \<Rightarrow> int \<Rightarrow> popen) \<Rightarrow> test_run \<Rightarrow> processes \<Rightarrow> nat option \<times> processes" where
  "run_test popen r os =
     (let (pid, port, os) = fixture_setup popen (tr_type r) (tr_fork_ok r) os;
          served = listener port os;
          os = (case served of Some d \<Rightarrow> if tr_ends r then change_proc d ended os else os | None \<Rightarrow> os)
      in (served, fixture_teardown pid os))"

fun pytest_session :: "(daemon_type \<Rightarrow> int \<Rightarrow> popen) \<Rightarrow> test_run list \<Rightarrow> processes \<Rightarrow> nat option list \<times> processes" where
  "pytest_session popen [] os = ([], os)"
| "pytest_session popen (r # rs) os = (let (served, os) = run_test popen r os; (rest, os) = pytest_session popen rs os in (served # rest, os))"

section \<open>Reading the port back\<close>

lemma of_digit_char: "n < 10 \<Longrightarrow> (of_char (digit_char n) :: nat) = 48 + n"
  by (simp add: digit_char_def of_char_of)

lemma is_digit_digit: "n < 10 \<Longrightarrow> is_digit_char (digit_char n)"
  by (simp add: is_digit_char_def of_digit_char)

lemma decimal_digits: "list_all is_digit_char (decimal n)"
proof (induction n rule: decimal.induct)
  case (1 n)
  then show ?case by (subst decimal.simps) (simp add: is_digit_digit)
qed

lemma decimal_nonempty: "decimal n \<noteq> []"
  by (subst decimal.simps) simp

lemma digits_value_append:
  "list_all is_digit_char xs \<Longrightarrow> digits_value acc (xs @ ys) = digits_value (digits_value acc xs) ys"
  by (induction xs arbitrary: acc) auto

lemma digits_value_decimal: "digits_value 0 (decimal n) = n"
proof (induction n rule: decimal.induct)
  case (1 n)
  show ?case
  proof (cases "n < 10")
    case True
    then show ?thesis by (subst decimal.simps) (simp add: is_digit_digit of_digit_char)
  next
    case False
    with 1 have "digits_value 0 (decimal (n div 10)) = n div 10" by blast
    with False show ?thesis
      by (subst decimal.simps) (simp add: digits_value_append decimal_digits is_digit_digit of_digit_char)
  qed
qed

text \<open>The first character of a printed number is neither a blank nor a sign.\<close>

lemma decimal_head:
  obtains c cs where "decimal n = c # cs" "is_digit_char c" "\<not> is_space_char c" "c \<noteq> CHR ''-''" "c \<noteq> CHR ''+''"
proof -
  obtain c cs where d: "decimal n = c # cs" using decimal_nonempty [of n] by (cases "decimal n") auto
  have c: "is_digit_char c" using decimal_digits [of n] d by simp
  then have "\<not> is_space_char c" "c \<noteq> CHR ''-''" "c \<noteq> CHR ''+''" by (auto simp: is_digit_char_def is_space_char_def)
  with that d c show ?thesis by blast
qed

lemma atoi_decimal: "atoi (decimal n) = s32 (min 9223372036854775807 (int n))"
proof -
  obtain c cs where d: "decimal n = c # cs" "\<not> is_space_char c" "c \<noteq> CHR ''-''" "c \<noteq> CHR ''+''" by (rule decimal_head [of n])
  then have "atoi (decimal n) = s32 (max (-9223372036854775808) (min 9223372036854775807 (int (digits_value 0 (decimal n)))))"
    by (simp add: atoi_def)
  then show ?thesis by (simp add: digits_value_decimal max_def)
qed

lemma parse_u16_decimal: "parse_u16 (decimal n) = (if n \<le> 65535 then Some (int n) else None)"
proof -
  obtain c cs where d: "decimal n = c # cs" "c \<noteq> CHR ''+''" by (rule decimal_head [of n])
  then have "parse_u16 (decimal n) = (if decimal n = [] \<or> \<not> list_all is_digit_char (decimal n) \<or> 65535 < digits_value 0 (decimal n)
      then None else Some (int (digits_value 0 (decimal n))))" by (simp add: parse_u16_def)
  then show ?thesis by (simp add: digits_value_decimal decimal_digits decimal_nonempty)
qed

lemma parse_u16_negative: "i < 0 \<Longrightarrow> parse_u16 (py_str i) = None"
  by (simp add: parse_u16_def py_str_def is_digit_char_def)

lemma atoi_py_str:
  assumes "-2147483648 \<le> i" and "i < 2147483648"
  shows "atoi (py_str i) = i"
proof (cases "i < 0")
  case True
  have "\<not> is_space_char (CHR ''-'')" by (simp add: is_space_char_def)
  with True have "atoi (py_str i) = s32 (max (-9223372036854775808) (min 9223372036854775807 i))"
    by (simp add: atoi_def py_str_def digits_value_decimal)
  with assms show ?thesis by (simp add: s32_def max_def min_def)
next
  case False
  with assms show ?thesis by (simp add: py_str_def atoi_decimal s32_def min_def)
qed

text \<open>The two fixtures.\<close>

definition fixtures :: "(daemon_type \<Rightarrow> int \<Rightarrow> popen) set" where
  "fixtures = {daemon_popen, overhead_popen}"

lemma fixture_argv:
  assumes "popen \<in> fixtures"
  shows "daemon_argv CDaemon (po_args (popen CDaemon port)) = [''./daemon'', py_str port]"
    "daemon_argv RustDaemon (po_args (popen RustDaemon port)) = [''run_demon'', py_str port]"
  using assms by (auto simp: fixtures_def daemon_argv_def daemon_popen_def overhead_popen_def)

lemma listening_ports:
  "-2147483648 \<le> port \<Longrightarrow> port < 2147483648 \<Longrightarrow> c_listening_port [prog, py_str port] = Inr (port mod 65536)"
  "rust_listening_port [prog, py_str port] = (if 0 \<le> port \<and> port < 65536 then Inr port else Inl (Exit 101))"
proof -
  show "c_listening_port [prog, py_str port] = Inr (port mod 65536)" if "-2147483648 \<le> port" "port < 2147483648"
    using atoi_py_str [OF that] by (simp add: c_listening_port_def u16_def)
  have "parse_u16 (py_str port) = (if 0 \<le> port \<and> port < 65536 then Some port else None)"
    using parse_u16_negative [of port] by (cases "port < 0") (auto simp: py_str_def parse_u16_decimal)
  then show "rust_listening_port [prog, py_str port] = (if 0 \<le> port \<and> port < 65536 then Inr port else Inl (Exit 101))"
    by (simp add: rust_listening_port_def)
qed

text \<open>C35 (bounds).  The daemons started by either fixture with the printed port as argument.  Both listen on the port the
  fixture hands to the client if it is a port number.  On any other number the Rust daemon refuses to start,
  while the C daemon, for a number that an \<^verbatim>\<open>int\<close> holds, listens on its remainder.\<close>

theorem daemon_reads_port:
  assumes "popen \<in> fixtures" and "-2147483648 \<le> port" and "port < 2147483648"
  shows "c_listening_port (daemon_argv CDaemon (po_args (popen CDaemon port))) = Inr (port mod 65536) \<and>
    rust_listening_port (daemon_argv RustDaemon (po_args (popen RustDaemon port))) =
      (if 0 \<le> port \<and> port < 65536 then Inr port else Inl (Exit 101))"
  using listening_ports(1) [OF assms(2,3)] listening_ports(2) unfolding fixture_argv [OF assms(1)] by simp

theorem daemon_reads_port_witness:
  "c_listening_port (daemon_argv CDaemon (po_args (daemon_popen CDaemon 74626))) = Inr 9090 \<and>
    rust_listening_port (daemon_argv RustDaemon (po_args (daemon_popen RustDaemon 74626))) = Inl (Exit 101)"
  using daemon_reads_port [of daemon_popen 74626] by (simp add: fixtures_def)

section \<open>A session\<close>

text \<open>The specification, over the next pid and the C daemon that is still there.\<close>

fun served_by :: "test_run list \<Rightarrow> nat \<Rightarrow> nat option \<Rightarrow> nat option list \<times> nat option" where
  "served_by [] n c = ([], c)"
| "served_by (r # rs) n c =
     (let (d, n', c') = (case tr_type r of
          RustDaemon \<Rightarrow> (n, n + 1, c)
        | CDaemon \<Rightarrow> (case c of
              Some d \<Rightarrow> (d, if tr_fork_ok r then n + 2 else n + 1, if tr_ends r then None else Some d)
            | None \<Rightarrow> if tr_fork_ok r then (n + 1, n + 2, if tr_ends r then None else Some (n + 1)) else (n, n + 1, None)));
          (rest, c') = served_by rs n' c'
      in (Some d # rest, c'))"

definition old :: "nat \<Rightarrow> proc list \<Rightarrow> bool" where
  "old n ps \<longleftrightarrow> (\<forall>p \<in> set ps. pr_pid p < n \<and> pr_pgid p < n)"

lemma old_simps [simp]:
  "old n [] = True" "old n (p # ps) = (pr_pid p < n \<and> pr_pgid p < n \<and> old n ps)" "old n (ps @ qs) = (old n ps \<and> old n qs)"
  by (auto simp: old_def)

lemma old_mono: "old n ps \<Longrightarrow> n \<le> m \<Longrightarrow> old m ps"
  by (auto simp: old_def)

lemma find_app: "find P (xs @ ys) = (case find P xs of None \<Rightarrow> find P ys | Some x \<Rightarrow> Some x)"
  by (induction xs) auto

lemma find_SomeD: "find P xs = Some x \<Longrightarrow> x \<in> set xs \<and> P x"
  by (induction xs) (auto split: if_splits)

lemma old_same:
  assumes "old n ps" and "n \<le> m"
  shows "map (\<lambda>p. if pr_pid p = m then f p else p) ps = ps" "map (\<lambda>p. if pr_pgid p = m then f p else p) ps = ps"
    "filter (\<lambda>p. pr_pid p \<noteq> m) ps = ps" "find (\<lambda>p. pr_pid p = m) (ps @ qs) = find (\<lambda>p. pr_pid p = m) qs"
proof -
  have new: "pr_pid p \<noteq> m" "pr_pgid p \<noteq> m" if "p \<in> set ps" for p using assms that by (auto simp: old_def)
  then show "map (\<lambda>p. if pr_pid p = m then f p else p) ps = ps" "map (\<lambda>p. if pr_pgid p = m then f p else p) ps = ps"
    "filter (\<lambda>p. pr_pid p \<noteq> m) ps = ps" by (auto intro!: map_idI simp: filter_id_conv)
  have "find (\<lambda>p. pr_pid p = m) ps = None" using new by (auto simp: find_None_iff)
  then show "find (\<lambda>p. pr_pid p = m) (ps @ qs) = find (\<lambda>p. pr_pid p = m) qs" by (simp add: find_app)
qed

lemma ended_simps [simp]:
  "pr_pid (ended p) = pr_pid p" "pr_pgid (ended p) = pr_pgid p" "\<not> pr_alive (ended p)" "pr_listens (ended p) = None" "ended (ended p) = ended p"
  by (simp_all add: ended_def)

lemma old_change: "old n ps \<Longrightarrow> old n (map (\<lambda>p. if pr_pid p = d then ended p else p) ps)"
  by (auto simp: old_def)

text \<open>Between two tests nobody listens but the C daemon that is left, if any.\<close>

definition between_tests :: "nat option \<Rightarrow> processes \<Rightarrow> bool" where
  "between_tests c os \<longleftrightarrow> old (os_next os) (os_procs os) \<and>
     (\<forall>p \<in> set (os_procs os). pr_alive p \<longrightarrow> pr_listens p \<noteq> None \<longrightarrow> pr_listens p = Some 9090 \<and> c = Some (pr_pid p)) \<and>
     (\<forall>d. c = Some d \<longrightarrow> (\<exists>p \<in> set (os_procs os). pr_alive p \<and> pr_listens p = Some 9090 \<and> pr_pid p = d))"

lemma between_listener:
  assumes "between_tests c os"
  shows "listener 9090 os = c" and "listener 8080 os = None"
proof -
  have only: "pr_listens p = Some 9090 \<and> c = Some (pr_pid p)" if "p \<in> set (os_procs os)" "pr_alive p" "pr_listens p = Some i" for p i
    using assms that unfolding between_tests_def by blast
  have "find (\<lambda>p. pr_alive p \<and> pr_listens p = Some 8080) (os_procs os) = None"
    unfolding find_None_iff using only by fastforce
  then show "listener 8080 os = None" by (simp add: listener_def)
  show "listener 9090 os = c"
  proof (cases "find (\<lambda>p. pr_alive p \<and> pr_listens p = Some 9090) (os_procs os)")
    case None
    then have "c = None" using assms unfolding between_tests_def find_None_iff by (cases c) blast+
    with None show ?thesis by (simp add: listener_def)
  next
    case (Some p)
    with only [of p 9090] find_SomeD [OF Some] show ?thesis by (simp add: listener_def)
  qed
qed

lemma listener_append:
  "listener port (os\<lparr>os_next := n, os_procs := ps @ qs\<rparr>) =
     (case listener port (os\<lparr>os_procs := ps\<rparr>) of None \<Rightarrow> listener port (os\<lparr>os_procs := qs\<rparr>) | Some d \<Rightarrow> Some d)"
  by (auto simp: listener_def find_app split: option.splits)

lemma fixture_ports:
  assumes "popen \<in> fixtures"
  shows "c_listening_port (daemon_argv CDaemon (po_args (popen CDaemon 9090))) = Inr 9090"
    "rust_listening_port (daemon_argv RustDaemon (po_args (popen RustDaemon 8080))) = Inr 8080"
  unfolding fixture_argv [OF assms] by (simp_all add: listening_ports)

lemmas fixture_steps = run_test_def fixture_setup_def popen_setsid_def rust_main_def c_main_def daemonize_def bind_port_def
  fixture_teardown_def getpgid_def killpg_def wait_proc_def change_proc_def listener_append DAEMON_PORTS_def

lemma listener_alone: "listener port (os\<lparr>os_procs := []\<rparr>) = None"
  "listener port (os\<lparr>os_procs := p # ps\<rparr>) =
     (if pr_alive p \<and> pr_listens p = Some port then Some (pr_pid p) else listener port (os\<lparr>os_procs := ps\<rparr>))"
  by (simp_all add: listener_def)

lemma run_rust:
  assumes fixture: "popen \<in> fixtures" and "between_tests c os" and "tr_type r = RustDaemon"
  shows "run_test popen r os = (Some (os_next os), os\<lparr>os_next := Suc (os_next os)\<rparr>)"
proof -
  have "old (os_next os) (os_procs os)" using assms(2) by (simp add: between_tests_def)
  note same = old_same [OF this order_refl]
  show ?thesis
    using between_listener(2) [OF assms(2)] assms(3) by (simp add: fixture_steps fixture_ports [OF fixture] same listener_alone)
qed

text \<open>The process of the C daemon that a test starts, once it serves.\<close>

definition c_child :: "nat \<Rightarrow> proc" where
  "c_child n = \<lparr>pr_pid = n, pr_pgid = n, pr_alive = True, pr_listens = Some 9090\<rparr>"

lemma run_c_new:
  assumes fixture: "popen \<in> fixtures" and "between_tests None os" and "tr_type r = CDaemon"
  shows "run_test popen r os = (if tr_fork_ok r
    then (Some (os_next os + 1), os\<lparr>os_next := os_next os + 2,
      os_procs := os_procs os @ [if tr_ends r then ended (c_child (os_next os + 1)) else c_child (os_next os + 1)]\<rparr>)
    else (Some (os_next os), os\<lparr>os_next := os_next os + 1\<rparr>))"
proof -
  have old: "old (os_next os) (os_procs os)" using assms(2) by (simp add: between_tests_def)
  note same = old_same [OF old order_refl] old_same [OF old le_SucI [OF order_refl]]
  show ?thesis
    using between_listener(1) [OF assms(2)] assms(3) by (simp add: fixture_steps fixture_ports [OF fixture] same listener_alone c_child_def ended_def)
qed

lemma run_c_again:
  assumes fixture: "popen \<in> fixtures" and "between_tests (Some d) os" and "tr_type r = CDaemon"
  shows "\<exists>qs. run_test popen r os = (Some d, os\<lparr>os_next := os_next os + (if tr_fork_ok r then 2 else 1),
      os_procs := (if tr_ends r then map (\<lambda>p. if pr_pid p = d then ended p else p) (os_procs os) else os_procs os) @ qs\<rparr>) \<and>
    (\<forall>q \<in> set qs. \<not> pr_alive q \<and> pr_pid q = os_next os + 1 \<and> pr_pgid q = os_next os + 1 \<and> tr_fork_ok r)"
proof -
  have old: "old (os_next os) (os_procs os)" using assms(2) by (simp add: between_tests_def)
  then have d: "d < os_next os" using assms(2) by (auto simp: between_tests_def old_def)
  note same = old_same [OF old order_refl] old_same [OF old le_SucI [OF order_refl]]
    old_same [OF old_change [OF old, of d] order_refl] old_same [OF old_change [OF old, of d] le_SucI [OF order_refl]]
  show ?thesis
    using between_listener(1) [OF assms(2)] assms(3) d
    by (intro exI [of _ "if tr_fork_ok r then [\<lparr>pr_pid = os_next os + 1, pr_pgid = os_next os + 1, pr_alive = False, pr_listens = None\<rparr>] else []"])
      (simp add: fixture_steps fixture_ports [OF fixture] same listener_alone ended_def del: map_map)
qed

lemma between_run:
  assumes fixture: "popen \<in> fixtures" and between: "between_tests c os"
  obtains d n' c' where "served_by [r] (os_next os) c = ([Some d], c')" and "fst (run_test popen r os) = Some d"
    and "os_next (snd (run_test popen r os)) = n'" and "between_tests c' (snd (run_test popen r os))"
    and "\<And>rs. served_by (r # rs) (os_next os) c = (Some d # fst (served_by rs n' c'), snd (served_by rs n' c'))"
proof -
  have old: "old (os_next os) (os_procs os)" using between by (simp add: between_tests_def)
  note mono = old_mono [OF old]
  consider (rust) "tr_type r = RustDaemon" | (new) "tr_type r = CDaemon" "c = None" | (again) d where "tr_type r = CDaemon" "c = Some d"
    by (cases "tr_type r"; cases c) auto
  then show thesis
  proof cases
    case rust
    with run_rust [OF fixture between rust] between show thesis
      by (intro that [of "os_next os" c "os_next os + 1"]) (auto simp: between_tests_def mono split: prod.splits)
  next
    case new
    with run_c_new [OF fixture, of os r] between show thesis
      by (intro that [of "if tr_fork_ok r then os_next os + 1 else os_next os"
            "if tr_fork_ok r \<and> \<not> tr_ends r then Some (os_next os + 1) else None" "if tr_fork_ok r then os_next os + 2 else os_next os + 1"])
        (auto simp: between_tests_def mono c_child_def split: prod.splits)
  next
    case (again d)
    with run_c_again [OF fixture, of d os r] between obtain qs where
      run: "run_test popen r os = (Some d, os\<lparr>os_next := os_next os + (if tr_fork_ok r then 2 else 1),
        os_procs := (if tr_ends r then map (\<lambda>p. if pr_pid p = d then ended p else p) (os_procs os) else os_procs os) @ qs\<rparr>)"
      and qs: "\<forall>q \<in> set qs. \<not> pr_alive q \<and> pr_pid q = os_next os + 1 \<and> pr_pgid q = os_next os + 1 \<and> tr_fork_ok r" by auto
    have "old (os_next os + (if tr_fork_ok r then 2 else 1)) qs" using qs by (auto simp: old_def)
    then have "between_tests (if tr_ends r then None else Some d) (snd (run_test popen r os))"
      using between again(2) qs old_change [OF mono] mono unfolding run between_tests_def
      by (auto)
    with again run show thesis
      by (intro that [of d "if tr_ends r then None else Some d" "os_next os + (if tr_fork_ok r then 2 else 1)"])
        (auto split: prod.splits)
  qed
qed

text \<open>A session does what the specification says.\<close>

lemma session_refines:
  "popen \<in> fixtures \<Longrightarrow> between_tests c os \<Longrightarrow> fst (pytest_session popen rs os) = fst (served_by rs (os_next os) c) \<and>
     between_tests (snd (served_by rs (os_next os) c)) (snd (pytest_session popen rs os))"
proof (induction rs arbitrary: os c)
  case (Cons r rs)
  from Cons.prems(2) obtain d n' c' where run: "fst (run_test popen r os) = Some d" "os_next (snd (run_test popen r os)) = n'"
      "between_tests c' (snd (run_test popen r os))"
    and spec: "served_by (r # rs) (os_next os) c = (Some d # fst (served_by rs n' c'), snd (served_by rs n' c'))"
    by (rule between_run [OF Cons.prems(1), where r = r]) blast
  have "pytest_session popen (r # rs) os = (Some d # fst (pytest_session popen rs (snd (run_test popen r os))), snd (pytest_session popen rs (snd (run_test popen r os))))"
    using run(1) by (simp add: prod.case_eq_if)
  with Cons.IH [OF Cons.prems(1) run(3)] run(2) show ?case unfolding spec by simp
qed simp

definition served_on :: "daemon_type \<Rightarrow> test_run list \<Rightarrow> nat option list \<Rightarrow> nat option list" where
  "served_on t rs served = map snd (filter (\<lambda>(r, d). tr_type r = t) (zip rs served))"

lemma served_on_Cons [simp]:
  "served_on t (r # rs) (d # ds) = (if tr_type r = t then d # served_on t rs ds else served_on t rs ds)" "served_on t [] ds = []"
  by (simp_all add: served_on_def)

lemma spec_Cons:
  obtains d n' c' where "served_by (r # rs) n c = (Some d # fst (served_by rs n' c'), snd (served_by rs n' c'))" "n < n'"
    "tr_type r = RustDaemon \<Longrightarrow> d = n \<and> c' = c"
    "tr_type r = CDaemon \<Longrightarrow> tr_fork_ok r \<Longrightarrow> \<not> tr_ends r \<Longrightarrow> c' = Some d \<and> (\<forall>e. c = Some e \<longrightarrow> d = e)"
  by (cases "tr_type r"; cases c) (auto simp: prod.case_eq_if Let_def)

lemma spec_length: "length (fst (served_by rs n c)) = length rs \<and> None \<notin> set (fst (served_by rs n c))"
proof (induction rs arbitrary: n c)
  case (Cons r rs)
  obtain d n' c' where "served_by (r # rs) n c = (Some d # fst (served_by rs n' c'), snd (served_by rs n' c'))"
    by (rule spec_Cons [of r rs n c]) blast
  with Cons.IH [of n' c'] show ?case by simp
qed simp

lemma spec_rust:
  "distinct (served_on RustDaemon rs (fst (served_by rs n c))) \<and> (\<forall>x \<in> set (served_on RustDaemon rs (fst (served_by rs n c))). \<exists>m \<ge> n. x = Some m)"
proof (induction rs arbitrary: n c)
  case (Cons r rs)
  obtain d n' c' where s: "served_by (r # rs) n c = (Some d # fst (served_by rs n' c'), snd (served_by rs n' c'))" "n < n'"
    "tr_type r = RustDaemon \<Longrightarrow> d = n \<and> c' = c" by (rule spec_Cons [of r rs n c]) blast
  from Cons.IH [of n' c'] s(2,3) show ?case unfolding s(1) by (cases "tr_type r") fastforce+
qed simp

lemma spec_c:
  assumes "\<forall>r \<in> set rs. tr_type r = CDaemon \<longrightarrow> tr_fork_ok r \<and> \<not> tr_ends r"
  shows "case c of Some d \<Rightarrow> set (served_on CDaemon rs (fst (served_by rs n c))) \<subseteq> {Some d} \<and> snd (served_by rs n c) = Some d
    | None \<Rightarrow> set (served_on CDaemon rs (fst (served_by rs n c))) \<subseteq> {snd (served_by rs n c)}"
  using assms
proof (induction rs arbitrary: n c)
  case (Cons r rs)
  obtain d n' c' where s: "served_by (r # rs) n c = (Some d # fst (served_by rs n' c'), snd (served_by rs n' c'))"
    "tr_type r = RustDaemon \<Longrightarrow> d = n \<and> c' = c"
    "tr_type r = CDaemon \<Longrightarrow> tr_fork_ok r \<Longrightarrow> \<not> tr_ends r \<Longrightarrow> c' = Some d \<and> (\<forall>e. c = Some e \<longrightarrow> d = e)" by (rule spec_Cons [of r rs n c]) blast
  note rest = Cons.IH [of n' c'] Cons.prems
  show ?case
  proof (cases "tr_type r")
    case RustDaemon
    with s(2) rest show ?thesis unfolding s(1) by (cases c) simp_all
  next
    case CDaemon
    with s(3) Cons.prems have d: "c' = Some d" "\<forall>e. c = Some e \<longrightarrow> d = e" by simp_all
    from rest have "set (served_on CDaemon rs (fst (served_by rs n' c'))) \<subseteq> {Some d} \<and> snd (served_by rs n' c') = Some d"
      by (simp add: d(1))
    moreover have "c = None \<or> c = Some d" using d(2) by (cases c) simp_all
    ultimately show ?thesis unfolding s(1) using CDaemon by (elim disjE conjE) simp_all
  qed
qed (auto split: option.splits)

definition boot :: "nat \<Rightarrow> processes" where
  "boot n = \<lparr>os_next = n, os_procs = []\<rparr>"

lemma boot_between: "between_tests None (boot n)" "os_next (boot n) = n"
  by (simp_all add: between_tests_def boot_def)

text \<open>C3 (refinement).  A session of tests on the two daemons in any order, over processes, groups and ports, serves
  the tests as \<open>served_by\<close> says.  Every test finds a daemon.  Each test on the Rust daemon has its own, and
  the fixture leaves none behind.  The C daemon has put itself into a process group of its own, which the
  fixture does not reach: it serves the tests that follow, whose own daemons cannot bind the port, until a
  test ends it; if none does, one process serves all the tests on the C daemon and still listens after the
  session.\<close>

theorem c_daemon_outlives_fixture:
  assumes "popen \<in> fixtures" and "pytest_session popen rs (boot n) = (served, os)"
  shows "served = fst (served_by rs n None) \<and> listener 9090 os = snd (served_by rs n None) \<and>
    length served = length rs \<and> None \<notin> set served \<and>
    distinct (served_on RustDaemon rs served) \<and> listener 8080 os = None \<and>
    ((\<forall>r \<in> set rs. tr_type r = CDaemon \<longrightarrow> tr_fork_ok r \<and> \<not> tr_ends r) \<longrightarrow>
      set (served_on CDaemon rs served) \<subseteq> {listener 9090 os})"
proof -
  let ?spec = "served_by rs n None"
  from session_refines [OF assms(1) boot_between(1) [of n], of rs] assms(2) have
    served: "served = fst ?spec" and between: "between_tests (snd ?spec) os" by (simp_all add: boot_between)
  show ?thesis
    using spec_length [of rs n None] spec_rust [of rs n None] spec_c [of rs n None] between_listener [OF between]
    unfolding served by simp
qed

text \<open>Three tests on each daemon.\<close>

definition three_tests :: "test_run list" where
  "three_tests = concat (replicate 3 [\<lparr>tr_type = RustDaemon, tr_fork_ok = True, tr_ends = False\<rparr>, \<lparr>tr_type = CDaemon, tr_fork_ok = True, tr_ends = False\<rparr>])"

lemma daemon_fixture: "daemon_popen \<in> fixtures"
  by (simp add: fixtures_def)

lemma three_served: "fst (pytest_session daemon_popen three_tests (boot 100)) = map Some [100, 102, 103, 102, 106, 102]"
  using session_refines [OF daemon_fixture boot_between(1) [of 100], of three_tests]
  by (simp add: boot_between three_tests_def numeral_3_eq_3)

theorem c_daemon_outlives_fixture_witness:
  "\<exists>os. pytest_session daemon_popen three_tests (boot 100) = (map Some [100, 102, 103, 102, 106, 102], os) \<and>
     listener 8080 os = None \<and> listener 9090 os = Some 102"
proof -
  obtain os where run: "pytest_session daemon_popen three_tests (boot 100) = (map Some [100, 102, 103, 102, 106, 102], os)"
    using three_served by (cases "pytest_session daemon_popen three_tests (boot 100)") auto
  have all: "\<forall>r \<in> set three_tests. tr_type r = CDaemon \<longrightarrow> tr_fork_ok r \<and> \<not> tr_ends r"
    by (auto simp: three_tests_def)
  have c: "Some 102 \<in> set (served_on CDaemon three_tests (map Some [100, 102, 103, 102, 106, 102]))"
    by (simp add: three_tests_def numeral_3_eq_3)
  from c_daemon_outlives_fixture [OF daemon_fixture run] all have rust: "listener 8080 os = None"
    and sub: "set (served_on CDaemon three_tests (map Some [100, 102, 103, 102, 106, 102])) \<subseteq> {listener 9090 os}" by blast+
  from subsetD [OF sub c] have "listener 9090 os = Some 102" by (simp only: singleton_iff)
  with run rust show ?thesis by (intro exI conjI)
qed

end
