(* ===== verification/Detect_Socket.thy ===== *)
theory Detect_Socket
  imports C_Daemon
begin

text \<open>
  The socket detector of the C daemon, \<^verbatim>\<open>src/c/daemon-features/Detect_socket.c\<close>: a thread that asks the
  kernel once per second for the TCP sockets of a port, until it finds one or an alarm rings.  What the
  kernel answers, and how many rounds there are before the alarm, are arguments.
\<close>

section \<open>The code\<close>

text \<open>A netlink message: its kind, and the port and the state that are read from its data.  The data of an
  error message is read as well.\<close>

datatype nl_kind = NLMSG_DONE | NLMSG_ERROR | NLMSG_DATA

record nlmsg =
  nl_kind :: nl_kind
  nl_sport :: int
  nl_state :: int

text \<open>The global \<^verbatim>\<open>found\<close> and the local \<^verbatim>\<open>sock_info.state\<close>, which has no initial value.\<close>

record detector =
  found :: bool
  sock_state :: "SocketState option"

definition process_inet_diag :: "nlmsg \<Rightarrow> int \<Rightarrow> detector \<Rightarrow> detector" where
  "process_inet_diag diag port_filter d =
     (let st = (if nl_state diag = 1 then SOCKET_CREATED else if nl_state diag = 10 then SOCKET_LISTENING else SOCKET_UNKNOWN)
      in \<lparr>found = (found d \<or> nl_sport diag = port_filter), sock_state = Some st\<rparr>)"

text \<open>The messages of one datagram; \<open>True\<close> when a \<^verbatim>\<open>NLMSG_DONE\<close> was met.\<close>

fun process_datagram :: "nlmsg list \<Rightarrow> int \<Rightarrow> detector \<Rightarrow> detector \<times> bool" where
  "process_datagram [] port_filter d = (d, False)"
| "process_datagram (nh # rest) port_filter d =
     (if nl_kind nh = NLMSG_DONE then (d, True) else process_datagram rest port_filter (process_inet_diag nh port_filter d))"

text \<open>The socket holds the datagrams that have not been read.  With none left \<^verbatim>\<open>recvmsg\<close> waits for one and
  fails if there never is any.\<close>

fun recv_tcp_diag :: "nlmsg list list \<Rightarrow> int \<Rightarrow> detector \<Rightarrow> nlmsg list list \<times> detector \<times> int" where
  "recv_tcp_diag [] port_filter d = ([], d, -1)"
| "recv_tcp_diag (datagram # queue) port_filter d =
     (let (d, finished) = process_datagram datagram port_filter d
      in if finished then (queue, d, 0) else recv_tcp_diag queue port_filter d)"

text \<open>A request.  The filter is a 16 bit number; the port is in the byte order of the network, which is left
  implicit here as it is in \<open>nl_sport\<close>.\<close>

record diag_packet =
  nlmsg_len :: int
  nlmsg_type :: int
  nlmsg_flags :: int
  sdiag_family :: int
  sdiag_protocol :: int
  idiag_states :: int
  idiag_ext :: int
  idiag_sport :: int

definition AF_INET :: int where "AF_INET = 2"
definition AF_INET6 :: int where "AF_INET6 = 10"

definition send_tcp_diag :: "int \<Rightarrow> int \<Rightarrow> diag_packet" where
  "send_tcp_diag family port_filter = \<lparr>nlmsg_len = 72, nlmsg_type = 20, nlmsg_flags = or 1 768, sdiag_family = family,
     sdiag_protocol = 6, idiag_states = or 2 1024, idiag_ext = 0, idiag_sport = u16 port_filter\<rparr>"

text \<open>The loop: \<open>answers i\<close> are the datagrams, of any number and content, that the kernel puts into the socket from
  the two requests of round \<open>i\<close> to those of the next round; the first argument counts the rounds until the
  alarm.\<close>

fun search_rounds :: "nat \<Rightarrow> nat \<Rightarrow> (nat \<Rightarrow> nlmsg list list) \<Rightarrow> int \<Rightarrow> nlmsg list list \<Rightarrow> detector \<Rightarrow> detector" where
  "search_rounds 0 i answers port queue d = d"
| "search_rounds (Suc n) i answers port queue d =
     (if found d then d
      else let (queue, d, _) = recv_tcp_diag (queue @ answers i) port d in search_rounds n (Suc i) answers port queue d)"

text \<open>\<open>already\<close> is the global when the thread starts.  The result is the message it sends.\<close>

definition search_TCP_connection :: "bool \<Rightarrow> int \<Rightarrow> nat \<Rightarrow> (nat \<Rightarrow> nlmsg list list) \<Rightarrow> int \<Rightarrow> (bool \<times> message) c" where
  "search_TCP_connection already nl_sock rounds answers port =
     (if nl_sock < 0 then Inl (Exit 1)
      else let d = search_rounds rounds 0 answers port [] \<lparr>found = already, sock_state = None\<rparr> in
        bindE (read_field (if \<not> found d then Some SOCKET_UNKNOWN else sock_state d)) (\<lambda>st.
        Inr (found d, MSocketWatchTerminated (s32 port) (SocketState_value st))))"

text \<open>The thread sends the message and ends the whole process.\<close>

definition detector_thread :: "bool \<Rightarrow> int \<Rightarrow> nat \<Rightarrow> (nat \<Rightarrow> nlmsg list list) \<Rightarrow> int \<Rightarrow> int \<Rightarrow> call list \<times> c_halt" where
  "detector_thread already nl_sock rounds answers port com_sock =
     (case search_TCP_connection already nl_sock rounds answers port of
        Inl e \<Rightarrow> ([], e)
      | Inr (_, m) \<Rightarrow> ([SendMessage com_sock m], Exit 0))"

text \<open>Starting the thread.\<close>

definition detect_socket :: "bool \<Rightarrow> bool \<Rightarrow> int \<Rightarrow> int \<Rightarrow> (int \<times> int) option c" where
  "detect_socket malloc_ok create_ok port comm_sock =
     (if \<not> malloc_ok then Inl (Exit 1) else if create_ok then Inr (Some (port, comm_sock)) else Inr None)"

section \<open>Reading dumps\<close>

text \<open>A dump: messages with data or errors, in any number of datagrams, and a \<^verbatim>\<open>NLMSG_DONE\<close> at the end of the
  last one.\<close>

fun dump :: "nlmsg list list \<Rightarrow> nlmsg list \<Rightarrow> bool" where
  "dump [] ms = False"
| "dump [g] ms = (\<exists>e. g = ms @ [e] \<and> nl_kind e = NLMSG_DONE \<and> (\<forall>m \<in> set ms. nl_kind m \<noteq> NLMSG_DONE))"
| "dump (g # gs) ms = (\<exists>rest. ms = g @ rest \<and> (\<forall>m \<in> set g. nl_kind m \<noteq> NLMSG_DONE) \<and> dump gs rest)"

abbreviation scan :: "int \<Rightarrow> nlmsg list \<Rightarrow> detector \<Rightarrow> detector" where
  "scan port ms \<equiv> fold (\<lambda>m. process_inet_diag m port) ms"

lemma process_datagram_data:
  "\<forall>m \<in> set ms. nl_kind m \<noteq> NLMSG_DONE \<Longrightarrow> process_datagram (ms @ rest) port d = process_datagram rest port (scan port ms d)"
  by (induction ms arbitrary: d) auto

lemma recv_dump: "dump gs ms \<Longrightarrow> recv_tcp_diag (gs @ rest) port d = (rest, scan port ms d, 0)"
proof (induction gs ms arbitrary: d rule: dump.induct)
  case (2 g ms)
  then show ?case by (auto simp: process_datagram_data)
next
  case (3 g g' gs ms)
  then show ?case using process_datagram_data [of g "[]" port d] by auto
qed simp

lemma scan_found: "found (scan port ms d) \<longleftrightarrow> found d \<or> port \<in> nl_sport ` set ms"
  by (induction ms arbitrary: d) (auto simp: process_inet_diag_def)

definition state_of_diag :: "nlmsg \<Rightarrow> SocketState" where
  "state_of_diag m = (if nl_state m = 1 then SOCKET_CREATED else if nl_state m = 10 then SOCKET_LISTENING else SOCKET_UNKNOWN)"

lemma scan_state: "ms \<noteq> [] \<Longrightarrow> sock_state (scan port ms d) = Some (state_of_diag (last ms))"
  by (induction ms arbitrary: d) (auto simp: process_inet_diag_def state_of_diag_def Let_def)

text \<open>Dump \<open>k\<close> shows the port.\<close>

definition shown_in :: "(nat \<Rightarrow> nlmsg list) \<Rightarrow> int \<Rightarrow> nat \<Rightarrow> bool" where
  "shown_in ms port k \<longleftrightarrow> port \<in> nl_sport ` set (ms k)"

text \<open>From round \<open>i\<close> to round \<open>n\<close>, with \<open>q\<close> unread at first, what the kernel has put into the socket by the time a
  round reads begins with one dump for each of the rounds so far.\<close>

definition fed :: "nat \<Rightarrow> nlmsg list list \<Rightarrow> (nat \<Rightarrow> nlmsg list list) \<Rightarrow> (nat \<Rightarrow> nlmsg list list) \<Rightarrow> nat \<Rightarrow> bool" where
  "fed i q answers g n \<longleftrightarrow> (\<forall>j. i < j \<and> j \<le> n \<longrightarrow> (\<exists>rest. q @ concat (map answers [i..<j]) = concat (map g [i..<j]) @ rest))"

lemma fed_step:
  assumes "fed i q answers g n" and "i < n"
  obtains q' where "q @ answers i = g i @ q'" "fed (Suc i) q' answers g n"
proof -
  from assms obtain q' where q': "q @ answers i = g i @ q'" unfolding fed_def by (force dest: spec [of _ "Suc i"])
  have "\<exists>rest. q' @ concat (map answers [Suc i..<j]) = concat (map g [Suc i..<j]) @ rest" if "Suc i < j" "j \<le> n" for j
  proof -
    from assms(1) that obtain rest where "q @ concat (map answers [i..<j]) = concat (map g [i..<j]) @ rest"
      unfolding fed_def by (meson Suc_lessD)
    moreover have "[i..<j] = i # [Suc i..<j]" using that by (simp add: upt_conv_Cons)
    ultimately have "(q @ answers i) @ concat (map answers [Suc i..<j]) = g i @ concat (map g [Suc i..<j]) @ rest" by simp
    then show ?thesis unfolding q' by auto
  qed
  then have "fed (Suc i) q' answers g n" by (simp add: fed_def)
  with q' show thesis by (rule that)
qed

text \<open>So each round reads one dump, the \<open>i\<close>th in round \<open>i\<close>.\<close>

lemma search_dumps:
  assumes "\<forall>k < i + n. dump (g k) (ms k)" and "fed i q answers g (i + n)" and "\<not> found d"
  shows "(\<forall>k < n. \<not> shown_in ms port (i + k)) \<and> \<not> found (search_rounds n i answers port q d) \<or>
    (\<exists>k < n. \<exists>d'. shown_in ms port (i + k) \<and> (\<forall>j < k. \<not> shown_in ms port (i + j)) \<and>
       search_rounds n i answers port q d = scan port (ms (i + k)) d')"
  using assms
proof (induction n arbitrary: i q d)
  case 0
  then show ?case by simp
next
  case (Suc n)
  from fed_step [OF Suc.prems(2)] obtain q' where q': "q @ answers i = g i @ q'" "fed (Suc i) q' answers g (Suc i + n)" by auto
  have "dump (g i) (ms i)" using Suc.prems(1) by simp
  from recv_dump [OF this] have step: "search_rounds (Suc n) i answers port q d = search_rounds n (Suc i) answers port q' (scan port (ms i) d)"
    using Suc.prems(3) q'(1) by simp
  show ?case
  proof (cases "shown_in ms port i")
    case True
    then have "found (scan port (ms i) d)" by (simp add: scan_found shown_in_def)
    then have "search_rounds (Suc n) i answers port q d = scan port (ms i) d" unfolding step by (cases n) simp_all
    with True show ?thesis by (intro disjI2 exI [of _ 0]) auto
  next
    case False
    then have "\<not> found (scan port (ms i) d)" using Suc.prems(3) by (simp add: scan_found shown_in_def)
    from Suc.prems(1) have "\<forall>k < Suc i + n. dump (g k) (ms k)" by simp
    from Suc.IH [OF this q'(2) \<open>\<not> found (scan port (ms i) d)\<close>] show ?thesis
    proof (elim disjE exE conjE)
      assume "\<forall>k < n. \<not> shown_in ms port (Suc i + k)" "\<not> found (search_rounds n (Suc i) answers port q' (scan port (ms i) d))"
      with False show ?thesis unfolding step by (auto simp: less_Suc_eq_0_disj)
    next
      fix k d'
      assume "k < n" "shown_in ms port (Suc i + k)" "\<forall>j < k. \<not> shown_in ms port (Suc i + j)"
        "search_rounds n (Suc i) answers port q' (scan port (ms i) d) = scan port (ms (Suc i + k)) d'"
      with False show ?thesis unfolding step
        by (intro disjI2 exI [of _ "Suc k"] exI [of _ d']) (auto simp: less_Suc_eq_0_disj)
    qed
  qed
qed

section \<open>What is reported\<close>

text \<open>The dumps that show the port, among the first \<open>n\<close>.\<close>

definition showing :: "(nat \<Rightarrow> nlmsg list) \<Rightarrow> int \<Rightarrow> nat \<Rightarrow> nat set" where
  "showing ms port n = {k. k < n \<and> shown_in ms port k}"

definition reported_state :: "(nat \<Rightarrow> nlmsg list) \<Rightarrow> int \<Rightarrow> nat \<Rightarrow> SocketState" where
  "reported_state ms port n =
     (if showing ms port n = {} then SOCKET_UNKNOWN else state_of_diag (last (ms (Min (showing ms port n)))))"

lemma reported_first:
  assumes "k < n" and "shown_in ms port k" and "\<forall>j < k. \<not> shown_in ms port j"
  shows "showing ms port n \<noteq> {}" and "reported_state ms port n = state_of_diag (last (ms k))"
proof -
  have k: "k \<in> showing ms port n" using assms(1,2) by (simp add: showing_def)
  moreover have "k \<le> j" if "j \<in> showing ms port n" for j using that assms(3) by (auto simp: showing_def not_le [symmetric])
  ultimately have "Min (showing ms port n) = k" by (auto simp: showing_def intro!: Min_eqI)
  with k show "showing ms port n \<noteq> {}" "reported_state ms port n = state_of_diag (last (ms k))" by (auto simp: reported_state_def)
qed

lemma reported_none: "\<forall>k < n. \<not> shown_in ms port k \<Longrightarrow> reported_state ms port n = SOCKET_UNKNOWN"
  by (simp add: reported_state_def showing_def)

lemma search_reports:
  assumes "\<And>k. k < rounds \<Longrightarrow> dump (g k) (ms k)" and "fed 0 [] answers g rounds" and "0 \<le> nl_sock"
  shows "search_TCP_connection False nl_sock rounds answers port =
    Inr (showing ms port rounds \<noteq> {}, MSocketWatchTerminated (s32 port) (SocketState_value (reported_state ms port rounds)))"
proof -
  let ?d = "search_rounds rounds 0 answers port [] \<lparr>found = False, sock_state = None\<rparr>"
  from search_dumps [where g = g and ms = ms and answers = answers and i = 0 and n = rounds and q = "[]" and port = port and
      d = "\<lparr>found = False, sock_state = None\<rparr>"] assms(1,2)
  consider (none) "\<forall>k < rounds. \<not> shown_in ms port k" "\<not> found ?d"
    | (one) k d' where "k < rounds" "shown_in ms port k" "\<forall>j < k. \<not> shown_in ms port j" "?d = scan port (ms k) d'" by auto
  then show ?thesis
  proof cases
    case none
    then have "showing ms port rounds = {}" by (auto simp: showing_def)
    with none assms(3) show ?thesis by (simp add: search_TCP_connection_def reported_none)
  next
    case one
    from one(2,4) have "ms k \<noteq> []" "found ?d" by (auto simp: shown_in_def scan_found)
    with reported_first [OF one(1-3)] show ?thesis using assms(3) scan_state [of "ms k" port d'] one(4)
      by (simp add: search_TCP_connection_def)
  qed
qed


section \<open>What the kernel answers\<close>

text \<open>What sock_diag promises of a message that answers a request: the socket is in one of the states asked
  for and, when a source port is given, on that port.\<close>

definition answers_request :: "diag_packet \<Rightarrow> nlmsg \<Rightarrow> bool" where
  "answers_request req m \<longleftrightarrow> nl_kind m = NLMSG_DATA \<and> 0 \<le> nl_state m \<and> bit (idiag_states req) (nat (nl_state m)) \<and>
     (idiag_sport req \<noteq> 0 \<longrightarrow> nl_sport m = idiag_sport req)"

lemma requested_states:
  assumes "bit (1026 :: int) n"
  shows "n = 1 \<or> n = 10"
proof -
  have "(1026 :: int) = or (2 ^ 1) (2 ^ 10)" by simp
  with assms have "bit (2 ^ 1 :: int) n \<or> bit (2 ^ 10 :: int) n" by (simp only: bit_or_iff)
  then show ?thesis by (simp only: bit_exp_iff) auto
qed

lemma requested_state_known:
  "answers_request (send_tcp_diag family port) m \<Longrightarrow> state_of_diag m \<noteq> SOCKET_UNKNOWN"
  using requested_states [of "nat (nl_state m)"]
  by (auto simp: answers_request_def send_tcp_diag_def state_of_diag_def)

text \<open>The messages that are no sockets.  An error reply holds the error number, in 32 bits, and a copy of the request;
  read as a record of a socket, its state is the second byte of the error number and its port, in the byte order of the
  network, the first two bytes of the length of the request.\<close>

definition nl_done :: nlmsg where
  "nl_done = \<lparr>nl_kind = NLMSG_DONE, nl_sport = 0, nl_state = 0\<rparr>"

definition error_reply :: "int \<Rightarrow> diag_packet \<Rightarrow> nlmsg" where
  "error_reply err req = \<lparr>nl_kind = NLMSG_ERROR, nl_sport = 256 * (nlmsg_len req mod 256) + nlmsg_len req div 256 mod 256,
     nl_state = err div 256 mod 256\<rparr>"

definition EBUSY :: int where "EBUSY = 16"

lemma error_reply_busy [simp]:
  "error_reply (- EBUSY) (send_tcp_diag family port) = \<lparr>nl_kind = NLMSG_ERROR, nl_sport = 18432, nl_state = 255\<rparr>"
  by (simp add: error_reply_def EBUSY_def send_tcp_diag_def)

text \<open>A netlink socket as the kernel keeps it: the unread datagrams and what is left of the dump that is going on.  A
  request puts the first datagram of its dump into the socket, or the end of an empty dump; while a dump is going on it
  puts an error there.  A call of \<^verbatim>\<open>recvmsg\<close> takes a datagram out and lets the dump go on.\<close>

record netlink =
  nl_queue :: "nlmsg list list"
  nl_rest :: "nlmsg list list option"

definition netlink_request :: "diag_packet \<Rightarrow> nlmsg list list \<Rightarrow> netlink \<Rightarrow> netlink" where
  "netlink_request req parts s = (case nl_rest s of
       Some _ \<Rightarrow> s\<lparr>nl_queue := nl_queue s @ [[error_reply (- EBUSY) req]]\<rparr>
     | None \<Rightarrow> (case parts of [] \<Rightarrow> s\<lparr>nl_queue := nl_queue s @ [[nl_done]]\<rparr>
                | p # ps \<Rightarrow> s\<lparr>nl_queue := nl_queue s @ [p], nl_rest := Some ps\<rparr>))"

definition netlink_recvmsg :: "netlink \<Rightarrow> netlink" where
  "netlink_recvmsg s = (case nl_rest s of
       None \<Rightarrow> s\<lparr>nl_queue := tl (nl_queue s)\<rparr>
     | Some [] \<Rightarrow> s\<lparr>nl_queue := tl (nl_queue s) @ [[nl_done]], nl_rest := None\<rparr>
     | Some (p # ps) \<Rightarrow> s\<lparr>nl_queue := tl (nl_queue s) @ [p], nl_rest := Some ps\<rparr>)"

text \<open>What comes into the socket in a round in which the two dumps hold the sockets \<open>ipv4s\<close> and \<open>ipv6s\<close>, each of them few
  enough for one datagram, up to each \<^verbatim>\<open>NLMSG_DONE\<close> and with the messages before it.\<close>

definition kernel_segments :: "int \<Rightarrow> nlmsg list \<Rightarrow> nlmsg list \<Rightarrow> (nlmsg list list \<times> nlmsg list) list" where
  "kernel_segments port ipv4s ipv6s =
     (if ipv4s = [] then [([[nl_done]], []), (if ipv6s = [] then [[nl_done]] else [ipv6s, [nl_done]], ipv6s)]
      else let busy = error_reply (- EBUSY) (send_tcp_diag AF_INET6 port) in [([ipv4s, [busy], [nl_done]], ipv4s @ [busy])])"

definition kernel_answers :: "int \<Rightarrow> nlmsg list \<Rightarrow> nlmsg list \<Rightarrow> nlmsg list list" where
  "kernel_answers port ipv4s ipv6s = concat (map fst (kernel_segments port ipv4s ipv6s))"

text \<open>This is what the kernel does from the two requests of a round to its first \<^verbatim>\<open>recvmsg\<close>, after which no dump
  goes on.\<close>

lemma kernel_round:
  assumes "nl_rest s = None" and "part4 = (if ipv4s = [] then [] else [ipv4s])" and "part6 = (if ipv6s = [] then [] else [ipv6s])"
  shows "netlink_recvmsg (netlink_request (send_tcp_diag AF_INET6 port) part6 (netlink_request (send_tcp_diag AF_INET port) part4 s)) =
    s\<lparr>nl_queue := tl (nl_queue s @ kernel_answers port ipv4s ipv6s)\<rparr>"
  using assms
  by (cases "nl_queue s") (simp_all add: netlink_request_def netlink_recvmsg_def kernel_answers_def kernel_segments_def Let_def)

lemma kernel_segments_dump:
  assumes "\<forall>m \<in> set ipv4s \<union> set ipv6s. nl_kind m = NLMSG_DATA" and "(gs, ms) \<in> set (kernel_segments port ipv4s ipv6s)"
  shows "dump gs ms"
  using assms by (auto simp: kernel_segments_def Let_def nl_done_def split: if_splits)

section \<open>The state that is lost\<close>

text \<open>The \<open>k\<close>th segment of all the rounds.\<close>

definition segment :: "(nat \<Rightarrow> 'a list) \<Rightarrow> nat \<Rightarrow> 'a" where
  "segment P k = concat (map P [0..<Suc k]) ! k"

lemma segments_length:
  assumes "\<forall>i. P i \<noteq> []"
  shows "n \<le> length (concat (map P [0..<n]))"
proof (induction n)
  case (Suc n)
  moreover have "0 < length (P n)" using assms by simp
  ultimately show ?case by (simp del: length_greater_0_conv)
qed simp

lemma segment_nth:
  assumes "\<forall>i. P i \<noteq> []" and "k < length (concat (map P [0..<n]))"
  shows "segment P k = concat (map P [0..<n]) ! k"
proof (cases "Suc k \<le> n")
  case True
  then have "[0..<n] = [0..<Suc k] @ [Suc k..<n]" using upt_add_eq_append [of 0 "Suc k" "n - Suc k"] by simp
  moreover have "k < length (concat (map P [0..<Suc k]))" using segments_length [where P = P and n = "Suc k"] assms(1) by simp
  ultimately show ?thesis unfolding segment_def by (simp only: map_append concat_append nth_append) simp
next
  case False
  then have "[0..<Suc k] = [0..<n] @ [n..<Suc k]" using upt_add_eq_append [of 0 n "Suc k - n"] by simp
  then show ?thesis using assms(2) unfolding segment_def by (simp only: map_append concat_append nth_append) simp
qed

lemma segment_in:
  assumes "\<forall>i. P i \<noteq> []"
  shows "\<exists>i. segment P k \<in> set (P i)"
proof -
  have "k < length (concat (map P [0..<Suc k]))" using segments_length [where P = P and n = "Suc k"] assms by simp
  then have "segment P k \<in> set (concat (map P [0..<Suc k]))" unfolding segment_def by (rule nth_mem)
  then show ?thesis by auto
qed

lemma segments_fed:
  assumes "\<forall>i. P i \<noteq> []"
  shows "fed 0 [] (\<lambda>i. concat (map fst (P i))) (\<lambda>k. fst (segment P k)) n"
proof -
  have "concat (map (\<lambda>i. concat (map fst (P i))) [0..<j]) =
      concat (map (\<lambda>k. fst (segment P k)) [0..<j]) @ concat (map fst (drop j (concat (map P [0..<j]))))" for j
  proof -
    let ?L = "concat (map P [0..<j])"
    have "j \<le> length ?L" using assms by (rule segments_length)
    then have "map (\<lambda>k. fst (segment P k)) [0..<j] = map fst (take j ?L)"
      by (intro nth_equalityI) (simp_all add: segment_nth [where n = j, OF assms])
    then have "concat (map (\<lambda>k. fst (segment P k)) [0..<j]) @ concat (map fst (drop j ?L)) = concat (map fst (take j ?L @ drop j ?L))"
      by (simp only: map_append concat_append)
    also have "\<dots> = concat (map fst ?L)" by simp
    also have "\<dots> = concat (map (\<lambda>i. concat (map fst (P i))) [0..<j])" by (induction j) simp_all
    finally show ?thesis by simp
  qed
  then show ?thesis unfolding fed_def by auto
qed

lemma segments_quiet:
  assumes "\<forall>j < i. P j = [a, b]"
  shows "length (concat (map P [0..<i])) = 2 * i" and "set (concat (map P [0..<i])) \<subseteq> {a, b}"
  using assms by (induction i) auto
text \<open>The segments of the kernel, when nothing is there before round \<open>i\<close>.\<close>

lemma quiet_segments:
  assumes "\<forall>j < i. ipv4s j = [] \<and> ipv6s j = []" and "P = (\<lambda>i. kernel_segments port (ipv4s i) (ipv6s i))"
  shows "k < 2 * i \<Longrightarrow> snd (segment P k) = []" and "snd (segment P (2 * i)) = snd (hd (P i))"
    and "ipv4s i = [] \<Longrightarrow> snd (segment P (Suc (2 * i))) = ipv6s i"
proof -
  have ne: "\<forall>j. P j \<noteq> []" by (simp add: assms(2) kernel_segments_def Let_def)
  have quiet: "\<forall>j < i. P j = [([[nl_done]], []), ([[nl_done]], [])]"
    using assms(1) by (simp add: assms(2) kernel_segments_def)
  note len = segments_quiet(1) [where P = P, OF quiet] and in_set = segments_quiet(2) [where P = P, OF quiet]
  show "snd (segment P k) = []" if "k < 2 * i"
  proof -
    have "segment P k = concat (map P [0..<i]) ! k" by (rule segment_nth [OF ne]) (simp add: len that)
    then have "segment P k \<in> set (concat (map P [0..<i]))" using that len by (metis nth_mem)
    with in_set show ?thesis by auto
  qed
  have next_round: "segment P (2 * i + j) = P i ! j" if "j < length (P i)" for j
    using segment_nth [where P = P and k = "2 * i + j" and n = "Suc i", OF ne] that by (simp add: len nth_append)
  show "snd (segment P (2 * i)) = snd (hd (P i))" using next_round [of 0] spec [OF ne, of i] by (simp add: hd_conv_nth)
  show "snd (segment P (Suc (2 * i))) = ipv6s i" if "ipv4s i = []" using next_round [of 1] that by (simp add: assms(2) kernel_segments_def)
qed

lemma requested_port:
  "answers_request (send_tcp_diag family port) m \<Longrightarrow> 0 < port \<Longrightarrow> port < 65536 \<Longrightarrow> nl_sport m = port"
  by (simp add: answers_request_def send_tcp_diag_def u16_def)

lemma quiet_report:
  assumes ipv4s: "\<And>i. \<forall>m \<in> set (ipv4s i). answers_request (send_tcp_diag AF_INET port) m"
    and ipv6s: "\<And>i. \<forall>m \<in> set (ipv6s i). answers_request (send_tcp_diag AF_INET6 port) m"
    and port: "0 < port" "port < 65536"
    and quiet: "\<forall>j < i. ipv4s j = [] \<and> ipv6s j = []" and first: "ipv4s i \<noteq> [] \<or> ipv6s i \<noteq> [] \<or> rounds \<le> 2 * i"
    and P: "P = (\<lambda>i. kernel_segments port (ipv4s i) (ipv6s i))" and st: "st = reported_state (\<lambda>k. snd (segment P k)) port rounds"
  shows "(st = SOCKET_UNKNOWN \<longleftrightarrow> ipv4s i \<noteq> [] \<or> rounds \<le> Suc (2 * i)) \<and> (st \<noteq> SOCKET_UNKNOWN \<longrightarrow> st = state_of_diag (last (ipv6s i)))"
proof -
  let ?ms = "\<lambda>k. snd (segment P k)"
  note segs = quiet_segments [where ipv4s = ipv4s and ipv6s = ipv6s and P = P, OF quiet P]
  have before: "\<not> shown_in ?ms port k" if "k < 2 * i" for k using segs(1) [OF that] by (simp add: shown_in_def)
  consider (alarm) "rounds \<le> 2 * i" | (ipv4) "2 * i < rounds" "ipv4s i \<noteq> []" | (ipv6) "2 * i < rounds" "ipv4s i = []" "ipv6s i \<noteq> []"
    using first by linarith
  then show ?thesis
  proof cases
    case alarm
    then have "st = SOCKET_UNKNOWN" unfolding st by (intro reported_none) (simp add: before)
    with alarm show ?thesis by simp
  next
    case ipv4
    have seg: "?ms (2 * i) = ipv4s i @ [error_reply (- EBUSY) (send_tcp_diag AF_INET6 port)]"
      using segs(2) ipv4(2) by (simp add: P kernel_segments_def Let_def)
    then have "shown_in ?ms port (2 * i)"
      using ipv4(2) ipv4s [of i] requested_port [OF _ port] by (cases "ipv4s i") (auto simp: shown_in_def)
    from reported_first(2) [where ms = ?ms, OF ipv4(1) this] before have "st = SOCKET_UNKNOWN" by (simp add: st seg state_of_diag_def)
    with ipv4(2) show ?thesis by simp
  next
    case ipv6
    from segs(2) ipv6(2) have none: "?ms (2 * i) = []" by (simp add: P kernel_segments_def)
    with before have before': "\<forall>k < Suc (2 * i). \<not> shown_in ?ms port k" by (auto simp: less_Suc_eq shown_in_def)
    have seg: "?ms (Suc (2 * i)) = ipv6s i" using ipv6(2) by (rule segs(3))
    then have shown: "shown_in ?ms port (Suc (2 * i))"
      using ipv6(3) ipv6s [of i] requested_port [OF _ port] by (cases "ipv6s i") (auto simp: shown_in_def)
    have "state_of_diag (last (ipv6s i)) \<noteq> SOCKET_UNKNOWN" using ipv6s [of i] ipv6(3) requested_state_known last_in_set by blast
    moreover have "st = (if Suc (2 * i) < rounds then state_of_diag (last (ipv6s i)) else SOCKET_UNKNOWN)"
      using reported_first(2) [where ms = ?ms and n = rounds, OF _ shown before'] reported_none [where ms = ?ms and n = rounds and port = port] before'
      by (auto simp: st seg)
    ultimately show ?thesis using ipv6 by auto
  qed
qed


section \<open>Samples\<close>

text \<open>A listening socket, its dump, and a dump without sockets.\<close>

definition listener :: nlmsg where
  "listener = \<lparr>nl_kind = NLMSG_DATA, nl_sport = 9090, nl_state = 10\<rparr>"

definition listening_dump :: "nat \<Rightarrow> nlmsg list list" where
  "listening_dump k = [[\<lparr>nl_kind = NLMSG_DATA, nl_sport = 9090, nl_state = 10\<rparr>, \<lparr>nl_kind = NLMSG_DONE, nl_sport = 0, nl_state = 0\<rparr>]]"

definition done_only :: "nlmsg list list" where
  "done_only = [[\<lparr>nl_kind = NLMSG_DONE, nl_sport = 0, nl_state = 0\<rparr>]]"

lemma listener_asked: "answers_request (send_tcp_diag family 9090) listener"
  by (simp add: answers_request_def send_tcp_diag_def listener_def u16_def)



end
