(* ===== verification/Detector_Threads.thy ===== *)
theory Detector_Threads
  imports Detect_Socket
begin

text \<open>
  Several detector threads of the C daemon at the same time.  Each has its own netlink socket and its own
  \<^verbatim>\<open>sock_info\<close>; the variables \<^verbatim>\<open>found\<close> and \<^verbatim>\<open>timeout\<close> of \<^verbatim>\<open>Detect_socket.c\<close> are global, and
  \<^verbatim>\<open>exit\<close> ends all of them.  A step is one thread entering the body of the loop, reading its answers,
  leaving the loop, reporting or ending the process, or the alarm; between the test at the head of the loop
  and the answers, another thread may set \<^verbatim>\<open>found\<close>.
\<close>

section \<open>Threads and their steps\<close>

datatype phase = Looping | Asking | Leaving | Reported

record thread =
  th_port :: int
  th_phase :: phase
  th_round :: nat
  th_queue :: "nlmsg list list"
  th_state :: "SocketState option"

record detectors =
  dt_found :: bool
  dt_timeout :: bool
  dt_threads :: "thread list"
  dt_sent :: "(nat \<times> SocketState) list"
  dt_halted :: "c_halt option"

definition new_thread :: "int \<Rightarrow> thread" where
  "new_thread port = \<lparr>th_port = port, th_phase = Looping, th_round = 0, th_queue = [], th_state = None\<rparr>"

definition start_detectors :: "int list \<Rightarrow> detectors" where
  "start_detectors ports = \<lparr>dt_found = False, dt_timeout = False, dt_threads = map new_thread ports, dt_sent = [], dt_halted = None\<rparr>"

text \<open>The answers of one round, as in \<open>search_rounds\<close>, on the shared variable and the thread's own state.\<close>

definition detector_round :: "nlmsg list list \<Rightarrow> bool \<Rightarrow> thread \<Rightarrow> bool \<times> thread" where
  "detector_round answer shared t =
     (let (queue, d, _) = recv_tcp_diag (th_queue t @ answer) (th_port t) \<lparr>found = shared, sock_state = th_state t\<rparr>
      in (found d, t\<lparr>th_phase := Looping, th_round := Suc (th_round t), th_queue := queue, th_state := sock_state d\<rparr>))"

text \<open>The state reported after the loop.\<close>

definition detector_result :: "bool \<Rightarrow> thread \<Rightarrow> SocketState c" where
  "detector_result shared t = read_field (if \<not> shared then Some SOCKET_UNKNOWN else th_state t)"

inductive detectors_step :: "(nat \<Rightarrow> nat \<Rightarrow> nlmsg list list) \<Rightarrow> detectors \<Rightarrow> detectors \<Rightarrow> bool" for answers where
  dt_alarm: "dt_halted s = None \<Longrightarrow> detectors_step answers s (s\<lparr>dt_timeout := True\<rparr>)"
| dt_asks: "dt_halted s = None \<Longrightarrow> i < length (dt_threads s) \<Longrightarrow> t = dt_threads s ! i \<Longrightarrow> th_phase t = Looping \<Longrightarrow>
    \<not> dt_found s \<Longrightarrow> \<not> dt_timeout s \<Longrightarrow>
    detectors_step answers s (s\<lparr>dt_threads := (dt_threads s)[i := t\<lparr>th_phase := Asking\<rparr>]\<rparr>)"
| dt_looks: "dt_halted s = None \<Longrightarrow> i < length (dt_threads s) \<Longrightarrow> t = dt_threads s ! i \<Longrightarrow> th_phase t = Asking \<Longrightarrow>
    detector_round (answers i (th_round t)) (dt_found s) t = (now_found, t') \<Longrightarrow>
    detectors_step answers s (s\<lparr>dt_found := now_found, dt_threads := (dt_threads s)[i := t']\<rparr>)"
| dt_leaves: "dt_halted s = None \<Longrightarrow> i < length (dt_threads s) \<Longrightarrow> t = dt_threads s ! i \<Longrightarrow> th_phase t = Looping \<Longrightarrow>
    dt_found s \<or> dt_timeout s \<Longrightarrow>
    detectors_step answers s (s\<lparr>dt_threads := (dt_threads s)[i := t\<lparr>th_phase := Leaving\<rparr>]\<rparr>)"
| dt_reports: "dt_halted s = None \<Longrightarrow> i < length (dt_threads s) \<Longrightarrow> t = dt_threads s ! i \<Longrightarrow> th_phase t = Leaving \<Longrightarrow>
    detector_result (dt_found s) t = Inr st \<Longrightarrow>
    detectors_step answers s (s\<lparr>dt_threads := (dt_threads s)[i := t\<lparr>th_phase := Reported\<rparr>], dt_sent := dt_sent s @ [(i, st)]\<rparr>)"
| dt_faults: "dt_halted s = None \<Longrightarrow> i < length (dt_threads s) \<Longrightarrow> t = dt_threads s ! i \<Longrightarrow> th_phase t = Leaving \<Longrightarrow>
    detector_result (dt_found s) t = Inl e \<Longrightarrow> detectors_step answers s (s\<lparr>dt_halted := Some e\<rparr>)"
| dt_exits: "dt_halted s = None \<Longrightarrow> i < length (dt_threads s) \<Longrightarrow> th_phase (dt_threads s ! i) = Reported \<Longrightarrow>
    detectors_step answers s (s\<lparr>dt_halted := Some (Exit 0)\<rparr>)"

section \<open>What a report means\<close>

text \<open>The kernel has told thread \<open>i\<close> of a socket on its port.\<close>

definition was_shown :: "(nat \<Rightarrow> nat \<Rightarrow> nlmsg list list) \<Rightarrow> nat \<Rightarrow> int \<Rightarrow> bool" where
  "was_shown answers i port \<longleftrightarrow> (\<exists>r. \<exists>m \<in> set (concat (answers i r)). nl_sport m = port)"

definition detectors_inv :: "(nat \<Rightarrow> nat \<Rightarrow> nlmsg list list) \<Rightarrow> int list \<Rightarrow> detectors \<Rightarrow> bool" where
  "detectors_inv answers ports s \<longleftrightarrow> map th_port (dt_threads s) = ports \<and>
     (\<forall>i < length ports. set (concat (th_queue (dt_threads s ! i))) \<subseteq> (\<Union>r. set (concat (answers i r)))) \<and>
     (dt_found s \<longrightarrow> (\<exists>j < length ports. was_shown answers j (ports ! j))) \<and>
     (\<forall>i st. (i, st) \<in> set (dt_sent s) \<longrightarrow> st \<noteq> SOCKET_UNKNOWN \<longrightarrow> dt_found s)"

lemma process_datagram_found:
  "process_datagram g port d = (d', b) \<Longrightarrow> found d' \<Longrightarrow> found d \<or> (\<exists>m \<in> set g. nl_sport m = port)"
proof (induction g arbitrary: d)
  case (Cons m g)
  then show ?case by (fastforce simp: process_inet_diag_def Let_def split: if_splits)
qed simp

lemma process_datagram_keeps: "process_datagram g port d = (d', b) \<Longrightarrow> found d \<Longrightarrow> found d'"
  by (induction g arbitrary: d) (auto simp: process_inet_diag_def Let_def split: if_splits)

lemma recv_found:
  "recv_tcp_diag q port d = (q', d', r) \<Longrightarrow> set (concat q') \<subseteq> set (concat q) \<and> (found d \<longrightarrow> found d') \<and>
     (found d' \<longrightarrow> found d \<or> (\<exists>m \<in> set (concat q). nl_sport m = port))"
proof (induction q arbitrary: d)
  case (Cons g q)
  obtain d1 b where g: "process_datagram g port d = (d1, b)" by fastforce
  note one = process_datagram_found [OF g] process_datagram_keeps [OF g]
  show ?case
  proof (cases b)
    case True
    with Cons.prems g have "q' = q" "d' = d1" by simp_all
    with one show ?thesis by auto
  next
    case False
    with Cons.prems g have "recv_tcp_diag q port d1 = (q', d', r)" by simp
    from Cons.IH [OF this] one show ?thesis by auto
  qed
qed simp

lemma round_found:
  assumes "detector_round answer shared t = (now_found, t')"
  shows "th_port t' = th_port t" and "shared \<Longrightarrow> now_found"
    and "set (concat (th_queue t')) \<subseteq> set (concat (th_queue t)) \<union> set (concat answer)"
    and "now_found \<Longrightarrow> shared \<or> (\<exists>m \<in> set (concat (th_queue t)) \<union> set (concat answer). nl_sport m = th_port t)"
proof -
  let ?d = "\<lparr>found = shared, sock_state = th_state t\<rparr>"
  obtain q d r where recv: "recv_tcp_diag (th_queue t @ answer) (th_port t) ?d = (q, d, r)"
    by (cases "recv_tcp_diag (th_queue t @ answer) (th_port t) ?d")
  with assms have t': "now_found = found d"
    "t' = t\<lparr>th_phase := Looping, th_round := Suc (th_round t), th_queue := q, th_state := sock_state d\<rparr>"
    by (auto simp: detector_round_def)
  then show "th_port t' = th_port t" by simp
  show "shared \<Longrightarrow> now_found"
    and "set (concat (th_queue t')) \<subseteq> set (concat (th_queue t)) \<union> set (concat answer)"
    and "now_found \<Longrightarrow> shared \<or> (\<exists>m \<in> set (concat (th_queue t)) \<union> set (concat answer). nl_sport m = th_port t)"
    using recv_found [OF recv] t' by auto
qed

lemma phase_ports:
  assumes "i < length (dt_threads s)" and "th_port t' = th_port (dt_threads s ! i)"
  shows "map th_port ((dt_threads s)[i := t']) = map th_port (dt_threads s)"
  using assms by (simp add: map_update list_update_same_conv)

lemma inv_ports: "detectors_inv answers ports s \<Longrightarrow> map th_port (dt_threads s) = ports \<and> length (dt_threads s) = length ports"
  by (auto simp: detectors_inv_def)

lemma looks_inv:
  assumes inv: "detectors_inv answers ports s" and i: "i < length (dt_threads s)"
    and look: "detector_round (answers i (th_round (dt_threads s ! i))) (dt_found s) (dt_threads s ! i) = (now_found, t')"
  shows "detectors_inv answers ports (s\<lparr>dt_found := now_found, dt_threads := (dt_threads s)[i := t']\<rparr>)"
proof -
  let ?t = "dt_threads s ! i" and ?all = "\<Union>r. set (concat (answers i r))"
  note ports = inv_ports [OF inv]
  have queue: "set (concat (th_queue ?t)) \<union> set (concat (answers i (th_round ?t))) \<subseteq> ?all"
    using inv i ports by (auto simp: detectors_inv_def)
  have "\<exists>j < length ports. was_shown answers j (ports ! j)" if shown: "now_found"
  proof (cases "dt_found s")
    case False
    then obtain m where "m \<in> ?all" "nl_sport m = th_port ?t" using round_found(4) [OF look shown] queue by blast
    moreover have "th_port ?t = ports ! i" using ports i by (metis nth_map)
    ultimately have "was_shown answers i (ports ! i)" unfolding was_shown_def by auto
    with i ports show ?thesis by auto
  qed (use inv in \<open>simp add: detectors_inv_def\<close>)
  moreover have "set (concat (th_queue t')) \<subseteq> ?all" using round_found(3) [OF look] queue by blast
  ultimately show ?thesis
    using inv i ports phase_ports [OF i round_found(1) [OF look]] round_found(2) [OF look] unfolding detectors_inv_def
    by (simp add: nth_list_update)
qed

lemma phase_inv:
  assumes inv: "detectors_inv answers ports s" and i: "i < length (dt_threads s)"
  shows "detectors_inv answers ports (s\<lparr>dt_threads := (dt_threads s)[i := (dt_threads s ! i)\<lparr>th_phase := p\<rparr>]\<rparr>)"
  using inv inv_ports [OF inv] i phase_ports [OF i, of "(dt_threads s ! i)\<lparr>th_phase := p\<rparr>"]
  by (auto simp: detectors_inv_def nth_list_update)

lemma inv_other:
  "detectors_inv answers ports (s\<lparr>dt_timeout := b\<rparr>) = detectors_inv answers ports s"
  "detectors_inv answers ports (s\<lparr>dt_halted := h\<rparr>) = detectors_inv answers ports s"
  by (simp_all add: detectors_inv_def)

lemma detectors_inv_step:
  assumes "detectors_step answers s s'" and "detectors_inv answers ports s"
  shows "detectors_inv answers ports s'"
  using assms
proof (induction rule: detectors_step.induct)
  case (dt_reports s i t st)
  then have "st \<noteq> SOCKET_UNKNOWN \<longrightarrow> dt_found s" by (auto simp: detector_result_def split: if_splits)
  with phase_inv [OF dt_reports.prems dt_reports.hyps(2), of Reported] dt_reports.hyps(3) show ?case
    by (auto simp: detectors_inv_def)
qed (auto intro: looks_inv phase_inv simp: inv_other)

lemma start_detectors_inv: "detectors_inv answers ports (start_detectors ports)"
  by (auto simp: detectors_inv_def start_detectors_def new_thread_def comp_def)

lemma detectors_reach_inv:
  "(detectors_step answers)\<^sup>*\<^sup>* (start_detectors ports) s \<Longrightarrow> detectors_inv answers ports s"
  by (induction rule: rtranclp_induct) (auto intro: start_detectors_inv detectors_inv_step)

section \<open>Reports and crosstalk\<close>

text \<open>C27 (safety).  With any number of detectors at the same time, whatever the kernel answers and however the
  threads and the alarm interleave: a report other than \<open>SOCKET_UNKNOWN\<close>, by any of them, is sent only if
  the kernel has shown one of the detectors, not always the one that reports, a socket on that detector's
  port.\<close>

theorem positive_report_seen:
  assumes "(detectors_step answers)\<^sup>*\<^sup>* (start_detectors ports) s"
    and "(i, st) \<in> set (dt_sent s)" and "st \<noteq> SOCKET_UNKNOWN"
  shows "\<exists>j < length ports. was_shown answers j (ports ! j)"
  using detectors_reach_inv [OF assms(1)] assms(2,3) unfolding detectors_inv_def by blast

lemma round_dump:
  assumes "dump g ms" and "th_port t \<in> nl_sport ` set ms" and "th_queue t = []"
  shows "detector_round (g @ g') shared t =
    (True, t\<lparr>th_phase := Looping, th_round := Suc (th_round t), th_queue := g', th_state := Some (state_of_diag (last ms))\<rparr>)"
proof -
  have "ms \<noteq> []" using assms(2) by auto
  with assms recv_dump [OF assms(1), of g' "th_port t" "\<lparr>found = shared, sock_state = th_state t\<rparr>"] show ?thesis
    by (simp add: detector_round_def scan_found scan_state)
qed

text \<open>The detector that finds its port.\<close>

definition detectors_finding :: "int list \<Rightarrow> nlmsg list list \<Rightarrow> SocketState \<Rightarrow> detectors" where
  "detectors_finding ports queue st = \<lparr>dt_found = True, dt_timeout = False,
     dt_threads = \<lparr>th_port = hd ports, th_phase = Looping, th_round = 1, th_queue = queue, th_state = Some st\<rparr> #
       map new_thread (tl ports), dt_sent = [], dt_halted = None\<rparr>"

lemma reach_finding:
  assumes "dump g ms" and "answers 0 0 = g @ g'" and "p \<in> nl_sport ` set ms"
  shows "(detectors_step answers)\<^sup>*\<^sup>* (start_detectors (p # ports)) (detectors_finding (p # ports) g' (state_of_diag (last ms)))"
proof -
  let ?asking = "(start_detectors (p # ports))\<lparr>dt_threads := (new_thread p)\<lparr>th_phase := Asking\<rparr> # map new_thread ports\<rparr>"
  let ?found = "detectors_finding (p # ports) g' (state_of_diag (last ms))"
  have "detectors_step answers (start_detectors (p # ports)) ?asking"
    using dt_asks [of "start_detectors (p # ports)" 0 "new_thread p" answers] by (simp add: start_detectors_def new_thread_def)
  moreover have "detectors_step answers ?asking ?found"
    using dt_looks [of ?asking 0 "(new_thread p)\<lparr>th_phase := Asking\<rparr>" answers True]
      round_dump [of g ms "(new_thread p)\<lparr>th_phase := Asking\<rparr>" g' False] assms
    by (simp add: start_detectors_def new_thread_def detectors_finding_def)
  ultimately show ?thesis by (meson converse_rtranclp_into_rtranclp rtranclp.rtrancl_refl)
qed

lemma reaches_report:
  assumes "dump g ms" and "answers 0 0 = g @ g'" and "p \<in> nl_sport ` set ms"
  shows "\<exists>s. (detectors_step answers)\<^sup>*\<^sup>* (start_detectors (p # ports)) s \<and> dt_halted s = Some (Exit 0) \<and>
    dt_sent s = [(0, state_of_diag (last ms))]"
proof -
  let ?st = "state_of_diag (last ms)"
  let ?s = "detectors_finding (p # ports) g' ?st"
  let ?b = "?s\<lparr>dt_threads := (dt_threads ?s)[0 := (dt_threads ?s ! 0)\<lparr>th_phase := Leaving\<rparr>]\<rparr>"
  let ?c = "?b\<lparr>dt_threads := (dt_threads ?b)[0 := (dt_threads ?b ! 0)\<lparr>th_phase := Reported\<rparr>], dt_sent := dt_sent ?b @ [(0, ?st)]\<rparr>"
  have "detectors_step answers ?s ?b"
    by (rule dt_leaves [OF _ _ refl]) (simp_all add: detectors_finding_def)
  moreover have "detectors_step answers ?b ?c"
    by (rule dt_reports [OF _ _ refl]) (simp_all add: detectors_finding_def detector_result_def read_field_def)
  moreover have "detectors_step answers ?c (?c\<lparr>dt_halted := Some (Exit 0)\<rparr>)"
    by (rule dt_exits [where i = 0]) (simp_all add: detectors_finding_def)
  ultimately have "(detectors_step answers)\<^sup>*\<^sup>* (start_detectors (p # ports)) (?c\<lparr>dt_halted := Some (Exit 0)\<rparr>)"
    using reach_finding [where ports = ports and answers = answers, OF assms] by (meson rtranclp.rtrancl_into_rtrancl)
  then show ?thesis by (intro exI conjI) (assumption, simp_all add: detectors_finding_def)
qed

text \<open>C28 (error).  Two detectors interfere through the global \<^verbatim>\<open>found\<close>.  Once the first has seen a socket
  on its port, a second that has not yet received anything leaves its loop as if it had found its own and
  reads the state that it never wrote; in another schedule the first ends the whole process before the
  second has reported, and the second's client never hears of it.\<close>

theorem detector_crosstalk:
  assumes "dump g ms" and "answers 0 0 = g @ g'" and "p \<in> nl_sport ` set ms"
  shows "(\<exists>s. (detectors_step answers)\<^sup>*\<^sup>* (start_detectors [p, q]) s \<and> dt_halted s = Some Uninitialised) \<and>
    (\<exists>s. (detectors_step answers)\<^sup>*\<^sup>* (start_detectors [p, q]) s \<and> dt_halted s = Some (Exit 0) \<and>
       dt_sent s = [(0, state_of_diag (last ms))])"
proof
  let ?st = "state_of_diag (last ms)"
  let ?s = "detectors_finding [p, q] g' ?st"
  note reach = reach_finding [where ports = "[q]" and answers = answers, OF assms]
  let ?a = "?s\<lparr>dt_threads := (dt_threads ?s)[1 := (new_thread q)\<lparr>th_phase := Leaving\<rparr>]\<rparr>"
  have "detectors_step answers ?s ?a"
    using dt_leaves [of ?s 1 "new_thread q" answers] by (simp add: detectors_finding_def new_thread_def)
  moreover have "detectors_step answers ?a (?a\<lparr>dt_halted := Some Uninitialised\<rparr>)"
    by (rule dt_faults [where i = 1, OF _ _ refl]) (simp_all add: detectors_finding_def new_thread_def detector_result_def read_field_def)
  ultimately show "\<exists>s. (detectors_step answers)\<^sup>*\<^sup>* (start_detectors [p, q]) s \<and> dt_halted s = Some Uninitialised"
    using reach by (intro exI conjI) (erule rtranclp.rtrancl_into_rtrancl [OF rtranclp.rtrancl_into_rtrancl], assumption+, simp)
  show "\<exists>s. (detectors_step answers)\<^sup>*\<^sup>* (start_detectors [p, q]) s \<and> dt_halted s = Some (Exit 0) \<and> dt_sent s = [(0, ?st)]"
    by (rule reaches_report [where answers = answers and ports = "[q]", OF assms])
qed

text \<open>Two detectors, on a port that listens and on one that does not.\<close>

definition two_answers :: "nat \<Rightarrow> nat \<Rightarrow> nlmsg list list" where
  "two_answers i r = (if i = 0 then listening_dump 0 @ done_only else done_only @ done_only)"

lemma two_dumps:
  "dump (listening_dump 0) [\<lparr>nl_kind = NLMSG_DATA, nl_sport = 9090, nl_state = 10\<rparr>]" "two_answers 0 0 = listening_dump 0 @ done_only"
  by (simp_all add: listening_dump_def two_answers_def)

theorem detector_crosstalk_witness:
  "(\<exists>s. (detectors_step two_answers)\<^sup>*\<^sup>* (start_detectors [9090, 8080]) s \<and> dt_halted s = Some Uninitialised) \<and>
    (\<exists>s. (detectors_step two_answers)\<^sup>*\<^sup>* (start_detectors [9090, 8080]) s \<and> dt_halted s = Some (Exit 0) \<and>
       dt_sent s = [(0, SOCKET_LISTENING)])"
  using detector_crosstalk [where answers = two_answers and p = 9090 and q = 8080, OF two_dumps] by (simp add: state_of_diag_def)

theorem positive_report_seen_witness:
  "\<exists>j < length [9090, 8080 :: int]. was_shown two_answers j ([9090, 8080] ! j)"
proof -
  have m: "9090 \<in> nl_sport ` set [\<lparr>nl_kind = NLMSG_DATA, nl_sport = 9090, nl_state = 10\<rparr>]" by simp
  from reaches_report [where answers = two_answers and ports = "[8080]", OF two_dumps m] obtain s where
    s: "(detectors_step two_answers)\<^sup>*\<^sup>* (start_detectors [9090, 8080]) s" "dt_sent s = [(0, SOCKET_LISTENING)]"
    by (auto simp: state_of_diag_def)
  show ?thesis by (rule positive_report_seen [OF s(1)]) (auto simp: s(2))
qed

end
