(* ===== verification/Simulation.thy ===== *)
theory Simulation
  imports Main
begin

text \<open>
  Systems that produce output in steps, and the interface between a detailed system and its specification: a
  function from detailed to abstract states under which every step of the detailed system, from a state with its
  invariant, is a step of the abstract one with the same output.  The consequence, proved once here, is that
  every output of the detailed system is one of its specification.
\<close>

inductive runs :: "('s \<Rightarrow> bool) \<Rightarrow> ('s \<Rightarrow> 'o list \<Rightarrow> 's \<Rightarrow> bool) \<Rightarrow> 'o list \<Rightarrow> 's \<Rightarrow> bool" for init step where
  runs_start: "init s \<Longrightarrow> runs init step [] s"
| runs_step: "runs init step out s \<Longrightarrow> step s new s' \<Longrightarrow> runs init step (out @ new) s'"

text \<open>A property of states and of what has been put out so far that holds at the start and is kept.\<close>

lemma runs_invariant:
  assumes "runs init step out s" and "\<And>s. init s \<Longrightarrow> P [] s"
    and "\<And>out s new s'. P out s \<Longrightarrow> step s new s' \<Longrightarrow> P (out @ new) s'"
  shows "P out s"
  using assms(1) by induction (auto intro: assms(2,3))

locale simulation =
  fixes cinit :: "'c \<Rightarrow> bool" and cstep :: "'c \<Rightarrow> 'o list \<Rightarrow> 'c \<Rightarrow> bool"
    and ainit :: "'a \<Rightarrow> bool" and astep :: "'a \<Rightarrow> 'o list \<Rightarrow> 'a \<Rightarrow> bool"
    and abstr :: "'c \<Rightarrow> 'a" and inv :: "'c \<Rightarrow> bool"
  assumes start: "cinit c \<Longrightarrow> inv c \<and> ainit (abstr c)"
    and step: "inv c \<Longrightarrow> cstep c out c' \<Longrightarrow> inv c' \<and> astep (abstr c) out (abstr c')"
begin

lemma refines: "runs cinit cstep out c \<Longrightarrow> inv c \<and> runs ainit astep out (abstr c)"
proof (induction rule: runs.induct)
  case (runs_start c)
  then show ?case using start by (auto intro: runs.runs_start)
next
  case (runs_step out c new c')
  then show ?case using step by (blast intro: runs.runs_step)
qed

text \<open>What holds of every run of the specification holds of the detailed system.\<close>

lemma transfer:
  assumes "runs cinit cstep out c" and "\<And>out a. runs ainit astep out a \<Longrightarrow> P out a"
  shows "P out (abstr c)"
  using refines [OF assms(1)] assms(2) by blast

end

end
