(* ===== verification/C_Monitor.thy ===== *)
theory C_Monitor
  imports C_Daemon_Protocol Simulation
begin

text \<open>
  An abstract specification of the C daemon, the monitor: it knows which children are alive and which pipes
  may still tell of an exec, and nothing of tables, slots, stacks or descriptors.  The daemon refines it, and
  what the monitor's reports add up to is transferred to the daemon.
\<close>

section \<open>The monitor\<close>

record monitor =
  mon_live :: "int set"
  mon_execs :: "(int \<times> int \<times> bytes) set"

fun about_child :: "message \<Rightarrow> bool" where
  "about_child (MProcessLaunched pid) = True"
| "about_child (MExecveTerminated pid path ok) = True"
| "about_child (MProcessTerminated pid code) = True"
| "about_child _ = False"

text \<open>A step and the messages it sends.  A pipe may be closed without a report, never twice reported.\<close>

inductive monitor_step :: "monitor \<Rightarrow> message list \<Rightarrow> monitor \<Rightarrow> bool" where
  mon_other: "\<forall>m \<in> set ms. \<not> about_child m \<Longrightarrow> E' \<subseteq> E \<Longrightarrow>
    monitor_step \<lparr>mon_live = L, mon_execs = E\<rparr> ms \<lparr>mon_live = L, mon_execs = E'\<rparr>"
| mon_launch: "0 < pid \<Longrightarrow> pid \<notin> L \<Longrightarrow> \<forall>m \<in> set ms. \<not> about_child m \<Longrightarrow> E' \<subseteq> insert (fd, pid, path) E \<Longrightarrow>
    monitor_step \<lparr>mon_live = L, mon_execs = E\<rparr> (MProcessLaunched pid # ms) \<lparr>mon_live = insert pid L, mon_execs = E'\<rparr>"
| mon_exec: "(fd, pid, path) \<in> E \<Longrightarrow> E' \<subseteq> E - {(fd, pid, path)} \<Longrightarrow>
    monitor_step \<lparr>mon_live = L, mon_execs = E\<rparr> [MExecveTerminated pid path ok] \<lparr>mon_live = L, mon_execs = E'\<rparr>"
| mon_end: "pid \<in> L \<Longrightarrow> E' \<subseteq> E \<Longrightarrow>
    monitor_step \<lparr>mon_live = L, mon_execs = E\<rparr> [MProcessTerminated pid code] \<lparr>mon_live = L - {pid}, mon_execs = E'\<rparr>"

definition monitor_start :: "monitor \<Rightarrow> bool" where
  "monitor_start m \<longleftrightarrow> m = \<lparr>mon_live = {}, mon_execs = {}\<rparr>"

section \<open>What the reports of the monitor add up to\<close>

definition launches :: "int \<Rightarrow> message list \<Rightarrow> nat" where
  "launches pid ms = length (filter (\<lambda>m. m = MProcessLaunched pid) ms)"

definition execs :: "int \<Rightarrow> message list \<Rightarrow> nat" where
  "execs pid ms = length (filter (\<lambda>m. \<exists>path ok. m = MExecveTerminated pid path ok) ms)"

definition ends :: "int \<Rightarrow> message list \<Rightarrow> nat" where
  "ends pid ms = length (filter (\<lambda>m. \<exists>code. m = MProcessTerminated pid code) ms)"

lemmas report_counts = launches_def execs_def ends_def

lemma counts_append [simp]:
  "launches pid (xs @ ys) = launches pid xs + launches pid ys" "execs pid (xs @ ys) = execs pid xs + execs pid ys"
  "ends pid (xs @ ys) = ends pid xs + ends pid ys"
  by (simp_all add: report_counts)

lemma counts_Cons [simp]:
  "launches pid (m # ms) = (if m = MProcessLaunched pid then 1 else 0) + launches pid ms"
  "execs pid (m # ms) = (if \<exists>path ok. m = MExecveTerminated pid path ok then 1 else 0) + execs pid ms"
  "ends pid (m # ms) = (if \<exists>code. m = MProcessTerminated pid code then 1 else 0) + ends pid ms"
  "launches pid [] = 0" "execs pid [] = 0" "ends pid [] = 0"
  by (simp_all add: report_counts)

lemma counts_other: "\<forall>m \<in> set ms. \<not> about_child m \<Longrightarrow> launches pid ms = 0 \<and> execs pid ms = 0 \<and> ends pid ms = 0"
  by (auto simp: report_counts filter_empty_conv)

text \<open>The books: every launch of a pid is matched by an end or by the child being alive, and the exec
  reports together with the pipes still open are at most as many as the launches.\<close>

definition pipes_of :: "int \<Rightarrow> (int \<times> int \<times> bytes) set \<Rightarrow> (int \<times> int \<times> bytes) set" where
  "pipes_of pid E = {e \<in> E. fst (snd e) = pid}"

definition balanced :: "message list \<Rightarrow> monitor \<Rightarrow> bool" where
  "balanced ms m \<longleftrightarrow> finite (mon_execs m) \<and> (\<forall>pid.
     launches pid ms = ends pid ms + (if pid \<in> mon_live m then 1 else 0) \<and>
     execs pid ms + card (pipes_of pid (mon_execs m)) \<le> launches pid ms)"

lemma pipes_of_mono: "finite E \<Longrightarrow> E' \<subseteq> E \<Longrightarrow> card (pipes_of pid E') \<le> card (pipes_of pid E)"
  by (rule card_mono) (auto simp: pipes_of_def)

lemma pipes_of_insert: "finite E \<Longrightarrow> card (pipes_of pid (insert (fd, q, path) E)) \<le> card (pipes_of pid E) + (if q = pid then 1 else 0)"
proof -
  assume "finite E"
  have "pipes_of pid (insert (fd, q, path) E) = (if q = pid then insert (fd, q, path) (pipes_of pid E) else pipes_of pid E)"
    by (auto simp: pipes_of_def)
  then show ?thesis by (simp add: card_insert_le_m1 card_insert_if \<open>finite E\<close> pipes_of_def)
qed

lemma pipes_of_remove:
  assumes "finite E" and "(fd, q, path) \<in> E"
  shows "card (pipes_of pid (E - {(fd, q, path)})) + (if q = pid then 1 else 0) \<le> card (pipes_of pid E)"
proof (cases "q = pid")
  case True
  then have "pipes_of pid (E - {(fd, q, path)}) = pipes_of pid E - {(fd, q, path)}" "(fd, q, path) \<in> pipes_of pid E"
    using assms(2) by (auto simp: pipes_of_def)
  moreover have "finite (pipes_of pid E)" using assms(1) by (simp add: pipes_of_def)
  ultimately show ?thesis using True card_Suc_Diff1 [of "pipes_of pid E" "(fd, q, path)"] by simp
next
  case False
  then show ?thesis using pipes_of_mono [OF assms(1), of "E - {(fd, q, path)}" pid] by auto
qed

lemma balancedI:
  assumes "balanced ms m" and "finite (mon_execs m')"
    and "\<And>pid. launches pid new + (if pid \<in> mon_live m then 1 else 0) = ends pid new + (if pid \<in> mon_live m' then 1 else 0)"
    and "\<And>pid. execs pid new + card (pipes_of pid (mon_execs m')) \<le> launches pid new + card (pipes_of pid (mon_execs m))"
  shows "balanced (ms @ new) m'"
  unfolding balanced_def
proof (intro conjI allI)
  fix pid
  have "launches pid ms = ends pid ms + (if pid \<in> mon_live m then 1 else 0)"
    and "execs pid ms + card (pipes_of pid (mon_execs m)) \<le> launches pid ms" using assms(1) unfolding balanced_def by blast+
  with assms(3,4) [of pid]
  show "launches pid (ms @ new) = ends pid (ms @ new) + (if pid \<in> mon_live m' then 1 else 0)"
    and "execs pid (ms @ new) + card (pipes_of pid (mon_execs m')) \<le> launches pid (ms @ new)" by simp_all
qed (rule assms(2))

lemma balanced_step:
  assumes "balanced ms m" and "monitor_step m new m'"
  shows "balanced (ms @ new) m'"
proof -
  have fin: "finite (mon_execs m)" using assms(1) by (simp add: balanced_def)
  from assms(2) show ?thesis
  proof cases
    case (mon_other E' E L)
    with fin show ?thesis
      by (intro balancedI [OF assms(1)]) (auto simp: counts_other intro: finite_subset pipes_of_mono)
  next
    case (mon_launch pid L ms' E' fd path E)
    have pipes: "card (pipes_of q E') \<le> card (pipes_of q E) + (if pid = q then 1 else 0)" for q
      using pipes_of_mono [of "insert (fd, pid, path) E" E' q] pipes_of_insert [of E q fd pid path] fin mon_launch by simp
    have "finite E'" using fin mon_launch by (auto intro: finite_subset)
    moreover have "card (pipes_of pid E') \<le> Suc (card (pipes_of pid E))" "q \<noteq> pid \<Longrightarrow> card (pipes_of q E') \<le> card (pipes_of q E)" for q
      using pipes [of pid] pipes [of q] by (auto split: if_splits)
    ultimately show ?thesis using mon_launch by (intro balancedI [OF assms(1)]) (auto simp: counts_other)
  next
    case (mon_exec fd pid path E E' L ok)
    have pipes: "card (pipes_of q E') + (if pid = q then 1 else 0) \<le> card (pipes_of q E)" for q
      using pipes_of_mono [of "E - {(fd, pid, path)}" E' q] pipes_of_remove [of E fd pid path q] fin mon_exec by simp
    have "finite E'" using fin mon_exec by (auto intro: finite_subset)
    moreover have "Suc (card (pipes_of pid E')) \<le> card (pipes_of pid E)" "q \<noteq> pid \<Longrightarrow> card (pipes_of q E') \<le> card (pipes_of q E)" for q
      using pipes [of pid] pipes [of q] by (auto split: if_splits)
    ultimately show ?thesis using mon_exec by (intro balancedI [OF assms(1)]) auto
  next
    case (mon_end pid L E' E code)
    with fin show ?thesis
      by (intro balancedI [OF assms(1)]) (auto intro: finite_subset pipes_of_mono)
  qed
qed

lemma monitor_balanced: "runs monitor_start monitor_step ms m \<Longrightarrow> balanced ms m"
proof (erule runs_invariant [where P = balanced])
  show "balanced [] m" if "monitor_start m" for m using that by (simp add: monitor_start_def balanced_def pipes_of_def)
qed (rule balanced_step)

section \<open>The daemon refines the monitor\<close>

definition pending_execs :: "daemon \<Rightarrow> (int \<times> int \<times> bytes) set" where
  "pending_execs d = {(fd, pid, path). Ed_EXECVE fd pid path \<in> set (interest d)}"

definition monitor_of :: "world \<Rightarrow> monitor" where
  "monitor_of w = \<lparr>mon_live = w_live w, mon_execs = pending_execs (w_daemon w)\<rparr>"

text \<open>The world as a system: its starts, and its steps with the messages sent.\<close>

definition world_start :: "start_os \<Rightarrow> world \<Rightarrow> bool" where
  "world_start os w \<longleftrightarrow> (\<exists>d. start_daemon os = Inr d \<and> so_array_malloc os \<and> (\<forall>i < MAX_PROCESS. so_slot_malloc os i) \<and> w = first_world d)"

definition world_step :: "decoder \<Rightarrow> int \<Rightarrow> int \<Rightarrow> world \<Rightarrow> message list \<Rightarrow> world \<Rightarrow> bool" where
  "world_step decode port ifd w ms w' \<longleftrightarrow> running (w_daemon w) \<and> (\<exists>n d calls. possible w n \<and>
     handle_event decode port ifd n (w_daemon w) = Inr (d, calls) \<and> ms = messages_of calls \<and> w' = world_after w d calls)"

lemma reach_runs: "reach decode port ifd os w \<Longrightarrow> runs (world_start os) (world_step decode port ifd) (w_sent w) w"
proof (induction rule: reach.induct)
  case (reach_start d)
  then have "runs (world_start os) (world_step decode port ifd) [] (first_world d)"
    by (auto simp: world_start_def intro: runs_start)
  then show ?case by (simp add: first_world_def)
next
  case (reach_step w n d calls)
  then have "world_step decode port ifd w (messages_of calls) (world_after w d calls)" by (auto simp: world_step_def)
  from runs_step [OF reach_step.IH this] show ?case by (simp add: world_after_def)
qed

text \<open>The shape of what a command does.\<close>

definition harmless :: "int set \<Rightarrow> call list \<Rightarrow> bool" where
  "harmless L calls \<longleftrightarrow> live_after L calls = L \<and> (\<forall>m \<in> set (messages_of calls). \<not> about_child m) \<and>
     (\<forall>fd pid path. EpollAdd (Ed_EXECVE fd pid path) \<notin> set calls)"

definition launching :: "int \<Rightarrow> int set \<Rightarrow> call list \<Rightarrow> bool" where
  "launching pid L calls \<longleftrightarrow> live_after L calls = insert pid L \<and>
     (\<exists>ms. messages_of calls = MProcessLaunched (s32 pid) # ms \<and> (\<forall>m \<in> set ms. \<not> about_child m)) \<and>
     (\<exists>fd path. \<forall>fd' pid' path'. EpollAdd (Ed_EXECVE fd' pid' path') \<in> set calls \<longrightarrow> (fd', pid', path') = (fd, pid, path))"

lemma harmless_append: "harmless L xs \<Longrightarrow> harmless L ys \<Longrightarrow> harmless L (xs @ ys)"
  by (auto simp: harmless_def)

lemma launching_append: "launching pid L xs \<Longrightarrow> harmless (insert pid L) ys \<Longrightarrow> launching pid L (xs @ ys)"
  by (fastforce simp: launching_def harmless_def)

lemma surveillance_harmless: "harmless L (watch_calls ifd sock wos i ws)"
proof -
  have "live_after L (watch_calls ifd sock wos i ws) = L" using quiet_surveillance by (intro quiet_effects(1)) blast
  moreover have "\<not> about_child m" if "m \<in> set (messages_of (watch_calls ifd sock wos i ws))" for m
    using surveillance_messages [OF that] by auto
  ultimately show ?thesis
    using surveillance_introduces [of ifd sock wos i ws] by (auto simp: harmless_def introduces_def)
qed

lemma request_shape:
  assumes "process_command_request os sock com d = Inr (d', calls)"
  shows "harmless L calls \<or> lo_clone os \<noteq> -1 \<and> launching (lo_clone os) L calls"
proof (cases "extract_clone_parameters os com")
  case None
  with assms show ?thesis by (auto simp: process_command_request_def harmless_def)
next
  case (Some param)
  with assms obtain res cs where clone: "handle_clone_event os = Inr (res, cs)"
    by (auto simp: process_command_request_def bindE_eq_Inr Let_def)
  show ?thesis
  proof (cases res)
    case None
    then have "calls = cs @ [SendMessage sock (MChildCreationError (u32 (lo_errno os)))]"
      using Some clone assms by (auto simp: process_command_request_def bindE_eq_Inr Let_def)
    with clone_calls [OF clone] None show ?thesis by (auto simp: harmless_def)
  next
    case (Some i)
    then obtain fd where i: "ic_child_id i = lo_clone os" "lo_clone os \<noteq> -1"
        "cs = [AllocStack (ic_stack_p i), Cloned (lo_clone os), CloseFd fd]" using clone_calls [OF clone] by auto
    let ?rest = "add_event_pipeExecve (lo_event_malloc os) (lo_epoll_ok os) (ic_pipe i) (lo_clone os) (com_path com)"
    have "calls = cs @ SendMessage sock (MProcessLaunched (s32 (lo_clone os))) # ?rest"
      using Some \<open>extract_clone_parameters os com = Some param\<close> clone assms i(1)
      by (auto simp: process_command_request_def bindE_eq_Inr Let_def)
    moreover have "live_after (insert (lo_clone os) L) ?rest = insert (lo_clone os) L" "messages_of ?rest = []"
      "\<And>e. EpollAdd e \<in> set ?rest \<Longrightarrow> e = Ed_EXECVE (ic_pipe i) (lo_clone os) (com_path com)"
      by (auto simp: add_event_pipeExecve_def split: if_splits)
    ultimately have "launching (lo_clone os) L calls" using i(3) by (auto simp: launching_def)
    with i(2) show ?thesis by simp
  qed
qed

lemma message_shape:
  assumes "on_message decode ifd fd sr los wos d = Inr (d', calls)"
  shows "harmless L calls \<or> lo_clone los \<noteq> -1 \<and> launching (lo_clone los) L calls"
proof -
  from assms obtain buf sz where buf: "read_socket_message sr = Some (buf, sz)"
    by (auto simp: on_message_def split: option.splits)
  show ?thesis
  proof (cases "sz \<noteq> 0 \<and> receive_message_from_user_c decode buf sz = RUN_COMMAND")
    case True
    with assms buf have "run_command_request decode ifd fd buf sz los wos d = Inr (d', calls)" by (simp add: on_message_def)
    then obtain com cs ws where com: "process_command_request los fd com d = Inr (d', cs)" "calls = cs @ watch_calls ifd fd wos 0 ws"
      by (rule run_command_InrE)
    from request_shape [OF com(1), of L] com(2) show ?thesis
      by (auto intro: harmless_append launching_append surveillance_harmless)
  next
    case False
    with assms buf show ?thesis
      by (auto simp: on_message_def kill_request_def harmless_def bindE_eq_Inr split: if_splits Event.splits)
  qed
qed

lemma monitor_after:
  "monitor_of (world_after w (d\<lparr>interest := epoll_after (interest (w_daemon w)) calls\<rparr>) calls) =
     \<lparr>mon_live = live_after (w_live w) calls,
       mon_execs = {(fd, pid, path). Ed_EXECVE fd pid path \<in> set (epoll_after (interest (w_daemon w)) calls)}\<rparr>"
  by (simp add: monitor_of_def world_after_def pending_execs_def)

lemma harmless_step:
  assumes "harmless (w_live w) calls"
  shows "monitor_step (monitor_of w) (messages_of calls)
    (monitor_of (world_after w (d\<lparr>interest := epoll_after (interest (w_daemon w)) calls\<rparr>) calls))"
proof -
  have live: "live_after (w_live w) calls = w_live w" and ms: "\<forall>m \<in> set (messages_of calls). \<not> about_child m"
    and new: "\<And>fd pid path. EpollAdd (Ed_EXECVE fd pid path) \<notin> set calls" using assms by (auto simp: harmless_def)
  show ?thesis
    unfolding monitor_after live unfolding monitor_of_def
    by (rule mon_other [OF ms]) (use new in \<open>auto simp: pending_execs_def dest: epoll_after_subset\<close>)
qed

lemma launching_step:
  assumes "launching pid (w_live w) calls" and "0 < pid" and "pid \<le> 2147483647" and "pid \<notin> w_live w"
  shows "monitor_step (monitor_of w) (messages_of calls)
    (monitor_of (world_after w (d\<lparr>interest := epoll_after (interest (w_daemon w)) calls\<rparr>) calls))"
proof -
  from assms obtain ms fd path where live: "live_after (w_live w) calls = insert pid (w_live w)"
    and ms: "messages_of calls = MProcessLaunched pid # ms" "\<forall>m \<in> set ms. \<not> about_child m"
    and new: "\<And>fd' pid' path'. EpollAdd (Ed_EXECVE fd' pid' path') \<in> set calls \<Longrightarrow> (fd', pid', path') = (fd, pid, path)"
    by (fastforce simp: launching_def s32_id)
  show ?thesis
    unfolding monitor_after live ms(1) unfolding monitor_of_def
    by (rule mon_launch [OF assms(2,4) ms(2)]) (use new in \<open>fastforce simp: pending_execs_def dest: epoll_after_subset\<close>)
qed

lemma execve_step:
  assumes "on_execve fd pid path n (w_daemon w) = Inr (d, calls)" and "Ed_EXECVE fd pid path \<in> set (interest (w_daemon w))"
    and "0 < pid" and "pid \<le> 2147483647"
  shows "monitor_step (monitor_of w) (messages_of calls)
    (monitor_of (world_after w (d\<lparr>interest := epoll_after (interest (w_daemon w)) calls\<rparr>) calls))"
proof -
  from assms(1,3,4) obtain sock ok where calls: "calls = [SendMessage sock (MExecveTerminated pid path ok), EpollDel fd, CloseFd fd]"
    by (auto simp: on_execve_def bindE_eq_Inr s32_id)
  have open_pipe: "(fd, pid, path) \<in> pending_execs (w_daemon w)" using assms(2) by (simp add: pending_execs_def)
  show ?thesis
    unfolding monitor_after unfolding monitor_of_def calls
    by (simp, rule mon_exec [OF open_pipe]) (auto simp: pending_execs_def)
qed

lemma sigchld_step:
  assumes "on_signal (SigInfo SIGCHLD pid st) (w_daemon w) = Inr (d, calls)" and "pid \<in> w_live w" and "0 < pid" and "pid \<le> 2147483647"
  shows "monitor_step (monitor_of w) (messages_of calls)
    (monitor_of (world_after w (d\<lparr>interest := epoll_after (interest (w_daemon w)) calls\<rparr>) calls))"
proof -
  from assms(1,3,4) obtain rs sock code where calls: "calls = (Waited pid # map Release rs) @ [SendMessage sock (MProcessTerminated pid code)]"
    by (auto simp: on_signal_def handle_signalfd_event_def handle_SIGCHLD_def bindE_eq_Inr s32_id)
  then have live: "live_after (w_live w) calls = w_live w - {pid}" and ms: "messages_of calls = [MProcessTerminated pid code]"
    and new: "\<And>e. EpollAdd e \<notin> set calls" by auto
  show ?thesis
    unfolding monitor_after live ms unfolding monitor_of_def
    by (rule mon_end [OF assms(2)]) (use new in \<open>auto simp: pending_execs_def dest: epoll_after_subset\<close>)
qed

lemma dispatch_step:
  assumes inv: "all_announced w" and n: "possible w n" and d1: "dispatch decode port ifd n (w_daemon w) = Inr (d1, calls)"
  shows "monitor_step (monitor_of w) (messages_of calls)
    (monitor_of (world_after w (d1\<lparr>interest := epoll_after (interest (w_daemon w)) calls\<rparr>) calls))"
proof -
  have live_range: "0 < pid" "pid \<le> 2147483647" if "pid \<in> w_live w" for pid
    using inv that by (auto simp: all_announced_def announced_def)
  have exec_range: "0 < pid" "pid \<le> 2147483647" if "Ed_EXECVE fd pid path \<in> set (interest (w_daemon w))" for fd pid path
    using inv that by (auto simp: all_announced_def announced_def)
  show ?thesis
  proof (cases n)
    case (OnInotify fd sz rs)
    then obtain sock where r: "handle_inotify_records sz sock None rs = Inr calls"
      using d1 by (auto simp: on_inotify_def handle_inotify_event_def bindE_eq_Inr)
    have "live_after (w_live w) calls = w_live w" using quiet_inotify [OF r] by (intro quiet_effects(1)) blast
    then have "harmless (w_live w) calls"
      using inotify_only_sends [OF r] inotify_messages [OF r] by (fastforce simp: harmless_def)
    then show ?thesis
      by (rule harmless_step)
  next
    case (OnSignal fd sg)
    show ?thesis
    proof (cases "\<exists>pid st. sg = SigInfo SIGCHLD pid st")
      case True
      with OnSignal n d1 show ?thesis by (auto simp: signal_possible_def intro!: sigchld_step [OF _ _ live_range])
    next
      case False
      then have "calls = []" using OnSignal d1
        by (auto simp: on_signal_def handle_signalfd_event_def split: signal_read.splits if_splits)
      then show ?thesis by (intro harmless_step) (simp add: harmless_def)
    qed
  next
    case (OnMessage fd sr los wos)
    with d1 n message_shape [of decode ifd fd sr los wos "w_daemon w" d1 calls "w_live w"]
    show ?thesis
      by (auto simp: launch_possible_def intro: harmless_step launching_step)
  next
    case (OnConnexion fd con m1 m2 e)
    then have "harmless (w_live w) calls" using d1 by (auto simp: on_connexion_def harmless_def split: if_splits)
    then show ?thesis
      by (rule harmless_step)
  next
    case (OnExecve fd pid path r)
    with d1 n show ?thesis by (auto intro!: execve_step [OF _ _ exec_range])
  next
    case (OnHangUp e r data_fd)
    show ?thesis
    proof (cases "\<exists>fd pid path. e = Ed_EXECVE fd pid path")
      case True
      with OnHangUp d1 n show ?thesis by (auto simp: on_hang_up_def intro!: execve_step [OF _ _ exec_range])
    next
      case False
      then have "harmless (w_live w) calls" using OnHangUp d1 by (auto simp: on_hang_up_def harmless_def split: event_data.splits)
      then show ?thesis by (rule harmless_step)
    qed
  qed
qed

lemma daemon_step:
  assumes "all_announced w" and "world_step decode port ifd w ms w'"
  shows "monitor_step (monitor_of w) ms (monitor_of w')"
proof -
  from assms(2) obtain n d calls where n: "possible w n" and res: "handle_event decode port ifd n (w_daemon w) = Inr (d, calls)"
    and ms: "ms = messages_of calls" "w' = world_after w d calls" by (auto simp: world_step_def)
  from res obtain d1 where d1: "dispatch decode port ifd n (w_daemon w) = Inr (d1, calls)"
    and d: "d = d1\<lparr>interest := epoll_after (interest (w_daemon w)) calls\<rparr>"
    using dispatch_interest by (fastforce simp: handle_event_def bindE_eq_Inr)
  show ?thesis unfolding ms d by (rule dispatch_step [OF assms(1) n d1])
qed

lemma world_start_reach: "world_start os w \<Longrightarrow> reach decode port ifd os w"
  by (auto simp: world_start_def intro: reach_start)

interpretation daemon: simulation "world_start os" "world_step decode port ifd" monitor_start monitor_step monitor_of all_announced
  for os decode port ifd
proof
  show "all_announced w \<and> monitor_start (monitor_of w)" if "world_start os w" for os w
  proof
    have r: "reach decode port ifd os w" using that by (rule world_start_reach)
    then show "all_announced w" by (rule reach_announced)
    then have "\<And>fd pid path. Ed_EXECVE fd pid path \<in> set (interest (w_daemon w)) \<Longrightarrow> announced (w_sent w) pid"
      by (auto simp: all_announced_def)
    with that show "monitor_start (monitor_of w)"
      by (auto simp: world_start_def monitor_start_def monitor_of_def first_world_def pending_execs_def announced_def)
  qed
  show "all_announced w' \<and> monitor_step (monitor_of w) ms (monitor_of w')"
    if "all_announced w" "world_step decode port ifd w ms w'" for decode port ifd w ms w'
    using that daemon_step [OF that] by (auto simp: world_step_def intro: step_announces)
qed

text \<open>C9 (refinement).  The C daemon refines the monitor: whatever the kernel reports, the messages sent so far are
  those of a run of the monitor that ends with the daemon's children alive and its pipes open.  So a launch is
  reported only for a pid that is not alive, an end only for one that is and that then no longer is, and an exec only
  for a pipe that has not been reported on.\<close>

theorem daemon_refines_monitor:
  assumes "reach decode port ifd os w"
  shows "runs monitor_start monitor_step (w_sent w) (monitor_of w)"
  using daemon.refines [OF reach_runs [OF assms]] by simp

theorem daemon_refines_monitor_witness:
  "runs monitor_start monitor_step (w_sent (launched_world 9090 2)) \<lparr>mon_live = {100, 101}, mon_execs = pending_execs (launched 2)\<rparr>"
proof -
  have "w_live (launched_world 9090 2) = {100, 101}" by (auto simp: launched_world_def)
  with daemon_refines_monitor [OF echo_reach [of 2 9090 4]] show ?thesis by (simp add: monitor_of_def launched_world_def)
qed

text \<open>C10 (invariant).  The books of the C daemon balance at every moment of every run: for each pid, the launches
  reported are the ends reported, plus one if the child is alive; and there are never more exec reports for a pid
  than launches.  No end is reported twice, none is made up, and none is missing for a child that is gone.\<close>

theorem launches_and_ends_balance:
  assumes "reach decode port ifd os w"
  shows "launches pid (w_sent w) = ends pid (w_sent w) + (if pid \<in> w_live w then 1 else 0) \<and>
    execs pid (w_sent w) \<le> launches pid (w_sent w)"
proof -
  have "balanced (w_sent w) (monitor_of w)" by (rule daemon.transfer [OF reach_runs [OF assms]]) (rule monitor_balanced)
  then show ?thesis by (auto simp: balanced_def monitor_of_def dest!: spec [of _ pid])
qed

theorem launches_and_ends_balance_witness:
  "launches 101 (w_sent (launched_world 9090 2)) = ends 101 (w_sent (launched_world 9090 2)) + 1"
  using launches_and_ends_balance [OF echo_reach [of 2 9090 4], of 101] by (simp add: launched_world_def)

end
