(* ===== verification/C_Signals.thy ===== *)
theory C_Signals
  imports C_Monitor
begin

text \<open>
  How the C daemon learns that a child has ended.  The kernel keeps one \<^verbatim>\<open>SIGCHLD\<close> pending, with the data of the
  child that raised it first; another child that ends before it is read adds nothing.  The daemon reads one
  record per notification and waits for that child only (\<^verbatim>\<open>handle_signalfd_event\<close> and
  \<^verbatim>\<open>handle_SIGCHLD\<close> of \<^verbatim>\<open>events.c\<close>).
\<close>

section \<open>The kernel beside the daemon\<close>

record kernel =
  k_world :: world
  k_pending :: "(int \<times> wait_status) option"
  k_exited :: "int set"

definition idle_kernel :: "world \<Rightarrow> kernel" where
  "idle_kernel w = \<lparr>k_world = w, k_pending = None, k_exited = {}\<rparr>"

inductive kernel_step :: "decoder \<Rightarrow> int \<Rightarrow> int \<Rightarrow> kernel \<Rightarrow> kernel \<Rightarrow> bool" for decode port ifd where
  child_exits: "pid \<in> w_live (k_world k) \<Longrightarrow> pid \<notin> k_exited k \<Longrightarrow> kernel_step decode port ifd k
     (k\<lparr>k_pending := (case k_pending k of None \<Rightarrow> Some (pid, st) | Some p \<Rightarrow> Some p), k_exited := insert pid (k_exited k)\<rparr>)"
| reads_signal: "k_pending k = Some (pid, st) \<Longrightarrow> running (w_daemon (k_world k)) \<Longrightarrow>
     possible (k_world k) (OnSignal fd (SigInfo SIGCHLD pid st)) \<Longrightarrow>
     handle_event decode port ifd (OnSignal fd (SigInfo SIGCHLD pid st)) (w_daemon (k_world k)) = Inr (d, calls) \<Longrightarrow>
     kernel_step decode port ifd k
       \<lparr>k_world = world_after (k_world k) d calls, k_pending = None, k_exited = k_exited k - {pid}\<rparr>"
| other_report: "running (w_daemon (k_world k)) \<Longrightarrow> possible (k_world k) n \<Longrightarrow>
     \<forall>fd pid st. n \<noteq> OnSignal fd (SigInfo SIGCHLD pid st) \<Longrightarrow>
     handle_event decode port ifd n (w_daemon (k_world k)) = Inr (d, calls) \<Longrightarrow>
     kernel_step decode port ifd k (k\<lparr>k_world := world_after (k_world k) d calls\<rparr>)"

section \<open>Lost children\<close>

text \<open>A child that has ended and that no pending signal tells of.\<close>

definition lost :: "int \<Rightarrow> kernel \<Rightarrow> bool" where
  "lost pid k \<longleftrightarrow> all_announced (k_world k) \<and> pid \<in> w_live (k_world k) \<and> pid \<in> k_exited k \<and> (\<forall>st. k_pending k \<noteq> Some (pid, st))"

lemma monitor_keeps:
  "monitor_step m ms m' \<Longrightarrow> pid \<in> mon_live m \<Longrightarrow> \<forall>code. MProcessTerminated pid code \<notin> set ms \<Longrightarrow>
     pid \<in> mon_live m' \<and> ends pid ms = 0"
  by (erule monitor_step.cases) (auto simp: counts_other)

lemma world_keeps:
  assumes "all_announced w" and "running (w_daemon w)" and n: "possible w n"
    and res: "handle_event decode port ifd n (w_daemon w) = Inr (d, calls)"
    and pid: "pid \<in> w_live w" and other: "\<And>fd st. n \<noteq> OnSignal fd (SigInfo SIGCHLD pid st)"
  shows "all_announced (world_after w d calls) \<and> pid \<in> w_live (world_after w d calls) \<and>
    ends pid (w_sent (world_after w d calls)) = ends pid (w_sent w)"
proof -
  from res obtain d1 where d1: "dispatch decode port ifd n (w_daemon w) = Inr (d1, calls)"
    by (auto simp: handle_event_def bindE_eq_Inr)
  have range: "0 < q" "q \<le> 2147483647" if "q \<in> w_live w" for q
    using assms(1) that by (auto simp: all_announced_def announced_def)
  have "MProcessTerminated pid code \<notin> set (messages_of calls)" for code
  proof
    assume "MProcessTerminated pid code \<in> set (messages_of calls)"
    from dispatch_messages [OF d1 this] obtain fd q st where q: "n = OnSignal fd (SigInfo SIGCHLD q st)" "pid = s32 q"
      by (cases n) auto
    with n have "q \<in> w_live w" by (simp add: signal_possible_def)
    with q range [of q] have "n = OnSignal fd (SigInfo SIGCHLD pid st)" by (simp add: s32_id)
    with other show False by blast
  qed
  then have silent: "\<forall>code. MProcessTerminated pid code \<notin> set (messages_of calls)" by blast
  have "world_step decode port ifd w (messages_of calls) (world_after w d calls)"
    using assms(2) n res by (auto simp: world_step_def)
  from monitor_keeps [OF daemon_step [OF assms(1) this] _ silent] pid
  have "pid \<in> mon_live (monitor_of (world_after w d calls)) \<and> ends pid (messages_of calls) = 0" by (simp add: monitor_of_def)
  then show ?thesis using step_announces [OF assms(1) n res] by (simp add: monitor_of_def world_after_def)
qed

lemma lost_step:
  assumes "kernel_step decode port ifd k k'" and "lost pid k"
  shows "lost pid k' \<and> ends pid (w_sent (k_world k')) = ends pid (w_sent (k_world k))"
  using assms(1)
proof cases
  case (child_exits q st)
  with assms(2) show ?thesis by (auto simp: lost_def split: option.splits)
next
  case (reads_signal q st fd d calls)
  with assms(2) have "q \<noteq> pid" by (auto simp: lost_def)
  with reads_signal assms(2) world_keeps [of "k_world k" "OnSignal fd (SigInfo SIGCHLD q st)" decode port ifd d calls pid]
  show ?thesis by (auto simp: lost_def)
next
  case (other_report n d calls)
  with assms(2) world_keeps [of "k_world k" n decode port ifd d calls pid] show ?thesis by (auto simp: lost_def)
qed

lemma lost_forever:
  assumes "(kernel_step decode port ifd)\<^sup>*\<^sup>* k k'" and "lost pid k"
  shows "lost pid k' \<and> ends pid (w_sent (k_world k')) = ends pid (w_sent (k_world k))"
  using assms by (induction rule: rtranclp_induct) (auto dest: lost_step)

text \<open>C11 (safety).  When two children of the C daemon end before it reads the signal of the first, the second is
  lost: from then on, whatever happens, no end of it is ever reported, and it is never waited for, so it
  stays a zombie and keeps its place in the table.\<close>

theorem merged_signal_loses_child:
  assumes "reach decode port ifd os w" and "a \<in> w_live w" and "b \<in> w_live w" and "a \<noteq> b"
  shows "\<exists>k. (kernel_step decode port ifd)\<^sup>*\<^sup>* (idle_kernel w) k \<and> k_world k = w \<and> k_exited k = {a, b} \<and>
    (\<forall>k'. (kernel_step decode port ifd)\<^sup>*\<^sup>* k k' \<longrightarrow>
       b \<in> w_live (k_world k') \<and> ends b (w_sent (k_world k')) = ends b (w_sent w))"
proof (intro exI conjI)
  let ?k1 = "\<lparr>k_world = w, k_pending = Some (a, WExited 0), k_exited = {a}\<rparr>"
  let ?k2 = "\<lparr>k_world = w, k_pending = Some (a, WExited 0), k_exited = {a, b}\<rparr>"
  have "kernel_step decode port ifd (idle_kernel w) ?k1"
    using child_exits [of a "idle_kernel w" decode port ifd "WExited 0"] assms(2) by (simp add: idle_kernel_def)
  moreover have "kernel_step decode port ifd ?k1 ?k2"
    using child_exits [of b ?k1 decode port ifd "WExited 0"] assms(3,4) by (simp add: insert_commute)
  ultimately show "(kernel_step decode port ifd)\<^sup>*\<^sup>* (idle_kernel w) ?k2" by (meson converse_rtranclp_into_rtranclp r_into_rtranclp)
  have "lost b ?k2" using reach_announced [OF assms(1)] assms(3,4) by (simp add: lost_def)
  then show "\<forall>k'. (kernel_step decode port ifd)\<^sup>*\<^sup>* ?k2 k' \<longrightarrow>
      b \<in> w_live (k_world k') \<and> ends b (w_sent (k_world k')) = ends b (w_sent w)"
    using lost_forever [of decode port ifd ?k2 _ b] by (auto simp: lost_def)
qed simp_all

theorem merged_signal_loses_child_witness:
  "\<exists>k. (kernel_step echo_decoder 9090 4)\<^sup>*\<^sup>* (idle_kernel (launched_world 9090 2)) k \<and> k_exited k = {100, 101} \<and>
     (\<forall>k'. (kernel_step echo_decoder 9090 4)\<^sup>*\<^sup>* k k' \<longrightarrow> 101 \<in> w_live (k_world k'))"
proof -
  have "100 \<in> w_live (launched_world 9090 2)" "101 \<in> w_live (launched_world 9090 2)" by (auto simp: launched_world_def)
  with merged_signal_loses_child [where w = "launched_world 9090 2" and a = 100 and b = 101, OF echo_reach [of 2 9090 4]]
  obtain k where "(kernel_step echo_decoder 9090 4)\<^sup>*\<^sup>* (idle_kernel (launched_world 9090 2)) k" "k_exited k = {100, 101}"
    and "\<And>k'. (kernel_step echo_decoder 9090 4)\<^sup>*\<^sup>* k k' \<Longrightarrow> 101 \<in> w_live (k_world k')" by auto
  then show ?thesis by blast
qed

end
