(* ===== verification/Overhead_Graph.thy ===== *)
theory Overhead_Graph
  imports Complex_Main Prelude
begin

text \<open>
  The evaluation of the overhead measurements: \<^verbatim>\<open>test_traitement_donne\<close> of
  \<^verbatim>\<open>test_overhead.py\<close>, which writes \<^verbatim>\<open>donnees.csv\<close>, and the script
  \<^verbatim>\<open>generate_overhead_graph.py\<close>, which reads it, computes statistics per variant, draws a chart and
  prints a report.  What they use of pandas, numpy and scipy is the record \<open>analytics\<close>, a
  parameter of the definitions; the locale \<open>analytics_pkg\<close> has the documented behaviour the script
  relies on, and \<open>list_analytics\<close> is an implementation on lists.  Numbers are reals
  (rounding is not modelled); \<open>None\<close> is NaN.  A file is the list of its rows of fields.  The chart
  is the list of the calls that draw it.
\<close>

section \<open>The packages\<close>

type_synonym num = "real option"
type_synonym csv = "string list list"

record analytics =
  pd_DataFrame :: "(string \<times> real list) list \<Rightarrow> (string \<times> real list) list py"
  pd_to_csv :: "(string \<times> real list) list \<Rightarrow> csv"
  pd_read_csv :: "csv \<Rightarrow> string list \<Rightarrow> (string \<times> string list) list py"
  pd_melt :: "(string \<times> string list) list \<Rightarrow> (string \<times> string) list"
  pd_to_numeric :: "string list \<Rightarrow> num list"
  pd_dropna :: "(string \<times> num) list \<Rightarrow> (string \<times> real) list"
  pd_groupby :: "(string \<times> real) list \<Rightarrow> (string \<times> real list) list"
  pd_unique :: "string list \<Rightarrow> string list"
  pd_mean :: "real list \<Rightarrow> num"
  pd_std :: "real list \<Rightarrow> num"
  pd_count :: "real list \<Rightarrow> nat"
  pd_min :: "real list \<Rightarrow> num"
  pd_max :: "real list \<Rightarrow> num"
  np_sqrt :: "real \<Rightarrow> num"
  t_ppf :: "real \<Rightarrow> real \<Rightarrow> num"

text \<open>Arithmetic on numbers that may be NaN.\<close>

definition lift2 :: "(real \<Rightarrow> real \<Rightarrow> real) \<Rightarrow> num \<Rightarrow> num \<Rightarrow> num" where
  "lift2 f x y = Option.bind x (\<lambda>a. map_option (f a) y)"

section \<open>test\_overhead.py: writing the measurements\<close>

definition measurement_data :: "real list \<Rightarrow> real list \<Rightarrow> real list \<Rightarrow> (string \<times> real list) list" where
  "measurement_data sans_demon demon_rust demon_c =
     [(''Sans demon'', sans_demon), (''Demon rust'', demon_rust), (''Demon c'', demon_c)]"

definition traitement_donne :: "analytics \<Rightarrow> real list \<Rightarrow> real list \<Rightarrow> real list \<Rightarrow> csv py" where
  "traitement_donne A sans_demon demon_rust demon_c =
     bindE (pd_DataFrame A (measurement_data sans_demon demon_rust demon_c)) (\<lambda>df. Inr (pd_to_csv A df))"

section \<open>generate\_overhead\_graph.py\<close>

definition column_names :: "string list" where
  "column_names = [''Sans_demon'', ''Demon_rust'', ''Demon_c'']"

type_synonym frame = "(string \<times> real) list"

definition load_frame :: "analytics \<Rightarrow> csv \<Rightarrow> frame py" where
  "load_frame A file =
     bindE (pd_read_csv A file column_names) (\<lambda>df_raw.
     let df = pd_melt A df_raw;
         temps = pd_to_numeric A (map snd df)
     in Inr (pd_dropna A (zip (map fst df) temps)))"

record stats_row =
  st_mean :: num
  st_std :: num
  st_count :: nat
  st_se :: num
  st_ci_95 :: num

definition stats_of :: "analytics \<Rightarrow> real list \<Rightarrow> stats_row" where
  "stats_of A xs =
     (let se = lift2 (/) (pd_std A xs) (np_sqrt A (real (pd_count A xs)))
      in \<lparr>st_mean = pd_mean A xs, st_std = pd_std A xs, st_count = pd_count A xs, st_se = se,
          st_ci_95 = lift2 (*) se (t_ppf A 0.975 (real (pd_count A xs) - 1))\<rparr>)"

definition stats_df :: "analytics \<Rightarrow> frame \<Rightarrow> (string \<times> stats_row) list" where
  "stats_df A df = map (\<lambda>(v, xs). (v, stats_of A xs)) (pd_groupby A df)"

text \<open>\<^verbatim>\<open>stats_df.loc[v]\<close>\<close>

definition loc :: "(string \<times> stats_row) list \<Rightarrow> string \<Rightarrow> stats_row py" where
  "loc st v = (case map_of st v of None \<Rightarrow> Inl KeyError | Some r \<Rightarrow> Inr r)"

definition temps :: "frame \<Rightarrow> real list" where
  "temps df = map snd df"

definition variantes :: "analytics \<Rightarrow> frame \<Rightarrow> string list" where
  "variantes A df = pd_unique A (map fst df)"

text \<open>An annotation: the index of the bar, its height and the number printed.\<close>

record annotation =
  an_x :: nat
  an_y :: num
  an_mean :: num

definition annotate :: "analytics \<Rightarrow> frame \<Rightarrow> (string \<times> stats_row) list \<Rightarrow> nat \<times> string \<Rightarrow> annotation py" where
  "annotate A df st p = bindE (loc st (snd p)) (\<lambda>r.
     Inr \<lparr>an_x = fst p, an_y = lift2 (+) (st_mean r) (lift2 (*) (pd_max A (temps df)) (Some 0.01)), an_mean = st_mean r\<rparr>)"

definition annotations :: "analytics \<Rightarrow> frame \<Rightarrow> annotation list py" where
  "annotations A df = mapE (annotate A df (stats_df A df)) (enumerate 0 (variantes A df))"

definition y_min :: "analytics \<Rightarrow> frame \<Rightarrow> num" where
  "y_min A df = lift2 (*) (pd_min A (temps df)) (Some 0.9)"

definition y_max :: "analytics \<Rightarrow> frame \<Rightarrow> num" where
  "y_max A df = lift2 (*) (pd_max A (temps df)) (Some 1.1)"

text \<open>The printed report of one variant; the interval is printed only when the variant has a row.\<close>

record report_row =
  re_name :: string
  re_mean :: num
  re_std :: num
  re_ci :: "(num \<times> num) option"
  re_min :: num
  re_max :: num

definition subset_of :: "frame \<Rightarrow> string \<Rightarrow> real list" where
  "subset_of df v = map snd (filter (\<lambda>p. fst p = v) df)"

definition report_of :: "analytics \<Rightarrow> frame \<Rightarrow> string \<Rightarrow> report_row" where
  "report_of A df v =
     (let xs = subset_of df v in
      \<lparr>re_name = v, re_mean = pd_mean A xs, re_std = pd_std A xs,
        re_ci = map_option (\<lambda>r. (lift2 (-) (pd_mean A xs) (st_ci_95 r), lift2 (+) (pd_mean A xs) (st_ci_95 r)))
          (map_of (stats_df A df) v),
        re_min = pd_min A xs, re_max = pd_max A xs\<rparr>)"

text \<open>The calls of matplotlib and seaborn, with their arguments, in the order of the script.\<close>

datatype plt_call =
    Plt_figure nat nat
  | Sns_barplot frame string nat real string
  | Sns_stripplot frame bool nat real string string real
  | Plt_title string nat nat
  | Plt_xlabel string nat nat
  | Plt_ylabel string nat nat
  | Plt_grid string string real
  | Plt_text annotation string nat string
  | Plt_ylim num num
  | Plt_legend "string list" string
  | Plt_figtext real real string string nat string
  | Plt_tight_layout
  | Plt_savefig string nat
  | Plt_show

definition chart_head :: "frame \<Rightarrow> plt_call list" where
  "chart_head df =
     [Plt_figure 12 8,
      Sns_barplot df ''ci'' 95 0.8 ''viridis'',
      Sns_stripplot df True 5 0.3 ''viridis'' ''gray'' 0.5,
      Plt_title ''Temps de performance par variante'' 16 20,
      Plt_xlabel ''Variante'' 14 10,
      Plt_ylabel ''Temps de performance (s)'' 14 10,
      Plt_grid ''y'' ''--'' 0.7]"

definition note_text :: string where
  "note_text = ''Note: Les barres repr'' @ CHR 0xE9 # ''sentent les moyennes avec intervalle de confiance '' @ CHR 0xE0 #
     '' 95%. Les points repr'' @ CHR 0xE9 # ''sentent les observations individuelles.''"

definition chart_tail :: "num \<Rightarrow> num \<Rightarrow> plt_call list" where
  "chart_tail lo hi =
     [Plt_ylim lo hi,
      Plt_legend [''Moyenne avec IC '' @ CHR 0xE0 # '' 95%'', ''Observations individuelles''] ''upper right'',
      Plt_figtext 0.5 0.01 note_text ''center'' 10 ''italic'',
      Plt_tight_layout,
      Plt_savefig ''performance_comparison.png'' 300,
      Plt_show]"

record graph =
  gr_stats :: "(string \<times> stats_row) list"
  gr_calls :: "plt_call list"
  gr_report :: "report_row list"

definition generate_overhead_graph :: "analytics \<Rightarrow> csv \<Rightarrow> graph py" where
  "generate_overhead_graph A file =
     bindE (load_frame A file) (\<lambda>df.
     bindE (annotations A df) (\<lambda>ans.
     Inr \<lparr>gr_stats = stats_df A df,
       gr_calls = chart_head df @ map (\<lambda>a. Plt_text a ''center'' 10 ''bold'') ans @ chart_tail (y_min A df) (y_max A df),
       gr_report = map (report_of A df) (variantes A df)\<rparr>))"

text \<open>The data that is plotted, and the labels.\<close>

fun plotted :: "plt_call list \<Rightarrow> frame list" where
  "plotted [] = []"
| "plotted (Sns_barplot df kind level a pal # cs) = df # plotted cs"
| "plotted (Sns_stripplot df jitter sz a pal edge lw # cs) = df # plotted cs"
| "plotted (_ # cs) = plotted cs"

fun labels :: "plt_call list \<Rightarrow> annotation list" where
  "labels [] = []"
| "labels (Plt_text a ha sz weight # cs) = a # labels cs"
| "labels (_ # cs) = labels cs"

lemma plotted_append [simp]: "plotted (xs @ ys) = plotted xs @ plotted ys"
  by (induction xs rule: plotted.induct) auto

lemma labels_append [simp]: "labels (xs @ ys) = labels xs @ labels ys"
  by (induction xs rule: labels.induct) auto

lemma text_calls [simp]: "labels (map (\<lambda>a. Plt_text a ha sz weight) ans) = ans" "plotted (map (\<lambda>a. Plt_text a ha sz weight) ans) = []"
  by (induction ans) auto

lemma chart_parts [simp]:
  "labels (chart_head df) = []" "labels (chart_tail lo hi) = []" "plotted (chart_head df) = [df, df]" "plotted (chart_tail lo hi) = []"
  "Plt_ylim lo hi \<in> set (chart_tail lo hi)"
  by (simp_all add: chart_head_def chart_tail_def)

lemma graph_of:
  assumes "load_frame A input = Inr df" and "annotations A df = Inr ans"
  obtains g where "generate_overhead_graph A input = Inr g" and "gr_stats g = stats_df A df"
    and "plotted (gr_calls g) = [df, df]" and "labels (gr_calls g) = ans"
    and "Plt_ylim (y_min A df) (y_max A df) \<in> set (gr_calls g)" and "gr_report g = map (report_of A df) (variantes A df)"
  using assms by (simp add: generate_overhead_graph_def)

section \<open>What the packages promise\<close>

definition present :: "(string \<times> num) list \<Rightarrow> frame" where
  "present rows = map (\<lambda>(v, x). (v, the x)) (filter (\<lambda>(v, x). x \<noteq> None) rows)"

definition average :: "real list \<Rightarrow> real" where
  "average xs = sum_list xs / real (length xs)"

text \<open>\<open>number\<close> is what \<^verbatim>\<open>to_numeric\<close> finds in a text, \<open>shown\<close> the text
  \<^verbatim>\<open>to_csv\<close> writes for a number.\<close>

locale analytics_pkg =
  fixes A :: analytics and number :: "string \<Rightarrow> num" and shown :: "real \<Rightarrow> string"
  assumes data_frame: "\<forall>p \<in> set cols. length (snd p) = n \<Longrightarrow> pd_DataFrame A cols = Inr cols"
    and data_frame_ragged: "p \<in> set cols \<Longrightarrow> q \<in> set cols \<Longrightarrow> length (snd p) \<noteq> length (snd q) \<Longrightarrow>
      pd_DataFrame A cols = Inl ValueError"
    and to_csv: "cols \<noteq> [] \<Longrightarrow> \<forall>p \<in> set cols. length (snd p) = n \<Longrightarrow>
      pd_to_csv A cols = map fst cols # map (\<lambda>i. map (\<lambda>p. shown (snd p ! i)) cols) [0..<n]"
    and read_csv: "\<forall>r \<in> set rows. length r = length names \<Longrightarrow>
      pd_read_csv A rows names = Inr (map (\<lambda>j. (names ! j, map (\<lambda>r. r ! j) rows)) [0..<length names])"
    and melt: "pd_melt A wide = concat (map (\<lambda>(v, cs). map (Pair v) cs) wide)"
    and to_numeric: "pd_to_numeric A cs = map number cs"
    and words: "number ''Sans demon'' = None" "number ''Demon rust'' = None" "number ''Demon c'' = None"
    and dropna: "pd_dropna A long = present long"
    and groups: "map_of (pd_groupby A df) v = (if v \<in> fst ` set df then Some (subset_of df v) else None)"
    and unique: "pd_unique A vs = rev (remdups (rev vs))"
    and mean: "xs \<noteq> [] \<Longrightarrow> pd_mean A xs = Some (average xs)"
    and std: "2 \<le> length xs \<Longrightarrow> pd_std A xs = Some (sqrt ((\<Sum>x\<leftarrow>xs. (x - average xs)\<^sup>2) / (real (length xs) - 1)))"
    and count: "pd_count A xs = length xs"
    and min: "xs \<noteq> [] \<Longrightarrow> pd_min A xs = Some (Min (set xs))"
    and max: "xs \<noteq> [] \<Longrightarrow> pd_max A xs = Some (Max (set xs))"
    and root: "0 \<le> x \<Longrightarrow> np_sqrt A x = Some (sqrt x)"
    and ppf: "1 \<le> x \<Longrightarrow> \<exists>t > 0. t_ppf A 0.975 x = Some t"
begin

text \<open>The header row that was written is read as data and dropped.\<close>

lemma column_survives:
  assumes "\<forall>x \<in> set xs. number (shown x) = Some x" and "number h = None" and "length xs = n"
  shows "present (map (\<lambda>t. (v, number t)) (h # map (\<lambda>i. shown (xs ! i)) [0..<n])) = map (Pair v) xs"
proof -
  have "map (\<lambda>t. (v, number t)) (map (\<lambda>i. shown (xs ! i)) [0..<n]) = map (\<lambda>x. (v, Some x)) xs"
    using assms(1,3) by (intro nth_equalityI) auto
  moreover have "present (map (\<lambda>x. (v, Some x)) ys) = map (Pair v) ys" for ys
    by (induction ys) (auto simp: present_def)
  moreover have "present ((v, None) # rows) = present rows" for rows by (simp add: present_def)
  ultimately show ?thesis using assms(2) by simp
qed

lemma present_append: "present (xs @ ys) = present xs @ present ys"
  by (simp add: present_def)

lemma load_frame_columns:
  assumes "pd_read_csv A file column_names = Inr wide"
  shows "load_frame A file = Inr (concat (map (\<lambda>(v, cs). present (map (\<lambda>t. (v, number t)) cs)) wide))"
proof -
  have zip: "zip (map fst df) (map number (map snd df)) = map (\<lambda>(v, t). (v, number t)) df" for df :: "(string \<times> string) list"
    by (induction df) auto
  have "map (\<lambda>(v, t). (v, number t)) (concat (map (\<lambda>(v, cs). map (Pair v) cs) wide)) =
      concat (map (\<lambda>(v, cs). map (\<lambda>t. (v, number t)) cs) wide)"
    by (induction wide) auto
  moreover have "present (concat (map (\<lambda>(v, cs). map (\<lambda>t. (v, number t)) cs) wide)) =
      concat (map (\<lambda>(v, cs). present (map (\<lambda>t. (v, number t)) cs)) wide)"
    by (induction wide) (auto simp: present_append, simp add: present_def)
  ultimately show ?thesis by (simp only: load_frame_def assms bindE_Inr Let_def to_numeric dropna melt zip)
qed

lemma load_written:
  assumes len: "length s = n" "length r = n" "length c = n" and num: "\<forall>x \<in> set (s @ r @ c). number (shown x) = Some x"
  shows "\<exists>file. traitement_donne A s r c = Inr file \<and>
    load_frame A file = Inr (map (Pair ''Sans_demon'') s @ map (Pair ''Demon_rust'') r @ map (Pair ''Demon_c'') c)"
proof -
  let ?cols = "measurement_data s r c"
  let ?rows = "[''Sans demon'', ''Demon rust'', ''Demon c''] # map (\<lambda>i. [shown (s ! i), shown (r ! i), shown (c ! i)]) [0..<n]"
  have rect: "\<forall>p \<in> set ?cols. length (snd p) = n" using len by (simp add: measurement_data_def)
  have written: "traitement_donne A s r c = Inr ?rows"
    using data_frame [OF rect] to_csv [OF _ rect] by (simp add: traitement_donne_def measurement_data_def)
  have three: "[0..<length column_names] = [0, 1, 2]" by (simp add: column_names_def upt_rec)
  have "\<forall>row \<in> set ?rows. length row = length column_names" by (auto simp: column_names_def)
  from read_csv [OF this] have "pd_read_csv A ?rows column_names =
      Inr [(''Sans_demon'', ''Sans demon'' # map (\<lambda>i. shown (s ! i)) [0..<n]),
        (''Demon_rust'', ''Demon rust'' # map (\<lambda>i. shown (r ! i)) [0..<n]), (''Demon_c'', ''Demon c'' # map (\<lambda>i. shown (c ! i)) [0..<n])]"
    unfolding three by (simp add: column_names_def comp_def)
  note load = load_frame_columns [OF this]
  have survives: "present (map (\<lambda>t. (v, number t)) (h # map (\<lambda>i. shown (xs ! i)) [0..<n])) = map (Pair v) xs"
    if "xs \<in> {s, r, c}" "number h = None" for xs h v
    using that len num by (intro column_survives) auto
  have concat3: "concat (map f [x, y, z]) = f x @ f y @ f z" for f :: "string \<times> string list \<Rightarrow> frame" and x y z by simp
  have "load_frame A ?rows = Inr (map (Pair ''Sans_demon'') s @ map (Pair ''Demon_rust'') r @ map (Pair ''Demon_c'') c)"
    unfolding load concat3 prod.case using survives words by (simp only: insert_iff simp_thms)
  with written show ?thesis by blast
qed

lemma stats_row: "v \<in> fst ` set df \<Longrightarrow> map_of (stats_df A df) v = Some (stats_of A (subset_of df v))"
  using groups [of df v] unfolding stats_df_def by (simp add: map_of_map [unfolded comp_def] comp_def)

lemma variantes_in: "set (variantes A df) = fst ` set df"
  by (simp add: variantes_def unique)

lemma annotations_total:
  "annotations A df = Inr (map (\<lambda>(i, v). \<lparr>an_x = i, an_y = lift2 (+) (pd_mean A (subset_of df v)) (lift2 (*) (pd_max A (temps df)) (Some 0.01)),
     an_mean = pd_mean A (subset_of df v)\<rparr>) (enumerate 0 (variantes A df)))"
proof -
  have "annotate A df (stats_df A df) (i, v) = Inr \<lparr>an_x = i,
      an_y = lift2 (+) (pd_mean A (subset_of df v)) (lift2 (*) (pd_max A (temps df)) (Some 0.01)), an_mean = pd_mean A (subset_of df v)\<rparr>"
    if "v \<in> fst ` set df" for i v
    using stats_row [OF that] by (simp add: annotate_def loc_def stats_of_def Let_def)
  moreover have "snd p \<in> fst ` set df" if "p \<in> set (enumerate 0 (variantes A df))" for p
    using that variantes_in by (metis enumerate_eq_zip in_set_zipE prod.collapse)
  ultimately show ?thesis unfolding annotations_def
    by (intro mapE_eqI) (auto simp: list_all2_map2 list_all2_same split: prod.splits)
qed

end

lemma subset_of_nonempty: "v \<in> fst ` set df \<Longrightarrow> subset_of df v \<noteq> []"
  by (auto simp: subset_of_def filter_empty_conv)

lemma subset_of_temps: "set (subset_of df v) \<subseteq> set (temps df)"
  by (auto simp: subset_of_def temps_def)

lemma average_bounds:
  assumes "xs \<noteq> []" and "\<forall>x \<in> set xs. l \<le> x \<and> x \<le> u"
  shows "l \<le> average xs" and "average xs \<le> u"
proof -
  have "real (length xs) * l \<le> sum_list xs \<and> sum_list xs \<le> real (length xs) * u"
    using assms(2) by (induction xs) (auto simp: algebra_simps)
  with assms(1) show "l \<le> average xs" "average xs \<le> u"
    by (auto simp: average_def field_simps)
qed

context analytics_pkg
begin

lemma labels_visible:
  assumes df: "df \<noteq> []" and pos: "\<forall>x \<in> set (temps df). 0 \<le> x" and ans: "annotations A df = Inr ans" and a: "a \<in> set ans"
  shows "\<exists>lo y hi. y_min A df = Some lo \<and> y_max A df = Some hi \<and> an_y a = Some y \<and> lo \<le> y \<and> y \<le> hi"
proof -
  have ne: "temps df \<noteq> []" using df by (simp add: temps_def)
  let ?m = "Min (set (temps df))" and ?M = "Max (set (temps df))"
  from ans a annotations_total [of df] obtain i v where "(i, v) \<in> set (enumerate 0 (variantes A df))" and
      v: "an_y a = lift2 (+) (pd_mean A (subset_of df v)) (lift2 (*) (pd_max A (temps df)) (Some 0.01))"
    by (auto split: prod.splits)
  then have "v \<in> set (variantes A df)" by (auto simp: enumerate_eq_zip dest: set_zip_rightD)
  then have sub: "subset_of df v \<noteq> []" using subset_of_nonempty variantes_in by simp
  have range: "\<forall>x \<in> set (subset_of df v). ?m \<le> x \<and> x \<le> ?M" using subset_of_temps [of df v] by (auto intro: Min_le Max_ge)
  have "0 \<le> ?m" "?m \<le> ?M" using ne pos by (auto intro: order_trans [OF Min_le Max_ge])
  moreover note average_bounds [OF sub range]
  moreover have y: "an_y a = Some (average (subset_of df v) + ?M * 0.01)" using v sub ne by (simp add: lift2_def mean max)
  ultimately have "?m * 0.9 \<le> average (subset_of df v) + ?M * 0.01" "average (subset_of df v) + ?M * 0.01 \<le> ?M * 1.1"
    by (auto simp: field_simps)
  with y show ?thesis using ne
    by (intro exI [of _ "?m * 0.9"] exI [of _ "average (subset_of df v) + ?M * 0.01"] exI [of _ "?M * 1.1"])
      (simp add: y_min_def y_max_def lift2_def min max)
qed

lemma interval:
  assumes v: "v \<in> fst ` set df" and two: "2 \<le> length (subset_of df v)"
  shows "\<exists>h t. 0 < t \<and> 0 \<le> h \<and> h * sqrt (real (length (subset_of df v))) =
      t * sqrt ((\<Sum>x\<leftarrow>subset_of df v. (x - average (subset_of df v))\<^sup>2) / (real (length (subset_of df v)) - 1)) \<and>
    re_ci (report_of A df v) = Some (Some (average (subset_of df v) - h), Some (average (subset_of df v) + h))"
proof -
  let ?xs = "subset_of df v"
  let ?sd = "sqrt ((\<Sum>x\<leftarrow>?xs. (x - average ?xs)\<^sup>2) / (real (length ?xs) - 1))"
  have ne: "?xs \<noteq> []" using two by auto
  have n: "0 < real (length ?xs)" "1 \<le> real (length ?xs) - 1" using two by auto
  from ppf [OF n(2)] obtain t where t: "0 < t" "t_ppf A 0.975 (real (length ?xs) - 1) = Some t" by blast
  let ?h = "?sd / sqrt (real (length ?xs)) * t"
  have "0 \<le> (\<Sum>x\<leftarrow>?xs. (x - average ?xs)\<^sup>2)" by (intro sum_list_nonneg) auto
  then have "0 \<le> ?sd" using n by simp
  then have "0 \<le> ?h" using n t(1) by simp
  moreover have "?h * sqrt (real (length ?xs)) = t * ?sd" using n by simp
  moreover have "re_ci (report_of A df v) = Some (Some (average ?xs - ?h), Some (average ?xs + ?h))"
    using stats_row [OF v] ne two n t(2)
    by (simp add: report_of_def stats_of_def mean std count root lift2_def Let_def)
  ultimately show ?thesis using t(1) by blast
qed

end


section \<open>An implementation on lists\<close>

definition list_DataFrame :: "(string \<times> real list) list \<Rightarrow> (string \<times> real list) list py" where
  "list_DataFrame cols = (if list_all (\<lambda>p. length (snd p) = length (snd (hd cols))) cols then Inr cols else Inl ValueError)"

definition list_to_csv :: "(real \<Rightarrow> string) \<Rightarrow> (string \<times> real list) list \<Rightarrow> csv" where
  "list_to_csv show_num cols = map fst cols # map (\<lambda>i. map (\<lambda>p. show_num (snd p ! i)) cols) [0..<length (snd (hd cols))]"

definition list_read_csv :: "csv \<Rightarrow> string list \<Rightarrow> (string \<times> string list) list py" where
  "list_read_csv rows names = (if list_all (\<lambda>r. length r = length names) rows
     then Inr (map (\<lambda>j. (names ! j, map (\<lambda>r. r ! j) rows)) [0..<length names]) else Inl ValueError)"

text \<open>Decimal numbers: digits, a dot, digits; written with one digit after the dot.\<close>

fun digits_value :: "string \<Rightarrow> nat \<Rightarrow> nat option" where
  "digits_value [] n = Some n"
| "digits_value (ch # cs) n = (let d = of_char ch in if 48 \<le> d \<and> d \<le> 57 then digits_value cs (10 * n + (d - 48)) else None)"

definition decimal :: "string \<Rightarrow> num" where
  "decimal s = (let a = takeWhile (\<lambda>ch. ch \<noteq> CHR ''.'') s; b = tl (dropWhile (\<lambda>ch. ch \<noteq> CHR ''.'') s) in
     if a = [] then None
     else case (digits_value a 0, digits_value b 0) of (Some x, Some y) \<Rightarrow> Some (real x + real y / 10 ^ length b) | _ \<Rightarrow> None)"

fun string_of_nat :: "nat \<Rightarrow> string" where
  "string_of_nat n = (if n < 10 then [char_of (48 + n)] else string_of_nat (n div 10) @ [char_of (48 + n mod 10)])"

definition one_decimal :: "real \<Rightarrow> string" where
  "one_decimal x = string_of_nat (nat \<lfloor>x\<rfloor>) @ CHR ''.'' # string_of_nat (nat \<lfloor>10 * x\<rfloor> mod 10)"

definition list_analytics :: analytics where
  "list_analytics = \<lparr>pd_DataFrame = list_DataFrame, pd_to_csv = list_to_csv one_decimal, pd_read_csv = list_read_csv,
     pd_melt = \<lambda>cols. concat (map (\<lambda>(v, cs). map (Pair v) cs) cols), pd_to_numeric = map decimal, pd_dropna = present,
     pd_groupby = \<lambda>df. map (\<lambda>v. (v, subset_of df v)) (remdups (map fst df)), pd_unique = \<lambda>vs. rev (remdups (rev vs)),
     pd_mean = \<lambda>xs. if xs = [] then None else Some (average xs),
     pd_std = \<lambda>xs. if length xs < 2 then None
       else Some (sqrt ((\<Sum>x\<leftarrow>xs. (x - average xs)\<^sup>2) / (real (length xs) - 1))),
     pd_count = length,
     pd_min = \<lambda>xs. if xs = [] then None else Some (Min (set xs)), pd_max = \<lambda>xs. if xs = [] then None else Some (Max (set xs)),
     np_sqrt = \<lambda>x. if x < 0 then None else Some (sqrt x), t_ppf = \<lambda>p x. if x < 1 then None else Some (1.96 + 2.4 / x)\<rparr>"

interpretation lists: analytics_pkg list_analytics decimal one_decimal
proof
  fix cols :: "(string \<times> real list) list" and n
  assume len: "\<forall>p \<in> set cols. length (snd p) = n"
  show "pd_DataFrame list_analytics cols = Inr cols"
    using len by (cases cols) (auto simp: list_analytics_def list_DataFrame_def list_all_iff)
  assume "cols \<noteq> []"
  with len show "pd_to_csv list_analytics cols = map fst cols # map (\<lambda>i. map (\<lambda>p. one_decimal (snd p ! i)) cols) [0..<n]"
    by (cases cols) (auto simp: list_analytics_def list_to_csv_def)
next
  fix cols :: "(string \<times> real list) list" and p q
  assume "p \<in> set cols" "q \<in> set cols" "length (snd p) \<noteq> length (snd q)"
  then have "\<not> list_all (\<lambda>p. length (snd p) = length (snd (hd cols))) cols" unfolding list_all_iff by metis
  then show "pd_DataFrame list_analytics cols = Inl ValueError"
    by (simp add: list_analytics_def list_DataFrame_def)
next
  show "decimal ''Sans demon'' = None" "decimal ''Demon rust'' = None" "decimal ''Demon c'' = None"
    by (simp_all add: decimal_def)
next
  fix df :: frame and v
  have "map_of (map (\<lambda>v. (v, subset_of df v)) vs) v = (if v \<in> set vs then Some (subset_of df v) else None)" for vs
    by (induction vs) auto
  then show "map_of (pd_groupby list_analytics df) v = (if v \<in> fst ` set df then Some (subset_of df v) else None)"
    by (simp add: list_analytics_def)
next
  fix x :: real
  assume "1 \<le> x"
  then show "\<exists>t > 0. t_ppf list_analytics 0.975 x = Some t" by (simp add: list_analytics_def add_pos_pos)
qed (auto simp: list_analytics_def list_read_csv_def list_all_iff)


section \<open>The chart and the report\<close>

lemma subset_of_simps:
  "subset_of (xs @ ys) v = subset_of xs v @ subset_of ys v" "subset_of (map (Pair w) zs) v = (if w = v then zs else [])"
  by (auto simp: subset_of_def filter_map comp_def)

lemma remdups_replicate:
  "remdups (replicate n a @ ys) = (if n = 0 \<or> a \<in> set ys then remdups ys else a # remdups ys)"
  by (induction n) auto

lemma variants_in_order:
  fixes u v w :: string and s r c :: "real list"
  assumes "s \<noteq> []" and "r \<noteq> []" and "c \<noteq> []" and "distinct [u, v, w]"
  shows "rev (remdups (rev (map fst (map (Pair u) s @ map (Pair v) r @ map (Pair w) c)))) = [u, v, w]"
proof -
  have const: "map fst (map (Pair a) xs) = replicate (length xs) a" for a :: string and xs :: "real list"
    by (induction xs) auto
  have "rev (map fst (map (Pair u) s @ map (Pair v) r @ map (Pair w) c)) =
      replicate (length c) w @ replicate (length r) v @ replicate (length s) u @ []"
    by (simp only: map_append const rev_append rev_replicate append_assoc append_Nil2)
  then show ?thesis using assms by (auto simp: remdups_replicate simp del: append_Nil2)
qed

text \<open>C40 (functional).  From measurements to chart: when the three lists of \<^verbatim>\<open>test_overhead.py\<close> have the
  same length of at least two and the numbers survive being written, the script that reads the file it wrote
  sees exactly the measurements.  The header row, which the script reads as data although its comment says
  there must be none, is dropped.  Bars and points are drawn from them; there is one label, one row of
  statistics and one printed report per variant, in the order of the columns, with the mean, the count, the minimum and the maximum of that variant's measurements.\<close>

theorem overhead_pipeline:
  assumes "analytics_pkg A number shown" and "length sans_demon = n" and "length demon_rust = n" and "length demon_c = n" and "2 \<le> n"
    and "\<forall>x \<in> set (sans_demon @ demon_rust @ demon_c). number (shown x) = Some x"
  shows "\<exists>file g. traitement_donne A sans_demon demon_rust demon_c = Inr file \<and> generate_overhead_graph A file = Inr g \<and>
    plotted (gr_calls g) = replicate 2 (map (Pair ''Sans_demon'') sans_demon @ map (Pair ''Demon_rust'') demon_rust @ map (Pair ''Demon_c'') demon_c) \<and>
    map re_name (gr_report g) = column_names \<and> map an_mean (labels (gr_calls g)) = map re_mean (gr_report g) \<and>
    (\<forall>(v, xs, re) \<in> set (zip column_names (zip [sans_demon, demon_rust, demon_c] (gr_report g))).
      (\<exists>row. map_of (gr_stats g) v = Some row \<and> st_mean row = Some (average xs) \<and> st_count row = n) \<and>
      re_mean re = Some (average xs) \<and> re_min re = Some (Min (set xs)) \<and> re_max re = Some (Max (set xs)))"
proof -
  let ?df = "map (Pair ''Sans_demon'') sans_demon @ map (Pair ''Demon_rust'') demon_rust @ map (Pair ''Demon_c'') demon_c"
  from analytics_pkg.load_written [OF assms(1-4,6)] obtain written where
    fl: "traitement_donne A sans_demon demon_rust demon_c = Inr written" "load_frame A written = Inr ?df" by blast
  have ne: "sans_demon \<noteq> []" "demon_rust \<noteq> []" "demon_c \<noteq> []" using assms(2-5) by auto
  have vs: "variantes A ?df = column_names"
    unfolding variantes_def analytics_pkg.unique [OF assms(1)] column_names_def
    using ne by (intro variants_in_order) simp_all
  have sub: "subset_of ?df ''Sans_demon'' = sans_demon" "subset_of ?df ''Demon_rust'' = demon_rust" "subset_of ?df ''Demon_c'' = demon_c"
    by (simp_all add: subset_of_simps)
  have "set column_names = fst ` set ?df" using analytics_pkg.variantes_in [OF assms(1), of ?df] unfolding vs .
  then have stats: "map_of (stats_df A ?df) v = Some (stats_of A (subset_of ?df v))" if "v \<in> set column_names" for v
    using that by (intro analytics_pkg.stats_row [OF assms(1)]) simp
  obtain g where g: "generate_overhead_graph A written = Inr g" "gr_stats g = stats_df A ?df" "plotted (gr_calls g) = [?df, ?df]"
      "gr_report g = map (report_of A ?df) column_names" and means: "map an_mean (labels (gr_calls g)) = map re_mean (gr_report g)"
    by (rule graph_of [OF fl(2) analytics_pkg.annotations_total [OF assms(1)]]) (simp add: vs column_names_def report_of_def Let_def)
  have n: "2 \<le> length sans_demon" "2 \<le> length demon_rust" "2 \<le> length demon_c" using assms(2-5) by auto
  note laws = analytics_pkg.mean [OF assms(1)] analytics_pkg.count [OF assms(1)] analytics_pkg.min [OF assms(1)] analytics_pkg.max [OF assms(1)]
  have "re_name (report_of A ?df v) = v" for v by (simp add: report_of_def Let_def)
  then have "map re_name (map (report_of A ?df) column_names) = column_names" by (simp add: map_idI)
  moreover have "(\<exists>row. map_of (stats_df A ?df) v = Some row \<and> st_mean row = Some (average xs) \<and> st_count row = n) \<and>
      re_mean (report_of A ?df v) = Some (average xs) \<and> re_min (report_of A ?df v) = Some (Min (set xs)) \<and>
      re_max (report_of A ?df v) = Some (Max (set xs))"
    if "v \<in> set column_names" "subset_of ?df v = xs" "xs \<in> {sans_demon, demon_rust, demon_c}" for v xs
    using that stats [OF that(1)] ne assms(2-4) by (auto simp: stats_of_def report_of_def Let_def laws)
  ultimately have rows: "map re_name (gr_report g) = column_names"
    "\<forall>(v, xs, re) \<in> set (zip column_names (zip [sans_demon, demon_rust, demon_c] (gr_report g))).
      (\<exists>row. map_of (gr_stats g) v = Some row \<and> st_mean row = Some (average xs) \<and> st_count row = n) \<and>
      re_mean re = Some (average xs) \<and> re_min re = Some (Min (set xs)) \<and> re_max re = Some (Max (set xs))"
    unfolding g using sub by (auto simp: column_names_def)
  have "plotted (gr_calls g) = replicate 2 ?df" unfolding g(3) by (simp only: numeral_2_eq_2 replicate.simps)
  with fl(1) g(1) means rows show ?thesis by blast
qed

lemma decimals: "decimal (one_decimal 1) = Some 1" "decimal (one_decimal 2) = Some 2" "decimal (one_decimal 3) = Some 3"
proof -
  have "char_of (49 :: nat) = CHR ''1''" "char_of (50 :: nat) = CHR ''2''" "char_of (51 :: nat) = CHR ''3''" by code_simp+
  then show "decimal (one_decimal 1) = Some 1" "decimal (one_decimal 2) = Some 2" "decimal (one_decimal 3) = Some 3"
    by (simp_all add: decimal_def one_decimal_def)
qed

theorem overhead_pipeline_witness:
  "\<exists>written g. traitement_donne list_analytics [1, 2] [2, 3] [3, 1] = Inr written \<and>
     generate_overhead_graph list_analytics written = Inr g \<and> map re_name (gr_report g) = column_names"
  using overhead_pipeline [OF lists.analytics_pkg_axioms, of "[1, 2]" 2 "[2, 3]" "[3, 1]"] decimals by auto

text \<open>Whatever the file contains, if the script finds at least one number in it and none is
  negative, it ends, and every label it draws above a bar is inside of the limits it sets for the axis.\<close>

theorem labels_inside_axis:
  assumes "analytics_pkg A number shown" and "load_frame A input = Inr df" and "df \<noteq> []" and "\<forall>x \<in> set (temps df). 0 \<le> x"
  shows "\<exists>g lo hi. generate_overhead_graph A input = Inr g \<and> Plt_ylim (Some lo) (Some hi) \<in> set (gr_calls g) \<and>
    length (labels (gr_calls g)) = length (variantes A df) \<and>
    (\<forall>a \<in> set (labels (gr_calls g)). \<exists>y. an_y a = Some y \<and> lo \<le> y \<and> y \<le> hi)"
proof -
  obtain ans where ans: "annotations A df = Inr ans" "length ans = length (variantes A df)"
    using analytics_pkg.annotations_total [OF assms(1), of df] by simp
  have "temps df \<noteq> []" using assms(3) by (simp add: temps_def)
  then have "y_min A df \<noteq> None" "y_max A df \<noteq> None"
    by (auto simp: y_min_def y_max_def lift2_def analytics_pkg.min [OF assms(1)] analytics_pkg.max [OF assms(1)])
  then obtain lo hi where lim: "y_min A df = Some lo" "y_max A df = Some hi" by blast
  have "\<exists>y. an_y a = Some y \<and> lo \<le> y \<and> y \<le> hi" if "a \<in> set ans" for a
    using analytics_pkg.labels_visible [OF assms(1,3,4) ans(1) that] lim by auto
  moreover obtain g where "generate_overhead_graph A input = Inr g" "labels (gr_calls g) = ans"
      "Plt_ylim (y_min A df) (y_max A df) \<in> set (gr_calls g)"
    by (rule graph_of [OF assms(2) ans(1)])
  ultimately show ?thesis using ans(2) lim by auto
qed

theorem labels_inside_axis_witness:
  "\<exists>g lo hi. generate_overhead_graph list_analytics [[one_decimal 1, one_decimal 2, one_decimal 3]] = Inr g \<and>
     Plt_ylim (Some lo) (Some hi) \<in> set (gr_calls g) \<and> (\<forall>a \<in> set (labels (gr_calls g)). \<exists>y. an_y a = Some y \<and> lo \<le> y \<and> y \<le> hi)"
proof -
  have "pd_read_csv list_analytics [[one_decimal 1, one_decimal 2, one_decimal 3]] column_names =
      Inr [(''Sans_demon'', [one_decimal 1]), (''Demon_rust'', [one_decimal 2]), (''Demon_c'', [one_decimal 3])]"
    by (simp add: list_analytics_def list_read_csv_def column_names_def upt_rec)
  from lists.load_frame_columns [OF this]
  have "load_frame list_analytics [[one_decimal 1, one_decimal 2, one_decimal 3]] =
      Inr [(''Sans_demon'', 1), (''Demon_rust'', 2), (''Demon_c'', 3)]"
    by (simp add: decimals present_def)
  from labels_inside_axis [OF lists.analytics_pkg_axioms this] show ?thesis by (auto simp: temps_def)
qed

text \<open>The confidence interval printed for a variant with at least two measurements is
  centred on their mean, and its half width \<open>h\<close> satisfies \<open>h * sqrt n = t * s\<close>, where \<open>s\<close> is the
  sample standard deviation and \<open>t\<close> a positive quantile: it always contains the mean.\<close>

theorem confidence_interval:
  assumes "analytics_pkg A number shown" and "v \<in> fst ` set df" and "2 \<le> length (subset_of df v)"
  shows "\<exists>h t. 0 < t \<and> 0 \<le> h \<and> h * sqrt (real (length (subset_of df v))) =
      t * sqrt ((\<Sum>x\<leftarrow>subset_of df v. (x - average (subset_of df v))\<^sup>2) / (real (length (subset_of df v)) - 1)) \<and>
    re_ci (report_of A df v) = Some (Some (average (subset_of df v) - h), Some (average (subset_of df v) + h))"
  using analytics_pkg.interval [OF assms] .


theorem confidence_interval_witness:
  "\<exists>h. 0 \<le> h \<and> re_ci (report_of list_analytics [(''Demon_c'', 1), (''Demon_c'', 3)] ''Demon_c'') = Some (Some (2 - h), Some (2 + h))"
  using confidence_interval [OF lists.analytics_pkg_axioms, of "''Demon_c''" "[(''Demon_c'', 1), (''Demon_c'', 3)]"]
  by (auto simp: subset_of_def average_def)

end
