(* ===== verification/Overhead_Client.thy ===== *)
theory Overhead_Client
  imports Client_Runs Overhead_Graph
begin

text \<open>
  The measurements of \<^verbatim>\<open>src/tests_python/test_overhead.py\<close>: the client \<^verbatim>\<open>boucle_launch_process\<close>,
  the test without a daemon, the test with one, and the whole suite up to \<^verbatim>\<open>donnees.csv\<close>.  The clock
  is an argument: the start and the stop of each measurement.  The lists of results are explicit state; they
  keep what was measured before an error.
\<close>

section \<open>The client\<close>

definition nb_mesures :: nat where
  "nb_mesures = 10"

definition nb_iteration :: nat where
  "nb_iteration = 30"

record results =
  temps_sans_demon :: "real list"
  temps_demon_rust :: "real list"
  temps_demon_c :: "real list"

text \<open>One launch: send the command, read three frames.  What the receivers return is not used.\<close>

definition one_iteration :: "'b flatbuffers \<Rightarrow> BufferInfo \<Rightarrow> conn \<Rightarrow> conn py" where
  "one_iteration fb buf c =
     bindE (send_frame c buf) (\<lambda>c.
     bindE (read_frame c) (\<lambda>(c, data, sz). let pid = receive_processlaunched fb data sz in
     bindE (read_frame c) (\<lambda>(c, data, sz). let info_execve = receive_execveterminated fb data sz in
     bindE (read_frame c) (\<lambda>(c, data, sz). let info = receive_processterminated fb data sz in
     Inr c))))"

fun iterations :: "'b flatbuffers \<Rightarrow> BufferInfo \<Rightarrow> nat \<Rightarrow> conn \<Rightarrow> conn py" where
  "iterations fb buf 0 c = Inr c"
| "iterations fb buf (Suc n) c = bindE (one_iteration fb buf c) (\<lambda>c. iterations fb buf n c)"

text \<open>The branches on the type of the daemon; for an unknown type the measurement is lost.\<close>

definition record_time :: "string \<Rightarrow> real \<Rightarrow> results \<Rightarrow> results" where
  "record_time daemon_type t ts =
     (if daemon_type = ''rust'' then ts\<lparr>temps_demon_rust := temps_demon_rust ts @ [t]\<rparr>
      else if daemon_type = ''c'' then ts\<lparr>temps_demon_c := temps_demon_c ts @ [t]\<rparr> else ts)"

fun measures :: "'b flatbuffers \<Rightarrow> BufferInfo \<Rightarrow> string \<Rightarrow> (nat \<Rightarrow> real \<times> real) \<Rightarrow> nat \<Rightarrow> nat \<Rightarrow> conn \<Rightarrow> results \<Rightarrow> results \<times> conn py" where
  "measures fb buf daemon_type clock i 0 c ts = (ts, Inr c)"
| "measures fb buf daemon_type clock i (Suc n) c ts = (case iterations fb buf nb_iteration c of
       Inl e \<Rightarrow> (ts, Inl e)
     | Inr c \<Rightarrow> let difference = snd (clock i) - fst (clock i)
         in measures fb buf daemon_type clock (Suc i) n c (record_time daemon_type (difference / real nb_iteration) ts))"

text \<open>A socket error gives \<^verbatim>\<open>-1\<close>; the good run has no \<^verbatim>\<open>return\<close> and leaves the connection open.\<close>

definition boucle_launch_process ::
    "'b flatbuffers \<Rightarrow> conn option \<Rightarrow> string \<Rightarrow> Command \<Rightarrow> (nat \<Rightarrow> real \<times> real) \<Rightarrow> results \<Rightarrow> results \<times> (conn option \<times> verdict) py" where
  "boucle_launch_process fb peer daemon_type command clock ts =
     (let (ts', r) = (case bindE (connect peer) (\<lambda>c. bindE (send_command_to_demon fb command) (\<lambda>buf.
            bindE (int_to_bytes (bi_size buf) 4) (\<lambda>_. bindE (read_frame c) (\<lambda>(c, data, sz).
              let res_port = receive_TCPSocketListening fb data sz in Inr (buf, c))))) of
          Inl e \<Rightarrow> (ts, Inl e)
        | Inr (buf, c) \<Rightarrow> measures fb buf daemon_type clock 0 nb_mesures c ts)
      in (ts', case r of Inl OSError \<Rightarrow> Inr (None, Some (-1)) | Inl e \<Rightarrow> Inl e | Inr c \<Rightarrow> Inr (Some c, None)))"

text \<open>The test without a daemon; \<open>call\<close> runs a program to its end.\<close>

fun sans_demon_iterations :: "(string list \<Rightarrow> int py) \<Rightarrow> nat \<Rightarrow> unit py" where
  "sans_demon_iterations call 0 = Inr ()"
| "sans_demon_iterations call (Suc n) = bindE (call [''echo'', '''']) (\<lambda>_. sans_demon_iterations call n)"

fun sans_demon_measures :: "(string list \<Rightarrow> int py) \<Rightarrow> (nat \<Rightarrow> real \<times> real) \<Rightarrow> nat \<Rightarrow> nat \<Rightarrow> results \<Rightarrow> results \<times> unit py" where
  "sans_demon_measures call clock i 0 ts = (ts, Inr ())"
| "sans_demon_measures call clock i (Suc n) ts = (case sans_demon_iterations call nb_iteration of
       Inl e \<Rightarrow> (ts, Inl e)
     | Inr _ \<Rightarrow> let difference = snd (clock i) - fst (clock i)
         in sans_demon_measures call clock (Suc i) n
              (ts\<lparr>temps_sans_demon := temps_sans_demon ts @ [difference / real nb_iteration]\<rparr>))"

definition test_sans_demon :: "(string list \<Rightarrow> int py) \<Rightarrow> (nat \<Rightarrow> real \<times> real) \<Rightarrow> results \<Rightarrow> results \<times> unit py" where
  "test_sans_demon call clock ts = sans_demon_measures call clock 0 nb_mesures ts"

definition avec_demon_command :: Command where
  "avec_demon_command = \<lparr>cmd_path = pystr_of ''/bin/echo'', cmd_args = [pystr_of ''echo'', pystr_of ''bonjour''],
     cmd_envp = [], cmd_flags = 0, cmd_stack_size = 1024 * 1024, cmd_to_watch = []\<rparr>"

text \<open>The test with a daemon ignores what the client returns.\<close>

definition test_avec_demon :: "'b flatbuffers \<Rightarrow> conn option \<Rightarrow> string \<Rightarrow> (nat \<Rightarrow> real \<times> real) \<Rightarrow> results \<Rightarrow> results \<times> unit py" where
  "test_avec_demon fb peer daemon_type clock ts =
     (let (ts, r) = boucle_launch_process fb peer daemon_type avec_demon_command clock ts
      in (ts, bindE r (\<lambda>_. Inr ())))"

text \<open>The tests in the order of the file: without a daemon, with each daemon, and the table.\<close>

definition overhead_suite :: "'b flatbuffers \<Rightarrow> analytics \<Rightarrow> (string list \<Rightarrow> int py) \<Rightarrow> (nat \<Rightarrow> real \<times> real) \<Rightarrow>
    conn option \<Rightarrow> (nat \<Rightarrow> real \<times> real) \<Rightarrow> conn option \<Rightarrow> (nat \<Rightarrow> real \<times> real) \<Rightarrow> unit py list \<times> csv py" where
  "overhead_suite fb A call clock rust_peer rust_clock c_peer c_clock =
     (let ts = \<lparr>temps_sans_demon = [], temps_demon_rust = [], temps_demon_c = []\<rparr>;
          (ts, sans) = test_sans_demon call clock ts;
          (ts, rust) = test_avec_demon fb rust_peer ''rust'' rust_clock ts;
          (ts, c) = test_avec_demon fb c_peer ''c'' c_clock ts
      in ([sans, rust, c], traitement_donne A (temps_sans_demon ts) (temps_demon_rust ts) (temps_demon_c ts)))"

section \<open>A run\<close>

lemma read_any:
  assumes "streams fb enc segs ms"
  shows "\<exists>segs' ms' data sz. read_frame (c\<lparr>conn_in := segs\<rparr>) = Inr (c\<lparr>conn_in := segs'\<rparr>, data, sz) \<and> streams fb enc segs' ms'"
proof (cases ms)
  case Nil
  with assms have "segs = []" by (auto elim: streams_NilE)
  then show ?thesis using read_frame_closed [of c] streams_end by blast
next
  case (Cons m rest)
  with assms obtain buf s segs' where "segs = s @ segs'" "frame_segments buf s" "streams fb enc segs' rest"
    by (auto elim: streams_ConsE)
  then show ?thesis using read_frame_segments [where buf = buf and segs = s and c = c and rest = segs'] by metis
qed

definition frame_bytes :: "BufferInfo \<Rightarrow> bytes" where
  "frame_bytes buf = header_of (bi_buffer buf) @ bi_buffer buf"

definition ready :: "'b flatbuffers \<Rightarrow> (bytes \<Rightarrow> store \<Rightarrow> bool) \<Rightarrow> bytes \<Rightarrow> conn \<Rightarrow> bool" where
  "ready fb enc out c \<longleftrightarrow> conn_can_send c \<and> conn_out c = out \<and> (\<exists>ms. streams fb enc (conn_in c) ms)"

lemma read_ready:
  assumes "ready fb enc out c"
  shows "\<exists>c' data sz. read_frame c = Inr (c', data, sz) \<and> ready fb enc out c'"
proof -
  from assms obtain ms where ms: "streams fb enc (conn_in c) ms" by (auto simp: ready_def)
  from read_any [OF ms, of c] obtain segs' ms' data sz where
    "read_frame (c\<lparr>conn_in := conn_in c\<rparr>) = Inr (c\<lparr>conn_in := segs'\<rparr>, data, sz)" "streams fb enc segs' ms'" by blast
  moreover have "c\<lparr>conn_in := conn_in c\<rparr> = c" by simp
  ultimately show ?thesis using assms by (auto simp: ready_def)
qed

lemma iteration_ready:
  assumes "bi_size buf = int (length (bi_buffer buf))" and "bi_size buf \<le> fb_max" and "ready fb enc out c"
  shows "\<exists>c'. one_iteration fb buf c = Inr c' \<and> ready fb enc (out @ frame_bytes buf) c'"
proof -
  let ?c = "c\<lparr>conn_out := conn_out c @ header_of (bi_buffer buf) @ bi_buffer buf\<rparr>"
  have "send_frame c buf = Inr ?c" using assms by (intro send_frame_ok) (auto simp: ready_def)
  moreover have "ready fb enc (out @ frame_bytes buf) ?c" using assms(3) by (simp add: ready_def frame_bytes_def)
  from read_ready [OF this] obtain c1 d1 s1 where c1: "read_frame ?c = Inr (c1, d1, s1)" "ready fb enc (out @ frame_bytes buf) c1"
    by blast
  from read_ready [OF c1(2)] obtain c2 d2 s2 where c2: "read_frame c1 = Inr (c2, d2, s2)" "ready fb enc (out @ frame_bytes buf) c2"
    by blast
  from read_ready [OF c2(2)] obtain c3 d3 s3 where c3: "read_frame c2 = Inr (c3, d3, s3)" "ready fb enc (out @ frame_bytes buf) c3"
    by blast
  ultimately show ?thesis using c1(1) c2(1) by (auto simp: one_iteration_def)
qed

lemma iterations_ready:
  assumes "bi_size buf = int (length (bi_buffer buf))" and "bi_size buf \<le> fb_max" and "ready fb enc out c"
  shows "\<exists>c'. iterations fb buf n c = Inr c' \<and> ready fb enc (out @ concat (replicate n (frame_bytes buf))) c'"
  using assms(3)
proof (induction n arbitrary: out c)
  case 0
  then show ?case by simp
next
  case (Suc n)
  from iteration_ready [OF assms(1,2) Suc.prems] obtain c1 where
    "one_iteration fb buf c = Inr c1" "ready fb enc (out @ frame_bytes buf) c1" by blast
  with Suc.IH [OF this(2)] show ?case by auto
qed

text \<open>The time of measurement \<open>i\<close>.\<close>

definition time_of :: "(nat \<Rightarrow> real \<times> real) \<Rightarrow> nat \<Rightarrow> real" where
  "time_of clock i = (snd (clock i) - fst (clock i)) / real nb_iteration"

lemma measures_ready:
  assumes "bi_size buf = int (length (bi_buffer buf))" and "bi_size buf \<le> fb_max" and "ready fb enc out c"
  shows "\<exists>c'. measures fb buf ty clock i n c ts = (fold (\<lambda>j. record_time ty (time_of clock j)) [i..<i + n] ts, Inr c') \<and>
    ready fb enc (out @ concat (replicate (n * nb_iteration) (frame_bytes buf))) c'"
  using assms(3)
proof (induction n arbitrary: out c ts i)
  case 0
  then show ?case by simp
next
  case (Suc n)
  from iterations_ready [OF assms(1,2) Suc.prems] obtain c1 where
    c1: "iterations fb buf nb_iteration c = Inr c1" "ready fb enc (out @ concat (replicate nb_iteration (frame_bytes buf))) c1" by blast
  have "fold (\<lambda>j. record_time ty (time_of clock j)) [Suc i..<Suc i + n] (record_time ty (time_of clock i) ts) =
      fold (\<lambda>j. record_time ty (time_of clock j)) [i..<i + Suc n] ts" by (simp add: upt_conv_Cons del: upt_Suc)
  with Suc.IH [OF c1(2), of "Suc i" "record_time ty (time_of clock i) ts"] c1(1) show ?case
    by (auto simp: time_of_def replicate_add)
qed

lemma record_times_c:
  "fold (\<lambda>j. record_time ''c'' (time_of clock j)) js ts = ts\<lparr>temps_demon_c := temps_demon_c ts @ map (time_of clock) js\<rparr>"
  by (induction js arbitrary: ts) (auto simp: record_time_def)

lemma record_times_rust:
  "fold (\<lambda>j. record_time ''rust'' (time_of clock j)) js ts = ts\<lparr>temps_demon_rust := temps_demon_rust ts @ map (time_of clock) js\<rparr>"
  by (induction js arbitrary: ts) (auto simp: record_time_def)

lemma sans_demon_run:
  assumes "\<exists>n. call [''echo'', ''''] = Inr n"
  shows "sans_demon_measures call clock i n ts =
    (ts\<lparr>temps_sans_demon := temps_sans_demon ts @ map (time_of clock) [i..<i + n]\<rparr>, Inr ())"
proof -
  have "sans_demon_iterations call m = Inr ()" for m using assms by (induction m) auto
  then show ?thesis
    by (induction n arbitrary: i ts) (auto simp: time_of_def upt_conv_Cons simp del: upt_Suc)
qed

text \<open>A connection that stays open for sending, on which the daemon sends any messages.\<close>

definition talks :: "'b flatbuffers \<Rightarrow> (bytes \<Rightarrow> store \<Rightarrow> bool) \<Rightarrow> conn \<Rightarrow> bool" where
  "talks fb enc k \<longleftrightarrow> conn_can_send k \<and> (\<exists>ms. streams fb enc (conn_in k) ms)"

lemma serves_talks: "serves fb enc k ms \<Longrightarrow> talks fb enc k"
  by (auto simp: serves_def talks_def)

lemma frames_replicate:
  assumes "carries fb enc buf m"
  shows "frames_of fb enc (replicate n m) (concat (replicate n (header_of buf @ buf)))"
  using assms by (induction n) auto

lemma boucle_run:
  assumes "flatbuffers_pkg fb enc valid store phase used" and "command_message cmd = Some c"
    and "command_cost c \<le> 2147483647" and "talks fb enc k"
  shows "\<exists>k' out. boucle_launch_process fb (Some k) ty cmd clock ts =
      (fold (\<lambda>j. record_time ty (time_of clock j)) [0..<nb_mesures] ts, Inr (Some k', None)) \<and>
    conn_out k' = conn_out k @ out \<and> frames_of fb enc (replicate (nb_mesures * nb_iteration) (MRunCommand c)) out"
proof -
  from flatbuffers_pkg.command_sends [OF assms(1-3)] obtain bi where bi: "send_command_to_demon fb cmd = Inr bi"
      "sent fb enc (MRunCommand c) (command_cost c) bi" by (auto simp: okE_def)
  then have size: "bi_size bi = int (length (bi_buffer bi))" "bi_size bi \<le> fb_max" and m: "carries fb enc (bi_buffer bi) (MRunCommand c)"
    using assms(3) by (auto simp: sent_def)
  then obtain h where h: "int_to_bytes (bi_size bi) 4 = Inr h" by (simp add: int_to_bytes_def)
  have "ready fb enc (conn_out k) k" using assms(4) by (simp add: ready_def talks_def)
  from read_ready [OF this] obtain c1 d s where c1: "read_frame k = Inr (c1, d, s)" "ready fb enc (conn_out k) c1" by blast
  from measures_ready [OF size c1(2), of ty clock 0 nb_mesures ts] obtain c2 where
    c2: "measures fb bi ty clock 0 nb_mesures c1 ts = (fold (\<lambda>j. record_time ty (time_of clock j)) [0..<nb_mesures] ts, Inr c2)"
      "ready fb enc (conn_out k @ concat (replicate (nb_mesures * nb_iteration) (frame_bytes bi))) c2" by auto
  have "boucle_launch_process fb (Some k) ty cmd clock ts =
      (fold (\<lambda>j. record_time ty (time_of clock j)) [0..<nb_mesures] ts, Inr (Some c2, None))"
    using bi(1) h c1(1) c2(1) by (simp add: boucle_launch_process_def connect_def)
  then show ?thesis using c2(2) frames_replicate [OF m] by (auto simp: ready_def frame_bytes_def)
qed

lemma boucle_refused: "boucle_launch_process fb None ty cmd clock ts = (ts, Inr (None, Some (-1)))"
  by (simp add: boucle_launch_process_def connect_def)

text \<open>The measuring client checks nothing of what the daemon answers.  Whatever messages
  the daemon sends, and however few, as long as the connection stays usable the client sends exactly 300
  copies of the command, appends ten measurements to the list of that daemon and leaves the other lists, and
  returns \<^verbatim>\<open>None\<close>.  A refused connection gives -1 and no measurement.\<close>

theorem measures_any_conversation:
  assumes "flatbuffers_pkg fb enc valid store phase used" and "command_message cmd = Some c"
    and "command_cost c \<le> 2147483647" and "talks fb enc k"
  shows "(\<exists>k' out. boucle_launch_process fb (Some k) ''c'' cmd clock ts =
      (ts\<lparr>temps_demon_c := temps_demon_c ts @ map (time_of clock) [0..<10]\<rparr>, Inr (Some k', None)) \<and>
      conn_out k' = conn_out k @ out \<and> frames_of fb enc (replicate 300 (MRunCommand c)) out) \<and>
    boucle_launch_process fb None ''c'' cmd clock ts = (ts, Inr (None, Some (-1)))"
proof -
  have "nb_mesures * nb_iteration = 300" "nb_mesures = 10" by (simp_all add: nb_mesures_def nb_iteration_def)
  with boucle_run [OF assms, of "''c''" clock ts] show ?thesis unfolding record_times_c boucle_refused by metis
qed

theorem measures_any_conversation_witness:
  "\<exists>k k' out. boucle_launch_process wire_fb (Some k) ''c'' sample_command (\<lambda>i. (0, 60)) \<lparr>temps_sans_demon = [], temps_demon_rust = [], temps_demon_c = []\<rparr> =
     (\<lparr>temps_sans_demon = [], temps_demon_rust = [], temps_demon_c = map (\<lambda>_. 2) [0..<10]\<rparr>, Inr (Some k', None)) \<and>
     conn_out k' = conn_out k @ out \<and> frames_of wire_fb wire_encodes (replicate 300 (MRunCommand sample_message)) out"
proof -
  obtain k where "serves wire_fb wire_encodes k sample_talk" using wire_talk by blast
  then have talk: "talks wire_fb wire_encodes k" by (rule serves_talks)
  let ?ts = "\<lparr>temps_sans_demon = [], temps_demon_rust = [], temps_demon_c = []\<rparr>"
  have two: "time_of (\<lambda>i. (0, 60)) = (\<lambda>_. 2)" by (simp add: time_of_def nb_iteration_def fun_eq_iff)
  have "?ts\<lparr>temps_demon_c := temps_demon_c ?ts @ xs\<rparr> = \<lparr>temps_sans_demon = [], temps_demon_rust = [], temps_demon_c = xs\<rparr>" for xs
    by simp
  then show ?thesis
    using measures_any_conversation [OF wire_package sample_command_message sample_command_cost talk, of "\<lambda>i. (0, 60)" ?ts]
    unfolding two by metis
qed

lemma avec_demon_message: "\<exists>c. command_message avec_demon_command = Some c \<and> command_cost c \<le> 2147483647"
proof -
  have "case command_message avec_demon_command of None \<Rightarrow> False | Some c \<Rightarrow> command_cost c \<le> 2147483647" by code_simp
  then show ?thesis by (auto split: option.splits)
qed

lemma avec_demon_times:
  assumes "flatbuffers_pkg fb enc valid store phase used" and "\<forall>k. peer = Some k \<longrightarrow> talks fb enc k"
  shows "test_avec_demon fb peer ty clock ts =
    (if peer = None then ts else fold (\<lambda>j. record_time ty (time_of clock j)) [0..<10] ts, Inr ())"
proof (cases peer)
  case None
  then show ?thesis by (simp add: test_avec_demon_def boucle_refused)
next
  case (Some k)
  from avec_demon_message obtain c where c: "command_message avec_demon_command = Some c" "command_cost c \<le> 2147483647" by blast
  from boucle_run [OF assms(1) c] Some assms(2) obtain k' where "boucle_launch_process fb peer ty avec_demon_command clock ts =
      (fold (\<lambda>j. record_time ty (time_of clock j)) [0..<10] ts, Inr (Some k', None))" unfolding nb_mesures_def by blast
  with Some show ?thesis by (simp add: test_avec_demon_def)
qed

lemma table_of_times:
  assumes "analytics_pkg A number shown"
  shows "traitement_donne A (map f [0..<10]) (map g [0..<10]) (map h [0..<10]) =
    Inr ([''Sans demon'', ''Demon rust'', ''Demon c''] # map (\<lambda>i. [shown (f i), shown (g i), shown (h i)]) [0..<10])"
proof -
  let ?cols = "measurement_data (map f [0..<10]) (map g [0..<10]) (map h [0..<10])"
  have len: "\<forall>p \<in> set ?cols. length (snd p) = 10" by (auto simp: measurement_data_def)
  have "?cols \<noteq> []" by (simp add: measurement_data_def)
  note csv = analytics_pkg.to_csv [OF assms this len] analytics_pkg.data_frame [OF assms len]
  have "map (\<lambda>i. map (\<lambda>p. shown (snd p ! i)) ?cols) [0..<10] = map (\<lambda>i. [shown (f i), shown (g i), shown (h i)]) [0..<10]"
    by (intro map_cong refl) (simp add: measurement_data_def nth_map)
  moreover have "map fst ?cols = [''Sans demon'', ''Demon rust'', ''Demon c'']" by (simp add: measurement_data_def)
  ultimately show ?thesis unfolding traitement_donne_def csv bindE_Inr by simp
qed

lemma table_of_ragged:
  assumes "analytics_pkg A number shown" and "length r \<noteq> length s \<or> length c \<noteq> length s"
  shows "traitement_donne A s r c = Inl ValueError"
proof -
  have cols: "(''Sans demon'', s) \<in> set (measurement_data s r c)" "(''Demon rust'', r) \<in> set (measurement_data s r c)"
    "(''Demon c'', c) \<in> set (measurement_data s r c)" by (simp_all add: measurement_data_def)
  have "pd_DataFrame A (measurement_data s r c) = Inl ValueError"
    using analytics_pkg.data_frame_ragged [OF assms(1) cols(1) cols(2)] analytics_pkg.data_frame_ragged [OF assms(1) cols(1) cols(3)]
      assms(2) by auto
  then show ?thesis by (simp add: traitement_donne_def)
qed

text \<open>The suite of measurements: each of its three measuring tests passes, also when a daemon
  refuses the connection.  The table is written, one header and ten rows, exactly when both daemons were
  there; otherwise the columns differ in length and building the table raises \<^verbatim>\<open>ValueError\<close>, so that a
  missing daemon is noticed only in the evaluation and the measurements that were made are lost.\<close>

theorem overhead_suite_needs_both:
  assumes "flatbuffers_pkg fb enc valid store phase used" and "analytics_pkg A number shown"
    and "\<exists>n. call [''echo'', ''''] = Inr n"
    and "\<forall>k. rust_peer = Some k \<longrightarrow> talks fb enc k" and "\<forall>k. c_peer = Some k \<longrightarrow> talks fb enc k"
  shows "overhead_suite fb A call clock rust_peer rust_clock c_peer c_clock = ([Inr (), Inr (), Inr ()],
    if rust_peer = None \<or> c_peer = None then Inl ValueError
    else Inr ([''Sans demon'', ''Demon rust'', ''Demon c''] #
      map (\<lambda>i. [shown (time_of clock i), shown (time_of rust_clock i), shown (time_of c_clock i)]) [0..<10]))"
proof -
  let ?s = "map (time_of clock) [0..<10]"
  let ?r = "if rust_peer = None then [] else map (time_of rust_clock) [0..<10]"
  let ?c = "if c_peer = None then [] else map (time_of c_clock) [0..<10]"
  have "overhead_suite fb A call clock rust_peer rust_clock c_peer c_clock = ([Inr (), Inr (), Inr ()], traitement_donne A ?s ?r ?c)"
    unfolding overhead_suite_def test_sans_demon_def sans_demon_run [where call = call, OF assms(3)]
      avec_demon_times [OF assms(1,4)] avec_demon_times [OF assms(1,5)] record_times_c record_times_rust nb_mesures_def
    by (simp add: Let_def del: upt_Suc)
  moreover have "traitement_donne A ?s ?r ?c = Inl ValueError" if "rust_peer = None \<or> c_peer = None"
    by (rule table_of_ragged [OF assms(2)]) (use that in auto)
  ultimately show ?thesis using table_of_times [OF assms(2)] by (simp del: upt_Suc)
qed

theorem overhead_suite_needs_both_witness:
  "\<exists>k. snd (overhead_suite wire_fb list_analytics (\<lambda>_. Inr 0) (\<lambda>i. (0, 60)) (Some k) (\<lambda>i. (0, 60)) None (\<lambda>i. (0, 60))) = Inl ValueError"
proof -
  obtain k where "serves wire_fb wire_encodes k sample_talk" using wire_talk by blast
  then have "talks wire_fb wire_encodes k" by (rule serves_talks)
  with overhead_suite_needs_both [OF wire_package lists.analytics_pkg_axioms, of "\<lambda>_. Inr 0" "Some k" None "\<lambda>i. (0, 60)" "\<lambda>i. (0, 60)" "\<lambda>i. (0, 60)"]
  show ?thesis by (intro exI [of _ k]) simp
qed

end
