(* ===== verification/Spec2Isabelle.thy ===== *)
theory Spec2Isabelle
  imports Send_Safety Test_Verdicts Fixture Detector_Threads C_Signals Overhead_Client
begin

text \<open>
  \<^bold>\<open>What this development verifies.\<close>

  The repository is a process controller: a daemon (in C under \<^verbatim>\<open>src/c\<close>, in Rust under
  \<^verbatim>\<open>src/rust\<close>) launches processes on behalf of a user, watches files and sockets for them,
  and reports events back over a TCP connection.  Both sides exchange FlatBuffers messages of the
  schema \<^verbatim>\<open>src/flatbuffer/demon.fbs\<close>.  The Python part is the client side of that protocol:
  \<^verbatim>\<open>src/tests_python/serialization.py\<close> (data classes, one \<^verbatim>\<open>send_\<dots>\<close> and one
  \<^verbatim>\<open>receive_\<dots>\<close> function per message, two classifiers) over the generated modules
  \<^verbatim>\<open>src/tests_python/demon/*.py\<close> (one module per table and enum of the schema), the client functions of
  \<^verbatim>\<open>src/tests_python/test_demon.py\<close>, which drive a daemon over a connection, and the measurement of the
  daemons' overhead, \<^verbatim>\<open>test_overhead.py\<close> and \<^verbatim>\<open>generate_overhead_graph.py\<close>.

  \<^bold>\<open>Theories: the Python side.\<close>

  \<^item> \<open>Prelude\<close>: computations that may fail as a sum type with sequencing \<open>bindE\<close> (Python
    exceptions as \<open>'a py\<close>), \<open>try_except\<close>, loops, the predicates \<open>okE\<close> (returns, with a
    postcondition) and \<open>raises\<close>; little-endian integers.
  \<^item> \<open>Py_Text\<close>: Python's \<^verbatim>\<open>str\<close> as code points, its UTF-8 codec, and that
    decoding inverts encoding.
  \<^item> \<open>Fb_Interface\<close>: the third-party package \<^verbatim>\<open>flatbuffers\<close>, which is not in the
    repository: what the sources call of it is the record \<open>'b flatbuffers\<close>, a parameter of
    every definition; what they rely on are the laws of the locales \<open>fb_reader\<close>,
    \<open>fb_builder\<close> and \<open>flatbuffers_pkg\<close>, stated over an abstract store of strings,
    tables and vectors.
  \<^item> \<open>Fb_Wire\<close>: a byte-level implementation \<open>wire_fb\<close> of that interface in the
    FlatBuffers binary format, with the proof that it satisfies the laws.  It is the concrete instance at
    which the theorems are evaluated.
  \<^item> \<open>Demon_Tables\<close>: all modules of \<^verbatim>\<open>tests_python/demon\<close>; \<open>X_F\<close> is the method
    \<^verbatim>\<open>F\<close> of class \<^verbatim>\<open>X\<close> or the module function \<^verbatim>\<open>F\<close> of module \<^verbatim>\<open>X\<close>,
    \<open>XF\<close> the long name of a module function.
  \<^item> \<open>Serialization\<close>: \<^verbatim>\<open>serialization.py\<close>, one definition per class, enum and
    function, under the source's names.
  \<^item> \<open>Message_Spec\<close>: the messages of the protocol as an abstract datatype, the relation
    \<open>carries\<close> between buffers and messages, and what every accessor of the generated modules
    returns on a buffer that carries a message.
  \<^item> \<open>Receive_Correct\<close>: specifications \<open>want_\<dots>\<close> of the receivers, with the enums numbered as in the
    schema, and how far the receivers refine them.
  \<^item> \<open>Send_Correct\<close>, \<open>Send_Command\<close>: rules of total correctness for builders;
    every sender returns a buffer that carries its message, within a size bound, and raises or returns
    \<^verbatim>\<open>None\<close> when there is no such message.
  \<^item> \<open>Command_Delivery\<close>: a serialised \<open>Command\<close>, read back field by field with the
    generated accessors.
  \<^item> \<open>Daemon_Messages\<close>, \<open>Wire_Messages\<close>: the messages that only a daemon sends, and
    sample buffers over \<open>wire_fb\<close>.
  \<^item> \<open>Send_Safety\<close>, \<open>Receive_Safety\<close>: errors, ranges, and behaviour on arbitrary
    bytes.
  \<^item> \<open>Client\<close>: the client functions of \<^verbatim>\<open>test_demon.py\<close>.  A connection is a
    record with the segments still to arrive and the bytes sent; the wait loops are
    \<open>partial_function (option)\<close>, so a loop that does not end is the value \<open>None\<close>.
  \<^item> \<open>Client_Correct\<close>, \<open>Client_Runs\<close>: streams of messages on a connection, and what
    each client returns when its message arrives, when it never does (the loop does not end), when it
    cannot be read.
  \<^item> \<open>Test_Cases\<close>: the twelve tests of \<^verbatim>\<open>test_demon.py\<close> with the commands they build, their
    assertion and their outcomes (pass, fail, time limit, escaping exception), and their results without a daemon.
  \<^item> \<open>Fixture\<close>: the pytest fixture that starts and stops a daemon, with the beginning of both
    \<^verbatim>\<open>main\<close> functions, over processes, process groups and ports; reading the port, and which process
    serves which test of a session.
  \<^item> \<open>Overhead_Graph\<close>: \<^verbatim>\<open>test_traitement_donne\<close> and \<^verbatim>\<open>generate_overhead_graph.py\<close>.  What
    they use of pandas, numpy and scipy is the record \<open>analytics\<close> with the laws of the locale
    \<open>analytics_pkg\<close>, interpreted by an implementation on lists.  Numbers are reals, NaN is
    \<open>None\<close>.
  \<^item> \<open>Overhead_Client\<close>: the measuring client and the tests of \<^verbatim>\<open>test_overhead.py\<close> up to the
    table they write; the clock is an argument.

  \<^bold>\<open>Theories: the daemons.\<close>

  \<^item> \<open>Process_Table\<close>: \<^verbatim>\<open>process_manager.c\<close>, the array of child processes.  Its contract
    with the daemon is the locale \<open>child_table\<close> (which children are tracked, which stacks are freed),
    interpreted for the array.
  \<^item> \<open>Daemon_Requests\<close>: what the FlatBuffers libraries of the two daemons find in a buffer that their verifier
    accepts.  Every field that is not a number may be absent; a message with all of its fields is \<open>whole\<close>.
  \<^item> \<open>C_Daemon\<close>: \<^verbatim>\<open>daemon-core.c\<close>, \<^verbatim>\<open>events.c\<close>, \<^verbatim>\<open>clone.c\<close>,
    \<^verbatim>\<open>Network.c\<close> and the part of \<^verbatim>\<open>serialize.cpp\<close> that reads requests.  A handler takes the
    state and what the system calls return, and gives the new state and the calls made, in order, or a
    \<open>c_halt\<close>: access out of bounds, read of an unset variable, null pointer, exit.
  \<^item> \<open>Detect_Socket\<close>: the thread of \<^verbatim>\<open>Detect_socket.c\<close> that looks for the sockets of a port,
    over the answers of the kernel, of any number and content; what it reports, and that the kernel's refusal of a request
    during a dump (\<open>EBUSY\<close>), which it reads as a socket, makes it lose the state of what it has found.
  \<^item> \<open>Detector_Threads\<close>: any number of these threads at the same time, as a step relation over their
    shared variables; what a report still means, and how two of them interfere.
  \<^item> \<open>C_Daemon_Runs\<close>: the worlds the C daemon reaches, as an inductive relation over the reports of
    the kernel, with the live children and the allocated stacks beside the state; the invariant and that every
    step keeps it.
  \<^item> \<open>C_Daemon_Launches\<close>: concrete runs, any number of launches one after the other.
  \<^item> \<open>C_Daemon_Safety\<close>, \<open>C_Daemon_Protocol\<close>: no double free, no fault within the
    assumptions of the code, the runs that fault; which handler sends which message, and in which
    order.
  \<^item> \<open>Simulation\<close>, \<open>C_Monitor\<close>: runs of a labelled step relation and the locale
    \<open>simulation\<close>; an abstract monitor of children (which pids are alive, which exec reports are due), and the
    interpretation that makes the C daemon refine it, from which the balance of launches and ends follows.
  \<^item> \<open>C_Signals\<close>: the kernel's single pending \<^verbatim>\<open>SIGCHLD\<close> beside the daemon, and the children whose
    end it hides.
  \<^item> \<open>C_Session\<close>: the Python client and the C daemon together.
  \<^item> \<open>Rust_Daemon\<close>: \<^verbatim>\<open>main.rs\<close> and \<^verbatim>\<open>command.rs\<close>, the task of one connection as the
    list of what it does.
  \<^item> \<open>Rust_Session\<close>: framing, the order of waiting and killing, and where the two daemons agree
    and differ.
  \<^item> \<open>Rust_Watch\<close>: the watches of \<^verbatim>\<open>inotify_tool.rs\<close> and \<^verbatim>\<open>network.rs\<close>, over the events
    and socket tables of the kernel; when they end, with what, and when they take the connection with them.
  \<^item> \<open>Test_Verdicts\<close>: the tests against both daemons.  The relation \<open>hears\<close> gives the messages of
    one command by a run of either model; what both promise is the locale \<open>process_daemon\<close>, interpreted
    for both, with the clients' results proved once in it.
  \<^item> this theory: the round trips from a sender to the receivers, and the enums.

  \<^bold>\<open>How the code is represented.\<close>  A Python function whose exceptions escape returns \<open>'a py\<close>;
  one that catches everything returns a plain value.  A builder is a value of type \<open>'b\<close> that
  is passed on.  Python integers are \<open>int\<close>; the widths of the schema enter through
  \<open>nf_range\<close>.  The calls that name an attribute which may not exist are
  looked up in the dictionary of the object (\<open>call_method\<close>) or of the package (\<open>attribute\<close>).  In the C part, conversions to
  16 and 32 bits are written out (\<open>u16\<close>, \<open>u32\<close>, \<open>s32\<close>), a field that was never
  assigned is \<open>None\<close>, and the C++ FlatBuffers library is the parameter \<open>decode\<close>, a function from bytes to
  requests whose fields may be absent (also for the Rust daemon).  A \<open>c_halt\<close> that is no exit stands for behaviour that C
  does not define (in practice often, but not always, the end of the daemon): the theorems say that it is reached or that
  it is not, and claim nothing of what follows.  All
  definitions are total and executable, except the two wait loops of \<open>Client\<close> and the polling loop of
  \<open>Rust_Watch\<close>, which need not end; there is no fuel (the argument \<open>rounds\<close> of \<open>Detect_Socket\<close> is the
  number of rounds before the alarm of the code).  The bound 2147483647 on a message is the package's maximal buffer size, and
  \<open>command_cost\<close> is an upper bound of the bytes a command needs.

  \<^bold>\<open>What is not modelled.\<close>  Console output; the clock, except for the two tests on elapsed time, whose
  outcome is an argument (a test that the time limit cuts off is one whose client never returns, and the second
  the fixture waits is enough for a daemon to start); a peer that stays connected and silent (\<^verbatim>\<open>recv\<close>
  would block); rounding of floating point numbers.  Of the C daemon: memory other than the children's stacks
  and the table, its trace file, and the functions of \<^verbatim>\<open>serialize.cpp\<close> that write messages, which are
  sequences of calls of the C++ FlatBuffers library (the parameter \<open>encode\<close>); that a send to a peer that has gone kills the daemon by
  \<^verbatim>\<open>SIGPIPE\<close> is part of \<open>send_message\<close>, but the runs of the handlers assume that the peer is there.  Of the Rust part: its
  serialisers for the same reason, the scheduling of several connections by the tokio runtime, the experiments
  under \<^verbatim>\<open>monitoring_tools\<close> that \<^verbatim>\<open>main.rs\<close> does not call, and the interactive client
  \<^verbatim>\<open>proto_client.rs\<close>.  Of the Python part nothing is left but imports and the code that is quoted out at
  the end of \<^verbatim>\<open>test_overhead.py\<close>.
\<close>

section \<open>From a sender to the receivers\<close>

text \<open>What a sender returned is a nonempty buffer that the receivers read.\<close>

lemma sent_readable:
  assumes "flatbuffers_pkg fb enc valid store phase used" and "sent fb enc m u bi"
  shows "fb_reader fb enc" and "carries fb enc (bi_buffer bi) m" and "0 < bi_size bi" and "bi_size bi \<le> u"
proof -
  show r: "fb_reader fb enc" using assms(1) by (rule flatbuffers_pkg.axioms(1))
  show c: "carries fb enc (bi_buffer bi) m" using assms(2) by (simp add: sent_def)
  obtain root body S fs where "opened fb enc (bi_buffer bi) m root body S fs"
    using fb_reader.openE [OF r c] by blast
  with assms(2) show "0 < bi_size bi" "bi_size bi \<le> u" by (auto simp: sent_def opened_def)
qed

text \<open>C4 (functional).  Every command whose strings are encodable, whose numbers fit the schema and
  whose surveillances have parameters of the right class (\<open>command_message cmd\<close> is defined) and that
  fits in a buffer is serialised: \<^verbatim>\<open>send_command_to_demon\<close> returns, the announced size is the
  length of the buffer and at most \<open>command_cost\<close>, the daemon's classifier sees a
  \<open>RUN_COMMAND\<close>, and the generated accessors return every field of the command: path, arguments and
  environment in order, flags, stack size, and the surveillances in order.\<close>

theorem command_delivered:
  assumes "flatbuffers_pkg fb enc valid store phase used"
    and "command_message cmd = Some c" and "command_cost c \<le> 2147483647"
  shows "\<exists>bi msg t. send_command_to_demon fb cmd = Inr bi \<and>
    bi_size bi = int (length (bi_buffer bi)) \<and> bi_size bi \<le> command_cost c \<and>
    receive_message_from_user fb (bi_buffer bi) (bi_size bi) = EvMember RUN_COMMAND \<and>
    Message_GetRootAsMessage fb (bi_buffer bi) 0 = Inr msg \<and>
    init_events fb RunCommand_Init msg = Inr t \<and> shows_command fb t cmd"
proof -
  from flatbuffers_pkg.command_sends [OF assms] obtain bi where bi: "send_command_to_demon fb cmd = Inr bi"
      "sent fb enc (MRunCommand c) (command_cost c) bi" by (auto simp: okE_def)
  note read = sent_readable [OF assms(1) bi(2)]
  from fb_reader.command_reads [OF read(1,2) assms(2)] fb_reader.message_from_user_reads [OF read(1-3)] read bi
  show ?thesis by (auto simp: sent_def)
qed

theorem command_delivered_witness:
  "\<exists>bi. send_command_to_demon wire_fb sample_command = Inr bi \<and>
     receive_message_from_user wire_fb (bi_buffer bi) (bi_size bi) = EvMember RUN_COMMAND"
  using command_delivered [OF wire_package sample_command_message sample_command_cost] by blast

text \<open>C5 (error).  A command with an unencodable string, a number the schema cannot hold or a
  surveillance whose parameters are of the wrong class is not sent: \<^verbatim>\<open>send_command_to_demon\<close>
  raises.\<close>

theorem command_rejected:
  assumes "flatbuffers_pkg fb enc valid store phase used" and "command_message cmd = None"
  shows "\<exists>e. send_command_to_demon fb cmd = Inl e"
proof -
  have "fb_builder fb valid store phase used" using assms(1) by (rule flatbuffers_pkg.axioms(2))
  from fb_builder.command_raises [OF this assms(2)] show ?thesis by (simp add: raises_def)
qed

theorem command_rejected_witness: "\<exists>e. send_command_to_demon wire_fb (sample_command\<lparr>cmd_flags := -1\<rparr>) = Inl e"
  using command_rejected [OF wire_package sample_negative_flags] .

text \<open>C14 (roundtrip).  For every 32-bit pid, \<^verbatim>\<open>send_kill_to_demon\<close> returns a buffer of at most
  70 bytes that \<^verbatim>\<open>receive_message_from_user\<close> classifies as \<open>KILL_PROCESS\<close> and from which
  \<^verbatim>\<open>receive_kill\<close> reads the pid.\<close>

theorem kill_roundtrip:
  assumes "flatbuffers_pkg fb enc valid store phase used" and "-2147483648 \<le> pid" and "pid \<le> 2147483647"
  shows "\<exists>bi. send_kill_to_demon fb pid = Inr bi \<and> bi_size bi \<le> 70 \<and>
    receive_message_from_user fb (bi_buffer bi) (bi_size bi) = EvMember KILL_PROCESS \<and>
    receive_kill fb (bi_buffer bi) (bi_size bi) = pid"
proof -
  from assms(2,3) flatbuffers_pkg.kill_sends [OF assms(1), of pid] obtain bi where
    bi: "send_kill_to_demon fb pid = Inr bi" "sent fb enc (MKillProcess pid) 70 bi" by (auto simp: okE_def)
  note read = sent_readable [OF assms(1) bi(2)]
  from fb_reader.kill_reads [OF read(1-3)] fb_reader.message_from_user_reads [OF read(1-3)] read bi(1)
  show ?thesis by auto
qed

theorem kill_roundtrip_witness:
  "\<exists>bi. send_kill_to_demon wire_fb 42 = Inr bi \<and> receive_kill wire_fb (bi_buffer bi) (bi_size bi) = 42"
  using kill_roundtrip [OF wire_package, of 42] by auto

text \<open>A sender's result arrives: it is a buffer of at most \<open>u\<close> bytes that the classifier puts into the
  class \<open>ev\<close> and of which \<open>P\<close> holds.\<close>

definition arrives :: "'b flatbuffers \<Rightarrow> BufferInfo option py \<Rightarrow> int \<Rightarrow> Event \<Rightarrow> (bytes \<Rightarrow> int \<Rightarrow> bool) \<Rightarrow> bool" where
  "arrives fb r u ev P \<longleftrightarrow> (\<exists>bi. r = Inr (Some bi) \<and> bi_size bi \<le> u \<and>
     receive_message_from_demon fb (bi_buffer bi) (bi_size bi) = EvMember ev \<and> P (bi_buffer bi) (bi_size bi))"

lemma arrivesI:
  assumes "flatbuffers_pkg fb enc valid store phase used" and "\<exists>bi. r = Inr (Some bi) \<and> sent fb enc m u bi"
    and "\<And>buf sz. carries fb enc buf m \<Longrightarrow> 0 < sz \<Longrightarrow> P buf sz"
  shows "arrives fb r u (want_event_user m) P"
proof -
  from assms(2) obtain bi where bi: "r = Inr (Some bi)" "sent fb enc m u bi" by blast
  note read = sent_readable [OF assms(1) bi(2)]
  from fb_reader.message_from_demon_reads [OF read(1-3)] assms(3) [OF read(2,3)] read(4) bi(1) show ?thesis
    by (auto simp: arrives_def)
qed

text \<open>C15 (roundtrip).  Every report the Python side can send is read back.  For all numbers that fit the
  fields of the schema and every path with a UTF-8 encoding that fits in a buffer, the sender returns a small
  buffer that \<^verbatim>\<open>receive_message_from_demon\<close> puts into its class and from which the receiver reads
  exactly what was sent.\<close>

theorem reports_roundtrip:
  assumes pkg: "flatbuffers_pkg fb enc valid store phase used"
  shows "(-2147483648 \<le> pid \<and> pid \<le> 2147483647 \<longrightarrow>
      arrives fb (send_processlaunched_to_user fb pid) 70 PROCESS_LAUNCHED (\<lambda>buf sz. receive_processlaunched fb buf sz = pid)) \<and>
    (-2147483648 \<le> pid \<and> pid \<le> 2147483647 \<and> 0 \<le> e \<and> e \<le> 4294967295 \<longrightarrow>
      arrives fb (send_processterminated_to_user fb pid e) 80 PROCESS_TERMINATED
        (\<lambda>buf sz. receive_processterminated fb buf sz = PtInfo \<lparr>pti_pid = pid, pti_error_code = e\<rparr>)) \<and>
    (0 \<le> e \<and> e \<le> 4294967295 \<longrightarrow>
      arrives fb (send_childcreationerror_to_user fb e) 70 CHILD_CREATION_ERROR (\<lambda>buf sz. receive_childcreationerror fb buf sz = e)) \<and>
    (0 \<le> port \<and> port \<le> 65535 \<longrightarrow>
      arrives fb (send_tcpsocketlistening_to_user fb port) 70 TCP_SOCKET_LISTENING (\<lambda>buf sz. receive_TCPSocketListening fb buf sz = port)) \<and>
    (-2147483648 \<le> port \<and> port \<le> 2147483647 \<longrightarrow>
      arrives fb (send_socketwatched_to_user fb port) 70 SOCKET_WATCHED (\<lambda>buf sz. receive_socketwatched fb buf sz = port)) \<and>
    (utf8_encode path = Inr bs \<and> int (length bs) + 86 \<le> 2147483647 \<longrightarrow>
      arrives fb (send_inotifywatchlistupdated_to_user fb path) (int (length bs) + 86) INOTIFY_WATCH_LIST_UPDATED
        (\<lambda>buf sz. receive_inotifywatchlistupdated fb buf sz = Some path))"
proof (intro conjI impI)
  have r: "fb_reader fb enc" using pkg by (rule flatbuffers_pkg.axioms(1))
  { assume "-2147483648 \<le> pid \<and> pid \<le> 2147483647"
    then show "arrives fb (send_processlaunched_to_user fb pid) 70 PROCESS_LAUNCHED (\<lambda>buf sz. receive_processlaunched fb buf sz = pid)"
      using arrivesI [OF pkg flatbuffers_pkg.processlaunched_sends [OF pkg, of pid]] fb_reader.processlaunched_reads [OF r] by simp }
  { assume "-2147483648 \<le> pid \<and> pid \<le> 2147483647 \<and> 0 \<le> e \<and> e \<le> 4294967295"
    then show "arrives fb (send_processterminated_to_user fb pid e) 80 PROCESS_TERMINATED
        (\<lambda>buf sz. receive_processterminated fb buf sz = PtInfo \<lparr>pti_pid = pid, pti_error_code = e\<rparr>)"
      using arrivesI [OF pkg flatbuffers_pkg.processterminated_sends [OF pkg, of pid e]] fb_reader.processterminated_reads [OF r] by simp }
  { assume "0 \<le> e \<and> e \<le> 4294967295"
    then show "arrives fb (send_childcreationerror_to_user fb e) 70 CHILD_CREATION_ERROR (\<lambda>buf sz. receive_childcreationerror fb buf sz = e)"
      using arrivesI [OF pkg flatbuffers_pkg.childcreationerror_sends [OF pkg, of e]] fb_reader.childcreationerror_reads [OF r] by simp }
  { assume "0 \<le> port \<and> port \<le> 65535"
    then show "arrives fb (send_tcpsocketlistening_to_user fb port) 70 TCP_SOCKET_LISTENING (\<lambda>buf sz. receive_TCPSocketListening fb buf sz = port)"
      using arrivesI [OF pkg flatbuffers_pkg.tcpsocketlistening_sends [OF pkg, of port]] fb_reader.tcpsocketlistening_reads [OF r] by simp }
  { assume "-2147483648 \<le> port \<and> port \<le> 2147483647"
    then show "arrives fb (send_socketwatched_to_user fb port) 70 SOCKET_WATCHED (\<lambda>buf sz. receive_socketwatched fb buf sz = port)"
      using arrivesI [OF pkg flatbuffers_pkg.socketwatched_sends [OF pkg, of port]] fb_reader.socketwatched_reads [OF r] by simp }
  { assume "utf8_encode path = Inr bs \<and> int (length bs) + 86 \<le> 2147483647"
    then show "arrives fb (send_inotifywatchlistupdated_to_user fb path) (int (length bs) + 86) INOTIFY_WATCH_LIST_UPDATED
        (\<lambda>buf sz. receive_inotifywatchlistupdated fb buf sz = Some path)"
      using arrivesI [OF pkg flatbuffers_pkg.inotifywatchlistupdated_sends [OF pkg, of path bs]]
        fb_reader.inotifywatchlistupdated_reads [OF r] utf8_roundtrip [of path bs] by (simp add: text_or_def) }
qed

theorem reports_roundtrip_witness:
  "arrives wire_fb (send_processterminated_to_user wire_fb 42 137) 80 PROCESS_TERMINATED
     (\<lambda>buf sz. receive_processterminated wire_fb buf sz = PtInfo \<lparr>pti_pid = 42, pti_error_code = 137\<rparr>) \<and>
   arrives wire_fb (send_inotifywatchlistupdated_to_user wire_fb (pystr_of ''sh'')) 88 INOTIFY_WATCH_LIST_UPDATED
     (\<lambda>buf sz. receive_inotifywatchlistupdated wire_fb buf sz = Some (pystr_of ''sh''))"
  using reports_roundtrip [OF wire_package, of 42 137 8080 "pystr_of ''sh''" "[115, 104]"] utf8_sh by simp

section \<open>Functions that never work\<close>

text \<open>C37 (error).  Three functions never do their work.  \<^verbatim>\<open>receive_command\<close> reads the path of a command and
  then raises \<^verbatim>\<open>AttributeError\<close>, since \<^verbatim>\<open>ArgsAsNumpy\<close> is not among the methods of
  \<^verbatim>\<open>RunCommand\<close>; so it returns \<^verbatim>\<open>None\<close> on every buffer, valid or not.
  \<^verbatim>\<open>send_inotifypathupdated_to_user\<close> starts its table and raises at \<^verbatim>\<open>demon.InotifyEvent\<close>, and
  \<^verbatim>\<open>send_socketwatchterminated_to_user\<close> raises at once at \<^verbatim>\<open>demon.CreateSocketWatchTerminated\<close>, neither of
  which is among the attributes of the package; both swallow the exception and return \<^verbatim>\<open>None\<close> for every argument,
  unless the builder they ask for first is refused.\<close>

theorem functions_that_never_work:
  "receive_command_body fb t = bindE (RunCommand_Path fb t) (\<lambda>p. bindE (decode_opt p) (\<lambda>_. Inl AttributeError)) \<and>
   receive_command fb buf sz = None \<and>
   inotifypathupdated_body fb inotify b = bindE (fb_CreateString fb b (ipu_path inotify)) (\<lambda>(b, path_str).
     bindE (InotifyPathUpdated_Start fb b) (\<lambda>b. bindE (InotifyPathUpdated_AddPath fb b path_str) (\<lambda>_. Inl AttributeError))) \<and>
   send_inotifypathupdated_to_user fb inotify = bindE (fb_Builder fb 1024) (\<lambda>_. Inr None) \<and>
   socketwatchterminated_body fb socket_info b = Inl AttributeError \<and>
   send_socketwatchterminated_to_user fb socket_info = bindE (fb_Builder fb 1024) (\<lambda>_. Inr None)"
  by (intro conjI receive_command_body_error receive_command_never inotifypathupdated_error send_inotifypathupdated_never
      socketwatchterminated_error send_socketwatchterminated_never)

section \<open>Enums and tags\<close>

text \<open>The enum \<open>SocketState\<close> of \<^verbatim>\<open>serialization.py\<close> numbers its members
  differently from the schema: a peer that follows the schema and reports a socket as \<^verbatim>\<open>listeing\<close>
  is read as \<open>SOCKET_CREATED\<close>, one that reports it as \<^verbatim>\<open>created\<close> is read as
  \<open>SOCKET_LISTENING\<close>.\<close>

theorem socket_states_swapped:
  assumes "fb_reader fb enc" and "carries fb enc buf (MSocketWatchTerminated port st)"
    and "st = SocketState_created \<or> st = SocketState_listeing" and "0 < sz"
  shows "receive_socketwatchterminated fb buf sz =
    Some \<lparr>swi_port = port, swi_state = (if st = SocketState_created then SOCKET_LISTENING else SOCKET_CREATED)\<rparr>"
  using fb_reader.socketwatchterminated_reads [OF assms(1,2,4)] assms(3)
  by (auto simp: schema_SocketState_def exchange_states_def enums)

theorem socket_states_swapped_witness:
  "\<exists>buf. receive_socketwatchterminated wire_fb buf 1 = Some \<lparr>swi_port = 8080, swi_state = SOCKET_CREATED\<rparr>"
  using wire_socketwatchterminated [of 2] socket_states_swapped [OF wire_reader, of _ 8080 2 1]
  by (auto simp: enums)

lemma string_tags_skipped:
  "send_surveillances fb b (filter (\<lambda>s. \<forall>x. sv_event s \<noteq> TagStr x) ss) = send_surveillances fb b ss"
proof (induction ss arbitrary: b)
  case Nil
  then show ?case by simp
next
  case (Cons s ss)
  then show ?case by (cases "sv_event s") (simp_all add: send_surveillances_str)
qed

text \<open>A surveillance whose \<^verbatim>\<open>event\<close> is a string (the form
  \<^verbatim>\<open>receive_command\<close> would produce) is dropped without an error:
  \<^verbatim>\<open>send_command_to_demon\<close> produces the same result as for the command without it.\<close>

theorem string_tags_dropped:
  "send_command_to_demon fb (cmd\<lparr>cmd_to_watch := filter (\<lambda>s. \<forall>x. sv_event s \<noteq> TagStr x) (cmd_to_watch cmd)\<rparr>) =
   send_command_to_demon fb cmd"
  by (simp add: send_command_to_demon_def string_tags_skipped)

text \<open>The value constructors of the two enums invert the values of their members
  and reject every other number, and the members of \<open>InotifyEvent\<close> have the numbers of the
  schema.\<close>

theorem enum_values:
  "(InotifyEvent_of v = Inr i) = (v = InotifyEvent_value i) \<and>
   (SocketState_of v = Inr s) = (v = SocketState_value s) \<and>
   InotifyEvent_of InotifyEvent_modified = Inr MODIFIED \<and> InotifyEvent_of InotifyEvent_created = Inr CREATED \<and>
   InotifyEvent_of InotifyEvent_size_reached = Inr SIZE_REACHED \<and>
   InotifyEvent_of InotifyEvent_deleted = Inr DELETED \<and> InotifyEvent_of InotifyEvent_accessed = Inr ACCESSED"
  by (cases i; cases s) (auto simp: InotifyEvent_of_def SocketState_of_def enums)

end
